(* ===== verification/Prelude.thy ===== *)
theory Prelude
  imports Complex_Main "HOL-Library.Word" "HOL-Library.State_Monad" "HOL-Library.AList"
begin

text \<open>
  What the component theories share.

  Go code with effects is a computation of the state monad of \<open>HOL-Library.State_Monad\<close> over
  a world that the interfaces of the code leave open.  A Go error value is \<open>go_error\<close>, a
  \<open>(T, error)\<close> pair is \<open>go_error + 'a\<close>, and a computation that may dereference a nil
  pointer returns \<open>'a go\<close>, with \<open>Panic\<close> for the run-time panic.  A Go \<open>int\<close> is an
  \<open>int\<close>; where the code's arithmetic can leave 64 bits the wrap-around is written with
  \<open>int64\<close>.  A Go map is an association list (\<open>AList.update\<close> to store,
  \<open>map_of\<close> to look up); the order of the list is the iteration order, which Go leaves open.
\<close>

section \<open>Errors and panics\<close>

datatype go_error =
    ErrMsg string                        \<comment> \<open>\<open>errors.New\<close>, \<open>fmt.Errorf\<close>\<close>
  | ErrExternal string                   \<comment> \<open>an error of a driver, client or service\<close>
  | ErrNoRows                            \<comment> \<open>\<open>sql.ErrNoRows\<close>\<close>
  | ErrBadJSON                           \<comment> \<open>an error of \<open>encoding/json\<close>\<close>
  | ErrParseInvalidFileFormat            \<comment> \<open>sentinels of \<open>internal/parser\<close>\<close>
  | ErrEmptyFile
  | ErrTooManyRows
  | ErrTooManyCols
  | ErrInvalidHeaders
  | InvalidHeadersError "string list"
  | ErrFileTooLarge                      \<comment> \<open>sentinels of the upload handlers\<close>
  | ErrInvalidFileFormat
  | ErrInvalidContentType
  | ErrRequestBodyTooLarge

datatype 'a go = Ret 'a | Panic

section \<open>Collections of hints\<close>

named_theorems status_defs \<open>the status constants of the domain package\<close>
named_theorems frame_intros \<open>computations that keep a view of the world\<close>
named_theorems run_simps \<open>running the operations of the world\<close>

section \<open>64-bit integers\<close>

definition int64 :: "int \<Rightarrow> int" where
  "int64 n = (n + 2 ^ 63) mod 2 ^ 64 - 2 ^ 63"

lemma int64_range: "- (2 ^ 63) \<le> int64 n" "int64 n < 2 ^ 63"
  by (simp_all add: int64_def)

lemma int64_id: "- (2 ^ 63) \<le> n \<Longrightarrow> n < 2 ^ 63 \<Longrightarrow> int64 n = n"
  by (simp add: int64_def)

lemma int64_word: "int64 n = sint (word_of_int n :: 64 word)"
  by (simp add: int64_def sint_uint uint_word_of_int signed_take_bit_eq_take_bit_shift
      take_bit_eq_mod mod_simps)

section \<open>Runs of computations and frames\<close>

text \<open>\<open>result m w\<close> is the value a computation returns from the world \<open>w\<close> and \<open>after m w\<close>
  the world it leaves.\<close>

definition result :: "('w, 'a) state \<Rightarrow> 'w \<Rightarrow> 'a" where
  "result m w = fst (run_state m w)"

definition after :: "('w, 'a) state \<Rightarrow> 'w \<Rightarrow> 'w" where
  "after m w = snd (run_state m w)"

lemma run_state_result_after: "run_state m w = (result m w, after m w)"
  by (simp add: result_def after_def)

lemma result_return [simp]: "result (State_Monad.return x) w = x"
  by (simp add: result_def)

lemma after_return [simp]: "after (State_Monad.return x) w = w"
  by (simp add: after_def)

lemma result_bind [simp]:
  "result (State_Monad.bind m f) w = result (f (result m w)) (after m w)"
  by (simp add: result_def after_def split_beta)

lemma after_bind [simp]:
  "after (State_Monad.bind m f) w = after (f (result m w)) (after m w)"
  by (simp add: result_def after_def split_beta)

lemma result_get [simp]: "result State_Monad.get w = w"
  by (simp add: result_def)

lemma after_get [simp]: "after State_Monad.get w = w"
  by (simp add: after_def)

lemma result_set [simp]: "result (State_Monad.set v) w = ()"
  by (simp add: result_def)

lemma after_set [simp]: "after (State_Monad.set v) w = v"
  by (simp add: after_def)

text \<open>A computation that leaves a view of the world as it is.\<close>

definition keeps :: "('w \<Rightarrow> 'v) \<Rightarrow> ('w, 'a) state \<Rightarrow> bool" where
  "keeps v m \<longleftrightarrow> (\<forall>w. v (after m w) = v w)"

lemma keepsI: "(\<And>w. v (after m w) = v w) \<Longrightarrow> keeps v m"
  by (simp add: keeps_def)

lemma keepsD: "keeps v m \<Longrightarrow> v (after m w) = v w"
  by (simp add: keeps_def)

lemma keeps_return [frame_intros]: "keeps v (State_Monad.return x)"
  by (simp add: keeps_def)

lemma keeps_bind [frame_intros]:
  "keeps v m \<Longrightarrow> (\<And>x. keeps v (f x)) \<Longrightarrow> keeps v (State_Monad.bind m f)"
  by (simp add: keeps_def)

lemma keeps_if [frame_intros]:
  "(b \<Longrightarrow> keeps v m) \<Longrightarrow> (\<not> b \<Longrightarrow> keeps v n) \<Longrightarrow> keeps v (if b then m else n)"
  by simp

lemma keeps_case_option [frame_intros]:
  "(x = None \<Longrightarrow> keeps v m) \<Longrightarrow> (\<And>y. x = Some y \<Longrightarrow> keeps v (f y)) \<Longrightarrow>
    keeps v (case x of None \<Rightarrow> m | Some y \<Rightarrow> f y)"
  by (cases x) simp_all

lemma keeps_case_sum [frame_intros]:
  "(\<And>y. x = Inl y \<Longrightarrow> keeps v (f y)) \<Longrightarrow> (\<And>y. x = Inr y \<Longrightarrow> keeps v (g y)) \<Longrightarrow>
    keeps v (case x of Inl y \<Rightarrow> f y | Inr y \<Rightarrow> g y)"
  by (cases x) simp_all

lemma keeps_case_prod [frame_intros]:
  "(\<And>a b. x = (a, b) \<Longrightarrow> keeps v (f a b)) \<Longrightarrow> keeps v (case x of (a, b) \<Rightarrow> f a b)"
  by (cases x) simp_all

lemma keeps_case_go [frame_intros]:
  "(\<And>y. x = Ret y \<Longrightarrow> keeps v (f y)) \<Longrightarrow> (x = Panic \<Longrightarrow> keeps v m) \<Longrightarrow>
    keeps v (case x of Ret y \<Rightarrow> f y | Panic \<Rightarrow> m)"
  by (cases x) simp_all

lemma keeps_Let [frame_intros]:
  "(\<And>x. x = t \<Longrightarrow> keeps v (f x)) \<Longrightarrow> keeps v (let x = t in f x)"
  by simp

section \<open>Pre- and postconditions\<close>

text \<open>\<open>spec P m Q\<close>: from a world with \<open>P\<close>, \<open>Q\<close> holds of the value and the world after.\<close>

definition spec :: "('w \<Rightarrow> bool) \<Rightarrow> ('w, 'a) state \<Rightarrow> ('a \<Rightarrow> 'w \<Rightarrow> bool) \<Rightarrow> bool" where
  "spec P m Q \<longleftrightarrow> (\<forall>w. P w \<longrightarrow> Q (result m w) (after m w))"

named_theorems spec_intros \<open>rules for pre- and postconditions\<close>

lemma specI: "(\<And>w. P w \<Longrightarrow> Q (result m w) (after m w)) \<Longrightarrow> spec P m Q"
  by (simp add: spec_def)

lemma specD: "spec P m Q \<Longrightarrow> P w \<Longrightarrow> Q (result m w) (after m w)"
  by (simp add: spec_def)

text \<open>The form in which properties state a run: the value and the world after it.\<close>

lemma spec_run:
  "spec P m R \<Longrightarrow> P w \<Longrightarrow> (\<And>x w'. R x w' \<Longrightarrow> Q x w') \<Longrightarrow>
    case run_state m w of (x, w') \<Rightarrow> Q x w'"
  by (simp add: spec_def run_state_result_after)

lemma spec_conseq:
  "spec P m R \<Longrightarrow> (\<And>w. P' w \<Longrightarrow> P w) \<Longrightarrow> (\<And>x w. R x w \<Longrightarrow> Q x w) \<Longrightarrow> spec P' m Q"
  by (simp add: spec_def)

lemma spec_return [spec_intros]: "(\<And>w. P w \<Longrightarrow> Q x w) \<Longrightarrow> spec P (State_Monad.return x) Q"
  by (simp add: spec_def)

lemma spec_bind: "spec P m R \<Longrightarrow> (\<And>x. spec (R x) (f x) Q) \<Longrightarrow> spec P (State_Monad.bind m f) Q"
  by (simp add: spec_def)

text \<open>A step that keeps the view the precondition is about.\<close>

lemma spec_bind_keeps:
  "keeps v m \<Longrightarrow> (\<And>x. spec (\<lambda>w. v w = c) (f x) Q) \<Longrightarrow> spec (\<lambda>w. v w = c) (State_Monad.bind m f) Q"
  by (simp add: spec_def keeps_def)

lemma spec_keeps:
  "keeps v m \<Longrightarrow> (\<And>x w. v w = c \<Longrightarrow> Q x w) \<Longrightarrow> spec (\<lambda>w. v w = c) m Q"
  by (simp add: spec_def keeps_def)

lemma spec_ex: "(\<And>c. spec (P c) m Q) \<Longrightarrow> spec (\<lambda>w. \<exists>c. P c w) m Q"
  by (auto simp: spec_def)

lemma spec_pure: "(A \<Longrightarrow> spec P m Q) \<Longrightarrow> spec (\<lambda>w. A \<and> P w) m Q"
  by (auto simp: spec_def)

lemma spec_if [spec_intros]:
  "(b \<Longrightarrow> spec P m Q) \<Longrightarrow> (\<not> b \<Longrightarrow> spec P n Q) \<Longrightarrow> spec P (if b then m else n) Q"
  by simp

lemma spec_case_option [spec_intros]:
  "(x = None \<Longrightarrow> spec P m Q) \<Longrightarrow> (\<And>y. x = Some y \<Longrightarrow> spec P (f y) Q) \<Longrightarrow>
    spec P (case x of None \<Rightarrow> m | Some y \<Rightarrow> f y) Q"
  by (cases x) simp_all

lemma spec_case_sum [spec_intros]:
  "(\<And>y. x = Inl y \<Longrightarrow> spec P (f y) Q) \<Longrightarrow> (\<And>y. x = Inr y \<Longrightarrow> spec P (g y) Q) \<Longrightarrow>
    spec P (case x of Inl y \<Rightarrow> f y | Inr y \<Rightarrow> g y) Q"
  by (cases x) simp_all

lemma spec_case_go [spec_intros]:
  "(\<And>y. x = Ret y \<Longrightarrow> spec P (f y) Q) \<Longrightarrow> (x = Panic \<Longrightarrow> spec P m Q) \<Longrightarrow>
    spec P (case x of Ret y \<Rightarrow> f y | Panic \<Rightarrow> m) Q"
  by (cases x) simp_all

lemma spec_case_prod [spec_intros]:
  "(\<And>a b. x = (a, b) \<Longrightarrow> spec P (f a b) Q) \<Longrightarrow> spec P (case x of (a, b) \<Rightarrow> f a b) Q"
  by (cases x) simp_all

lemma spec_Let [spec_intros]: "(\<And>x. x = t \<Longrightarrow> spec P (f x) Q) \<Longrightarrow> spec P (let x = t in f x) Q"
  by simp

lemma keeps_pair [frame_intros]:
  "keeps f m \<Longrightarrow> keeps g m \<Longrightarrow> keeps (\<lambda>w. (f w, g w)) m"
  by (simp add: keeps_def)

section \<open>Range loops\<close>

text \<open>\<open>for _, x := range xs { body }\<close>, with a body that is run for its effect.\<close>

primrec for_range :: "'a list \<Rightarrow> ('a \<Rightarrow> ('w, unit) state) \<Rightarrow> ('w, unit) state" where
  "for_range [] f = State_Monad.return ()"
| "for_range (x # xs) f = do { f x; for_range xs f }"

lemma keeps_for_range [frame_intros]:
  "(\<And>x. x \<in> set xs \<Longrightarrow> keeps v (f x)) \<Longrightarrow> keeps v (for_range xs f)"
  by (induction xs) (auto intro: frame_intros)

text \<open>A loop whose body re-establishes what it needs.\<close>

lemma spec_for_range:
  "(\<And>x. x \<in> set xs \<Longrightarrow> spec P (f x) (\<lambda>_. P)) \<Longrightarrow> spec P (for_range xs f) (\<lambda>_. P)"
  by (induction xs) (auto intro: spec_return spec_bind)

text \<open>An invariant of the world kept by every iteration holds after the loop.\<close>

lemma for_range_inv:
  assumes "P w" and "\<And>x w. x \<in> set xs \<Longrightarrow> P w \<Longrightarrow> P (after (f x) w)"
  shows "P (after (for_range xs f) w)"
  using assms by (induction xs arbitrary: w) auto

section \<open>Lists\<close>

lemma length_filter_partition:
  "length (filter P xs) + length (filter (\<lambda>x. \<not> P x) xs) = length xs"
  by (rule sum_length_filter_compl)

lemma find_map_key:
  assumes "\<And>x. k (f x) = k x"
  shows "find (\<lambda>x. k x = i) (map f xs) = map_option f (find (\<lambda>x. k x = i) xs)"
  by (induction xs) (simp_all add: assms)

lemma find_Some_key: "find (\<lambda>x. k x = i) xs = Some x \<Longrightarrow> k x = i \<and> x \<in> set xs"
  by (auto simp: find_Some_iff)

lemma find_None_key: "find (\<lambda>x. k x = i) xs = None \<longleftrightarrow> i \<notin> k ` set xs"
  by (auto simp: find_None_iff)

lemma distinct_find_key:
  "distinct (map k xs) \<Longrightarrow> x \<in> set xs \<Longrightarrow> find (\<lambda>y. k y = k x) xs = Some x"
  by (induction xs) (auto simp: rev_image_eqI)

end
