(* ===== verification/GoStrings.thy ===== *)
theory GoStrings
  imports Prelude "HOL-Library.Char_ord" "HOL-Library.List_Lexorder"
begin

text \<open>
  The functions of \<open>strings\<close>, \<open>strconv\<close> and \<open>path/filepath\<close> that the code calls.  A Go
  string is the list of its bytes, so a character outside ASCII is its UTF-8 encoding and
  \<open>length\<close> is Go's \<open>len\<close>.  \<open>ToLower\<close> and \<open>ToUpper\<close> cover ASCII and, for \<open>ToLower\<close>, the
  Cyrillic capitals the header aliases use; no other letters occur in what the results are
  compared with.
\<close>

section \<open>Decimal numbers\<close>

definition digit_char :: "nat \<Rightarrow> char" where
  "digit_char d = char_of (48 + d)"

definition is_digit :: "char \<Rightarrow> bool" where
  "is_digit c \<longleftrightarrow> 48 \<le> (of_char c :: nat) \<and> (of_char c :: nat) \<le> 57"

definition digit_val :: "char \<Rightarrow> nat" where
  "digit_val c = of_char c - 48"

fun nat_dec :: "nat \<Rightarrow> string" where
  "nat_dec n = (if n < 10 then [digit_char n] else nat_dec (n div 10) @ [digit_char (n mod 10)])"

declare nat_dec.simps [simp del]

definition Itoa :: "int \<Rightarrow> string" where
  "Itoa n = (if n < 0 then CHR ''-'' # nat_dec (nat (- n)) else nat_dec (nat n))"

definition dec_nat :: "string \<Rightarrow> nat option" where
  "dec_nat s = (if s \<noteq> [] \<and> list_all is_digit s
     then Some (foldl (\<lambda>a c. 10 * a + digit_val c) 0 s) else None)"

definition in_int64 :: "int \<Rightarrow> bool" where
  "in_int64 n \<longleftrightarrow> - (2 ^ 63) \<le> n \<and> n < 2 ^ 63"

text \<open>\<open>strconv.Atoi\<close>: an optional sign, decimal digits, and a value of 64 bits.\<close>

definition Atoi :: "string \<Rightarrow> int option" where
  "Atoi s = (let (neg, ds) = (case s of
         c # cs \<Rightarrow> if c = CHR ''-'' then (True, cs) else if c = CHR ''+'' then (False, cs)
                   else (False, s)
       | [] \<Rightarrow> (False, s))
     in case dec_nat ds of
          None \<Rightarrow> None
        | Some n \<Rightarrow> (let v = (if neg then - int n else int n) in
            if in_int64 v then Some v else None))"

lemma digit_char_digit: "d < 10 \<Longrightarrow> is_digit (digit_char d) \<and> digit_val (digit_char d) = d"
  by (simp add: digit_char_def is_digit_def digit_val_def take_bit_eq_mod)

lemma nat_dec_ne [simp]: "nat_dec n \<noteq> []"
  by (subst nat_dec.simps) simp

lemma nat_dec_digits: "list_all is_digit (nat_dec n)"
proof (induction n rule: nat_dec.induct)
  case (1 n)
  then show ?case
    by (subst nat_dec.simps) (simp add: digit_char_digit)
qed

lemma nat_dec_value: "foldl (\<lambda>a c. 10 * a + digit_val c) 0 (nat_dec n) = n"
proof (induction n rule: nat_dec.induct)
  case (1 n)
  then show ?case
    by (subst nat_dec.simps) (simp add: digit_char_digit)
qed

lemma dec_nat_nat_dec [simp]: "dec_nat (nat_dec n) = Some n"
  by (simp add: dec_nat_def nat_dec_digits nat_dec_value)

lemma nat_dec_head: "\<exists>c cs. nat_dec n = c # cs \<and> is_digit c"
  using nat_dec_digits [of n] by (cases "nat_dec n") auto

lemma Atoi_Itoa: "in_int64 n \<Longrightarrow> Atoi (Itoa n) = Some n"
proof (cases "n < 0")
  case True
  assume "in_int64 n"
  with True show ?thesis by (simp add: Atoi_def Itoa_def)
next
  case False
  assume r: "in_int64 n"
  obtain c cs where c: "nat_dec (nat n) = c # cs" "is_digit c"
    using nat_dec_head by blast
  have "c \<noteq> CHR ''-''" "c \<noteq> CHR ''+''"
    using c(2) by (auto simp: is_digit_def)
  with c False r show ?thesis
    using dec_nat_nat_dec [of "nat n"] by (simp add: Atoi_def Itoa_def)
qed

lemma Atoi_in_int64: "Atoi s = Some n \<Longrightarrow> in_int64 n"
  by (auto simp: Atoi_def Let_def split: list.splits if_splits option.splits prod.splits)

section \<open>Searching and splitting\<close>

definition HasPrefix :: "string \<Rightarrow> string \<Rightarrow> bool" where
  "HasPrefix s p \<longleftrightarrow> take (length p) s = p"

fun Contains :: "string \<Rightarrow> string \<Rightarrow> bool" where
  "Contains [] p = (p = [])"
| "Contains (c # s) p = (HasPrefix (c # s) p \<or> Contains s p)"

text \<open>\<open>strings.Split(s, sep)\<close> for a separator of one byte, and \<open>strings.SplitN(s, sep, 2)\<close>.\<close>

fun Split :: "char \<Rightarrow> string \<Rightarrow> string list" where
  "Split sep [] = [[]]"
| "Split sep (c # s) = (if c = sep then [] # Split sep s
     else (case Split sep s of [] \<Rightarrow> [[c]] | p # ps \<Rightarrow> (c # p) # ps))"

definition SplitN2 :: "char \<Rightarrow> string \<Rightarrow> string list" where
  "SplitN2 sep s = (let p = takeWhile (\<lambda>c. c \<noteq> sep) s in
     if length p < length s then [p, drop (Suc (length p)) s] else [s])"

lemma Contains_iff: "Contains s p \<longleftrightarrow> (\<exists>a b. s = a @ p @ b)"
proof (induction s)
  case (Cons c s)
  have "HasPrefix (c # s) p \<longleftrightarrow> (\<exists>b. c # s = p @ b)"
    by (metis HasPrefix_def append_eq_conv_conj append_take_drop_id)
  with Cons show ?case
    by simp (metis Cons_eq_append_conv append_Nil)
qed simp

lemma Split_ne [simp]: "Split sep s \<noteq> []"
  by (induction s) (auto split: list.splits)

lemma Split_absent: "sep \<notin> set s \<Longrightarrow> Split sep s = [s]"
  by (induction s) auto

lemma Split_append: "sep \<notin> set a \<Longrightarrow> Split sep (a @ sep # b) = a # Split sep b"
  by (induction a) auto

section \<open>White space\<close>

text \<open>The UTF-8 encodings of the characters of \<open>unicode.White_Space\<close>.\<close>

definition space_runes :: "string list" where
  "space_runes = map (\<lambda>n. [char_of n]) [9, 10, 11, 12, 13, 32 :: nat]
     @ map (\<lambda>n. [CHR 0xC2, char_of n]) [0x85, 0xA0 :: nat]
     @ [[CHR 0xE1, CHR 0x9A, CHR 0x80]]
     @ map (\<lambda>n. [CHR 0xE2, CHR 0x80, char_of n])
         [0x80, 0x81, 0x82, 0x83, 0x84, 0x85, 0x86, 0x87, 0x88, 0x89, 0x8A, 0xA8, 0xA9, 0xAF :: nat]
     @ [[CHR 0xE2, CHR 0x81, CHR 0x9F], [CHR 0xE3, CHR 0x80, CHR 0x80]]"

lemma space_runes_ne: "p \<in> set space_runes \<Longrightarrow> p \<noteq> []"
  by (auto simp: space_runes_def)

function trim_prefixes :: "string list \<Rightarrow> string \<Rightarrow> string" where
  "trim_prefixes ps s = (case find (\<lambda>p. p \<noteq> [] \<and> HasPrefix s p) ps of
     None \<Rightarrow> s | Some p \<Rightarrow> trim_prefixes ps (drop (length p) s))"
  by pat_completeness auto
termination
proof (relation "measure (\<lambda>(ps, s). length s)")
  fix ps :: "string list" and s p
  assume "find (\<lambda>p. p \<noteq> [] \<and> HasPrefix s p) ps = Some p"
  then have "p \<noteq> []" and "take (length p) s = p"
    by (auto simp: find_Some_iff HasPrefix_def)
  then show "((ps, drop (length p) s), (ps, s)) \<in> measure (\<lambda>(ps, s). length s)"
    by (cases s) auto
qed simp

declare trim_prefixes.simps [simp del]

definition TrimSpace :: "string \<Rightarrow> string" where
  "TrimSpace s = (let l = trim_prefixes space_runes s
     in rev (trim_prefixes (map rev space_runes) (rev l)))"

lemma trim_prefixes_stops: "p \<in> set ps \<Longrightarrow> p \<noteq> [] \<Longrightarrow> \<not> HasPrefix (trim_prefixes ps s) p"
proof (induction ps s rule: trim_prefixes.induct)
  case (1 ps s)
  show ?case
  proof (cases "find (\<lambda>p. p \<noteq> [] \<and> HasPrefix s p) ps")
    case None
    with "1.prems" have "\<not> HasPrefix s p" by (auto simp: find_None_iff)
    with None show ?thesis by (simp add: trim_prefixes.simps [of ps s])
  next
    case (Some q)
    with 1 show ?thesis by (simp add: trim_prefixes.simps [of ps s])
  qed
qed

lemma trim_prefixes_id:
  "(\<And>p. p \<in> set ps \<Longrightarrow> p \<noteq> [] \<Longrightarrow> \<not> HasPrefix s p) \<Longrightarrow> trim_prefixes ps s = s"
  by (subst trim_prefixes.simps) (auto simp: find_Some_iff split: option.splits dest: nth_mem)

section \<open>Letter case\<close>

definition ascii_lower :: "char \<Rightarrow> char" where
  "ascii_lower c = (let n = (of_char c :: nat) in if 65 \<le> n \<and> n \<le> 90 then char_of (n + 32) else c)"

definition ascii_upper :: "char \<Rightarrow> char" where
  "ascii_upper c = (let n = (of_char c :: nat) in if 97 \<le> n \<and> n \<le> 122 then char_of (n - 32) else c)"

text \<open>The lower-case form of a two-byte Cyrillic capital: U+0410 to U+042F, and U+0401.\<close>

definition cyrillic_lower :: "char \<Rightarrow> char \<Rightarrow> (char \<times> char) option" where
  "cyrillic_lower c d = (let n = (of_char d :: nat) in
     if c \<noteq> CHR 0xD0 then None
     else if 0x90 \<le> n \<and> n \<le> 0x9F then Some (CHR 0xD0, char_of (n + 0x20))
     else if 0xA0 \<le> n \<and> n \<le> 0xAF then Some (CHR 0xD1, char_of (n - 0x20))
     else if n = 0x81 then Some (CHR 0xD1, CHR 0x91)
     else None)"

fun ToLower :: "string \<Rightarrow> string" where
  "ToLower [] = []"
| "ToLower [c] = [ascii_lower c]"
| "ToLower (c # d # s) = (case cyrillic_lower c d of
     Some (c', d') \<Rightarrow> c' # d' # ToLower s | None \<Rightarrow> ascii_lower c # ToLower (d # s))"

definition ToUpper :: "string \<Rightarrow> string" where
  "ToUpper s = map ascii_upper s"

definition is_ascii :: "string \<Rightarrow> bool" where
  "is_ascii s \<longleftrightarrow> list_all (\<lambda>c. (of_char c :: nat) < 128) s"

lemma cyrillic_lower_ascii: "(of_char c :: nat) < 128 \<Longrightarrow> cyrillic_lower c d = None"
  by (auto simp: cyrillic_lower_def Let_def)

lemma ToLower_ascii: "is_ascii s \<Longrightarrow> ToLower s = map ascii_lower s"
  by (induction s rule: ToLower.induct) (auto simp: is_ascii_def cyrillic_lower_ascii)

text \<open>\<open>filepath.Ext\<close>: the suffix that starts at the last dot of the last path element.\<close>

definition Ext :: "string \<Rightarrow> string" where
  "Ext path = (let r = rev path; e = takeWhile (\<lambda>c. c \<noteq> CHR ''.'' \<and> c \<noteq> CHR ''/'') r
     in case drop (length e) r of c # _ \<Rightarrow> if c = CHR ''.'' then CHR ''.'' # rev e else []
        | [] \<Rightarrow> [])"

lemma Ext_dot: "CHR ''.'' \<notin> set e \<Longrightarrow> CHR ''/'' \<notin> set e \<Longrightarrow> Ext (p @ CHR ''.'' # e) = CHR ''.'' # e"
proof -
  assume "CHR ''.'' \<notin> set e" "CHR ''/'' \<notin> set e"
  then have "takeWhile (\<lambda>c. c \<noteq> CHR ''.'' \<and> c \<noteq> CHR ''/'') (rev e @ CHR ''.'' # rev p) = rev e"
    by (subst takeWhile_append2) auto
  then show ?thesis by (simp add: Ext_def)
qed

end
