(* ===== verification/GoJson.thy ===== *)
theory GoJson
  imports GoStrings
begin

text \<open>
  The part of \<open>encoding/json\<close> the code uses: the value a text denotes (\<open>json_parse\<close>, None for a
  syntax error) and the compact text of a value as \<open>json.Marshal\<close> writes it (\<open>json_print\<close>, with
  its escaping of control characters and of the characters \<open><\<close>, \<open>>\<close> and \<open>&\<close>).  A number
  keeps its literal, as the decoder does.  The parser is a recursive descent with fuel;
  \<open>pval_enough\<close> shows that the fuel \<open>json_parse\<close> starts with is never the reason for a
  failure, and \<open>json_roundtrip\<close> that parsing undoes printing.  Texts are taken to be valid
  UTF-8, and the nesting limit of 10000 of the decoder is left out.
\<close>

section \<open>Values and their text\<close>

datatype json = JNull | JBool bool | JNum string | JStr string
  | JArr "json list" | JObj "(string \<times> json) list"

abbreviation QT :: char where "QT \<equiv> CHR 0x22"
abbreviation BS :: char where "BS \<equiv> CHR 0x5C"

definition hex_char :: "nat \<Rightarrow> char" where
  "hex_char d = (if d < 10 then char_of (48 + d) else char_of (87 + d))"

definition hex_val :: "char \<Rightarrow> nat option" where
  "hex_val c = (let n = (of_char c :: nat) in
     if 48 \<le> n \<and> n \<le> 57 then Some (n - 48)
     else if 97 \<le> n \<and> n \<le> 102 then Some (n - 87)
     else if 65 \<le> n \<and> n \<le> 70 then Some (n - 55) else None)"

definition esc_char :: "char \<Rightarrow> string" where
  "esc_char c = (let n = (of_char c :: nat) in
     if c = QT then [BS, QT] else if c = BS then [BS, BS]
     else if n = 8 then [BS, CHR ''b''] else if n = 9 then [BS, CHR ''t'']
     else if n = 10 then [BS, CHR ''n''] else if n = 12 then [BS, CHR ''f'']
     else if n = 13 then [BS, CHR ''r'']
     else if n < 32 \<or> c \<in> {CHR ''<'', CHR ''>'', CHR ''&''}
     then [BS, CHR ''u'', CHR ''0'', CHR ''0'', hex_char (n div 16), hex_char (n mod 16)]
     else [c])"

definition print_string :: "string \<Rightarrow> string" where
  "print_string s = QT # concat (map esc_char s) @ [QT]"

fun join :: "char \<Rightarrow> string list \<Rightarrow> string" where
  "join sep [] = []"
| "join sep [x] = x"
| "join sep (x # y # zs) = x @ sep # join sep (y # zs)"

fun json_print :: "json \<Rightarrow> string" where
  "json_print JNull = ''null''"
| "json_print (JBool b) = (if b then ''true'' else ''false'')"
| "json_print (JNum l) = l"
| "json_print (JStr s) = print_string s"
| "json_print (JArr js) = CHR ''['' # join (CHR '','') (map json_print js) @ '']''"
| "json_print (JObj kvs) = CHR ''{''
     # join (CHR '','') (map (\<lambda>(k, v). print_string k @ CHR '':'' # json_print v) kvs) @ ''}''"

section \<open>Scanning\<close>

definition is_ws :: "char \<Rightarrow> bool" where
  "is_ws c \<longleftrightarrow> (of_char c :: nat) \<in> {9, 10, 13, 32}"

abbreviation skip_ws :: "string \<Rightarrow> string" where
  "skip_ws \<equiv> dropWhile is_ws"

definition utf8 :: "nat \<Rightarrow> string" where
  "utf8 n = (if n < 0x80 then [char_of n]
     else if n < 0x800 then [char_of (0xC0 + n div 64), char_of (0x80 + n mod 64)]
     else if n < 0x10000
     then [char_of (0xE0 + n div 4096), char_of (0x80 + n div 64 mod 64), char_of (0x80 + n mod 64)]
     else [char_of (0xF0 + n div 262144), char_of (0x80 + n div 4096 mod 64),
           char_of (0x80 + n div 64 mod 64), char_of (0x80 + n mod 64)])"

fun hex4 :: "string \<Rightarrow> (nat \<times> string) option" where
  "hex4 (a # b # c # d # s) = (case (hex_val a, hex_val b, hex_val c, hex_val d) of
     (Some w, Some x, Some y, Some z) \<Rightarrow> Some (((w * 16 + x) * 16 + y) * 16 + z, s)
   | _ \<Rightarrow> None)"
| "hex4 _ = None"

text \<open>The text after \<open>\u\<close>: a code unit, or a surrogate pair; a lone surrogate is U+FFFD.\<close>

definition decode_u :: "string \<Rightarrow> (string \<times> string) option" where
  "decode_u s = (case hex4 s of
     None \<Rightarrow> None
   | Some (n, r) \<Rightarrow>
       if n < 0xD800 \<or> 0xE000 \<le> n then Some (utf8 n, r)
       else if n < 0xDC00 \<and> HasPrefix r [BS, CHR ''u''] then
         (case hex4 (drop 2 r) of
            Some (m, r2) \<Rightarrow> if 0xDC00 \<le> m \<and> m < 0xE000
              then Some (utf8 (0x10000 + (n - 0xD800) * 0x400 + (m - 0xDC00)), r2)
              else Some (utf8 0xFFFD, r)
          | None \<Rightarrow> Some (utf8 0xFFFD, r))
       else Some (utf8 0xFFFD, r))"

definition unesc :: "char \<Rightarrow> char option" where
  "unesc c = map_of [(QT, QT), (BS, BS), (CHR ''/'', CHR ''/''), (CHR ''b'', char_of (8 :: nat)),
     (CHR ''f'', char_of (12 :: nat)), (CHR ''n'', char_of (10 :: nat)),
     (CHR ''r'', char_of (13 :: nat)), (CHR ''t'', char_of (9 :: nat))] c"

lemma hex4_length: "hex4 s = Some (n, r) \<Longrightarrow> length r < length s"
  by (induction s rule: hex4.induct) (auto split: option.splits)

lemma decode_u_length: "decode_u s = Some (x, r) \<Longrightarrow> length r < length s"
  by (auto simp: decode_u_def split: option.splits if_splits dest!: hex4_length)

text \<open>The rest of a string literal after its opening quote.\<close>

function pstr :: "string \<Rightarrow> (string \<times> string) option" where
  "pstr [] = None"
| "pstr (c # cs) =
    (if c = QT then Some ([], cs)
     else if c = BS then
       (case cs of
          [] \<Rightarrow> None
        | d # ds \<Rightarrow>
            if d = CHR ''u'' then
              (case decode_u ds of
                 None \<Rightarrow> None
               | Some (x, r) \<Rightarrow> map_option (apfst ((@) x)) (pstr r))
            else (case unesc d of
                    None \<Rightarrow> None
                  | Some x \<Rightarrow> map_option (apfst (Cons x)) (pstr ds)))
     else if (of_char c :: nat) < 32 then None
     else map_option (apfst (Cons c)) (pstr cs))"
  by pat_completeness auto
termination
  by (relation "measure length") (auto dest!: decode_u_length)

lemma pstr_length: "pstr s = Some (x, r) \<Longrightarrow> length r < length s"
proof (induction s arbitrary: x rule: pstr.induct)
  case (2 c cs)
  then show ?case
    by (force split: if_splits list.splits option.splits dest: decode_u_length less_trans)
qed simp

text \<open>A number literal.\<close>

definition scan_frac :: "string \<Rightarrow> (string \<times> string) option" where
  "scan_frac s = (case s of
     c # t \<Rightarrow> if c = CHR ''.'' then (let f = takeWhile is_digit t in
                 if f = [] then None else Some (c # f, dropWhile is_digit t))
              else Some ([], s)
   | [] \<Rightarrow> Some ([], []))"

definition scan_exp :: "string \<Rightarrow> (string \<times> string) option" where
  "scan_exp s = (case s of
     c # t \<Rightarrow> if c = CHR ''e'' \<or> c = CHR ''E'' then
                (let (g, u) = (case t of d # t' \<Rightarrow> if d = CHR ''+'' \<or> d = CHR ''-''
                                 then ([d], t') else ([], t) | [] \<Rightarrow> ([], t));
                     x = takeWhile is_digit u in
                 if x = [] then None else Some (c # g @ x, dropWhile is_digit u))
              else Some ([], s)
   | [] \<Rightarrow> Some ([], []))"

definition scan_num :: "string \<Rightarrow> (string \<times> string) option" where
  "scan_num s = (let (g, t) = (case s of c # t \<Rightarrow> if c = CHR ''-'' then ([c], t) else ([], s)
                                 | [] \<Rightarrow> ([], s));
                     ip = takeWhile is_digit t; r = dropWhile is_digit t in
     if ip = [] \<or> (length ip > 1 \<and> hd ip = CHR ''0'') then None
     else (case scan_frac r of
             None \<Rightarrow> None
           | Some (f, r1) \<Rightarrow> (case scan_exp r1 of
               None \<Rightarrow> None | Some (e, r2) \<Rightarrow> Some (g @ ip @ f @ e, r2))))"

lemma dropWhile_length: "length (dropWhile P s) \<le> length s"
  by (rule length_dropWhile_le)

lemma scan_frac_length: "scan_frac s = Some (f, r) \<Longrightarrow> length r \<le> length s"
  by (auto simp: scan_frac_def Let_def le_SucI dropWhile_length split: list.splits if_splits)

lemma scan_exp_length: "scan_exp s = Some (f, r) \<Longrightarrow> length r \<le> length s"
  by (auto simp: scan_exp_def Let_def le_SucI dropWhile_length split: list.splits if_splits)

lemma scan_num_length: "scan_num s = Some (l, r) \<Longrightarrow> length r < length s"
proof -
  have d: "takeWhile is_digit t \<noteq> [] \<Longrightarrow> length (dropWhile is_digit t) < length t" for t
    using takeWhile_dropWhile_id [of is_digit t]
    by (metis length_append length_greater_0_conv less_add_same_cancel2)
  assume "scan_num s = Some (l, r)"
  then show ?thesis
    by (auto simp: scan_num_def Let_def split: list.splits if_splits option.splits
        dest!: scan_frac_length scan_exp_length d)
      (meson dropWhile_length le_imp_less_Suc le_trans)+
qed

section \<open>The parser\<close>

fun pval :: "nat \<Rightarrow> string \<Rightarrow> (json \<times> string) option"
  and pelems :: "nat \<Rightarrow> string \<Rightarrow> (json list \<times> string) option"
  and pmembers :: "nat \<Rightarrow> string \<Rightarrow> ((string \<times> json) list \<times> string) option" where
  "pval 0 s = None"
| "pval (Suc n) s = (case skip_ws s of
     [] \<Rightarrow> None
   | c # cs \<Rightarrow>
       if c = CHR ''{'' then
         (case skip_ws cs of
            [] \<Rightarrow> None
          | d # ds \<Rightarrow> if d = CHR ''}'' then Some (JObj [], ds)
                      else map_option (apfst JObj) (pmembers n (d # ds)))
       else if c = CHR ''['' then
         (case skip_ws cs of
            [] \<Rightarrow> None
          | d # ds \<Rightarrow> if d = CHR '']'' then Some (JArr [], ds)
                      else map_option (apfst JArr) (pelems n (d # ds)))
       else if c = QT then map_option (apfst JStr) (pstr cs)
       else if HasPrefix (c # cs) ''true'' then Some (JBool True, drop 4 (c # cs))
       else if HasPrefix (c # cs) ''false'' then Some (JBool False, drop 5 (c # cs))
       else if HasPrefix (c # cs) ''null'' then Some (JNull, drop 4 (c # cs))
       else map_option (apfst JNum) (scan_num (c # cs)))"
| "pelems 0 s = None"
| "pelems (Suc n) s = (case pval n s of
     None \<Rightarrow> None
   | Some (v, r) \<Rightarrow> (case skip_ws r of
       [] \<Rightarrow> None
     | c # cs \<Rightarrow> if c = CHR '','' then map_option (apfst (Cons v)) (pelems n cs)
                 else if c = CHR '']'' then Some ([v], cs) else None))"
| "pmembers 0 s = None"
| "pmembers (Suc n) s = (case skip_ws s of
     [] \<Rightarrow> None
   | q # cs \<Rightarrow> if q \<noteq> QT then None else
       (case pstr cs of
          None \<Rightarrow> None
        | Some (k, r) \<Rightarrow> (case skip_ws r of
            [] \<Rightarrow> None
          | c # cs2 \<Rightarrow> if c \<noteq> CHR '':'' then None else
              (case pval n cs2 of
                 None \<Rightarrow> None
               | Some (v, r2) \<Rightarrow> (case skip_ws r2 of
                   [] \<Rightarrow> None
                 | d # ds \<Rightarrow> if d = CHR '','' then map_option (apfst (Cons (k, v))) (pmembers n ds)
                             else if d = CHR ''}'' then Some ([(k, v)], ds) else None)))))"

definition json_parse :: "string \<Rightarrow> json option" where
  "json_parse s = (case pval (2 * length s + 1) s of
     None \<Rightarrow> None | Some (v, r) \<Rightarrow> if skip_ws r = [] then Some v else None)"

section \<open>The fuel is enough\<close>

declare dropWhile_eq_Nil_conv [simp del]

lemma skip_ws_Cons: "skip_ws s = c # cs \<Longrightarrow> length cs < length s"
  by (metis dropWhile_length length_Cons less_eq_Suc_le)

lemma pval_length_step:
  assumes "\<And>s vs r. pelems n s = Some (vs, r) \<Longrightarrow> length r < length s"
    and "\<And>s kvs r. pmembers n s = Some (kvs, r) \<Longrightarrow> length r < length s"
    and "pval (Suc n) s = Some (v, r)"
  shows "length r < length s"
proof (cases "skip_ws s")
  case Nil
  with assms(3) show ?thesis by simp
next
  case (Cons c cs)
  then have "length cs < length s" by (rule skip_ws_Cons)
  with Cons assms(3) show ?thesis
    by (auto split: list.splits if_splits
        dest!: skip_ws_Cons pstr_length scan_num_length assms(1) assms(2))
qed

lemma pelems_length_step:
  assumes "\<And>s v r. pval n s = Some (v, r) \<Longrightarrow> length r < length s"
    and "\<And>s vs r. pelems n s = Some (vs, r) \<Longrightarrow> length r < length s"
    and "pelems (Suc n) s = Some (vs, r)"
  shows "length r < length s"
  using assms(3)
  by (auto split: list.splits if_splits option.splits dest!: skip_ws_Cons assms(1) assms(2))

lemma pmembers_length_step:
  assumes "\<And>s v r. pval n s = Some (v, r) \<Longrightarrow> length r < length s"
    and "\<And>s vs r. pmembers n s = Some (vs, r) \<Longrightarrow> length r < length s"
    and "pmembers (Suc n) s = Some (vs, r)"
  shows "length r < length s"
  using assms(3)
  by (auto split: list.splits if_splits option.splits
      dest!: skip_ws_Cons pstr_length assms(1) assms(2))

lemma parser_length:
  "(\<forall>s v r. pval n s = Some (v, r) \<longrightarrow> length r < length s) \<and>
   (\<forall>s vs r. pelems n s = Some (vs, r) \<longrightarrow> length r < length s) \<and>
   (\<forall>s kvs r. pmembers n s = Some (kvs, r) \<longrightarrow> length r < length s)"
proof (induction n)
  case 0
  show ?case by simp
next
  case (Suc n)
  then show ?case
    using pval_length_step [of n] pelems_length_step [of n] pmembers_length_step [of n]
    by meson
qed

lemma skip_ws_le: "skip_ws s = t \<Longrightarrow> length t \<le> length s"
  using dropWhile_length [of is_ws s] by simp

lemma pval_enough_step:
  assumes "\<And>s x g. pelems n s = Some x \<Longrightarrow> 2 * length s + 2 \<le> g \<Longrightarrow> pelems g s = Some x"
    and "\<And>s x g. pmembers n s = Some x \<Longrightarrow> 2 * length s + 2 \<le> g \<Longrightarrow> pmembers g s = Some x"
    and "pval (Suc n) s = Some x" and g: "2 * length s + 1 \<le> g"
  shows "pval g s = Some x"
proof (cases "skip_ws s")
  case Nil
  with assms(3) show ?thesis by simp
next
  case (Cons c cs)
  obtain g' where g': "g = Suc g'" using g by (cases g) auto
  have l: "length cs < length s" using Cons by (rule skip_ws_Cons)
  have b: "2 * length t + 2 \<le> g'" if "skip_ws cs = t" for t
    using skip_ws_le [OF that] l g g' by simp
  note sc = Cons
  show ?thesis
  proof (cases "skip_ws cs")
    case Nil
    with sc assms(3) show ?thesis
      by (simp add: g' split: if_splits)
  next
    case (Cons d ds)
    have "pelems g' (d # ds) = Some y" if "pelems n (d # ds) = Some y" for y
      by (rule assms(1) [OF that b [OF Cons]])
    moreover have "pmembers g' (d # ds) = Some y" if "pmembers n (d # ds) = Some y" for y
      by (rule assms(2) [OF that b [OF Cons]])
    ultimately show ?thesis
      using sc Cons assms(3) by (auto simp: g' split: if_splits)
  qed
qed

lemma pelems_enough_step:
  assumes "\<And>s x g. pval n s = Some x \<Longrightarrow> 2 * length s + 1 \<le> g \<Longrightarrow> pval g s = Some x"
    and "\<And>s x g. pelems n s = Some x \<Longrightarrow> 2 * length s + 2 \<le> g \<Longrightarrow> pelems g s = Some x"
    and p: "pelems (Suc n) s = Some x" and g: "2 * length s + 2 \<le> g"
  shows "pelems g s = Some x"
proof -
  obtain g' where g': "g = Suc g'" using g by (cases g) auto
  obtain v r where v: "pval n s = Some (v, r)" using p by (auto split: option.splits)
  have v': "pval g' s = Some (v, r)" using g g' by (intro assms(1) [OF v]) simp
  have r: "length r < length s" using v parser_length by blast
  have b: "2 * length cs + 2 \<le> g'" if "skip_ws r = c # cs" for c cs
    using skip_ws_Cons [OF that] r g g' by simp
  have "pelems g' cs = Some y" if "skip_ws r = c # cs" "pelems n cs = Some y" for c cs y
    by (rule assms(2) [OF that(2) b [OF that(1)]])
  with p v v' show ?thesis
    by (auto simp: g' split: list.splits if_splits)
qed

lemma pmembers_enough_step:
  assumes "\<And>s x g. pval n s = Some x \<Longrightarrow> 2 * length s + 1 \<le> g \<Longrightarrow> pval g s = Some x"
    and "\<And>s x g. pmembers n s = Some x \<Longrightarrow> 2 * length s + 2 \<le> g \<Longrightarrow> pmembers g s = Some x"
    and p: "pmembers (Suc n) s = Some x" and g: "2 * length s + 2 \<le> g"
  shows "pmembers g s = Some x"
proof -
  obtain g' where g': "g = Suc g'" using g by (cases g) auto
  obtain cs k r c cs2 v r2 where
    a: "skip_ws s = QT # cs" "pstr cs = Some (k, r)" "skip_ws r = c # cs2" "c = CHR '':''"
    and v: "pval n cs2 = Some (v, r2)"
    using p by (auto split: list.splits option.splits if_splits)
  have l: "length cs2 < length s"
    using skip_ws_Cons [OF a(1)] pstr_length [OF a(2)] skip_ws_Cons [OF a(3)] by simp
  then have v': "pval g' cs2 = Some (v, r2)" using g g' by (intro assms(1) [OF v]) simp
  have r: "length r2 < length cs2" using v parser_length by blast
  have b: "2 * length ds + 2 \<le> g'" if "skip_ws r2 = d # ds" for d ds
    using skip_ws_Cons [OF that] r l g g' by simp
  have "pmembers g' ds = Some y" if "skip_ws r2 = d # ds" "pmembers n ds = Some y" for d ds y
    by (rule assms(2) [OF that(2) b [OF that(1)]])
  with p a v v' show ?thesis
    by (auto simp: g' split: list.splits if_splits)
qed

lemma parser_enough:
  "(\<forall>s x g. pval n s = Some x \<longrightarrow> 2 * length s + 1 \<le> g \<longrightarrow> pval g s = Some x) \<and>
   (\<forall>s x g. pelems n s = Some x \<longrightarrow> 2 * length s + 2 \<le> g \<longrightarrow> pelems g s = Some x) \<and>
   (\<forall>s x g. pmembers n s = Some x \<longrightarrow> 2 * length s + 2 \<le> g \<longrightarrow> pmembers g s = Some x)"
proof (induction n)
  case 0
  show ?case by simp
next
  case (Suc n)
  then have 1: "\<And>s x g. pval n s = Some x \<Longrightarrow> 2 * length s + 1 \<le> g \<Longrightarrow> pval g s = Some x"
    and 2: "\<And>s x g. pelems n s = Some x \<Longrightarrow> 2 * length s + 2 \<le> g \<Longrightarrow> pelems g s = Some x"
    and 3: "\<And>s x g. pmembers n s = Some x \<Longrightarrow> 2 * length s + 2 \<le> g \<Longrightarrow> pmembers g s = Some x"
    by blast+
  show ?case
    using pval_enough_step [OF 2 3] pelems_enough_step [OF 1 2] pmembers_enough_step [OF 1 3]
    by blast
qed

lemma pval_enough: "pval n s = Some x \<Longrightarrow> 2 * length s + 1 \<le> g \<Longrightarrow> pval g s = Some x"
  using parser_enough by blast

lemma json_parse_complete:
  "pval n s = Some (v, r) \<Longrightarrow> skip_ws r = [] \<Longrightarrow> json_parse s = Some v"
  using pval_enough [of n s "(v, r)" "2 * length s + 1"] by (simp add: json_parse_def)

section \<open>Parsing undoes printing\<close>

lemma hex_val_char: "d < 16 \<Longrightarrow> hex_val (hex_char d) = Some d"
  by (auto simp: hex_val_def hex_char_def Let_def take_bit_eq_mod)

lemma decode_u_ascii:
  "n < 128 \<Longrightarrow> decode_u (CHR ''0'' # CHR ''0'' # hex_char (n div 16) # hex_char (n mod 16) # s)
     = Some ([char_of n], s)"
  by (simp add: decode_u_def hex_val_char utf8_def hex_val_def [of "CHR ''0''"])

lemma append_sing: "(@) [c] = (#) c"
  by (rule ext) simp

lemma pstr_esc: "pstr (esc_char c @ s) = map_option (apfst (Cons c)) (pstr s)"
proof -
  let ?n = "of_char c :: nat"
  have c: "char_of ?n = c" by simp
  consider "c = QT" | "c = BS" | "?n \<in> {8, 9, 10, 12, 13}"
    | "c \<noteq> QT" "c \<noteq> BS" "?n \<notin> {8, 9, 10, 12, 13}" "?n < 32 \<or> c \<in> {CHR ''<'', CHR ''>'', CHR ''&''}"
    | "c \<noteq> QT" "c \<noteq> BS" "?n \<notin> {8, 9, 10, 12, 13}" "\<not> (?n < 32 \<or> c \<in> {CHR ''<'', CHR ''>'', CHR ''&''})"
    by blast
  then show ?thesis
  proof cases
    case 1
    then show ?thesis by (simp add: esc_char_def unesc_def)
  next
    case 2
    then show ?thesis by (simp add: esc_char_def unesc_def)
  next
    case 3
    then have "c \<in> {char_of (8 :: nat), char_of (9 :: nat), char_of (10 :: nat),
        char_of (12 :: nat), char_of (13 :: nat)}" using c by (metis insert_iff empty_iff)
    then show ?thesis by (auto simp: esc_char_def unesc_def)
  next
    case 4
    then have "?n < 128" by auto
    with 4 show ?thesis
      by (simp add: esc_char_def Let_def decode_u_ascii [of ?n s] append_sing)
  next
    case 5
    then show ?thesis by (simp add: esc_char_def)
  qed
qed

lemma pstr_print: "pstr (concat (map esc_char s) @ QT # r) = Some (s, r)"
  by (induction s) (simp_all add: pstr_esc)

definition lit_int :: "string \<Rightarrow> int option" where
  "lit_int l = (case l of c # ds \<Rightarrow> if c = CHR ''-'' then map_option (\<lambda>n. - int n) (dec_nat ds)
       else map_option int (dec_nat l)
   | [] \<Rightarrow> None)"

text \<open>Values whose numbers are integers, written as \<open>strconv.Itoa\<close> writes them.\<close>

fun json_ok :: "json \<Rightarrow> bool" where
  "json_ok (JNum l) = (case lit_int l of Some n \<Rightarrow> l = Itoa n | None \<Rightarrow> False)"
| "json_ok (JArr js) = list_all json_ok js"
| "json_ok (JObj kvs) = list_all (\<lambda>(k, v). json_ok v) kvs"
| "json_ok _ = True"

lemma minus_not_digit: "is_digit c \<Longrightarrow> c \<noteq> CHR ''-''"
  by (auto simp: is_digit_def)

lemma lit_int_Itoa [simp]: "lit_int (Itoa n) = Some n"
proof (cases "n < 0")
  case True
  then show ?thesis by (simp add: lit_int_def Itoa_def)
next
  case False
  obtain c cs where "nat_dec (nat n) = c # cs" "is_digit c"
    using nat_dec_head by blast
  with False show ?thesis
    using dec_nat_nat_dec [of "nat n"] by (auto simp: lit_int_def Itoa_def dest: minus_not_digit)
qed

lemma json_ok_Itoa [simp]: "json_ok (JNum (Itoa n))"
  by simp

definition num_stop :: "string \<Rightarrow> bool" where
  "num_stop r \<longleftrightarrow> (case r of [] \<Rightarrow> True
     | c # _ \<Rightarrow> \<not> is_digit c \<and> c \<noteq> CHR ''.'' \<and> c \<noteq> CHR ''e'' \<and> c \<noteq> CHR ''E'')"

lemma num_stop_simps [simp]:
  "num_stop []" "num_stop (CHR '','' # r)" "num_stop (CHR '']'' # r)" "num_stop (CHR ''}'' # r)"
  by (simp_all add: num_stop_def is_digit_def)

lemma nat_dec_no_zero: "n > 0 \<Longrightarrow> hd (nat_dec n) \<noteq> CHR ''0''"
proof (induction n rule: nat_dec.induct)
  case (1 n)
  show ?case
  proof (cases "n < 10")
    case True
    with 1 digit_char_digit [of n] show ?thesis
      by (auto simp: nat_dec.simps [of n] digit_val_def)
  next
    case False
    then show ?thesis using 1 by (simp add: nat_dec.simps [of n] div_greater_zero_iff)
  qed
qed

lemma scan_num_nat_dec:
  assumes "num_stop r" shows "scan_num (nat_dec n @ r) = Some (nat_dec n, r)"
    and "scan_num (CHR ''-'' # nat_dec n @ r) = Some (CHR ''-'' # nat_dec n, r)"
proof -
  have d: "list_all is_digit (nat_dec n)" by (rule nat_dec_digits)
  have t: "takeWhile is_digit (nat_dec n @ r) = nat_dec n"
    and w: "dropWhile is_digit (nat_dec n @ r) = r"
    using d assms by (auto simp: takeWhile_append dropWhile_append list_all_iff num_stop_def
        split: list.splits if_splits)
  have z: "\<not> (length (nat_dec n) > 1 \<and> hd (nat_dec n) = CHR ''0'')"
    using nat_dec_no_zero [of n] by (cases "n = 0") (auto simp: nat_dec.simps [of 0])
  have f: "scan_frac r = Some ([], r)" "scan_exp r = Some ([], r)"
    using assms by (auto simp: scan_frac_def scan_exp_def num_stop_def split: list.splits)
  obtain c cs where c: "nat_dec n = c # cs" "is_digit c"
    using nat_dec_head by blast
  show "scan_num (CHR ''-'' # nat_dec n @ r) = Some (CHR ''-'' # nat_dec n, r)"
    using t w z f by (simp add: scan_num_def Let_def)
  show "scan_num (nat_dec n @ r) = Some (nat_dec n, r)"
    using t w z f c minus_not_digit [of c] by (simp add: scan_num_def Let_def)
qed

lemma scan_num_Itoa: "num_stop r \<Longrightarrow> scan_num (Itoa n @ r) = Some (Itoa n, r)"
  by (simp add: Itoa_def scan_num_nat_dec)

text \<open>A printed value starts with none of the characters that end or separate values.\<close>

definition value_start :: "char \<Rightarrow> bool" where
  "value_start c \<longleftrightarrow> \<not> is_ws c \<and> c \<noteq> CHR '']'' \<and> c \<noteq> CHR ''}''"

lemma Itoa_head: "\<exists>c cs. Itoa n = c # cs \<and> (is_digit c \<or> c = CHR ''-'')"
  using nat_dec_head [of "nat n"] by (auto simp: Itoa_def)

lemma is_digit_start: "is_digit c \<Longrightarrow> value_start c"
  by (auto simp: is_digit_def value_start_def is_ws_def)

lemma value_start_consts [simp]:
  "value_start QT" "value_start (CHR ''-'')" "value_start (CHR ''['')" "value_start (CHR ''{'')"
  "value_start (CHR ''t'')" "value_start (CHR ''f'')" "value_start (CHR ''n'')"
  by (simp_all add: value_start_def is_ws_def)

lemma json_print_head: "json_ok j \<Longrightarrow> \<exists>c cs. json_print j = c # cs \<and> value_start c"
proof (cases j)
  case (JNum l)
  moreover assume "json_ok j"
  ultimately obtain n where "l = Itoa n" by (auto split: option.splits)
  with JNum Itoa_head [of n] show ?thesis by (auto dest: is_digit_start)
qed (simp_all add: print_string_def)

lemma pelems_enough: "pelems n s = Some x \<Longrightarrow> 2 * length s + 2 \<le> g \<Longrightarrow> pelems g s = Some x"
  using parser_enough by blast

lemma pmembers_enough: "pmembers n s = Some x \<Longrightarrow> 2 * length s + 2 \<le> g \<Longrightarrow> pmembers g s = Some x"
  using parser_enough by blast

lemma pval_max: "pval n s = Some x \<Longrightarrow> \<exists>n. \<forall>g \<ge> n. pval g s = Some x"
  using pval_enough by blast

lemma pelems_print:
  assumes "js \<noteq> []"
    and "\<And>j r. j \<in> set js \<Longrightarrow> num_stop r \<Longrightarrow> \<exists>n. pval n (json_print j @ r) = Some (j, r)"
  shows "\<exists>n. pelems n (join (CHR '','') (map json_print js) @ CHR '']'' # r) = Some (js, r)"
  using assms
proof (induction js rule: list_nonempty_induct)
  case (single j)
  from single(1) [of j "CHR '']'' # r"] obtain n
    where "pval n (json_print j @ CHR '']'' # r) = Some (j, CHR '']'' # r)" by auto
  then have "pelems (Suc n) (json_print j @ CHR '']'' # r) = Some ([j], r)"
    by (simp add: is_ws_def)
  then show ?case by (intro exI [of _ "Suc n"]) simp
next
  case (cons j js)
  obtain k ks where js: "js = k # ks" using cons(1) by (cases js) auto
  let ?X = "join (CHR '','') (map json_print js) @ CHR '']'' # r"
  from cons(2) cons(3) obtain m where m: "pelems m ?X = Some (js, r)" by auto
  from cons(3) [of j "CHR '','' # ?X"] obtain n
    where n: "pval n (json_print j @ CHR '','' # ?X) = Some (j, CHR '','' # ?X)" by auto
  define g where "g = 2 * length (json_print j @ CHR '','' # ?X) + 2"
  have "pval g (json_print j @ CHR '','' # ?X) = Some (j, CHR '','' # ?X)"
    by (rule pval_enough [OF n]) (simp add: g_def)
  moreover have "pelems g ?X = Some (js, r)"
    by (rule pelems_enough [OF m]) (simp add: g_def)
  ultimately have "pelems (Suc g) (json_print j @ CHR '','' # ?X) = Some (j # js, r)"
    by (simp add: is_ws_def)
  then show ?case by (intro exI [of _ "Suc g"]) (simp add: js)
qed

definition print_member :: "string \<times> json \<Rightarrow> string" where
  "print_member kv = print_string (fst kv) @ CHR '':'' # json_print (snd kv)"

lemma pmembers_one:
  assumes "pval n (json_print v @ r) = Some (v, r)"
  shows "\<exists>n. \<forall>g \<ge> n. pmembers (Suc g) (print_member (k, v) @ r)
    = (case skip_ws r of [] \<Rightarrow> None
       | d # ds \<Rightarrow> if d = CHR '','' then map_option (apfst (Cons (k, v))) (pmembers g ds)
                   else if d = CHR ''}'' then Some ([(k, v)], ds) else None)"
proof -
  obtain n where n: "\<And>g. g \<ge> n \<Longrightarrow> pval g (json_print v @ r) = Some (v, r)"
    using pval_max [OF assms] by blast
  have "pstr (concat (map esc_char k) @ QT # CHR '':'' # json_print v @ r)
      = Some (k, CHR '':'' # json_print v @ r)" by (rule pstr_print)
  then show ?thesis
    by (intro exI [of _ n]) (simp add: print_member_def print_string_def is_ws_def n cong: list.case_cong)
qed

lemma pmembers_print:
  assumes "kvs \<noteq> []"
    and "\<And>k v r. (k, v) \<in> set kvs \<Longrightarrow> num_stop r \<Longrightarrow> \<exists>n. pval n (json_print v @ r) = Some (v, r)"
  shows "\<exists>n. pmembers n (join (CHR '','') (map print_member kvs) @ CHR ''}'' # r) = Some (kvs, r)"
  using assms
proof (induction kvs rule: list_nonempty_induct)
  case (single kv)
  obtain k v where kv: "kv = (k, v)" by (cases kv)
  from single(1) [of k v "CHR ''}'' # r"] kv obtain n
    where n: "pval n (json_print v @ CHR ''}'' # r) = Some (v, CHR ''}'' # r)" by auto
  obtain l where "\<And>g. g \<ge> l \<Longrightarrow> pmembers (Suc g) (print_member (k, v) @ CHR ''}'' # r)
      = Some ([(k, v)], r)" using pmembers_one [OF n, of k] by (auto simp: is_ws_def)
  then have "pmembers (Suc l) (print_member (k, v) @ CHR ''}'' # r) = Some ([(k, v)], r)"
    by blast
  then show ?case by (intro exI [of _ "Suc l"]) (simp add: kv)
next
  case (cons kv kvs)
  obtain k v where kv: "kv = (k, v)" by (cases kv)
  obtain x xs where xs: "kvs = x # xs" using cons(1) by (cases kvs) auto
  let ?X = "join (CHR '','') (map print_member kvs) @ CHR ''}'' # r"
  have "\<exists>m. pmembers m ?X = Some (kvs, r)" 
  proof (rule cons(2))
    fix k v s
    assume "(k, v) \<in> set kvs" "num_stop s"
    then show "\<exists>n. pval n (json_print v @ s) = Some (v, s)" using cons(3) [of k v s] by simp
  qed
  then obtain m where m: "pmembers m ?X = Some (kvs, r)" by blast
  from cons(3) [of k v "CHR '','' # ?X"] kv obtain n
    where n: "pval n (json_print v @ CHR '','' # ?X) = Some (v, CHR '','' # ?X)" by auto
  obtain l where l: "\<And>g. g \<ge> l \<Longrightarrow> pmembers (Suc g) (print_member (k, v) @ CHR '','' # ?X)
      = map_option (apfst (Cons (k, v))) (pmembers g ?X)"
    using pmembers_one [OF n, of k] by (auto simp: is_ws_def)
  have "pmembers (l + (2 * length ?X + 2)) ?X = Some (kvs, r)"
    by (rule pmembers_enough [OF m]) simp
  with l [of "l + (2 * length ?X + 2)"]
  have "pmembers (Suc (l + (2 * length ?X + 2))) (print_member (k, v) @ CHR '','' # ?X)
      = Some ((k, v) # kvs, r)" by simp
  then show ?case
    by (intro exI [of _ "Suc (l + (2 * length ?X + 2))"]) (simp add: kv xs del: pmembers.simps)
qed

lemma print_obj: "json_print (JObj kvs) = CHR ''{'' # join (CHR '','') (map print_member kvs) @ ''}''"
  by (simp add: print_member_def [abs_def] split_def)

lemma join_head: "xs \<noteq> [] \<Longrightarrow> hd xs = c # cs \<Longrightarrow> \<exists>ds. join sep xs = c # ds"
  by (induction sep xs rule: join.induct) auto

lemma pval_print:
  "json_ok j \<Longrightarrow> num_stop r \<Longrightarrow> \<exists>n. pval n (json_print j @ r) = Some (j, r)"
proof (induction j arbitrary: r)
  case (JBool b)
  show ?case by (intro exI [of _ 1]) (cases b; simp add: is_ws_def HasPrefix_def)
next
  case JNull
  show ?case by (intro exI [of _ 1]) (simp add: is_ws_def HasPrefix_def)
next
  case (JNum l)
  then obtain i where l: "l = Itoa i" by (auto split: option.splits)
  obtain c cs where c: "Itoa i = c # cs" "is_digit c \<or> c = CHR ''-''" using Itoa_head by blast
  then have "\<not> is_ws c" "c \<noteq> CHR ''{''" "c \<noteq> CHR ''[''" "c \<noteq> QT" "c \<noteq> CHR ''t''"
    "c \<noteq> CHR ''f''" "c \<noteq> CHR ''n''"
    by (auto simp: is_digit_def is_ws_def)
  with c scan_num_Itoa [OF JNum.prems(2), of i] show ?case
    by (intro exI [of _ 1]) (simp add: l HasPrefix_def)
next
  case (JStr s)
  show ?case by (intro exI [of _ 1]) (simp add: print_string_def is_ws_def pstr_print)
next
  case (JArr js)
  show ?case
  proof (cases "js = []")
    case True
    then show ?thesis by (intro exI [of _ 1]) (simp add: is_ws_def)
  next
    case False
    let ?X = "join (CHR '','') (map json_print js)"
    have ok: "\<And>j. j \<in> set js \<Longrightarrow> json_ok j" using JArr.prems(1) by (simp add: list_all_iff)
    then obtain n where n: "pelems n (?X @ CHR '']'' # r) = Some (js, r)"
      using pelems_print [OF False] JArr.IH by blast
    obtain c cs where c: "json_print (hd js) = c # cs" "value_start c"
      using json_print_head ok False by (metis hd_in_set)
    obtain ds where "?X = c # ds"
      using join_head [of "map json_print js" c cs] c False by (auto simp: hd_map)
    with n c show ?thesis
      by (intro exI [of _ "Suc n"]) (simp add: is_ws_def value_start_def)
  qed
next
  case (JObj kvs)
  show ?case
  proof (cases "kvs = []")
    case True
    then show ?thesis by (intro exI [of _ 1]) (simp add: is_ws_def)
  next
    case False
    let ?X = "join (CHR '','') (map print_member kvs)"
    have "\<exists>n. pval n (json_print v @ r) = Some (v, r)" if "(k, v) \<in> set kvs" "num_stop r" for k v r
      using JObj.IH [OF that(1)] JObj.prems(1) that by (auto simp: list_all_iff snds.simps)
    then obtain n where n: "pmembers n (?X @ CHR ''}'' # r) = Some (kvs, r)"
      using pmembers_print [OF False] by blast
    obtain ds where "?X = QT # ds"
      using join_head [of "map print_member kvs" QT "tl (print_member (hd kvs))"] False
      by (auto simp: hd_map print_member_def print_string_def)
    with n show ?thesis
      by (intro exI [of _ "Suc n"]) (simp add: is_ws_def print_obj del: json_print.simps)
  qed
qed

lemma json_roundtrip: "json_ok j \<Longrightarrow> json_parse (json_print j) = Some j"
  using pval_print [of j "[]"] by (auto intro: json_parse_complete)

section \<open>Number literals as numbers\<close>

text \<open>The value of a literal; a \<open>float64\<close> takes it without the rounding, and \<open>int(f)\<close>
  drops the fraction.\<close>

definition lit_rat :: "string \<Rightarrow> rat option" where
  "lit_rat s = (let (neg, t) = (case s of
         c # cs \<Rightarrow> if c = CHR ''-'' then (True, cs) else (False, s)
       | [] \<Rightarrow> (False, s));
     ip = takeWhile is_digit t;
     r = dropWhile is_digit t;
     (fr, u) = (case r of
         c # cs \<Rightarrow> if c = CHR ''.'' then (takeWhile is_digit cs, dropWhile is_digit cs) else ([], r)
       | [] \<Rightarrow> ([], r))
   in case dec_nat (ip @ fr) of
        None \<Rightarrow> None
      | Some m \<Rightarrow> (case (case u of [] \<Rightarrow> Some 0 | _ # x \<Rightarrow> Atoi x) of
            None \<Rightarrow> None
          | Some x \<Rightarrow> (let y = x - int (length fr);
                v = (if 0 \<le> y then of_nat m * 10 ^ nat y else of_nat m / 10 ^ nat (- y))
              in Some (if neg then - v else v))))"

definition trunc_rat :: "rat \<Rightarrow> int" where
  "trunc_rat q = (if q < 0 then - \<lfloor>- q\<rfloor> else \<lfloor>q\<rfloor>)"

lemma takeWhile_all: "list_all P s \<Longrightarrow> takeWhile P s = s \<and> dropWhile P s = []"
  by (induction s) auto

lemmas nat_dec_scan = takeWhile_all [OF nat_dec_digits, THEN conjunct1]
  takeWhile_all [OF nat_dec_digits, THEN conjunct2]

lemma lit_rat_Itoa: "lit_rat (Itoa n) = Some (of_int n)"
proof (cases "n < 0")
  case True
  then show ?thesis
    by (simp add: lit_rat_def Itoa_def Let_def nat_dec_scan)
next
  case False
  obtain c cs where c: "nat_dec (nat n) = c # cs" "is_digit c"
    using nat_dec_head by blast
  then have "c \<noteq> CHR ''-''" using minus_not_digit by blast
  with False c show ?thesis
    using nat_dec_scan [of "nat n"] dec_nat_nat_dec [of "nat n"]
    by (simp add: lit_rat_def Itoa_def Let_def del: dec_nat_nat_dec takeWhile_eq_all_conv)
qed

lemma trunc_rat_of_int [simp]: "trunc_rat (of_int n) = n"
  by (simp add: trunc_rat_def flip: of_int_minus)

end
