(* ===== verification/Domain.thy ===== *)
theory Domain
  imports GoJson "HOL-Library.Multiset"
begin

text \<open>
  The data of the service: \<open>internal/domain\<close>, the value types of \<open>internal/ports\<close>,
  \<open>internal/billing\<close> and \<open>internal/kafka\<close>, and the interfaces of \<open>internal/ports\<close> as records
  of computations over a world \<open>'w\<close>.  A nil interface is None where a component holds one.

  An instant is an \<open>int\<close>, with 0 for the zero value of \<open>time.Time\<close>.  A \<open>float64\<close> is a
  rational number; its rounding is not modelled.  A nil slice and an empty one are both \<open>[]\<close>.
\<close>

section \<open>Batches and jobs\<close>

type_synonym BatchStatus = string
type_synonym JobStatus = string

definition BatchStatusPending :: BatchStatus where
  "BatchStatusPending = ''pending''"
definition BatchStatusValidationErrors :: BatchStatus where
  "BatchStatusValidationErrors = ''validation_errors''"
definition BatchStatusPartialAvailable :: BatchStatus where
  "BatchStatusPartialAvailable = ''partial_available''"
definition BatchStatusReady :: BatchStatus where
  "BatchStatusReady = ''ready''"
definition BatchStatusProcessing :: BatchStatus where
  "BatchStatusProcessing = ''processing''"
definition BatchStatusCompleted :: BatchStatus where
  "BatchStatusCompleted = ''completed''"
definition BatchStatusCancelled :: BatchStatus where
  "BatchStatusCancelled = ''cancelled''"

definition JobStatusPending :: JobStatus where
  "JobStatusPending = ''pending''"
definition JobStatusQueued :: JobStatus where
  "JobStatusQueued = ''queued''"
definition JobStatusProcessing :: JobStatus where
  "JobStatusProcessing = ''processing''"
definition JobStatusCompleted :: JobStatus where
  "JobStatusCompleted = ''completed''"
definition JobStatusFailed :: JobStatus where
  "JobStatusFailed = ''failed''"
definition JobStatusRefunded :: JobStatus where
  "JobStatusRefunded = ''refunded''"

lemmas job_status_defs = JobStatusPending_def JobStatusQueued_def JobStatusProcessing_def
  JobStatusCompleted_def JobStatusFailed_def JobStatusRefunded_def

lemmas batch_status_defs = BatchStatusPending_def BatchStatusValidationErrors_def
  BatchStatusPartialAvailable_def BatchStatusReady_def BatchStatusProcessing_def
  BatchStatusCompleted_def BatchStatusCancelled_def

lemma job_status_distinct [simp]:
  "distinct [JobStatusPending, JobStatusQueued, JobStatusProcessing, JobStatusCompleted,
     JobStatusFailed, JobStatusRefunded]"
  by (simp add: job_status_defs)

lemma batch_status_distinct [simp]:
  "distinct [BatchStatusPending, BatchStatusValidationErrors, BatchStatusPartialAvailable,
     BatchStatusReady, BatchStatusProcessing, BatchStatusCompleted, BatchStatusCancelled]"
  by (simp add: batch_status_defs)

record batch =
  b_ID :: string
  b_UserID :: string
  b_Status :: BatchStatus
  b_Revision :: string
  b_FileStorageID :: string
  b_TotalRows :: int
  b_ValidRows :: int
  b_CreatedAt :: int
  b_ApprovedCount :: int
  b_CompletedCount :: int
  b_FailedCount :: int
  b_CompletedAt :: "int option"
  b_BillingTransactionIDs :: "string list"
  b_Priority :: string
  b_TimeoutMs :: int

record job =
  j_ID :: string
  j_BatchID :: string
  j_RowNumber :: int
  j_Status :: JobStatus
  j_InputData :: string
  j_BillingTransactionID :: "string option"

text \<open>The jobs a result is still awaited for: the case of every \<open>switch j.Status\<close> that lists
  pending, queued and processing.\<close>

definition job_active :: "JobStatus \<Rightarrow> bool" where
  "job_active s \<longleftrightarrow> s = JobStatusPending \<or> s = JobStatusQueued \<or> s = JobStatusProcessing"

section \<open>Values of the ports\<close>

record BatchFilter =
  f_Status :: string
  f_From :: "int option"
  f_To :: "int option"
  f_Page :: int
  f_Limit :: int
  f_UserID :: string
  f_Revision :: string
  f_SortBy :: string
  f_SortDesc :: bool
  f_Cursor :: string

record AdminStats =
  as_BatchesCreated :: int
  as_JobsProcessed :: int
  as_JobsFailed :: int
  as_AverageProcessingTimeMs :: rat
  as_BulkJobPending :: int
  as_BulkResultPending :: int

record JobResult =
  r_JobID :: string
  r_RowNumber :: int
  r_BuildID :: string
  r_BarcodeURLs :: string
  r_ErrorCode :: string
  r_ErrorMessage :: string
  r_BillingTransactionID :: string

record ValidationError =
  ve_RowNumber :: int
  ve_Field :: string
  ve_ErrorCode :: string
  ve_ErrorMessage :: string
  ve_OriginalValue :: string

section \<open>Billing values\<close>

record SourceBreakdown =
  sb_Units :: int
  sb_Remaining :: int
  sb_Amount :: rat

record QuoteBreakdown =
  qb_Subscription :: SourceBreakdown
  qb_Credits :: SourceBreakdown
  qb_Wallet :: SourceBreakdown

record Shortfall =
  sf_Units :: int
  sf_AmountRequired :: rat

record QuoteResponse =
  q_CanProcess :: bool
  q_CanGenerate :: bool
  q_Partial :: bool
  q_Requested :: int
  q_AllowedTotal :: int
  q_UnitPrice :: rat
  q_BySource :: QuoteBreakdown
  q_Shortfall :: "Shortfall option"

section \<open>Messages\<close>

record BulkResultEvent =
  ev_EventType :: string
  ev_JobID :: string
  ev_BatchID :: string
  ev_Status :: string
  ev_BuildID :: string
  ev_BarcodeURLs :: "(string \<times> string) list option"
  ev_Billing :: "(string \<times> string) option"     \<comment> \<open>status, transactionId\<close>
  ev_Timestamp :: int

text \<open>A \<open>bulk.job\<close> message; a key the sender leaves out is None.\<close>

record job_event =
  je_jobId :: string
  je_batchId :: string
  je_rowNumber :: int
  je_userId :: "string option"
  je_buildId :: "string option"
  je_revision :: "string option"
  je_fields :: "(string \<times> string) list option"
  je_billingPreApproved :: "bool option"
  je_transactionId :: "string option"
  je_correlationId :: "string option"
  je_timestamp :: "int option"

record status_event =
  se_batchId :: string
  se_status :: BatchStatus
  se_total :: int
  se_completed :: int
  se_failed :: int
  se_pending :: int
  se_percentComplete :: rat
  se_timestamp :: int

datatype history_payload =
    PartialPayload string int int             \<comment> \<open>batchId, approvedCount, requested\<close>
  | RefundedPayload string "string list"      \<comment> \<open>batchId, transactionIds\<close>
  | ResultPayload BulkResultEvent

datatype kafka_msg =
    StatusMsg status_event
  | JobMsg job_event
  | HistoryMsg string history_payload int     \<comment> \<open>eventType, payload, ts\<close>
  | TagMsg string string "(string \<times> string) list option" int
  | ResultMsg BulkResultEvent

section \<open>Exports\<close>

text \<open>The data of \<open>internal/exporter\<close>: an export's entry, and the manager with its queue (the
  buffer of a channel) and its map of entries.\<close>

type_synonym ExportStatus = string

definition StatusPending :: ExportStatus where "StatusPending = ''pending''"
definition StatusRunning :: ExportStatus where "StatusRunning = ''running''"
definition StatusDone :: ExportStatus where "StatusDone = ''done''"
definition StatusFailed :: ExportStatus where "StatusFailed = ''failed''"

lemma export_status_distinct [simp]:
  "distinct [StatusPending, StatusRunning, StatusDone, StatusFailed]"
  by (simp add: StatusPending_def StatusRunning_def StatusDone_def StatusFailed_def)

record ExportResult =
  xr_ID :: string
  xr_Status :: ExportStatus
  xr_StorageID :: string
  xr_Error :: string
  xr_CreatedAt :: int
  xr_UpdatedAt :: int

record ExportManager =
  em_buf :: nat
  em_queue :: "string list"
  em_results :: "string \<rightharpoonup> ExportResult"

definition NewManager :: "nat \<Rightarrow> ExportManager" where
  "NewManager buf = \<lparr>em_buf = buf, em_queue = [], em_results = Map.empty\<rparr>"

section \<open>Interfaces\<close>

text \<open>The operations of \<open>ports.BatchRepository\<close>, \<open>ports.JobRepository\<close>,
  \<open>ports.BillingClient\<close>, \<open>ports.KafkaProducer\<close> and \<open>ports.ValidationRepository\<close>; the
  contexts they take carry only tracing.  A lookup may return a nil batch without an error.\<close>

record 'w BatchRepository =
  BatchRepo_Create :: "batch \<Rightarrow> ('w, go_error option) state"
  BatchRepo_GetByID :: "string \<Rightarrow> ('w, go_error + batch option) state"
  BatchRepo_Update :: "batch \<Rightarrow> ('w, go_error option) state"
  BatchRepo_List :: "BatchFilter \<Rightarrow> ('w, go_error + (batch list \<times> int)) state"
  BatchRepo_AdminStats :: "int option \<Rightarrow> int option \<Rightarrow> ('w, go_error + AdminStats option) state"

record 'w JobRepository =
  JobRepo_Create :: "job \<Rightarrow> ('w, go_error option) state"
  JobRepo_GetByBatch :: "string \<Rightarrow> ('w, go_error + job list) state"
  JobRepo_UpdateStatus :: "string \<Rightarrow> string \<Rightarrow> ('w, go_error option) state"
  JobRepo_GetResultsByBatch :: "string \<Rightarrow> ('w, go_error + JobResult list) state"
  JobRepo_UpdateBillingTransactionID :: "string \<Rightarrow> string option \<Rightarrow> ('w, go_error option) state"
  JobRepo_UpdateStatusWithResult :: "string \<Rightarrow> string \<Rightarrow> JobResult \<Rightarrow> ('w, go_error option) state"

record 'w BillingClient =
  Billing_Quote :: "string \<Rightarrow> int \<Rightarrow> ('w, go_error + QuoteResponse option) state"
  Billing_BlockBatch :: "string \<Rightarrow> int \<Rightarrow> string \<Rightarrow> ('w, go_error + string list option) state"
  Billing_RefundTransactions ::
    "string \<Rightarrow> string list \<Rightarrow> string \<Rightarrow> ('w, go_error option) state"

record 'w KafkaProducer =
  Producer_Publish :: "string \<Rightarrow> kafka_msg \<Rightarrow> ('w, go_error option) state"

record 'w ValidationRepository =
  ValRepo_GetValidationErrors :: "string \<Rightarrow> ('w, go_error + ValidationError list) state"

text \<open>What the process gets from its run-time: the clock, fresh UUIDs and the environment.\<close>

record 'w Runtime =
  Rt_Now :: "('w, int) state"
  Rt_NewUUID :: "('w, string) state"
  Rt_Getenv :: "string \<Rightarrow> string"
  Rt_UUIDParse :: "string \<Rightarrow> bool"

section \<open>Maps of strings as JSON\<close>

text \<open>\<open>json.Marshal\<close> writes a map with its keys sorted.\<close>

definition marshal_map :: "(string \<times> string) list \<Rightarrow> string" where
  "marshal_map m = json_print (JObj (map (\<lambda>(k, v). (k, JStr v)) (sort_key fst m)))"

text \<open>Decoding into a \<open>map[string]string\<close>: a null element is the empty string, a later
  duplicate wins, and an element of another type is an error.\<close>

definition map_elem :: "json \<Rightarrow> string option" where
  "map_elem j = (case j of JStr s \<Rightarrow> Some s | JNull \<Rightarrow> Some [] | _ \<Rightarrow> None)"

fun decode_elems :: "(string \<times> json) list \<Rightarrow> (string \<times> string) list \<Rightarrow> (string \<times> string) list option"
  where
  "decode_elems [] m = Some m"
| "decode_elems ((k, j) # kvs) m = (case map_elem j of
     None \<Rightarrow> None | Some s \<Rightarrow> decode_elems kvs (AList.update k s m))"

definition unmarshal_map :: "string \<Rightarrow> (string \<times> string) list option" where
  "unmarshal_map s = (case json_parse s of
     Some (JObj kvs) \<Rightarrow> decode_elems kvs []
   | Some JNull \<Rightarrow> Some []
   | _ \<Rightarrow> None)"

lemma decode_elems_strings:
  "\<exists>m'. decode_elems (map (\<lambda>(k, v). (k, JStr v)) kvs) m = Some m' \<and>
     map_of m' = map_of m ++ map_of (rev kvs)"
proof (induction kvs arbitrary: m)
  case (Cons kv kvs)
  obtain k v where kv: "kv = (k, v)" by (cases kv)
  have "map_of (AList.update k v m) ++ map_of (rev kvs) = map_of m ++ map_of (rev (kv # kvs))"
    by (rule ext) (auto simp: kv update_conv' map_add_def split: option.splits)
  with Cons [of "AList.update k v m"] show ?case
    by (simp add: kv map_elem_def)
qed simp

lemma map_of_same_pairs:
  "distinct (map fst m) \<Longrightarrow> mset n = mset m \<Longrightarrow> map_of n = map_of m"
  by (metis map_of_inject_set mset_eq_imp_distinct_iff mset_eq_setD mset_map)

lemma marshal_unmarshal_map:
  assumes "distinct (map fst m)"
  obtains m' where "unmarshal_map (marshal_map m) = Some m'" "map_of m' = map_of m"
proof -
  let ?s = "sort_key fst m"
  have "json_parse (marshal_map m) = Some (JObj (map (\<lambda>(k, v). (k, JStr v)) ?s))"
    unfolding marshal_map_def by (rule json_roundtrip) (auto simp: list_all_iff)
  moreover obtain m' where m': "decode_elems (map (\<lambda>(k, v). (k, JStr v)) ?s) [] = Some m'"
    "map_of m' = map_of (rev ?s)" using decode_elems_strings [of ?s "[]"] by auto
  moreover have "map_of (rev ?s) = map_of m"
    by (rule map_of_same_pairs [OF assms]) simp
  ultimately show thesis
    using that by (simp add: unmarshal_map_def)
qed

end
