(* ===== verification/Contracts.thy ===== *)
theory Contracts
  imports Domain
begin

text \<open>
  What the code above the adapters relies on: the contracts of the batch and job repositories
  and of the message producer, as locales over a world \<open>'w\<close> and a view of it.  The views are the
  stored batches, the table of jobs and the log of published messages.  The client lemmas of
  \<open>Manager\<close>, \<open>Service\<close> and \<open>Handlers\<close> are proved in these locales; \<open>Postgres\<close> and \<open>Kafka\<close>
  discharge the laws for the adapters of the code.
\<close>

section \<open>Batch store\<close>

text \<open>The part of a batch a store keeps: \<open>Priority\<close> and \<open>TimeoutMs\<close> are not among it, and a
  zero completion time is no completion time.\<close>

definition norm_time :: "int option \<Rightarrow> int option" where
  "norm_time t = (case t of Some x \<Rightarrow> if x = 0 then None else Some x | None \<Rightarrow> None)"

definition core :: "batch \<Rightarrow> batch" where
  "core b = b\<lparr>b_Priority := [], b_TimeoutMs := 0, b_CompletedAt := norm_time (b_CompletedAt b)\<rparr>"

text \<open>What an update with \<open>b\<close> makes of the stored batch \<open>old\<close>: owner, revision and creation time
  stay.\<close>

definition persisted :: "batch \<Rightarrow> batch \<Rightarrow> batch" where
  "persisted b old = core (b\<lparr>b_ID := b_ID old, b_UserID := b_UserID old,
     b_Revision := b_Revision old, b_CreatedAt := b_CreatedAt old\<rparr>)"

lemma core_sel [simp]:
  "b_ID (core b) = b_ID b" "b_UserID (core b) = b_UserID b" "b_Status (core b) = b_Status b"
  "b_Revision (core b) = b_Revision b" "b_FileStorageID (core b) = b_FileStorageID b"
  "b_TotalRows (core b) = b_TotalRows b" "b_ValidRows (core b) = b_ValidRows b"
  "b_CreatedAt (core b) = b_CreatedAt b" "b_ApprovedCount (core b) = b_ApprovedCount b"
  "b_CompletedCount (core b) = b_CompletedCount b" "b_FailedCount (core b) = b_FailedCount b"
  "b_CompletedAt (core b) = norm_time (b_CompletedAt b)"
  "b_BillingTransactionIDs (core b) = b_BillingTransactionIDs b"
  by (simp_all add: core_def)

lemma norm_time_idem [simp]: "norm_time (norm_time t) = norm_time t"
  by (simp add: norm_time_def split: option.split)

lemma core_core [simp]: "core (core b) = core b"
  by (simp add: core_def)

lemma persisted_sel [simp]:
  "b_ID (persisted b old) = b_ID old" "b_UserID (persisted b old) = b_UserID old"
  "b_Revision (persisted b old) = b_Revision old" "b_CreatedAt (persisted b old) = b_CreatedAt old"
  "b_Status (persisted b old) = b_Status b" "b_TotalRows (persisted b old) = b_TotalRows b"
  "b_ValidRows (persisted b old) = b_ValidRows b"
  "b_ApprovedCount (persisted b old) = b_ApprovedCount b"
  "b_CompletedCount (persisted b old) = b_CompletedCount b"
  "b_FailedCount (persisted b old) = b_FailedCount b"
  "b_FileStorageID (persisted b old) = b_FileStorageID b"
  "b_CompletedAt (persisted b old) = norm_time (b_CompletedAt b)"
  "b_BillingTransactionIDs (persisted b old) = b_BillingTransactionIDs b"
  by (simp_all add: persisted_def)

text \<open>An update that changes no owner field stores what it is given.\<close>

lemma persisted_same_owner:
  "b_ID b = b_ID old \<Longrightarrow> b_UserID b = b_UserID old \<Longrightarrow> b_Revision b = b_Revision old \<Longrightarrow>
    b_CreatedAt b = b_CreatedAt old \<Longrightarrow> persisted b old = core b"
  unfolding persisted_def by (rule arg_cong [where f = core]) simp

locale batch_store =
  fixes brepo :: "'w BatchRepository"
    and stored :: "'w \<Rightarrow> string \<Rightarrow> batch option"
  assumes get_found: "result (BatchRepo_GetByID brepo i) w = Inr x \<Longrightarrow>
      \<exists>b. x = Some b \<and> b_ID b = i \<and> stored w i = Some (core b)"
    and get_keeps: "keeps stored (BatchRepo_GetByID brepo i)"
    and update_ok: "result (BatchRepo_Update brepo b) w = None \<Longrightarrow>
      stored (after (BatchRepo_Update brepo b) w) =
        (stored w)(b_ID b := map_option (persisted b) (stored w (b_ID b)))"
    and update_failed: "result (BatchRepo_Update brepo b) w = Some err \<Longrightarrow>
      stored (after (BatchRepo_Update brepo b) w) = stored w"
    and create_ok: "result (BatchRepo_Create brepo b) w = None \<Longrightarrow> stored w (b_ID b) = None \<and>
      (\<exists>t. stored (after (BatchRepo_Create brepo b) w) =
        (stored w)(b_ID b \<mapsto> core (b\<lparr>b_CreatedAt := t, b_CompletedAt := None\<rparr>)))"
    and create_failed: "result (BatchRepo_Create brepo b) w = Some err \<Longrightarrow>
      stored (after (BatchRepo_Create brepo b) w) = stored w"
    and list_keeps: "keeps stored (BatchRepo_List brepo f)"
    and stats_keeps: "keeps stored (BatchRepo_AdminStats brepo from to)"
begin

text \<open>The read-modify-write step of every client: get a batch, change fields that are not owner
  fields, update.\<close>

lemma update_stored:
  assumes "stored w (b_ID b) = Some old" "b_UserID b = b_UserID old" "b_Revision b = b_Revision old"
    "b_CreatedAt b = b_CreatedAt old" "b_ID old = b_ID b"
    "result (BatchRepo_Update brepo b) w = None"
  shows "stored (after (BatchRepo_Update brepo b) w) = (stored w)(b_ID b \<mapsto> core b)"
  using assms by (simp add: update_ok persisted_same_owner)

lemma update_other:
  "i \<noteq> b_ID b \<Longrightarrow> stored (after (BatchRepo_Update brepo b) w) i = stored w i"
  by (cases "result (BatchRepo_Update brepo b) w") (simp_all add: update_ok update_failed)

end

section \<open>Job store\<close>

definition set_status :: "string \<Rightarrow> string \<Rightarrow> job \<Rightarrow> job" where
  "set_status i s j = (if j_ID j = i then j\<lparr>j_Status := s\<rparr> else j)"

definition set_tx :: "string \<Rightarrow> string option \<Rightarrow> job \<Rightarrow> job" where
  "set_tx i t j = (if j_ID j = i then j\<lparr>j_BillingTransactionID := t\<rparr> else j)"

lemma set_status_sel [simp]:
  "j_ID (set_status i s j) = j_ID j" "j_BatchID (set_status i s j) = j_BatchID j"
  "j_RowNumber (set_status i s j) = j_RowNumber j" "j_InputData (set_status i s j) = j_InputData j"
  "j_Status (set_status i s j) = (if j_ID j = i then s else j_Status j)"
  "j_BillingTransactionID (set_status i s j) = j_BillingTransactionID j"
  by (simp_all add: set_status_def)

lemma set_tx_sel [simp]:
  "j_ID (set_tx i t j) = j_ID j" "j_BatchID (set_tx i t j) = j_BatchID j"
  "j_Status (set_tx i t j) = j_Status j" "j_RowNumber (set_tx i t j) = j_RowNumber j"
  "j_BillingTransactionID (set_tx i t j) = (if j_ID j = i then t else j_BillingTransactionID j)"
  by (simp_all add: set_tx_def)

locale job_store =
  fixes jrepo :: "'w JobRepository"
    and jobs :: "'w \<Rightarrow> job list"
  assumes by_batch: "result (JobRepo_GetByBatch jrepo i) w = Inr js \<Longrightarrow>
      mset js = mset (filter (\<lambda>j. j_BatchID j = i) (jobs w))"
    and by_batch_keeps: "keeps jobs (JobRepo_GetByBatch jrepo i)"
    and results_keeps: "keeps jobs (JobRepo_GetResultsByBatch jrepo i)"
    and status_ok: "result (JobRepo_UpdateStatus jrepo i s) w = None \<Longrightarrow>
      jobs (after (JobRepo_UpdateStatus jrepo i s) w) = map (set_status i s) (jobs w)"
    and status_failed: "result (JobRepo_UpdateStatus jrepo i s) w = Some err \<Longrightarrow>
      jobs (after (JobRepo_UpdateStatus jrepo i s) w) = jobs w"
    and tx_ok: "result (JobRepo_UpdateBillingTransactionID jrepo i t) w = None \<Longrightarrow>
      jobs (after (JobRepo_UpdateBillingTransactionID jrepo i t) w) = map (set_tx i t) (jobs w)"
    and tx_failed: "result (JobRepo_UpdateBillingTransactionID jrepo i t) w = Some err \<Longrightarrow>
      jobs (after (JobRepo_UpdateBillingTransactionID jrepo i t) w) = jobs w"
    and result_ok: "result (JobRepo_UpdateStatusWithResult jrepo i s r) w = None \<Longrightarrow>
      jobs (after (JobRepo_UpdateStatusWithResult jrepo i s r) w) =
        map (set_tx i (if r_BillingTransactionID r = [] then None else Some (r_BillingTransactionID r))
          \<circ> set_status i s) (jobs w)"
    and result_failed: "result (JobRepo_UpdateStatusWithResult jrepo i s r) w = Some err \<Longrightarrow>
      jobs (after (JobRepo_UpdateStatusWithResult jrepo i s r) w) = jobs w"
    and job_create_ok: "result (JobRepo_Create jrepo j) w = None \<Longrightarrow> j_ID j \<notin> j_ID ` set (jobs w) \<and>
      (\<exists>d. jobs (after (JobRepo_Create jrepo j) w) = jobs w @ [j\<lparr>j_InputData := d\<rparr>])"
    and job_create_failed: "result (JobRepo_Create jrepo j) w = Some err \<Longrightarrow>
      jobs (after (JobRepo_Create jrepo j) w) = jobs w"
begin

lemma status_jobs: "jobs (after (JobRepo_UpdateStatus jrepo i s) w) =
    (if result (JobRepo_UpdateStatus jrepo i s) w = None then map (set_status i s) (jobs w) else jobs w)"
  by (cases "result (JobRepo_UpdateStatus jrepo i s) w") (simp_all add: status_ok status_failed)

text \<open>Job ids stay distinct: the primary key.\<close>

lemma status_distinct:
  "distinct (map j_ID (jobs w)) \<Longrightarrow> distinct (map j_ID (jobs (after (JobRepo_UpdateStatus jrepo i s) w)))"
  by (simp add: status_jobs comp_def)

lemma create_distinct:
  "distinct (map j_ID (jobs w)) \<Longrightarrow> distinct (map j_ID (jobs (after (JobRepo_Create jrepo j) w)))"
  using job_create_ok [of j w] job_create_failed [of j w]
  by (cases "result (JobRepo_Create jrepo j) w") auto

lemma by_batch_member:
  "result (JobRepo_GetByBatch jrepo i) w = Inr js \<Longrightarrow>
    j \<in> set js \<longleftrightarrow> j \<in> set (jobs w) \<and> j_BatchID j = i"
  by (metis (mono_tags, lifting) by_batch mem_Collect_eq mset_eq_setD set_filter)

end

section \<open>Message log\<close>

locale event_bus =
  fixes producer :: "'w KafkaProducer"
    and events :: "'w \<Rightarrow> (string \<times> kafka_msg) list"
  assumes publish_ok: "result (Producer_Publish producer t m) w = None \<Longrightarrow>
      events (after (Producer_Publish producer t m) w) = events w @ [(t, m)]"
    and publish_failed: "result (Producer_Publish producer t m) w = Some err \<Longrightarrow>
      events (after (Producer_Publish producer t m) w) = events w"
begin

lemma publish_events: "events (after (Producer_Publish producer t m) w) =
    (if result (Producer_Publish producer t m) w = None then events w @ [(t, m)] else events w)"
  by (cases "result (Producer_Publish producer t m) w") (simp_all add: publish_ok publish_failed)

end

section \<open>Billing calls\<close>

datatype outcall =
    CallQuote string int                        \<comment> \<open>userId, units\<close>
  | CallBlock string int string                 \<comment> \<open>userId, units, batchId\<close>
  | CallRefund string "string list" string      \<comment> \<open>userId, transactions, batchId\<close>
  | CallValidate "(string \<times> string) list" string   \<comment> \<open>fields, revision\<close>

text \<open>Every operation of the client is one request, whatever its answer.\<close>

locale billing_account =
  fixes bclient :: "'w BillingClient"
    and calls :: "'w \<Rightarrow> outcall list"
  assumes quote_calls: "calls (after (Billing_Quote bclient u n) w) = calls w @ [CallQuote u n]"
    and block_calls: "calls (after (Billing_BlockBatch bclient u n i) w) = calls w @ [CallBlock u n i]"
    and refund_calls: "calls (after (Billing_RefundTransactions bclient u ts i) w) =
      calls w @ [CallRefund u ts i]"

section \<open>The interfaces together\<close>

text \<open>Three views at once.\<close>

definition views :: "('w \<Rightarrow> 'a) \<Rightarrow> ('w \<Rightarrow> 'b) \<Rightarrow> ('w \<Rightarrow> 'c) \<Rightarrow> 'w \<Rightarrow> 'a \<times> 'b \<times> 'c" where
  "views f g h w = (f w, g w, h w)"

lemma keeps_views [frame_intros]:
  "keeps f m \<Longrightarrow> keeps g m \<Longrightarrow> keeps h m \<Longrightarrow> keeps (views f g h) m"
  by (simp add: keeps_def views_def)

lemma views_eq: "views f g h w = (S, J, C) \<longleftrightarrow> f w = S \<and> g w = J \<and> h w = C"
  by (simp add: views_def)


text \<open>No operation of one interface touches the view of another, and a job is created only for a
  stored batch: the foreign key.\<close>

locale stores = batch_store brepo stored + job_store jrepo jobs
  for brepo :: "'w BatchRepository" and stored and jrepo :: "'w JobRepository" and jobs +
  assumes batch_ops_keep_jobs [frame_intros]:
      "keeps jobs (BatchRepo_GetByID brepo i)" "keeps jobs (BatchRepo_Update brepo b)"
      "keeps jobs (BatchRepo_Create brepo b)" "keeps jobs (BatchRepo_List brepo f)"
    and job_ops_keep_batches [frame_intros]:
      "keeps stored (JobRepo_GetByBatch jrepo i)" "keeps stored (JobRepo_UpdateStatus jrepo i s)"
      "keeps stored (JobRepo_Create jrepo j)"
      "keeps stored (JobRepo_UpdateBillingTransactionID jrepo i x)"
      "keeps stored (JobRepo_UpdateStatusWithResult jrepo i s r)"
      "keeps stored (JobRepo_GetResultsByBatch jrepo i)"
    and job_create_key: "result (JobRepo_Create jrepo j) w = None \<Longrightarrow> stored w (j_BatchID j) \<noteq> None"

text \<open>The run-time's clock and identifiers change no view.\<close>

locale platform = stores brepo stored jrepo jobs + event_bus producer events
    + billing_account bclient calls
  for brepo :: "'w BatchRepository" and stored and jrepo :: "'w JobRepository" and jobs
    and producer :: "'w KafkaProducer" and events
    and bclient :: "'w BillingClient" and calls +
  fixes rt :: "'w Runtime"
  assumes publish_keeps [frame_intros]:
      "keeps stored (Producer_Publish producer t m)" "keeps jobs (Producer_Publish producer t m)"
      "keeps calls (Producer_Publish producer t m)"
    and stores_keep_events [frame_intros]:
      "keeps events (BatchRepo_GetByID brepo i)" "keeps events (BatchRepo_Update brepo b)"
      "keeps events (BatchRepo_Create brepo b)"
      "keeps events (JobRepo_GetByBatch jrepo i)" "keeps events (JobRepo_UpdateStatus jrepo i s)"
      "keeps events (JobRepo_Create jrepo j)"
      "keeps events (JobRepo_UpdateBillingTransactionID jrepo i x)"
      "keeps events (JobRepo_UpdateStatusWithResult jrepo i s r)"
    and stores_keep_calls [frame_intros]:
      "keeps calls (BatchRepo_GetByID brepo i)" "keeps calls (BatchRepo_Update brepo b)"
      "keeps calls (BatchRepo_Create brepo b)"
      "keeps calls (JobRepo_GetByBatch jrepo i)" "keeps calls (JobRepo_UpdateStatus jrepo i s)"
      "keeps calls (JobRepo_Create jrepo j)"
      "keeps calls (JobRepo_UpdateBillingTransactionID jrepo i x)"
      "keeps calls (JobRepo_UpdateStatusWithResult jrepo i s r)"
    and billing_keeps [frame_intros]:
      "keeps stored (Billing_Quote bclient u n)" "keeps jobs (Billing_Quote bclient u n)"
      "keeps events (Billing_Quote bclient u n)"
      "keeps stored (Billing_BlockBatch bclient u n i)" "keeps jobs (Billing_BlockBatch bclient u n i)"
      "keeps events (Billing_BlockBatch bclient u n i)"
      "keeps stored (Billing_RefundTransactions bclient u ts i)"
      "keeps jobs (Billing_RefundTransactions bclient u ts i)"
      "keeps events (Billing_RefundTransactions bclient u ts i)"
    and runtime_keeps [frame_intros]:
      "keeps stored (Rt_Now rt)" "keeps jobs (Rt_Now rt)" "keeps events (Rt_Now rt)"
      "keeps calls (Rt_Now rt)"
      "keeps stored (Rt_NewUUID rt)" "keeps jobs (Rt_NewUUID rt)" "keeps events (Rt_NewUUID rt)"
      "keeps calls (Rt_NewUUID rt)"

end
