(* ===== verification/JsonDecode.thy ===== *)
theory JsonDecode
  imports GoJson
begin

text \<open>
  Decoding of JSON into Go values, as \<open>encoding/json\<close> does it for the types of the code: a null
  leaves the current value, a value of another type is an error, object keys match field names
  without regard to letter case, unknown keys are skipped and a repeated key is decoded again.
  Every caller drops the target of a failed decoding, so an error is None.
\<close>

section \<open>Values\<close>

definition dec_string :: "json \<Rightarrow> string \<Rightarrow> string option" where
  "dec_string j cur = (case j of JStr s \<Rightarrow> Some s | JNull \<Rightarrow> Some cur | _ \<Rightarrow> None)"

definition dec_bool :: "json \<Rightarrow> bool \<Rightarrow> bool option" where
  "dec_bool j cur = (case j of JBool b \<Rightarrow> Some b | JNull \<Rightarrow> Some cur | _ \<Rightarrow> None)"

definition dec_int :: "json \<Rightarrow> int \<Rightarrow> int option" where
  "dec_int j cur = (case j of
     JNum l \<Rightarrow> (case lit_int l of Some n \<Rightarrow> if in_int64 n then Some n else None | None \<Rightarrow> None)
   | JNull \<Rightarrow> Some cur | _ \<Rightarrow> None)"

definition dec_float :: "json \<Rightarrow> rat \<Rightarrow> rat option" where
  "dec_float j cur = (case j of JNum l \<Rightarrow> lit_rat l | JNull \<Rightarrow> Some cur | _ \<Rightarrow> None)"

fun dec_all :: "(json \<Rightarrow> 'a option) \<Rightarrow> json list \<Rightarrow> 'a list option" where
  "dec_all d [] = Some []"
| "dec_all d (j # js) = (case d j of None \<Rightarrow> None | Some x \<Rightarrow> map_option (Cons x) (dec_all d js))"

definition dec_strings :: "json \<Rightarrow> string list \<Rightarrow> string list option" where
  "dec_strings j cur = (case j of
     JArr js \<Rightarrow> dec_all (\<lambda>x. dec_string x []) js | JNull \<Rightarrow> Some [] | _ \<Rightarrow> None)"

section \<open>Structs and maps\<close>

text \<open>\<open>step\<close> gets the key in lower case.\<close>

fun dec_fields :: "(string \<Rightarrow> json \<Rightarrow> 'r \<Rightarrow> 'r option) \<Rightarrow> (string \<times> json) list \<Rightarrow> 'r \<Rightarrow> 'r option" where
  "dec_fields step [] r = Some r"
| "dec_fields step ((k, j) # kvs) r = (case step (ToLower k) j r of
     None \<Rightarrow> None | Some r' \<Rightarrow> dec_fields step kvs r')"

definition dec_struct :: "(string \<Rightarrow> json \<Rightarrow> 'r \<Rightarrow> 'r option) \<Rightarrow> json \<Rightarrow> 'r \<Rightarrow> 'r option" where
  "dec_struct step j r = (case j of JObj kvs \<Rightarrow> dec_fields step kvs r | JNull \<Rightarrow> Some r | _ \<Rightarrow> None)"

definition dec_map :: "(json \<Rightarrow> 'a option) \<Rightarrow> json \<Rightarrow> (string \<times> 'a) list option" where
  "dec_map d j = (case j of
     JObj kvs \<Rightarrow> map_option (\<lambda>vs. fold (\<lambda>(k, v) m. AList.update k v m) (zip (map fst kvs) vs) [])
       (dec_all d (map snd kvs))
   | JNull \<Rightarrow> Some [] | _ \<Rightarrow> None)"

text \<open>\<open>Decoder.Decode\<close> reads the first value of a stream.\<close>

definition json_first :: "string \<Rightarrow> json option" where
  "json_first s = map_option fst (pval (2 * length s + 1) s)"

lemma dec_all_length: "dec_all d js = Some xs \<Longrightarrow> length xs = length js"
  by (induction js arbitrary: xs) (auto split: option.splits)

lemma dec_fields_append: "dec_fields step (xs @ ys) r =
    (case dec_fields step xs r of None \<Rightarrow> None | Some r' \<Rightarrow> dec_fields step ys r')"
  by (induction xs arbitrary: r) (auto split: option.splits)

lemma dec_strings_JStr: "dec_strings (JArr (map JStr xs)) cur = Some xs"
proof -
  have "dec_all (\<lambda>x. dec_string x []) (map JStr xs) = Some xs"
    by (induction xs) (simp_all add: dec_string_def)
  then show ?thesis by (simp add: dec_strings_def)
qed

lemma dec_int_Itoa [simp]: "in_int64 n \<Longrightarrow> dec_int (JNum (Itoa n)) cur = Some n"
  by (simp add: dec_int_def)

lemma json_first_print: "json_ok j \<Longrightarrow> json_first (json_print j) = Some j"
  using json_roundtrip [of j] by (auto simp: json_first_def json_parse_def split: option.splits if_splits)

end
