(* ===== verification/BulkLimits.thy ===== *)
theory BulkLimits
  imports Domain
begin

text \<open>
  \<open>internal/config\<close>, \<open>internal/limits\<close> and \<open>internal/transport/http/handlers/limits.go\<close>: the
  configuration read from the environment, the limits in force, and the two ways they change.  The
  environment is a function from names to values, with \<open>[]\<close> for an unset variable;
  \<open>time.ParseDuration\<close> is a parameter, with durations in nanoseconds.
\<close>

section \<open>Configuration\<close>

record Config =
  cfg_Port :: int
  cfg_Host :: string
  cfg_ReadTimeout :: int
  cfg_WriteTimeout :: int
  cfg_Name :: string
  cfg_Version :: string
  cfg_LogLevel :: string
  cfg_LogFormat :: string
  cfg_BFFURL :: string
  cfg_BFFTimeout :: int
  cfg_RetryAttempts :: int
  cfg_ServiceToken :: string
  cfg_Brokers :: string
  cfg_BulkJobTopic :: string
  cfg_BulkResultTopic :: string
  cfg_BulkStatusTopic :: string
  cfg_ConsumerGroup :: string
  cfg_DatabaseURL :: string
  cfg_StatsInterval :: int
  cfg_MaxOpenConns :: int
  cfg_MaxIdleConns :: int
  cfg_RedisURL :: string
  cfg_PoolSize :: int
  cfg_MaxFileSizeMB :: int
  cfg_MaxRowsPerBatch :: int
  cfg_MaxConcurrentBatches :: int
  cfg_MaxBatchesPerHour :: int

definition Second :: int where "Second = 1000000000"

text \<open>A text with a default for an unset variable; a number or duration with a value for text that
  does not parse and one for an unset variable.\<close>

definition env_str :: "(string \<Rightarrow> string) \<Rightarrow> string \<Rightarrow> string \<Rightarrow> string" where
  "env_str getenv k d = (if getenv k \<noteq> [] then getenv k else d)"

definition env_val :: "(string \<Rightarrow> string) \<Rightarrow> (string \<Rightarrow> int option) \<Rightarrow> string \<Rightarrow> int \<Rightarrow> int \<Rightarrow> int" where
  "env_val getenv parse k bad unset = (if getenv k \<noteq> []
     then (case parse (getenv k) of Some n \<Rightarrow> n | None \<Rightarrow> bad) else unset)"

definition LoadConfigFromEnv :: "(string \<Rightarrow> int option) \<Rightarrow> (string \<Rightarrow> string) \<Rightarrow> Config" where
  "LoadConfigFromEnv ParseDuration getenv = \<lparr>
     cfg_Port = env_val getenv Atoi ''SERVER_PORT'' 0 8080,
     cfg_Host = env_str getenv ''SERVER_HOST'' ''0.0.0.0'',
     cfg_ReadTimeout = env_val getenv ParseDuration ''SERVER_READ_TIMEOUT'' (30 * Second) (30 * Second),
     cfg_WriteTimeout = env_val getenv ParseDuration ''SERVER_WRITE_TIMEOUT'' (60 * Second) (60 * Second),
     cfg_Name = env_str getenv ''SERVICE_NAME'' ''bulk-service'',
     cfg_Version = env_str getenv ''SERVICE_VERSION'' ''unknown'',
     cfg_LogLevel = env_str getenv ''LOG_LEVEL'' ''info'',
     cfg_LogFormat = env_str getenv ''LOG_FORMAT'' ''json'',
     cfg_BFFURL = getenv ''BFF_URL'',
     cfg_BFFTimeout = env_val getenv ParseDuration ''BFF_TIMEOUT'' (30 * Second) (30 * Second),
     cfg_RetryAttempts = env_val getenv Atoi ''BFF_RETRY_ATTEMPTS'' 3 3,
     cfg_ServiceToken = getenv ''BFF_SERVICE_TOKEN'',
     cfg_Brokers = env_str getenv ''KAFKA_BROKERS'' [],
     cfg_BulkJobTopic = [],
     cfg_BulkResultTopic = [],
     cfg_BulkStatusTopic = [],
     cfg_ConsumerGroup = [],
     cfg_DatabaseURL = getenv ''DATABASE_URL'',
     cfg_StatsInterval = env_val getenv ParseDuration ''DB_STATS_INTERVAL'' (10 * Second) (10 * Second),
     cfg_MaxOpenConns = env_val getenv Atoi ''DATABASE_MAX_OPEN_CONNS'' 25 25,
     cfg_MaxIdleConns = env_val getenv Atoi ''DATABASE_MAX_IDLE_CONNS'' 5 5,
     cfg_RedisURL = env_str getenv ''REDIS_URL'' ''redis://redis:6379/0'',
     cfg_PoolSize = env_val getenv Atoi ''REDIS_POOL_SIZE'' 10 10,
     cfg_MaxFileSizeMB = env_val getenv Atoi ''MAX_FILE_SIZE_MB'' 0 0,
     cfg_MaxRowsPerBatch = 0,
     cfg_MaxConcurrentBatches = 0,
     cfg_MaxBatchesPerHour = env_val getenv Atoi ''MAX_BATCHES_PER_HOUR'' 0 10\<rparr>"

section \<open>Limits\<close>

record Limits =
  lim_MaxFileSize :: int
  lim_MaxRowsPerBatch :: int
  lim_MaxConcurrentBatches :: int
  lim_MaxBatchesPerHour :: int

definition initial_limits :: Limits where
  "initial_limits = \<lparr>lim_MaxFileSize = 10 * 1024 * 1024, lim_MaxRowsPerBatch = 1000,
     lim_MaxConcurrentBatches = 5, lim_MaxBatchesPerHour = 10\<rparr>"

text \<open>The store under its mutex: \<open>Get\<close> reads it, \<open>Set\<close> replaces it.\<close>

definition limits_Get :: "(Limits, Limits) state" where
  "limits_Get = State_Monad.get"

definition limits_Set :: "Limits \<Rightarrow> (Limits, unit) state" where
  "limits_Set l = State_Monad.set l"

definition if_positive :: "int \<Rightarrow> int \<Rightarrow> int" where
  "if_positive new old = (if 0 < new then new else old)"

definition UpdateIfPositive :: "Limits \<Rightarrow> (Limits, unit) state" where
  "UpdateIfPositive l = do {
     v \<leftarrow> State_Monad.get;
     State_Monad.set \<lparr>lim_MaxFileSize = if_positive (lim_MaxFileSize l) (lim_MaxFileSize v),
       lim_MaxRowsPerBatch = if_positive (lim_MaxRowsPerBatch l) (lim_MaxRowsPerBatch v),
       lim_MaxConcurrentBatches = if_positive (lim_MaxConcurrentBatches l) (lim_MaxConcurrentBatches v),
       lim_MaxBatchesPerHour = if_positive (lim_MaxBatchesPerHour l) (lim_MaxBatchesPerHour v)\<rparr>
   }"

definition SetDefaultLimitsFromConfig :: "Config option \<Rightarrow> (Limits, unit) state" where
  "SetDefaultLimitsFromConfig cfg = (case cfg of
     None \<Rightarrow> State_Monad.return ()
   | Some c \<Rightarrow> UpdateIfPositive \<lparr>
       lim_MaxFileSize = (if 0 < cfg_MaxFileSizeMB c
         then int64 (int64 (cfg_MaxFileSizeMB c * 1024) * 1024) else 0),
       lim_MaxRowsPerBatch = if_positive (cfg_MaxRowsPerBatch c) 0,
       lim_MaxConcurrentBatches = if_positive (cfg_MaxConcurrentBatches c) 0,
       lim_MaxBatchesPerHour = if_positive (cfg_MaxBatchesPerHour c) 0\<rparr>)"

text \<open>\<open>HandlePutBulkLimits\<close>, on the decoded body, None when it does not decode: the status and the
  limits in the answer.\<close>

definition HandlePutBulkLimits :: "Limits option \<Rightarrow> (Limits, int \<times> Limits option) state" where
  "HandlePutBulkLimits req = (case req of
     None \<Rightarrow> State_Monad.return (400, None)
   | Some r \<Rightarrow>
       if lim_MaxFileSize r \<le> 0 \<or> lim_MaxRowsPerBatch r \<le> 0 \<or> lim_MaxConcurrentBatches r \<le> 0 \<or>
          lim_MaxBatchesPerHour r \<le> 0
       then State_Monad.return (400, None)
       else do {
         UpdateIfPositive r;
         l \<leftarrow> limits_Get;
         State_Monad.return (200, Some l)
       })"

definition HandleGetBulkLimits :: "(Limits, int \<times> Limits option) state" where
  "HandleGetBulkLimits = do { l \<leftarrow> limits_Get; State_Monad.return (200, Some l) }"

definition limits_ok :: "Limits \<Rightarrow> bool" where
  "limits_ok l \<longleftrightarrow> 0 < lim_MaxFileSize l \<and> 0 < lim_MaxRowsPerBatch l \<and>
     0 < lim_MaxConcurrentBatches l \<and> 0 < lim_MaxBatchesPerHour l"

text \<open>A change of the limits while the service runs: the defaults at start-up, or a request.\<close>

inductive limits_step :: "Limits \<Rightarrow> Limits \<Rightarrow> bool" where
  startup: "limits_step l (after (SetDefaultLimitsFromConfig c) l)"
| request: "limits_step l (after (HandlePutBulkLimits r) l)"

inductive_cases limits_stepE: "limits_step l l'"

lemma update_ok: "limits_ok l \<Longrightarrow> limits_ok (after (UpdateIfPositive r) l)"
  by (simp add: UpdateIfPositive_def limits_ok_def if_positive_def)

lemma limits_step_ok: "limits_step l l' \<Longrightarrow> limits_ok l \<Longrightarrow> limits_ok l'"
  by (elim limits_stepE)
    (auto simp: SetDefaultLimitsFromConfig_def HandlePutBulkLimits_def limits_Get_def update_ok
      split: option.splits)

section \<open>Properties\<close>

text \<open>Whatever sequence of configurations and requests the service receives, the limits in force
  stay positive.\<close>

theorem limits_stay_positive:
  assumes "limits_step\<^sup>*\<^sup>* initial_limits l"
  shows "limits_ok l"
  using assms
proof (induction rule: rtranclp_induct)
  case base
  show ?case by (simp add: initial_limits_def limits_ok_def)
next
  case (step y z)
  then show ?case by (intro limits_step_ok [of y z])
qed

theorem limits_stay_positive_witness:
  "limits_ok (after (HandlePutBulkLimits (Some (initial_limits\<lparr>lim_MaxRowsPerBatch := 7\<rparr>))) initial_limits)"
  by (rule limits_stay_positive) (rule r_into_rtranclp, rule limits_step.request)

text \<open>A request with four positive limits is answered 200 with exactly these limits, which are
  then in force; any other is answered 400 and changes nothing.\<close>

theorem put_limits:
  "run_state (HandlePutBulkLimits req) l = (case req of
     Some r \<Rightarrow> if limits_ok r then ((200, Some r), r) else ((400, None), l)
   | None \<Rightarrow> ((400, None), l))"
  by (auto simp: HandlePutBulkLimits_def limits_ok_def UpdateIfPositive_def limits_Get_def
      if_positive_def split: option.split)

text \<open>The Kafka topics and the consumer group are never read, whatever the environment says, and the
  defaults documented for them are not set; a bad port becomes 0.\<close>

lemma topics_not_loaded:
  "cfg_BulkStatusTopic (LoadConfigFromEnv pd getenv) = []"
  "cfg_BulkResultTopic (LoadConfigFromEnv pd getenv) = []"
  "cfg_ConsumerGroup (LoadConfigFromEnv pd getenv) = []"
  "cfg_MaxRowsPerBatch (LoadConfigFromEnv pd getenv) = 0"
  by (simp_all add: LoadConfigFromEnv_def)

end
