(* ===== verification/Store.thy ===== *)
theory Store
  imports Contracts JsonDecode BulkLimits
begin

text \<open>
  The world the service runs in and the database part of it: the tables of
  \<open>migrations/001_init.sql\<close>, the SQL of \<open>internal/adapters/postgres\<close> and the wrappers of
  \<open>internal/repo\<close>.

  The code's SQL statements are translated to operations on tables of rows.  What the server
  and the other services decide is the environment \<open>env\<close>: whether a statement fails and how, the
  order of rows that a query leaves open, which texts are UUIDs and RFC 3339 times, the clock and
  fresh UUIDs.  Each consultation takes a new tick of the world, so that two runs of the same
  statement may answer differently.  A statement that fails has no effect.  Column types other
  than UUID and JSONB restrict nothing here: a value one of them rejects is a statement that
  fails.  JSONB columns hold parsed values and are read back as text.
\<close>

section \<open>Rows, world and environment\<close>

record batch_row =
  br_id :: string
  br_user_id :: "string option"
  br_status :: string
  br_revision :: string
  br_file_storage_id :: "string option"
  br_total_rows :: int
  br_valid_rows :: int
  br_approved_count :: int
  br_completed_count :: int
  br_failed_count :: int
  br_created_at :: int
  br_completed_at :: "int option"
  br_transaction_ids :: "json option"

record job_row =
  jr_id :: string
  jr_batch_id :: string
  jr_row_number :: int
  jr_status :: string
  jr_input_data :: json
  jr_build_id :: "string option"
  jr_barcode_urls :: "json option"
  jr_error_code :: "string option"
  jr_error_message :: "string option"
  jr_billing_transaction_id :: "string option"

record verr_row =
  vr_batch_id :: string
  vr_row_number :: int
  vr_field :: "string option"
  vr_error_code :: "string option"
  vr_error_message :: "string option"
  vr_original_value :: "string option"

datatype http_reply = Unreachable string | Reply int string   \<comment> \<open>status and body\<close>

record world =
  wBatches :: "batch_row list"
  wJobs :: "job_row list"
  wErrors :: "verr_row list"
  wLog :: "(string \<times> kafka_msg) list"
  wCalls :: "outcall list"
  wLimits :: Limits
  wExports :: ExportManager
  wTick :: nat

record env =
  eDB :: "nat \<Rightarrow> string option"
  eBatchOrder :: "nat \<Rightarrow> batch_row list \<Rightarrow> batch_row list"
  eJobOrder :: "nat \<Rightarrow> job_row list \<Rightarrow> job_row list"
  eErrorOrder :: "nat \<Rightarrow> verr_row list \<Rightarrow> verr_row list"
  eUUIDok :: "string \<Rightarrow> bool"
  eTimeRFC3339 :: "string \<Rightarrow> int option"
  eNow :: "nat \<Rightarrow> int"
  eUUID :: "nat \<Rightarrow> string"
  eGetenv :: "string \<Rightarrow> string"
  eKafka :: "nat \<Rightarrow> string option"
  eHTTP :: "nat \<Rightarrow> string \<Rightarrow> string \<Rightarrow> http_reply"       \<comment> \<open>path and body\<close>

definition tick :: "(world, nat) state" where
  "tick = do {
     w \<leftarrow> State_Monad.get;
     State_Monad.set (w\<lparr>wTick := Suc (wTick w)\<rparr>);
     State_Monad.return (wTick w)
   }"

lemma tick_run [run_simps]: "result tick w = wTick w" "after tick w = w\<lparr>wTick := Suc (wTick w)\<rparr>"
  by (simp_all add: tick_def)

definition runtime_of :: "env \<Rightarrow> world Runtime" where
  "runtime_of e = \<lparr>
     Rt_Now = do { n \<leftarrow> tick; State_Monad.return (eNow e n) },
     Rt_NewUUID = do { n \<leftarrow> tick; State_Monad.return (eUUID e n) },
     Rt_Getenv = eGetenv e,
     Rt_UUIDParse = eUUIDok e\<rparr>"

section \<open>Statements\<close>

text \<open>A query returns rows and leaves the tables; \<open>Exec\<close> changes them.  The order of a result
  that the statement does not sort is \<open>arrange\<close>d by the environment.\<close>

definition db_query :: "env \<Rightarrow> (nat \<Rightarrow> world \<Rightarrow> go_error + 'a) \<Rightarrow> (world, go_error + 'a) state" where
  "db_query e f = do {
     n \<leftarrow> tick;
     w \<leftarrow> State_Monad.get;
     State_Monad.return (case eDB e n of Some s \<Rightarrow> Inl (ErrExternal s) | None \<Rightarrow> f n w)
   }"

definition db_exec :: "env \<Rightarrow> (nat \<Rightarrow> world \<Rightarrow> go_error + world) \<Rightarrow> (world, go_error option) state" where
  "db_exec e f = do {
     n \<leftarrow> tick;
     w \<leftarrow> State_Monad.get;
     (case eDB e n of
        Some s \<Rightarrow> State_Monad.return (Some (ErrExternal s))
      | None \<Rightarrow> (case f n w of
            Inl err \<Rightarrow> State_Monad.return (Some err)
          | Inr w' \<Rightarrow> do { State_Monad.set w'; State_Monad.return None }))
   }"

definition arrange :: "('a list \<Rightarrow> 'a list) \<Rightarrow> 'a list \<Rightarrow> 'a list" where
  "arrange f xs = (if mset (f xs) = mset xs then f xs else xs)"

lemma mset_arrange [simp]: "mset (arrange f xs) = mset xs"
  by (simp add: arrange_def)

lemma set_arrange [simp]: "set (arrange f xs) = set xs"
  by (metis mset_arrange set_mset_mset)

lemma length_arrange [simp]: "length (arrange f xs) = length xs"
  by (metis mset_arrange size_mset)

lemma after_db_query [run_simps]: "after (db_query e f) w = w\<lparr>wTick := Suc (wTick w)\<rparr>"
  by (simp add: db_query_def run_simps)

lemma result_db_query [run_simps]:
  "result (db_query e f) w = (case eDB e (wTick w) of
     Some s \<Rightarrow> Inl (ErrExternal s) | None \<Rightarrow> f (wTick w) (w\<lparr>wTick := Suc (wTick w)\<rparr>))"
  by (simp add: db_query_def run_simps split: option.split)

lemma run_db_exec:
  "(result (db_exec e f) w, after (db_exec e f) w) = (let w1 = w\<lparr>wTick := Suc (wTick w)\<rparr> in
     case eDB e (wTick w) of
       Some s \<Rightarrow> (Some (ErrExternal s), w1)
     | None \<Rightarrow> (case f (wTick w) w1 of Inl err \<Rightarrow> (Some err, w1) | Inr w' \<Rightarrow> (None, w')))"
  by (simp add: db_exec_def run_simps split: option.split sum.split)

lemma result_db_exec [run_simps]:
  "result (db_exec e f) w = (case eDB e (wTick w) of
     Some s \<Rightarrow> Some (ErrExternal s)
   | None \<Rightarrow> (case f (wTick w) (w\<lparr>wTick := Suc (wTick w)\<rparr>) of Inl err \<Rightarrow> Some err | Inr w' \<Rightarrow> None))"
  by (simp add: db_exec_def run_simps split: option.split sum.split)

lemma after_db_exec [run_simps]:
  "after (db_exec e f) w = (let w1 = w\<lparr>wTick := Suc (wTick w)\<rparr> in
     case eDB e (wTick w) of
       Some s \<Rightarrow> w1
     | None \<Rightarrow> (case f (wTick w) w1 of Inl err \<Rightarrow> w1 | Inr w' \<Rightarrow> w'))"
  by (simp add: db_exec_def run_simps split: option.split sum.split)

text \<open>A failed statement leaves the tables; what a statement never touches, it keeps.\<close>

lemma db_exec_failed: "result (db_exec e f) w \<noteq> None \<Longrightarrow>
    after (db_exec e f) w = w\<lparr>wTick := Suc (wTick w)\<rparr>"
  by (auto simp: run_simps split: option.splits sum.splits)

lemma keeps_tick: "(\<And>w n. v (w\<lparr>wTick := n\<rparr>) = v w) \<Longrightarrow> keeps v tick"
  by (simp add: keeps_def run_simps)

lemma keeps_db_query: "(\<And>w n. v (w\<lparr>wTick := n\<rparr>) = v w) \<Longrightarrow> keeps v (db_query e f)"
  by (simp add: keeps_def run_simps)

lemma keeps_db_exec:
  "(\<And>w n. v (w\<lparr>wTick := n\<rparr>) = v w) \<Longrightarrow> (\<And>n w w'. f n w = Inr w' \<Longrightarrow> v w' = v w) \<Longrightarrow>
    keeps v (db_exec e f)"
  by (auto simp: keeps_def run_simps Let_def split: option.splits sum.splits)

end
