(* ===== verification/Postgres.thy ===== *)
theory Postgres
  imports Store
begin

text \<open>
  The adapter \<open>internal/adapters/postgres\<close>: the batch, job and validation-error repositories
  over the tables of \<open>Store\<close>, the encoding of transaction ids and configuration in the column
  \<open>transaction_ids\<close>, and the wrappers of \<open>internal/repo\<close> that turn them into the ports.
\<close>

section \<open>Adapter types\<close>

record pbatch =
  pb_ID :: string
  pb_UserID :: string
  pb_Status :: string
  pb_Revision :: string
  pb_FileStorageID :: string
  pb_TotalRows :: int
  pb_ValidRows :: int
  pb_ApprovedCount :: int
  pb_CompletedCount :: int
  pb_FailedCount :: int
  pb_CreatedAt :: int
  pb_CompletedAt :: int
  pb_TransactionIDs :: "string list"
  pb_Priority :: string
  pb_TimeoutMs :: int

definition bad_uuid :: go_error where
  "bad_uuid = ErrExternal ''invalid input syntax for type uuid''"

text \<open>An empty Go string becomes NULL; a NULL leaves the zero value.\<close>

definition null_str :: "string \<Rightarrow> string option" where
  "null_str s = (if s = [] then None else Some s)"

definition of_null :: "string option \<Rightarrow> string" where
  "of_null x = (case x of None \<Rightarrow> [] | Some s \<Rightarrow> s)"

lemma of_null_str [simp]: "of_null (null_str s) = s"
  by (simp add: of_null_def null_str_def)

section \<open>The column \<open>transaction_ids\<close>\<close>

definition json_strings :: "json list \<Rightarrow> string list" where
  "json_strings js = concat (map (\<lambda>j. case j of JStr s \<Rightarrow> [s] | _ \<Rightarrow> []) js)"

definition json_get :: "(string \<times> json) list \<Rightarrow> string \<Rightarrow> json option" where
  "json_get kvs k = map_of (rev kvs) k"

definition parse_config :: "json option \<Rightarrow> string \<times> int" where
  "parse_config c = (case c of
     Some (JObj cm) \<Rightarrow>
       ((case json_get cm ''priority'' of Some (JStr p) \<Rightarrow> p | _ \<Rightarrow> []),
        (case json_get cm ''timeout'' of
           Some (JNum l) \<Rightarrow> (case lit_rat l of Some q \<Rightarrow> trunc_rat q | None \<Rightarrow> 0)
         | _ \<Rightarrow> 0))
   | _ \<Rightarrow> ([], 0))"

definition parseTransactionIDs :: "string \<Rightarrow> string list \<times> string \<times> int" where
  "parseTransactionIDs s = (case json_parse s of
     Some (JArr v) \<Rightarrow> (json_strings v, [], 0)
   | Some (JObj v) \<Rightarrow>
       ((case json_get v ''transactions'' of Some (JArr arr) \<Rightarrow> json_strings arr | _ \<Rightarrow> []),
        parse_config (json_get v ''config''))
   | _ \<Rightarrow> ([], [], 0))"

definition tx_wrapper :: "pbatch \<Rightarrow> json" where
  "tx_wrapper b = (let txs = (''transactions'',
       case pb_TransactionIDs b of [] \<Rightarrow> JNull | ids \<Rightarrow> JArr (map JStr ids))
     in JObj (if pb_Priority b \<noteq> [] \<or> 0 < pb_TimeoutMs b
          then [(''config'', JObj [(''priority'', JStr (pb_Priority b)),
                                   (''timeout'', JNum (Itoa (pb_TimeoutMs b)))]), txs]
          else [txs]))"

definition txArgFromBatch :: "pbatch \<Rightarrow> string" where
  "txArgFromBatch b = json_print (tx_wrapper b)"

lemma json_strings_JStr [simp]: "json_strings (map JStr ids) = ids"
  by (induction ids) (simp_all add: json_strings_def)

lemma tx_wrapper_ok: "json_ok (tx_wrapper b)"
  by (auto simp: tx_wrapper_def Let_def list_all_iff split: list.splits)

lemma parse_txArg: "json_parse (txArgFromBatch b) = Some (tx_wrapper b)"
  unfolding txArgFromBatch_def by (rule json_roundtrip [OF tx_wrapper_ok])

text \<open>A batch without transactions but with a configuration keeps it, and the other way round;
  a configuration whose timeout is not positive and whose priority is empty is not written.\<close>

lemma parse_txArg_roundtrip:
  "parseTransactionIDs (txArgFromBatch b) = (pb_TransactionIDs b,
     if pb_Priority b \<noteq> [] \<or> 0 < pb_TimeoutMs b then (pb_Priority b, pb_TimeoutMs b) else ([], 0))"
  by (auto simp: parseTransactionIDs_def parse_txArg tx_wrapper_def Let_def json_get_def
      parse_config_def lit_rat_Itoa simp del: map_map split: list.splits simp flip: list.map)

section \<open>The batch table\<close>

definition sql_insert_batch :: "env \<Rightarrow> (nat \<Rightarrow> batch_row) \<Rightarrow> (world, go_error option) state" where
  "sql_insert_batch e row = db_exec e (\<lambda>n w. let r = row n in
     if \<not> eUUIDok e (br_id r) \<or> (case br_user_id r of Some u \<Rightarrow> \<not> eUUIDok e u | None \<Rightarrow> False)
     then Inl bad_uuid
     else if br_id r \<in> br_id ` set (wBatches w) then Inl (ErrExternal ''duplicate key'')
     else Inr (w\<lparr>wBatches := wBatches w @ [r]\<rparr>))"

text \<open>\<open>BatchRepository.Create\<close>; \<open>created_at\<close> is the column's default \<open>NOW()\<close> and
  \<open>completed_at\<close> is always NULL.\<close>

definition insert_row :: "pbatch \<Rightarrow> int \<Rightarrow> batch_row" where
  "insert_row b now = \<lparr>
     br_id = pb_ID b,
     br_user_id = null_str (pb_UserID b),
     br_status = pb_Status b,
     br_revision = pb_Revision b,
     br_file_storage_id = null_str (pb_FileStorageID b),
     br_total_rows = pb_TotalRows b,
     br_valid_rows = pb_ValidRows b,
     br_approved_count = pb_ApprovedCount b,
     br_completed_count = pb_CompletedCount b,
     br_failed_count = pb_FailedCount b,
     br_created_at = now,
     br_completed_at = None,
     br_transaction_ids = json_parse (txArgFromBatch b)\<rparr>"

definition pg_batch_Create :: "env \<Rightarrow> pbatch \<Rightarrow> (world, go_error option) state" where
  "pg_batch_Create e b = sql_insert_batch e (\<lambda>n. insert_row b (eNow e n))"

text \<open>The scan of a row, which \<open>GetByID\<close> and \<open>ListWithFilters\<close> share: a NULL time is the zero
  time, and transaction ids are parsed from the text of the JSONB value.\<close>

definition scan_batch :: "batch_row \<Rightarrow> pbatch" where
  "scan_batch r = (let (ids, pri, to) = (case br_transaction_ids r of
         None \<Rightarrow> ([], [], 0) | Some j \<Rightarrow> parseTransactionIDs (json_print j))
     in \<lparr>pb_ID = br_id r,
         pb_UserID = of_null (br_user_id r),
         pb_Status = br_status r,
         pb_Revision = br_revision r,
         pb_FileStorageID = of_null (br_file_storage_id r),
         pb_TotalRows = br_total_rows r,
         pb_ValidRows = br_valid_rows r,
         pb_ApprovedCount = br_approved_count r,
         pb_CompletedCount = br_completed_count r,
         pb_FailedCount = br_failed_count r,
         pb_CreatedAt = br_created_at r,
         pb_CompletedAt = (case br_completed_at r of Some t \<Rightarrow> t | None \<Rightarrow> 0),
         pb_TransactionIDs = ids,
         pb_Priority = pri,
         pb_TimeoutMs = to\<rparr>)"

definition pg_batch_GetByID :: "env \<Rightarrow> string \<Rightarrow> (world, go_error + pbatch) state" where
  "pg_batch_GetByID e i = db_query e (\<lambda>n w.
     if \<not> eUUIDok e i then Inl bad_uuid
     else (case find (\<lambda>r. br_id r = i) (wBatches w) of
         None \<Rightarrow> Inl ErrNoRows
       | Some r \<Rightarrow> Inr (scan_batch r)))"

text \<open>\<open>BatchRepository.Update\<close> writes the zero time, not NULL, for an unset \<open>CompletedAt\<close>.\<close>

definition update_row :: "pbatch \<Rightarrow> batch_row \<Rightarrow> batch_row" where
  "update_row b r = r\<lparr>
     br_status := pb_Status b,
     br_file_storage_id := null_str (pb_FileStorageID b),
     br_total_rows := pb_TotalRows b,
     br_valid_rows := pb_ValidRows b,
     br_approved_count := pb_ApprovedCount b,
     br_completed_count := pb_CompletedCount b,
     br_failed_count := pb_FailedCount b,
     br_completed_at := Some (pb_CompletedAt b),
     br_transaction_ids := json_parse (txArgFromBatch b)\<rparr>"

definition pg_batch_Update :: "env \<Rightarrow> pbatch \<Rightarrow> (world, go_error option) state" where
  "pg_batch_Update e b = db_exec e (\<lambda>n w.
     if \<not> eUUIDok e (pb_ID b) then Inl bad_uuid
     else Inr (w\<lparr>wBatches := map (\<lambda>r. if br_id r = pb_ID b then update_row b r else r) (wBatches w)\<rparr>))"

definition ToDomain :: "pbatch \<Rightarrow> batch" where
  "ToDomain b = \<lparr>b_ID = pb_ID b, b_UserID = pb_UserID b, b_Status = pb_Status b,
     b_Revision = pb_Revision b, b_FileStorageID = pb_FileStorageID b,
     b_TotalRows = pb_TotalRows b, b_ValidRows = pb_ValidRows b, b_CreatedAt = pb_CreatedAt b,
     b_ApprovedCount = pb_ApprovedCount b, b_CompletedCount = pb_CompletedCount b,
     b_FailedCount = pb_FailedCount b,
     b_CompletedAt = (if pb_CompletedAt b = 0 then None else Some (pb_CompletedAt b)),
     b_BillingTransactionIDs = pb_TransactionIDs b, b_Priority = pb_Priority b,
     b_TimeoutMs = pb_TimeoutMs b\<rparr>"

section \<open>Filtered lists\<close>

text \<open>The conditions of \<open>ListWithFilters\<close>, in the order the code appends them; each carries
  its argument.\<close>

datatype cond =
    StatusEq string
  | UserEq string
  | RevisionEq string
  | CreatedFrom int
  | CreatedTo int
  | CompletedBefore int
  | CompletedAfter int
  | CreatedBefore int
  | CreatedAfter int

datatype sql_arg = ArgStr string | ArgTime int | ArgInt int

fun cond_text :: "cond \<Rightarrow> string" where
  "cond_text (StatusEq _) = ''status=$''"
| "cond_text (UserEq _) = ''user_id=$''"
| "cond_text (RevisionEq _) = ''revision=$''"
| "cond_text (CreatedFrom _) = ''created_at >= $''"
| "cond_text (CreatedTo _) = ''created_at <= $''"
| "cond_text (CompletedBefore _) = ''completed_at < $''"
| "cond_text (CompletedAfter _) = ''completed_at > $''"
| "cond_text (CreatedBefore _) = ''created_at < $''"
| "cond_text (CreatedAfter _) = ''created_at > $''"

fun cond_arg :: "cond \<Rightarrow> sql_arg" where
  "cond_arg (StatusEq s) = ArgStr s"
| "cond_arg (UserEq s) = ArgStr s"
| "cond_arg (RevisionEq s) = ArgStr s"
| "cond_arg (CreatedFrom t) = ArgTime t"
| "cond_arg (CreatedTo t) = ArgTime t"
| "cond_arg (CompletedBefore t) = ArgTime t"
| "cond_arg (CompletedAfter t) = ArgTime t"
| "cond_arg (CreatedBefore t) = ArgTime t"
| "cond_arg (CreatedAfter t) = ArgTime t"

text \<open>A comparison with NULL does not hold.\<close>

fun cond_holds :: "cond \<Rightarrow> batch_row \<Rightarrow> bool" where
  "cond_holds (StatusEq s) r = (br_status r = s)"
| "cond_holds (UserEq s) r = (br_user_id r = Some s)"
| "cond_holds (RevisionEq s) r = (br_revision r = s)"
| "cond_holds (CreatedFrom t) r = (t \<le> br_created_at r)"
| "cond_holds (CreatedTo t) r = (br_created_at r \<le> t)"
| "cond_holds (CompletedBefore t) r = (case br_completed_at r of Some x \<Rightarrow> x < t | None \<Rightarrow> False)"
| "cond_holds (CompletedAfter t) r = (case br_completed_at r of Some x \<Rightarrow> t < x | None \<Rightarrow> False)"
| "cond_holds (CreatedBefore t) r = (br_created_at r < t)"
| "cond_holds (CreatedAfter t) r = (t < br_created_at r)"

definition list_conds ::
  "string \<Rightarrow> string \<Rightarrow> string \<Rightarrow> int option \<Rightarrow> int option \<Rightarrow> string \<Rightarrow> bool \<Rightarrow> int option \<Rightarrow> cond list"
where
  "list_conds status user revision from to sortBy desc cursor =
     (if status \<noteq> [] then [StatusEq status] else [])
   @ (if user \<noteq> [] then [UserEq user] else [])
   @ (if revision \<noteq> [] then [RevisionEq revision] else [])
   @ (case from of Some t \<Rightarrow> [CreatedFrom t] | None \<Rightarrow> [])
   @ (case to of Some t \<Rightarrow> [CreatedTo t] | None \<Rightarrow> [])
   @ (case cursor of None \<Rightarrow> []
      | Some t \<Rightarrow> (if sortBy = ''completedAt''
          then (if desc then [CompletedBefore t] else [CompletedAfter t])
          else (if desc then [CreatedBefore t] else [CreatedAfter t])))"

text \<open>The state of the builder: the text of the clause, the arguments and the next index.\<close>

definition add_cond :: "string \<times> sql_arg list \<times> int \<Rightarrow> cond \<Rightarrow> string \<times> sql_arg list \<times> int" where
  "add_cond s c = (case s of (text, args, idx) \<Rightarrow>
     (text @ '' AND '' @ cond_text c @ Itoa idx, args @ [cond_arg c], idx + 1))"

definition where_clause :: "cond list \<Rightarrow> string \<times> sql_arg list \<times> int" where
  "where_clause cs = foldl add_cond ('' WHERE 1=1'', [], 1) cs"

definition orderBy :: "string \<Rightarrow> string" where
  "orderBy sortBy = (if sortBy = ''completedAt'' then ''completed_at'' else ''created_at'')"

definition list_query :: "cond list \<Rightarrow> string \<Rightarrow> bool \<Rightarrow> int \<Rightarrow> int \<Rightarrow> string \<times> sql_arg list" where
  "list_query cs sortBy desc limit offset = (case where_clause cs of (text, args, idx) \<Rightarrow>
     (''SELECT id,user_id,status,revision,file_storage_id,total_rows,valid_rows,approved_count,'' @
      ''completed_count,failed_count,created_at,completed_at,transaction_ids FROM batches'' @ text @
      '' ORDER BY '' @ orderBy sortBy @ '' '' @ (if desc then ''DESC'' else ''ASC'') @
      '' LIMIT $'' @ Itoa idx @ '' OFFSET $'' @ Itoa (idx + 1),
      args @ [ArgInt limit, ArgInt offset]))"

text \<open>What the list query selects.  In PostgreSQL a NULL is greater than every value: it comes last in
  ascending and first in descending order; rows with equal keys come in an order the environment
  chooses.\<close>

datatype sort_position = At int | Null

instantiation sort_position :: linorder
begin

fun less_eq_sort_position :: "sort_position \<Rightarrow> sort_position \<Rightarrow> bool" where
  "less_eq_sort_position (At a) (At b) = (a \<le> b)"
| "less_eq_sort_position x Null = True"
| "less_eq_sort_position Null (At b) = False"

definition less_sort_position :: "sort_position \<Rightarrow> sort_position \<Rightarrow> bool" where
  "less_sort_position x y \<longleftrightarrow> x \<le> y \<and> \<not> y \<le> x"

instance
proof
  fix x y z :: sort_position
  show "(x < y) = (x \<le> y \<and> \<not> y \<le> x)" by (rule less_sort_position_def)
  show "x \<le> x" by (cases x) simp_all
  show "x \<le> y \<Longrightarrow> y \<le> z \<Longrightarrow> x \<le> z" by (cases x; cases y; cases z) simp_all
  show "x \<le> y \<Longrightarrow> y \<le> x \<Longrightarrow> x = y" by (cases x; cases y) simp_all
  show "x \<le> y \<or> y \<le> x" by (cases x; cases y) auto
qed

end

definition position_of :: "int option \<Rightarrow> sort_position" where
  "position_of x = (case x of Some t \<Rightarrow> At t | None \<Rightarrow> Null)"

definition sort_rows :: "string \<Rightarrow> bool \<Rightarrow> batch_row list \<Rightarrow> batch_row list" where
  "sort_rows sortBy desc rs = (let key = (\<lambda>r. position_of (if orderBy sortBy = ''completed_at''
         then br_completed_at r else Some (br_created_at r)));
       asc = sort_key key rs
     in if desc then rev asc else asc)"

definition bad_cond :: "env \<Rightarrow> cond \<Rightarrow> bool" where
  "bad_cond e c = (case c of UserEq u \<Rightarrow> \<not> eUUIDok e u | _ \<Rightarrow> False)"

definition pg_batch_ListWithFilters ::
  "env \<Rightarrow> string \<Rightarrow> string \<Rightarrow> string \<Rightarrow> int option \<Rightarrow> int option \<Rightarrow> string \<Rightarrow> bool \<Rightarrow> int option \<Rightarrow>
     int \<Rightarrow> int \<Rightarrow> (world, go_error + pbatch list \<times> int) state"
where
  "pg_batch_ListWithFilters e status user revision from to sortBy desc cursor limit offset = (
     let cs = list_conds status user revision from to sortBy desc cursor;
         sel = (\<lambda>r. list_all (\<lambda>c. cond_holds c r) cs)
     in do {
       cnt \<leftarrow> db_query e (\<lambda>n w. if list_ex (bad_cond e) cs then Inl bad_uuid
          else Inr (int (length (filter sel (wBatches w)))));
       (case cnt of
          Inl err \<Rightarrow> State_Monad.return (Inl err)
        | Inr cnt_all \<Rightarrow> do {
            rows \<leftarrow> db_query e (\<lambda>n w. if list_ex (bad_cond e) cs then Inl bad_uuid
               else if offset < 0 then Inl (ErrExternal ''OFFSET must not be negative'')
               else if limit < 0 then Inl (ErrExternal ''LIMIT must not be negative'')
               else Inr (take (nat limit) (drop (nat offset)
                 (sort_rows sortBy desc (arrange (eBatchOrder e n) (filter sel (wBatches w)))))));
            (case rows of
               Inl err \<Rightarrow> State_Monad.return (Inl err)
             | Inr rs \<Rightarrow> State_Monad.return (Inr (map scan_batch rs, cnt_all)))
          })
     })"

section \<open>Aggregates\<close>

text \<open>\<open>AdminStats\<close> appends its time range, which starts with WHERE, to query texts.  A text with
  two WHERE keywords is not SQL, and the server refuses it.\<close>

fun count_where :: "string \<Rightarrow> nat" where
  "count_where [] = 0"
| "count_where (c # s) = (if HasPrefix (c # s) ''WHERE'' then 1 else 0) + count_where s"

definition db_text :: "env \<Rightarrow> string \<Rightarrow> (nat \<Rightarrow> world \<Rightarrow> go_error + 'a) \<Rightarrow> (world, go_error + 'a) state"
  where
  "db_text e text f = db_query e (\<lambda>n w.
     if 1 < count_where text then Inl (ErrExternal ''syntax error at or near WHERE'') else f n w)"

definition time_conds :: "int option \<Rightarrow> int option \<Rightarrow> cond list" where
  "time_conds from to = (case from of Some t \<Rightarrow> [CreatedFrom t] | None \<Rightarrow> [])
     @ (case to of Some t \<Rightarrow> [CreatedTo t] | None \<Rightarrow> [])"

definition proc_text :: string where
  "proc_text = ''SELECT COUNT(*) FROM batch_jobs j JOIN batches b ON j.batch_id=b.id''"

definition fail_text :: string where
  "fail_text = proc_text @ '' WHERE j.status=$1''"

definition avg_text :: string where
  "avg_text = ''SELECT AVG(EXTRACT(EPOCH FROM (completed_at - created_at)) * 1000) FROM batches '' @
     ''WHERE completed_at IS NOT NULL''"

definition joined :: "(batch_row \<Rightarrow> bool) \<Rightarrow> world \<Rightarrow> job_row list" where
  "joined sel w = filter (\<lambda>j. list_ex (\<lambda>b. br_id b = jr_batch_id j \<and> sel b) (wBatches w)) (wJobs w)"

definition avg_ms :: "batch_row list \<Rightarrow> go_error + rat" where
  "avg_ms bs = (let ts = concat (map (\<lambda>b. case br_completed_at b of
         Some t \<Rightarrow> [t - br_created_at b] | None \<Rightarrow> []) bs)
     in if ts = [] then Inl (ErrExternal ''converting NULL to float64 is unsupported'')
        else Inr (of_int (sum_list ts) / of_int (1000000 * int (length ts))))"

definition pg_batch_AdminStats ::
  "env \<Rightarrow> int option \<Rightarrow> int option \<Rightarrow> (world, go_error + AdminStats) state" where
  "pg_batch_AdminStats e from to = (
     let cs = time_conds from to;
         wh = fst (where_clause cs);
         sel = (\<lambda>r. list_all (\<lambda>c. cond_holds c r) cs)
     in do {
       q1 \<leftarrow> db_text e (''SELECT COUNT(*) FROM batches'' @ wh)
         (\<lambda>n w. Inr (int (length (filter sel (wBatches w)))));
       (case q1 of Inl err \<Rightarrow> State_Monad.return (Inl err) | Inr batchesCreated \<Rightarrow> do {
       q2 \<leftarrow> db_text e (proc_text @ wh) (\<lambda>n w. Inr (int (length (joined sel w))));
       (case q2 of Inl err \<Rightarrow> State_Monad.return (Inl err) | Inr jobsProcessed \<Rightarrow> do {
       q3 \<leftarrow> db_text e (fail_text @ wh) (\<lambda>n w. Inr (int (length
         (filter (\<lambda>j. jr_status j = JobStatusFailed) (joined sel w)))));
       (case q3 of Inl err \<Rightarrow> State_Monad.return (Inl err) | Inr jobsFailed \<Rightarrow> do {
       q4 \<leftarrow> db_text e (avg_text @ wh) (\<lambda>n w. avg_ms (filter sel (wBatches w)));
       (case q4 of Inl err \<Rightarrow> State_Monad.return (Inl err) | Inr avgMs \<Rightarrow> do {
       q5 \<leftarrow> db_text e ''SELECT COUNT(*) FROM batch_jobs WHERE status IN ($1,$2)''
         (\<lambda>n w. Inr (int (length (filter (\<lambda>j. jr_status j \<in> {JobStatusPending, JobStatusQueued})
           (wJobs w)))));
       (case q5 of Inl err \<Rightarrow> State_Monad.return (Inl err) | Inr bulkJobPending \<Rightarrow> do {
       q6 \<leftarrow> db_text e ''SELECT COUNT(*) FROM batch_jobs WHERE status=$1''
         (\<lambda>n w. Inr (int (length (filter (\<lambda>j. jr_status j = JobStatusProcessing) (wJobs w)))));
       (case q6 of Inl err \<Rightarrow> State_Monad.return (Inl err) | Inr bulkResultPending \<Rightarrow>
         State_Monad.return (Inr \<lparr>as_BatchesCreated = batchesCreated,
           as_JobsProcessed = jobsProcessed, as_JobsFailed = jobsFailed,
           as_AverageProcessingTimeMs = avgMs, as_BulkJobPending = bulkJobPending,
           as_BulkResultPending = bulkResultPending\<rparr>)) }) }) }) }) })
     })"

section \<open>The job table\<close>

text \<open>\<open>postgres.Job\<close> has the fields of \<open>domain.Job\<close>, with a \<open>sql.NullString\<close> for the pointer
  to the transaction id; the model uses \<open>job\<close> for both.\<close>

definition uuid_arg :: "env \<Rightarrow> string option \<Rightarrow> bool" where
  "uuid_arg e x = (case x of None \<Rightarrow> True | Some u \<Rightarrow> eUUIDok e u)"

definition new_job_row :: "job \<Rightarrow> json \<Rightarrow> job_row" where
  "new_job_row j d = \<lparr>jr_id = j_ID j, jr_batch_id = j_BatchID j, jr_row_number = j_RowNumber j,
     jr_status = j_Status j, jr_input_data = d, jr_build_id = None, jr_barcode_urls = None,
     jr_error_code = None, jr_error_message = None,
     jr_billing_transaction_id = j_BillingTransactionID j\<rparr>"

definition pg_job_Create :: "env \<Rightarrow> job \<Rightarrow> (world, go_error option) state" where
  "pg_job_Create e j = (
     let input = (if j_InputData j = [] then ''{}'' else j_InputData j)
     in db_exec e (\<lambda>n w.
       if \<not> eUUIDok e (j_ID j) \<or> \<not> eUUIDok e (j_BatchID j) \<or> \<not> uuid_arg e (j_BillingTransactionID j)
       then Inl bad_uuid
       else (case json_parse input of
         None \<Rightarrow> Inl (ErrExternal ''invalid input syntax for type json'')
       | Some d \<Rightarrow>
         if j_ID j \<in> jr_id ` set (wJobs w) then Inl (ErrExternal ''duplicate key'')
         else if j_BatchID j \<notin> br_id ` set (wBatches w) then Inl (ErrExternal ''foreign key'')
         else Inr (w\<lparr>wJobs := wJobs w @ [new_job_row j d]\<rparr>))))"

definition scan_job :: "job_row \<Rightarrow> job" where
  "scan_job r = \<lparr>j_ID = jr_id r, j_BatchID = jr_batch_id r, j_RowNumber = jr_row_number r,
     j_Status = jr_status r, j_InputData = json_print (jr_input_data r),
     j_BillingTransactionID = jr_billing_transaction_id r\<rparr>"

definition pg_job_GetByBatch :: "env \<Rightarrow> string \<Rightarrow> (world, go_error + job list) state" where
  "pg_job_GetByBatch e i = db_query e (\<lambda>n w.
     if \<not> eUUIDok e i then Inl bad_uuid
     else Inr (map scan_job (arrange (eJobOrder e n) (filter (\<lambda>r. jr_batch_id r = i) (wJobs w)))))"

definition sql_update_job ::
  "env \<Rightarrow> string \<Rightarrow> (job_row \<Rightarrow> job_row) \<Rightarrow> (world, go_error option) state" where
  "sql_update_job e i f = db_exec e (\<lambda>n w.
     if \<not> eUUIDok e i then Inl bad_uuid
     else Inr (w\<lparr>wJobs := map (\<lambda>r. if jr_id r = i then f r else r) (wJobs w)\<rparr>))"

definition pg_job_UpdateStatus :: "env \<Rightarrow> string \<Rightarrow> string \<Rightarrow> (world, go_error option) state" where
  "pg_job_UpdateStatus e jobID status = sql_update_job e jobID (\<lambda>r. r\<lparr>jr_status := status\<rparr>)"

definition pg_job_UpdateBillingTransactionID ::
  "env \<Rightarrow> string \<Rightarrow> string option \<Rightarrow> (world, go_error option) state" where
  "pg_job_UpdateBillingTransactionID e jobID txID = (
     if \<not> uuid_arg e txID then db_exec e (\<lambda>n w. Inl bad_uuid)
     else sql_update_job e jobID (\<lambda>r. r\<lparr>jr_billing_transaction_id := txID\<rparr>))"

definition pg_job_UpdateStatusWithResult ::
  "env \<Rightarrow> string \<Rightarrow> string \<Rightarrow> JobResult \<Rightarrow> (world, go_error option) state" where
  "pg_job_UpdateStatusWithResult e jobID status res = (
     let buildArg = null_str (r_BuildID res);
         barcodeArg = null_str (r_BarcodeURLs res);
         errCodeArg = null_str (r_ErrorCode res);
         errMsgArg = null_str (r_ErrorMessage res);
         billingArg = null_str (r_BillingTransactionID res)
     in if \<not> uuid_arg e buildArg \<or> \<not> uuid_arg e billingArg then db_exec e (\<lambda>n w. Inl bad_uuid)
        else (let upd = (\<lambda>urls. sql_update_job e jobID (\<lambda>r. r\<lparr>jr_status := status,
                jr_build_id := buildArg, jr_barcode_urls := urls, jr_error_code := errCodeArg,
                jr_error_message := errMsgArg, jr_billing_transaction_id := billingArg\<rparr>))
          in case barcodeArg of
               None \<Rightarrow> upd None
             | Some t \<Rightarrow> (case json_parse t of
                   None \<Rightarrow> db_exec e (\<lambda>n w. Inl (ErrExternal ''invalid input syntax for type json''))
                 | Some u \<Rightarrow> upd (Some u))))"

text \<open>\<open>GetResultsByBatch\<close> with \<open>Result.ToPort\<close>: NULL columns read as empty strings.\<close>

definition result_row :: "job_row \<Rightarrow> JobResult" where
  "result_row r = \<lparr>r_JobID = jr_id r, r_RowNumber = jr_row_number r,
     r_BuildID = of_null (jr_build_id r),
     r_BarcodeURLs = of_null (map_option json_print (jr_barcode_urls r)),
     r_ErrorCode = of_null (jr_error_code r), r_ErrorMessage = of_null (jr_error_message r),
     r_BillingTransactionID = []\<rparr>"

definition pg_job_GetResultsByBatch :: "env \<Rightarrow> string \<Rightarrow> (world, go_error + JobResult list) state" where
  "pg_job_GetResultsByBatch e i = db_query e (\<lambda>n w.
     if \<not> eUUIDok e i then Inl bad_uuid
     else Inr (map result_row (arrange (eJobOrder e n) (filter (\<lambda>r. jr_batch_id r = i) (wJobs w)))))"

section \<open>Validation errors\<close>

text \<open>A NULL in a column scanned into a Go string is a scan error, returned for the first row
  that has one.\<close>

definition scan_verr :: "verr_row \<Rightarrow> ValidationError option" where
  "scan_verr r = (case (vr_field r, vr_error_code r, vr_error_message r, vr_original_value r) of
     (Some f, Some c, Some m, Some v) \<Rightarrow> Some \<lparr>ve_RowNumber = vr_row_number r, ve_Field = f,
        ve_ErrorCode = c, ve_ErrorMessage = m, ve_OriginalValue = v\<rparr>
   | _ \<Rightarrow> None)"

definition pg_GetValidationErrors :: "env \<Rightarrow> string \<Rightarrow> (world, go_error + ValidationError list) state"
  where
  "pg_GetValidationErrors e i = db_query e (\<lambda>n w.
     if \<not> eUUIDok e i then Inl bad_uuid
     else (let rs = sort_key vr_row_number (arrange (eErrorOrder e n)
               (filter (\<lambda>r. vr_batch_id r = i) (wErrors w)))
           in if list_all (\<lambda>r. scan_verr r \<noteq> None) rs
              then Inr (map (\<lambda>r. the (scan_verr r)) rs)
              else Inl (ErrExternal ''converting NULL to string is unsupported'')))"

section \<open>The wrappers of \<open>internal/repo\<close>\<close>

text \<open>\<open>toPostgres\<close> does not copy \<open>Priority\<close> and \<open>TimeoutMs\<close>.\<close>

definition toPostgres :: "batch \<Rightarrow> pbatch" where
  "toPostgres b = \<lparr>pb_ID = b_ID b, pb_UserID = b_UserID b, pb_Status = b_Status b,
     pb_Revision = b_Revision b, pb_FileStorageID = b_FileStorageID b,
     pb_TotalRows = b_TotalRows b, pb_ValidRows = b_ValidRows b,
     pb_ApprovedCount = b_ApprovedCount b, pb_CompletedCount = b_CompletedCount b,
     pb_FailedCount = b_FailedCount b, pb_CreatedAt = 0,
     pb_CompletedAt = (case b_CompletedAt b of Some t \<Rightarrow> t | None \<Rightarrow> 0),
     pb_TransactionIDs = b_BillingTransactionIDs b, pb_Priority = [], pb_TimeoutMs = 0\<rparr>"

definition repo_batch_GetByID :: "env \<Rightarrow> string \<Rightarrow> (world, go_error + batch option) state" where
  "repo_batch_GetByID e i = do {
     r \<leftarrow> pg_batch_GetByID e i;
     State_Monad.return (case r of Inl err \<Rightarrow> Inl err | Inr pb \<Rightarrow> Inr (Some (ToDomain pb)))
   }"

text \<open>\<open>List\<close>: page 1 and limit 20 by default, and a cursor that is no RFC 3339 time is
  ignored.  The offset is a product of 64-bit integers.\<close>

definition list_page :: "BatchFilter \<Rightarrow> int" where
  "list_page f = (if f_Page f \<le> 0 then 1 else f_Page f)"

definition list_limit :: "BatchFilter \<Rightarrow> int" where
  "list_limit f = (if f_Limit f \<le> 0 then 20 else f_Limit f)"

definition list_offset :: "BatchFilter \<Rightarrow> int" where
  "list_offset f = int64 (int64 (list_page f - 1) * list_limit f)"

definition repo_batch_List :: "env \<Rightarrow> BatchFilter \<Rightarrow> (world, go_error + batch list \<times> int) state" where
  "repo_batch_List e f = do {
     r \<leftarrow> pg_batch_ListWithFilters e (f_Status f) (f_UserID f) (f_Revision f) (f_From f) (f_To f)
       (f_SortBy f) (f_SortDesc f)
       (if f_Cursor f \<noteq> [] then eTimeRFC3339 e (f_Cursor f) else None)
       (list_limit f) (list_offset f);
     State_Monad.return (case r of Inl err \<Rightarrow> Inl err
       | Inr (bs, cnt_all) \<Rightarrow> Inr (map ToDomain bs, cnt_all))
   }"

definition batchRepository :: "env \<Rightarrow> world BatchRepository" where
  "batchRepository e = \<lparr>
     BatchRepo_Create = (\<lambda>b. pg_batch_Create e (toPostgres b)),
     BatchRepo_GetByID = repo_batch_GetByID e,
     BatchRepo_Update = (\<lambda>b. pg_batch_Update e (toPostgres b)),
     BatchRepo_List = repo_batch_List e,
     BatchRepo_AdminStats = (\<lambda>from to. do {
       r \<leftarrow> pg_batch_AdminStats e from to;
       State_Monad.return (case r of Inl err \<Rightarrow> Inl err | Inr s \<Rightarrow> Inr (Some s)) })\<rparr>"

definition jobRepository :: "env \<Rightarrow> world JobRepository" where
  "jobRepository e = \<lparr>
     JobRepo_Create = pg_job_Create e,
     JobRepo_GetByBatch = pg_job_GetByBatch e,
     JobRepo_UpdateStatus = pg_job_UpdateStatus e,
     JobRepo_GetResultsByBatch = pg_job_GetResultsByBatch e,
     JobRepo_UpdateBillingTransactionID = pg_job_UpdateBillingTransactionID e,
     JobRepo_UpdateStatusWithResult = pg_job_UpdateStatusWithResult e\<rparr>"

definition validationRepository :: "env \<Rightarrow> world ValidationRepository" where
  "validationRepository e = \<lparr>ValRepo_GetValidationErrors = pg_GetValidationErrors e\<rparr>"

section \<open>The adapters keep the contracts\<close>

definition pg_stored :: "world \<Rightarrow> string \<Rightarrow> batch option" where
  "pg_stored w i = map_option (\<lambda>r. core (ToDomain (scan_batch r))) (find (\<lambda>r. br_id r = i) (wBatches w))"

definition pg_jobs :: "world \<Rightarrow> job list" where
  "pg_jobs w = map scan_job (wJobs w)"

lemma pg_stored_tick [simp]: "pg_stored (w\<lparr>wTick := n\<rparr>) = pg_stored w"
  by (rule ext) (simp add: pg_stored_def)

lemma pg_jobs_tick [simp]: "pg_jobs (w\<lparr>wTick := n\<rparr>) = pg_jobs w"
  by (simp add: pg_jobs_def)

lemma pg_stored_jobs [simp]: "pg_stored (w\<lparr>wJobs := js\<rparr>) = pg_stored w"
  by (rule ext) (simp add: pg_stored_def)

lemma pg_jobs_batches [simp]: "pg_jobs (w\<lparr>wBatches := bs\<rparr>) = pg_jobs w"
  by (simp add: pg_jobs_def)

lemma scan_job_sel [simp]:
  "j_ID (scan_job r) = jr_id r" "j_BatchID (scan_job r) = jr_batch_id r"
  "j_Status (scan_job r) = jr_status r" "j_RowNumber (scan_job r) = jr_row_number r"
  "j_BillingTransactionID (scan_job r) = jr_billing_transaction_id r"
  by (simp_all add: scan_job_def)

lemma ToDomain_ID [simp]: "b_ID (ToDomain (scan_batch r)) = br_id r"
  by (simp add: ToDomain_def scan_batch_def split: option.split prod.split)

lemma toPostgres_tx [simp]: "pb_ID (toPostgres b) = b_ID b"
  "pb_TransactionIDs (toPostgres b) = b_BillingTransactionIDs b"
  "pb_Priority (toPostgres b) = []" "pb_TimeoutMs (toPostgres b) = 0"
  by (simp_all add: toPostgres_def)

text \<open>A row that \<open>Update\<close> or \<open>Create\<close> wrote reads back as what was written.\<close>

lemma tx_column [simp]: "json_print (tx_wrapper b) = txArgFromBatch b"
  by (simp add: txArgFromBatch_def)

lemma scan_update_row:
  "core (ToDomain (scan_batch (update_row (toPostgres b) r))) = persisted b (core (ToDomain (scan_batch r)))"
  by (simp add: scan_batch_def update_row_def parse_txArg parse_txArg_roundtrip)
    (simp add: ToDomain_def toPostgres_def core_def persisted_def norm_time_def
      split: option.split prod.split)

lemma find_update_row:
  "find (\<lambda>r. br_id r = i) (map (\<lambda>r. if br_id r = k then update_row b r else r) rs) =
    map_option (\<lambda>r. if i = k then update_row b r else r) (find (\<lambda>r. br_id r = i) rs)"
  by (induction rs) (auto simp: update_row_def)

lemma pg_update_stored:
  "pg_stored (w\<lparr>wBatches := map (\<lambda>r. if br_id r = b_ID b then update_row (toPostgres b) r else r) (wBatches w)\<rparr>)
    = (pg_stored w)(b_ID b := map_option (persisted b) (pg_stored w (b_ID b)))"
  by (rule ext) (auto simp: pg_stored_def find_update_row option.map_comp comp_def scan_update_row)

lemma find_append: "find P (xs @ ys) = (case find P xs of Some x \<Rightarrow> Some x | None \<Rightarrow> find P ys)"
  by (induction xs) simp_all

lemma scan_insert_row: "core (ToDomain (scan_batch (insert_row (toPostgres b) t))) =
    core (b\<lparr>b_CreatedAt := t, b_CompletedAt := None\<rparr>)"
  by (simp add: scan_batch_def insert_row_def parse_txArg parse_txArg_roundtrip)
    (simp add: ToDomain_def toPostgres_def core_def norm_time_def)

lemma insert_row_id [simp]: "br_id (insert_row b t) = pb_ID b"
  by (simp add: insert_row_def)

lemma pg_create_stored:
  assumes "result (pg_batch_Create e (toPostgres b)) w = None"
  shows "pg_stored w (b_ID b) = None \<and>
    pg_stored (after (pg_batch_Create e (toPostgres b)) w) =
      (pg_stored w)(b_ID b \<mapsto> core (b\<lparr>b_CreatedAt := eNow e (wTick w), b_CompletedAt := None\<rparr>))"
proof -
  let ?r = "insert_row (toPostgres b) (eNow e (wTick w))"
  from assms have fresh: "b_ID b \<notin> br_id ` set (wBatches w)"
    and w': "after (pg_batch_Create e (toPostgres b)) w =
      w\<lparr>wTick := Suc (wTick w), wBatches := wBatches w @ [?r]\<rparr>"
    by (auto simp: pg_batch_Create_def sql_insert_batch_def run_simps Let_def
        split: option.splits if_splits)
  from fresh have none: "find (\<lambda>r. br_id r = b_ID b) (wBatches w) = None"
    by (simp add: find_None_key)
  then have "pg_stored (after (pg_batch_Create e (toPostgres b)) w) i =
      ((pg_stored w)(b_ID b \<mapsto> core (ToDomain (scan_batch ?r)))) i" for i
    by (simp add: w' pg_stored_def find_append split: option.split)
  with none show ?thesis
    by (auto simp: pg_stored_def scan_insert_row)
qed

interpretation pg_batches: batch_store "batchRepository e" pg_stored for e
proof unfold_locales
  fix i w x
  assume "result (BatchRepo_GetByID (batchRepository e) i) w = Inr x"
  then show "\<exists>b. x = Some b \<and> b_ID b = i \<and> pg_stored w i = Some (core b)"
    by (auto simp: batchRepository_def repo_batch_GetByID_def pg_batch_GetByID_def run_simps
        pg_stored_def dest: find_Some_key split: option.splits if_splits sum.splits)
next
  fix b w
  assume "result (BatchRepo_Update (batchRepository e) b) w = None"
  then show "pg_stored (after (BatchRepo_Update (batchRepository e) b) w) =
      (pg_stored w)(b_ID b := map_option (persisted b) (pg_stored w (b_ID b)))"
    using pg_update_stored [of b "w\<lparr>wTick := Suc (wTick w)\<rparr>"]
    by (simp add: batchRepository_def pg_batch_Update_def run_simps Let_def split: option.splits if_splits)
next
  fix b w
  assume "result (BatchRepo_Create (batchRepository e) b) w = None"
  then show "pg_stored w (b_ID b) = None \<and>
      (\<exists>t. pg_stored (after (BatchRepo_Create (batchRepository e) b) w) =
        (pg_stored w)(b_ID b \<mapsto> core (b\<lparr>b_CreatedAt := t, b_CompletedAt := None\<rparr>)))"
    using pg_create_stored [of e b w] by (auto simp: batchRepository_def)
next
  fix b w err
  assume "result (BatchRepo_Update (batchRepository e) b) w = Some err"
  then show "pg_stored (after (BatchRepo_Update (batchRepository e) b) w) = pg_stored w"
    by (simp add: batchRepository_def pg_batch_Update_def db_exec_failed)
next
  fix b w err
  assume "result (BatchRepo_Create (batchRepository e) b) w = Some err"
  then show "pg_stored (after (BatchRepo_Create (batchRepository e) b) w) = pg_stored w"
    by (simp add: batchRepository_def pg_batch_Create_def sql_insert_batch_def db_exec_failed)
next
  fix i show "keeps pg_stored (BatchRepo_GetByID (batchRepository e) i)"
    by (auto simp: batchRepository_def repo_batch_GetByID_def pg_batch_GetByID_def
        intro!: frame_intros keeps_db_query)
next
  fix f show "keeps pg_stored (BatchRepo_List (batchRepository e) f)"
    by (auto simp: batchRepository_def repo_batch_List_def pg_batch_ListWithFilters_def Let_def
        intro!: frame_intros keeps_db_query)
next
  fix t u show "keeps pg_stored (BatchRepo_AdminStats (batchRepository e) t u)"
    unfolding batchRepository_def pg_batch_AdminStats_def db_text_def BatchRepository.simps
    by (intro frame_intros keeps_db_query) simp_all
qed

lemma sql_update_job_ok: "result (sql_update_job e i f) w = None \<Longrightarrow>
    wJobs (after (sql_update_job e i f) w) = map (\<lambda>r. if jr_id r = i then f r else r) (wJobs w)"
  by (auto simp: sql_update_job_def run_simps Let_def split: option.splits if_splits)

lemma sql_update_job_failed: "result (sql_update_job e i f) w \<noteq> None \<Longrightarrow>
    wJobs (after (sql_update_job e i f) w) = wJobs w"
  by (simp add: sql_update_job_def db_exec_failed)

lemma db_exec_Inl: "result (db_exec e (\<lambda>n w. Inl x)) w \<noteq> None"
  by (simp add: run_simps split: option.split)

lemma update_result_split:
  obtains (refused) x where "pg_job_UpdateStatusWithResult e i s r = db_exec e (\<lambda>n w. Inl x)"
  | (update) urls where "pg_job_UpdateStatusWithResult e i s r = sql_update_job e i (\<lambda>q. q\<lparr>jr_status := s,
      jr_build_id := null_str (r_BuildID r), jr_barcode_urls := urls,
      jr_error_code := null_str (r_ErrorCode r), jr_error_message := null_str (r_ErrorMessage r),
      jr_billing_transaction_id := null_str (r_BillingTransactionID r)\<rparr>)"
  unfolding pg_job_UpdateStatusWithResult_def Let_def
  by (cases "uuid_arg e (null_str (r_BuildID r)) \<and> uuid_arg e (null_str (r_BillingTransactionID r))";
      cases "null_str (r_BarcodeURLs r)"; cases "json_parse (the (null_str (r_BarcodeURLs r)))") auto

lemma scan_new_job: "scan_job (new_job_row j d) = j\<lparr>j_InputData := json_print d\<rparr>"
  by (simp add: scan_job_def new_job_row_def)

lemma pg_job_Create_ok:
  assumes "result (pg_job_Create e j) w = None"
  obtains d where "json_parse (if j_InputData j = [] then ''{}'' else j_InputData j) = Some d"
    "j_ID j \<notin> jr_id ` set (wJobs w)" "j_BatchID j \<in> br_id ` set (wBatches w)"
    "after (pg_job_Create e j) w = w\<lparr>wTick := Suc (wTick w), wJobs := wJobs w @ [new_job_row j d]\<rparr>"
  using assms unfolding pg_job_Create_def Let_def
  by (cases "json_parse (if j_InputData j = [] then ''{}'' else j_InputData j)")
    (auto simp: run_simps Let_def split: option.splits if_split_asm)

interpretation pg_jobs: job_store "jobRepository e" pg_jobs for e
proof unfold_locales
  fix i w js
  assume "result (JobRepo_GetByBatch (jobRepository e) i) w = Inr js"
  then show "mset js = mset (filter (\<lambda>j. j_BatchID j = i) (pg_jobs w))"
    by (auto simp: jobRepository_def pg_job_GetByBatch_def run_simps pg_jobs_def filter_map comp_def
        mset_map simp flip: mset_filter split: option.splits if_splits)
next
  fix i s w
  assume "result (JobRepo_UpdateStatus (jobRepository e) i s) w = None"
  then show "pg_jobs (after (JobRepo_UpdateStatus (jobRepository e) i s) w) = map (set_status i s) (pg_jobs w)"
    by (auto simp: jobRepository_def pg_job_UpdateStatus_def sql_update_job_def run_simps Let_def
        pg_jobs_def set_status_def scan_job_def split: option.splits if_splits)
next
  fix i s w err
  assume "result (JobRepo_UpdateStatus (jobRepository e) i s) w = Some err"
  then show "pg_jobs (after (JobRepo_UpdateStatus (jobRepository e) i s) w) = pg_jobs w"
    by (simp add: jobRepository_def pg_job_UpdateStatus_def sql_update_job_def db_exec_failed)
next
  fix i t w
  assume "result (JobRepo_UpdateBillingTransactionID (jobRepository e) i t) w = None"
  then show "pg_jobs (after (JobRepo_UpdateBillingTransactionID (jobRepository e) i t) w) =
      map (set_tx i t) (pg_jobs w)"
    by (auto simp: jobRepository_def pg_job_UpdateBillingTransactionID_def sql_update_job_def run_simps
        Let_def pg_jobs_def set_tx_def scan_job_def split: option.splits if_splits)
next
  fix i t w err
  assume "result (JobRepo_UpdateBillingTransactionID (jobRepository e) i t) w = Some err"
  then show "pg_jobs (after (JobRepo_UpdateBillingTransactionID (jobRepository e) i t) w) = pg_jobs w"
    by (auto simp: jobRepository_def pg_job_UpdateBillingTransactionID_def sql_update_job_def
        db_exec_failed split: if_splits)
next
  fix i s r w
  assume "result (JobRepo_UpdateStatusWithResult (jobRepository e) i s r) w = None"
  then show "pg_jobs (after (JobRepo_UpdateStatusWithResult (jobRepository e) i s r) w) =
      map (set_tx i (if r_BillingTransactionID r = [] then None else Some (r_BillingTransactionID r))
        \<circ> set_status i s) (pg_jobs w)"
    by (cases rule: update_result_split [of e i s r])
      (auto simp: jobRepository_def db_exec_Inl sql_update_job_ok pg_jobs_def set_tx_def
        set_status_def scan_job_def null_str_def)
next
  fix i s r w err
  assume "result (JobRepo_UpdateStatusWithResult (jobRepository e) i s r) w = Some err"
  then show "pg_jobs (after (JobRepo_UpdateStatusWithResult (jobRepository e) i s r) w) = pg_jobs w"
    by (cases rule: update_result_split [of e i s r])
      (simp_all add: jobRepository_def db_exec_failed sql_update_job_failed pg_jobs_def)
next
  fix j w
  assume "result (JobRepo_Create (jobRepository e) j) w = None"
  then show "j_ID j \<notin> j_ID ` set (pg_jobs w) \<and>
      (\<exists>d. pg_jobs (after (JobRepo_Create (jobRepository e) j) w) = pg_jobs w @ [j\<lparr>j_InputData := d\<rparr>])"
    by (auto simp: jobRepository_def pg_jobs_def scan_new_job elim!: pg_job_Create_ok)
next
  fix j w err
  assume "result (JobRepo_Create (jobRepository e) j) w = Some err"
  then show "pg_jobs (after (JobRepo_Create (jobRepository e) j) w) = pg_jobs w"
    by (simp add: jobRepository_def pg_job_Create_def Let_def db_exec_failed)
next
  fix i show "keeps pg_jobs (JobRepo_GetByBatch (jobRepository e) i)"
    by (simp add: jobRepository_def pg_job_GetByBatch_def keeps_db_query)
next
  fix i show "keeps pg_jobs (JobRepo_GetResultsByBatch (jobRepository e) i)"
    by (simp add: jobRepository_def pg_job_GetResultsByBatch_def keeps_db_query)
qed

lemmas adapter_defs = batchRepository_def jobRepository_def repo_batch_GetByID_def
  pg_batch_GetByID_def pg_batch_Update_def pg_batch_Create_def sql_insert_batch_def
  repo_batch_List_def pg_batch_ListWithFilters_def pg_job_GetByBatch_def pg_job_UpdateStatus_def
  sql_update_job_def pg_job_Create_def pg_job_UpdateBillingTransactionID_def
  pg_job_UpdateStatusWithResult_def pg_job_GetResultsByBatch_def Let_def

text \<open>Every operation of the adapters keeps a view that depends on none of the tables it writes.\<close>

lemma batch_ops_keep:
  assumes "\<And>w n. v (w\<lparr>wTick := n\<rparr>) = v w" "\<And>w bs. v (w\<lparr>wBatches := bs\<rparr>) = v w"
  shows "keeps v (BatchRepo_GetByID (batchRepository e) i)"
    "keeps v (BatchRepo_Update (batchRepository e) b)"
    "keeps v (BatchRepo_Create (batchRepository e) b)"
    "keeps v (BatchRepo_List (batchRepository e) f)"
  by (auto simp: adapter_defs assms split: if_splits
      intro!: frame_intros keeps_db_query keeps_db_exec)

lemma job_ops_keep:
  assumes "\<And>w n. v (w\<lparr>wTick := n\<rparr>) = v w" "\<And>w bs. v (w\<lparr>wJobs := bs\<rparr>) = v w"
  shows "keeps v (JobRepo_GetByBatch (jobRepository e) i)"
    "keeps v (JobRepo_UpdateStatus (jobRepository e) i s)"
    "keeps v (JobRepo_Create (jobRepository e) j)"
    "keeps v (JobRepo_UpdateBillingTransactionID (jobRepository e) i x)"
    "keeps v (JobRepo_UpdateStatusWithResult (jobRepository e) i s r)"
    "keeps v (JobRepo_GetResultsByBatch (jobRepository e) i)"
  by (auto simp: adapter_defs assms split: if_splits option.splits
      intro!: frame_intros keeps_db_query keeps_db_exec)

lemma pg_job_Create_key:
  assumes "result (JobRepo_Create (jobRepository e) j) w = None"
  shows "pg_stored w (j_BatchID j) \<noteq> None"
proof -
  from assms have "j_BatchID j \<in> br_id ` set (wBatches w)"
    by (auto simp: jobRepository_def elim!: pg_job_Create_ok)
  then show ?thesis by (simp add: pg_stored_def find_None_key)
qed

interpretation pg: stores "batchRepository e" pg_stored "jobRepository e" pg_jobs for e
  by unfold_locales (simp_all add: batch_ops_keep job_ops_keep pg_job_Create_key del: not_None_eq)

end
