(* ===== verification/Kafka.thy ===== *)
theory Kafka
  imports Postgres
begin

text \<open>
  \<open>internal/kafka\<close> and \<open>internal/history\<close>: the producer with its retries, the consumer of
  \<open>bulk.result\<close> with its retries and dead-letter topic, the decoding of result events, and the
  history tagger.  The world keeps the log of messages that reached a topic; whether one write
  does is decided by the environment.  Waits, metrics and logs have no effect here; trace headers are
  carried beside the messages and have a section of their own.
\<close>

section \<open>The producer\<close>

record RealProducer =
  rp_brokers :: "string list"
  rp_retryCount :: int

definition NewProducer :: "string \<Rightarrow> RealProducer" where
  "NewProducer brokers = \<lparr>rp_brokers = Split CHR '','' brokers, rp_retryCount = 3\<rparr>"

definition WriteMessages :: "env \<Rightarrow> string \<Rightarrow> kafka_msg \<Rightarrow> (world, go_error option) state" where
  "WriteMessages e topic m = do {
     n \<leftarrow> tick;
     (case eKafka e n of
        Some s \<Rightarrow> State_Monad.return (Some (ErrExternal s))
      | None \<Rightarrow> do {
          w \<leftarrow> State_Monad.get;
          State_Monad.set (w\<lparr>wLog := wLog w @ [(topic, m)]\<rparr>);
          State_Monad.return None
        })
   }"

text \<open>A loop \<open>for attempt := 0; attempt <= n; attempt++\<close> that stops at the first nil error, as a
  recursion on the attempts left; the error it leaves is the last one.\<close>

primrec attempts :: "nat \<Rightarrow> ('w, go_error option) state \<Rightarrow> go_error option \<Rightarrow> ('w, go_error option) state"
  where
  "attempts 0 act last_err = State_Monad.return last_err"
| "attempts (Suc n) act last_err = do {
     r \<leftarrow> act;
     (case r of None \<Rightarrow> State_Monad.return None | Some err \<Rightarrow> attempts n act (Some err))
   }"

definition Publish :: "env \<Rightarrow> RealProducer \<Rightarrow> string \<Rightarrow> kafka_msg \<Rightarrow> (world, go_error option) state" where
  "Publish e p topic value = attempts (nat (rp_retryCount p + 1)) (WriteMessages e topic value) None"

definition producer_of :: "env \<Rightarrow> string \<Rightarrow> world KafkaProducer" where
  "producer_of e brokers = \<lparr>Producer_Publish = Publish e (NewProducer brokers)\<rparr>"

definition StubProducer :: "'w KafkaProducer" where
  "StubProducer = \<lparr>Producer_Publish = (\<lambda>topic value. State_Monad.return None)\<rparr>"

text \<open>The writers a producer keeps, one for each topic it has published to: \<open>writerFor\<close> makes one at the
  first use.  \<open>Publish\<close> above writes to the topic it is given; \<open>PublishThrough\<close> is the code's way,
  through the writer kept for it.\<close>

record writer =
  wr_brokers :: "string list"
  wr_topic :: string

definition newKafkaWriter :: "string list \<Rightarrow> string \<Rightarrow> writer" where
  "newKafkaWriter brokers topic = \<lparr>wr_brokers = brokers, wr_topic = topic\<rparr>"

definition writerFor :: "RealProducer \<Rightarrow> string \<Rightarrow> (string \<times> writer) list \<Rightarrow> writer \<times> (string \<times> writer) list" where
  "writerFor p topic ws = (case map_of ws topic of
     Some w \<Rightarrow> (w, ws)
   | None \<Rightarrow> (let w = newKafkaWriter (rp_brokers p) topic in (w, AList.update topic w ws)))"

definition PublishThrough :: "env \<Rightarrow> RealProducer \<Rightarrow> string \<Rightarrow> kafka_msg \<Rightarrow> (string \<times> writer) list \<Rightarrow>
    (world, go_error option) state \<times> (string \<times> writer) list" where
  "PublishThrough e p topic value ws = (case writerFor p topic ws of
     (w, ws') \<Rightarrow> (attempts (nat (rp_retryCount p + 1)) (WriteMessages e (wr_topic w) value) None, ws'))"

text \<open>\<open>Close\<close> closes every writer once and drops their errors.\<close>

definition Close :: "(string \<times> writer) list \<Rightarrow> writer list \<times> go_error option" where
  "Close ws = (map snd ws, None)"

definition writers_ok :: "RealProducer \<Rightarrow> (string \<times> writer) list \<Rightarrow> bool" where
  "writers_ok p ws \<longleftrightarrow> distinct (map fst ws) \<and>
     (\<forall>(t, w) \<in> set ws. w = newKafkaWriter (rp_brokers p) t)"

lemma writerFor_ok:
  assumes "writers_ok p ws"
  shows "fst (writerFor p topic ws) = newKafkaWriter (rp_brokers p) topic"
    "writers_ok p (snd (writerFor p topic ws))"
    "fst ` set (snd (writerFor p topic ws)) = insert topic (fst ` set ws)"
proof -
  have upd: "AList.update topic w ws = ws @ [(topic, w)]" if "map_of ws topic = None" for w
    using that by (induction ws) (auto split: if_splits)
  show "fst (writerFor p topic ws) = newKafkaWriter (rp_brokers p) topic"
    "writers_ok p (snd (writerFor p topic ws))"
    "fst ` set (snd (writerFor p topic ws)) = insert topic (fst ` set ws)"
    using assms
    by (auto simp: writerFor_def writers_ok_def upd map_of_eq_None_iff Let_def dest!: map_of_SomeD
        intro: rev_image_eqI split: option.split)
qed

text \<open>Publishing through the kept writers is publishing to the topic.\<close>

lemma PublishThrough_Publish:
  assumes "writers_ok p ws"
  shows "fst (PublishThrough e p topic value ws) = Publish e p topic value"
    "writers_ok p (snd (PublishThrough e p topic value ws))"
  using writerFor_ok [OF assms, of topic]
  by (simp_all add: PublishThrough_def Publish_def newKafkaWriter_def split_beta)

lemma run_WriteMessages [run_simps]:
  "result (WriteMessages e t m) w = map_option ErrExternal (eKafka e (wTick w))"
  "after (WriteMessages e t m) w = (let w1 = w\<lparr>wTick := Suc (wTick w)\<rparr> in
     case eKafka e (wTick w) of Some s \<Rightarrow> w1 | None \<Rightarrow> w1\<lparr>wLog := wLog w @ [(t, m)]\<rparr>)"
  by (simp_all add: WriteMessages_def run_simps Let_def split: option.split)

text \<open>The loop ends with the first success; with a non-negative count it tries at least once.\<close>

lemma attempts_ok:
  assumes "result (attempts n act last_err) w = None" "n > 0"
    and "\<And>w err. result act w = Some err \<Longrightarrow> v (after act w) = v w"
  obtains u where "result act u = None" "v u = v w" "after (attempts n act last_err) w = after act u"
  using assms
proof (induction n arbitrary: w last_err thesis)
  case (Suc n)
  show ?case
  proof (cases "result act w")
    case None
    then show ?thesis using Suc.prems(1) [of w] by simp
  next
    case (Some err)
    with Suc.prems have r: "result (attempts n act (Some err)) (after act w) = None" by simp
    then have "n > 0" by (cases n) simp_all
    then obtain u where "result act u = None" "v u = v (after act w)"
      "after (attempts n act (Some err)) (after act w) = after act u"
      using Suc.IH [OF _ r] Suc.prems(4) by blast
    with Some Suc.prems(1) [of u] Suc.prems(4) [OF Some] show ?thesis by simp
  qed
qed simp

lemma attempts_failed:
  assumes "result (attempts n act last_err) w = Some err"
    and "\<And>w err. result act w = Some err \<Longrightarrow> v (after act w) = v w"
  shows "v (after (attempts n act last_err) w) = v w"
  using assms(1)
proof (induction n arbitrary: w last_err)
  case (Suc n)
  then show ?case
    using assms(2) by (cases "result act w") auto
qed simp

lemma keeps_attempts [frame_intros]: "keeps v act \<Longrightarrow> keeps v (attempts n act last_err)"
  by (induction n arbitrary: last_err) (auto intro!: frame_intros)

lemma keeps_WriteMessages:
  "(\<And>w n. v (w\<lparr>wTick := n\<rparr>) = v w) \<Longrightarrow> (\<And>w l. v (w\<lparr>wLog := l\<rparr>) = v w) \<Longrightarrow>
    keeps v (WriteMessages e t m)"
  by (simp add: keeps_def run_simps Let_def split: option.split)

lemma write_failed_log: "result (WriteMessages e t m) w = Some err \<Longrightarrow>
    wLog (after (WriteMessages e t m) w) = wLog w"
  by (auto simp: run_simps Let_def)

interpretation kafka_bus: event_bus "producer_of e brokers" wLog for e brokers
proof unfold_locales
  fix t m w
  assume "result (Producer_Publish (producer_of e brokers) t m) w = None"
  then obtain u where "result (WriteMessages e t m) u = None" "wLog u = wLog w"
    "after (Producer_Publish (producer_of e brokers) t m) w = after (WriteMessages e t m) u"
    by (auto simp: producer_of_def Publish_def NewProducer_def write_failed_log
        elim!: attempts_ok [where v = wLog])
  then show "wLog (after (Producer_Publish (producer_of e brokers) t m) w) = wLog w @ [(t, m)]"
    by (simp add: run_simps Let_def)
next
  fix t m w err
  assume "result (Producer_Publish (producer_of e brokers) t m) w = Some err"
  then show "wLog (after (Producer_Publish (producer_of e brokers) t m) w) = wLog w"
    by (auto simp: producer_of_def Publish_def intro: attempts_failed [where v = wLog, OF _ write_failed_log])
qed

section \<open>Trace headers\<close>

text \<open>The carriers of trace headers, of the producer and of the consumer: \<open>Get\<close> reads the first header
  with the key, \<open>Set\<close> appends one.\<close>

type_synonym headers = "(string \<times> string) list"

definition carrier_Get :: "headers \<Rightarrow> string \<Rightarrow> string" where
  "carrier_Get hs key = (case find (\<lambda>h. fst h = key) hs of Some h \<Rightarrow> snd h | None \<Rightarrow> [])"

definition carrier_Set :: "string \<Rightarrow> string \<Rightarrow> headers \<Rightarrow> headers" where
  "carrier_Set key value hs = hs @ [(key, value)]"

definition carrier_Keys :: "headers \<Rightarrow> string list" where
  "carrier_Keys hs = map fst hs"

text \<open>The headers \<open>Publish\<close> sends: \<open>sets\<close> are the calls of \<open>Set\<close> that the propagator makes for a context.\<close>

definition trace_headers :: "('ctx \<Rightarrow> (string \<times> string) list) \<Rightarrow> 'ctx \<Rightarrow> headers" where
  "trace_headers sets ctx = fold (\<lambda>(k, v). carrier_Set k v) (sets ctx) []"

text \<open>The context \<open>Start\<close> takes from a message; \<open>extract\<close> is the propagator's, on what \<open>Get\<close> answers.\<close>

definition message_context :: "((string \<Rightarrow> string) \<Rightarrow> 'ctx \<Rightarrow> 'ctx) \<Rightarrow> headers \<Rightarrow> 'ctx \<Rightarrow> 'ctx" where
  "message_context extract hs ctx = extract (carrier_Get hs) ctx"

lemma carrier_Get_Set:
  "carrier_Get (carrier_Set k v hs) k' =
    (if k' \<in> set (carrier_Keys hs) then carrier_Get hs k' else if k' = k then v else [])"
  by (induction hs) (force simp: carrier_Get_def carrier_Set_def carrier_Keys_def)+

lemma trace_headers_sets: "trace_headers sets ctx = sets ctx"
proof -
  have "fold (\<lambda>(k, v). carrier_Set k v) ps hs = hs @ ps" for ps hs
    by (induction ps arbitrary: hs) (auto simp: carrier_Set_def)
  then show ?thesis by (simp add: trace_headers_def)
qed

lemma carrier_Get_member: "distinct (map fst hs) \<Longrightarrow> (k, v) \<in> set hs \<Longrightarrow> carrier_Get hs k = v"
  using distinct_find_key [of fst hs "(k, v)"] by (simp add: carrier_Get_def)

text \<open>A propagator that sets no key twice and extracts a context from answers that agree with what it
  set gives the consumer the context of the producer.\<close>

lemma context_propagates:
  assumes "distinct (map fst (sets ctx))"
    and "\<And>get. \<forall>(k, v) \<in> set (sets ctx). get k = v \<Longrightarrow> extract get ctx0 = ctx"
  shows "message_context extract (trace_headers sets ctx) ctx0 = ctx"
  unfolding message_context_def trace_headers_sets
  by (rule assms(2)) (auto intro: carrier_Get_member assms(1))

section \<open>The history tagger\<close>

record 'w Tagger =
  tg_producer :: "'w KafkaProducer"
  tg_topic :: string

definition TagEvent :: "'w Runtime \<Rightarrow> 'w Tagger \<Rightarrow> string \<Rightarrow> history_payload \<Rightarrow> ('w, go_error option) state"
  where
  "TagEvent rt t eventType payload = do {
     now \<leftarrow> Rt_Now rt;
     Producer_Publish (tg_producer t) (tg_topic t) (HistoryMsg eventType payload now)
   }"

definition TagBulkID :: "'w Runtime \<Rightarrow> 'w Tagger \<Rightarrow> string \<Rightarrow> string \<Rightarrow>
    (string \<times> string) list option \<Rightarrow> ('w, go_error option) state" where
  "TagBulkID rt t bulkID jobID urls = do {
     now \<leftarrow> Rt_Now rt;
     Producer_Publish (tg_producer t) (tg_topic t) (TagMsg bulkID jobID urls now)
   }"

section \<open>Result events\<close>

text \<open>\<open>json.Unmarshal\<close> into a \<open>BulkResultEvent\<close>; \<open>ptime\<close> reads an RFC 3339 time.\<close>

definition dec_billing :: "json \<Rightarrow> (string \<times> string) option \<Rightarrow> (string \<times> string) option option" where
  "dec_billing j cur = (case j of
     JNull \<Rightarrow> Some None
   | _ \<Rightarrow> map_option Some (dec_struct (\<lambda>k v (s, t).
       if k = ''status'' then map_option (\<lambda>x. (x, t)) (dec_string v s)
       else if k = ''transactionid'' then map_option (\<lambda>x. (s, x)) (dec_string v t)
       else Some (s, t)) j (case cur of Some b \<Rightarrow> b | None \<Rightarrow> ([], []))))"

definition dec_urls ::
  "json \<Rightarrow> (string \<times> string) list option \<Rightarrow> (string \<times> string) list option option" where
  "dec_urls j cur = (case j of
     JNull \<Rightarrow> Some None
   | JObj kvs \<Rightarrow> map_option Some (decode_elems kvs (case cur of Some m \<Rightarrow> m | None \<Rightarrow> []))
   | _ \<Rightarrow> None)"

definition event_step ::
  "(string \<Rightarrow> int option) \<Rightarrow> string \<Rightarrow> json \<Rightarrow> BulkResultEvent \<Rightarrow> BulkResultEvent option" where
  "event_step ptime k j ev =
     (if k = ''eventtype'' then map_option (\<lambda>x. ev\<lparr>ev_EventType := x\<rparr>) (dec_string j (ev_EventType ev))
      else if k = ''jobid'' then map_option (\<lambda>x. ev\<lparr>ev_JobID := x\<rparr>) (dec_string j (ev_JobID ev))
      else if k = ''batchid'' then map_option (\<lambda>x. ev\<lparr>ev_BatchID := x\<rparr>) (dec_string j (ev_BatchID ev))
      else if k = ''status'' then map_option (\<lambda>x. ev\<lparr>ev_Status := x\<rparr>) (dec_string j (ev_Status ev))
      else if k = ''buildid'' then map_option (\<lambda>x. ev\<lparr>ev_BuildID := x\<rparr>) (dec_string j (ev_BuildID ev))
      else if k = ''barcodeurls'' then map_option (\<lambda>x. ev\<lparr>ev_BarcodeURLs := x\<rparr>) (dec_urls j (ev_BarcodeURLs ev))
      else if k = ''billing'' then map_option (\<lambda>x. ev\<lparr>ev_Billing := x\<rparr>) (dec_billing j (ev_Billing ev))
      else if k = ''timestamp'' then (case j of
          JNull \<Rightarrow> Some ev
        | JStr s \<Rightarrow> map_option (\<lambda>x. ev\<lparr>ev_Timestamp := x\<rparr>) (ptime s)
        | _ \<Rightarrow> None)
      else Some ev)"

definition empty_event :: BulkResultEvent where
  "empty_event = \<lparr>ev_EventType = [], ev_JobID = [], ev_BatchID = [], ev_Status = [], ev_BuildID = [],
     ev_BarcodeURLs = None, ev_Billing = None, ev_Timestamp = 0\<rparr>"

definition unmarshal_event :: "(string \<Rightarrow> int option) \<Rightarrow> string \<Rightarrow> BulkResultEvent option" where
  "unmarshal_event ptime s = (case json_parse s of
     None \<Rightarrow> None | Some j \<Rightarrow> dec_struct (event_step ptime) j empty_event)"

section \<open>The consumer\<close>

record 'w ResultConsumer =
  rc_handler :: "(BulkResultEvent \<Rightarrow> ('w, go_error option) state) option"
  rc_producer :: "'w KafkaProducer option"
  rc_dlqTopic :: string
  rc_retryCount :: int

text \<open>One message: an undecodable payload is skipped; a handler that still fails after the
  retries sends the event to the dead-letter topic.\<close>

definition process_message ::
  "(string \<Rightarrow> int option) \<Rightarrow> 'w ResultConsumer \<Rightarrow> string \<Rightarrow> ('w, unit) state" where
  "process_message ptime c m = (case unmarshal_event ptime m of
     None \<Rightarrow> State_Monad.return ()
   | Some ev \<Rightarrow> (case rc_handler c of
       None \<Rightarrow> State_Monad.return ()
     | Some handler \<Rightarrow> do {
         hErr \<leftarrow> attempts (nat (rc_retryCount c + 1)) (handler ev) None;
         (case hErr of
            None \<Rightarrow> State_Monad.return ()
          | Some err \<Rightarrow> (case rc_producer c of
              None \<Rightarrow> State_Monad.return ()
            | Some p \<Rightarrow>
                if rc_dlqTopic c \<noteq> [] then do {
                  perr \<leftarrow> Producer_Publish p (rc_dlqTopic c) (ResultMsg ev);
                  State_Monad.return ()
                } else State_Monad.return ()))
       }))"

text \<open>\<open>Start\<close> on the messages a reader returns before the read that fails with \<open>err\<close>.\<close>

definition Start ::
  "(string \<Rightarrow> int option) \<Rightarrow> 'w ResultConsumer \<Rightarrow> string list \<Rightarrow> go_error \<Rightarrow> ('w, go_error) state" where
  "Start ptime c msgs err = do {
     for_range msgs (process_message ptime c);
     State_Monad.return err
   }"

end
