(* ===== verification/Billing.thy ===== *)
theory Billing
  imports Kafka
begin

text \<open>
  \<open>internal/billing\<close>: the client of the billing service behind the BFF.  A request is a POST
  whose answer the environment chooses from its path and body; the world logs which request was
  made.  The tolerant decoding \<open>QuoteResponse.UnmarshalJSON\<close> is modelled on JSON values.
\<close>

section \<open>Requests\<close>

record BFFBillingClient =
  bc_url :: string
  bc_token :: string

definition http_post :: "env \<Rightarrow> outcall \<Rightarrow> string \<Rightarrow> string \<Rightarrow> (world, http_reply) state" where
  "http_post e call url body = do {
     n \<leftarrow> tick;
     w \<leftarrow> State_Monad.get;
     State_Monad.set (w\<lparr>wCalls := wCalls w @ [call]\<rparr>);
     State_Monad.return (eHTTP e n url body)
   }"

text \<open>The answers of \<open>client.Do\<close> with a status check: an error without an answer, an error for
  a status other than 200, or the body.\<close>

definition checked_body :: "string \<Rightarrow> http_reply \<Rightarrow> go_error + string" where
  "checked_body what r = (case r of
     Unreachable s \<Rightarrow> Inl (ErrExternal s)
   | Reply st body \<Rightarrow> if st \<noteq> 200
       then Inl (ErrMsg (''billing '' @ what @ '' returned status '' @ Itoa st @ '': '' @ body))
       else Inr body)"

section \<open>Decoding a quote\<close>

definition source_step :: "string \<Rightarrow> json \<Rightarrow> SourceBreakdown \<Rightarrow> SourceBreakdown option" where
  "source_step k j s =
     (if k = ''units'' then map_option (\<lambda>x. s\<lparr>sb_Units := x\<rparr>) (dec_int j (sb_Units s))
      else if k = ''remaining'' then map_option (\<lambda>x. s\<lparr>sb_Remaining := x\<rparr>) (dec_int j (sb_Remaining s))
      else if k = ''amount'' then map_option (\<lambda>x. s\<lparr>sb_Amount := x\<rparr>) (dec_float j (sb_Amount s))
      else Some s)"

definition breakdown_step :: "string \<Rightarrow> json \<Rightarrow> QuoteBreakdown \<Rightarrow> QuoteBreakdown option" where
  "breakdown_step k j q =
     (if k = ''subscription''
      then map_option (\<lambda>x. q\<lparr>qb_Subscription := x\<rparr>) (dec_struct source_step j (qb_Subscription q))
      else if k = ''credits''
      then map_option (\<lambda>x. q\<lparr>qb_Credits := x\<rparr>) (dec_struct source_step j (qb_Credits q))
      else if k = ''wallet''
      then map_option (\<lambda>x. q\<lparr>qb_Wallet := x\<rparr>) (dec_struct source_step j (qb_Wallet q))
      else Some q)"

definition zero_source :: SourceBreakdown where
  "zero_source = \<lparr>sb_Units = 0, sb_Remaining = 0, sb_Amount = 0\<rparr>"

definition zero_breakdown :: QuoteBreakdown where
  "zero_breakdown = \<lparr>qb_Subscription = zero_source, qb_Credits = zero_source, qb_Wallet = zero_source\<rparr>"

definition zero_quote :: QuoteResponse where
  "zero_quote = \<lparr>q_CanProcess = False, q_CanGenerate = False, q_Partial = False, q_Requested = 0,
     q_AllowedTotal = 0, q_UnitPrice = 0, q_BySource = zero_breakdown, q_Shortfall = None\<rparr>"

text \<open>The raw response: the quote's plain fields, and the two fields kept as raw JSON.\<close>

record rawResp =
  raw_quote :: QuoteResponse
  raw_BySource :: "json option"
  raw_Shortfall :: "json option"

definition raw_step :: "string \<Rightarrow> json \<Rightarrow> rawResp \<Rightarrow> rawResp option" where
  "raw_step k j r = (let q = raw_quote r; upd = (\<lambda>x. r\<lparr>raw_quote := x\<rparr>) in
     if k = ''canprocess'' then map_option (\<lambda>x. upd (q\<lparr>q_CanProcess := x\<rparr>)) (dec_bool j (q_CanProcess q))
     else if k = ''cangenerate'' then map_option (\<lambda>x. upd (q\<lparr>q_CanGenerate := x\<rparr>)) (dec_bool j (q_CanGenerate q))
     else if k = ''partial'' then map_option (\<lambda>x. upd (q\<lparr>q_Partial := x\<rparr>)) (dec_bool j (q_Partial q))
     else if k = ''requested'' then map_option (\<lambda>x. upd (q\<lparr>q_Requested := x\<rparr>)) (dec_int j (q_Requested q))
     else if k = ''allowedtotal'' then map_option (\<lambda>x. upd (q\<lparr>q_AllowedTotal := x\<rparr>)) (dec_int j (q_AllowedTotal q))
     else if k = ''unitprice'' then map_option (\<lambda>x. upd (q\<lparr>q_UnitPrice := x\<rparr>)) (dec_float j (q_UnitPrice q))
     else if k = ''bysource'' then Some (r\<lparr>raw_BySource := Some j\<rparr>)
     else if k = ''shortfall'' then Some (r\<lparr>raw_Shortfall := Some j\<rparr>)
     else Some r)"

definition units_of :: "(string \<times> rat) list \<Rightarrow> string \<Rightarrow> SourceBreakdown \<Rightarrow> SourceBreakdown" where
  "units_of m k s = (case map_of m k of Some v \<Rightarrow> s\<lparr>sb_Units := trunc_rat v\<rparr> | None \<Rightarrow> s)"

definition flat_breakdown :: "(string \<times> rat) list \<Rightarrow> QuoteBreakdown" where
  "flat_breakdown m = \<lparr>
     qb_Subscription = units_of m ''subscription'' zero_source,
     qb_Credits = units_of m ''credits_type1'' (units_of m ''credits'' zero_source),
     qb_Wallet = units_of m ''wallet'' zero_source\<rparr>"

text \<open>\<open>bySource\<close>: the structured form first, and the flat map when that does not decode.\<close>

definition dec_BySource :: "json option \<Rightarrow> QuoteBreakdown" where
  "dec_BySource r = (case r of
     None \<Rightarrow> zero_breakdown
   | Some j \<Rightarrow> (case dec_struct breakdown_step j zero_breakdown of
       Some qb \<Rightarrow> qb
     | None \<Rightarrow> (case dec_map (\<lambda>x. dec_float x 0) j of
         Some m \<Rightarrow> flat_breakdown m
       | None \<Rightarrow> zero_breakdown)))"

definition shortfall_step :: "string \<Rightarrow> json \<Rightarrow> Shortfall \<Rightarrow> Shortfall option" where
  "shortfall_step k j s =
     (if k = ''units'' then map_option (\<lambda>x. s\<lparr>sf_Units := x\<rparr>) (dec_int j (sf_Units s))
      else if k = ''amountrequired''
      then map_option (\<lambda>x. s\<lparr>sf_AmountRequired := x\<rparr>) (dec_float j (sf_AmountRequired s))
      else Some s)"

definition dec_Shortfall :: "json option \<Rightarrow> Shortfall option" where
  "dec_Shortfall r = (case r of
     None \<Rightarrow> None
   | Some (JObj kvs) \<Rightarrow> dec_struct shortfall_step (JObj kvs) \<lparr>sf_Units = 0, sf_AmountRequired = 0\<rparr>
   | Some (JArr js) \<Rightarrow> None
   | Some j \<Rightarrow> (case dec_float j 0 of
       Some v \<Rightarrow> Some \<lparr>sf_Units = trunc_rat v, sf_AmountRequired = 0\<rparr>
     | None \<Rightarrow> None))"

definition QuoteResponse_UnmarshalJSON :: "json \<Rightarrow> QuoteResponse option" where
  "QuoteResponse_UnmarshalJSON j =
     (case dec_struct raw_step j \<lparr>raw_quote = zero_quote, raw_BySource = None, raw_Shortfall = None\<rparr> of
        None \<Rightarrow> None
      | Some r \<Rightarrow> (let q = raw_quote r in
          Some (q\<lparr>q_CanProcess := q_CanProcess q \<or> q_CanGenerate q,
            q_BySource := dec_BySource (raw_BySource r),
            q_Shortfall := dec_Shortfall (raw_Shortfall r)\<rparr>)))"

section \<open>Operations\<close>

definition quote_body :: "string \<Rightarrow> int \<Rightarrow> json" where
  "quote_body userID units = JObj [(''userId'', JStr userID), (''count'', JNum (Itoa units)),
     (''context'', JObj [(''source'', JStr ''bulk'')])]"

definition Quote :: "env \<Rightarrow> BFFBillingClient \<Rightarrow> string \<Rightarrow> int \<Rightarrow>
    (world, go_error + QuoteResponse option) state" where
  "Quote e c userID units = do {
     resp \<leftarrow> http_post e (CallQuote userID units) (bc_url c @ ''/internal/billing/quote'')
       (json_print (quote_body userID units));
     State_Monad.return (case checked_body ''quote'' resp of
        Inl err \<Rightarrow> Inl err
      | Inr body \<Rightarrow> (case json_first body of
          None \<Rightarrow> Inl ErrBadJSON
        | Some j \<Rightarrow> (case QuoteResponse_UnmarshalJSON j of
            None \<Rightarrow> Inl ErrBadJSON | Some q \<Rightarrow> Inr (Some q))))
   }"

definition block_step :: "string \<Rightarrow> json \<Rightarrow> string list \<Rightarrow> string list option" where
  "block_step k j ts = (if k = ''transactionids'' then dec_strings j ts else Some ts)"

definition block_body :: "string \<Rightarrow> int \<Rightarrow> string \<Rightarrow> json" where
  "block_body userID units batchID = JObj [(''batchId'', JStr batchID), (''count'', JNum (Itoa units)),
     (''userId'', JStr userID)]"

definition BlockBatch :: "env \<Rightarrow> BFFBillingClient \<Rightarrow> string \<Rightarrow> int \<Rightarrow> string \<Rightarrow>
    (world, go_error + string list option) state" where
  "BlockBatch e c userID units batchID = do {
     resp \<leftarrow> http_post e (CallBlock userID units batchID) (bc_url c @ ''/internal/billing/block-batch'')
       (json_print (block_body userID units batchID));
     State_Monad.return (case checked_body ''block-batch'' resp of
        Inl err \<Rightarrow> Inl err
      | Inr body \<Rightarrow> (case json_first body of
          None \<Rightarrow> Inl ErrBadJSON
        | Some j \<Rightarrow> (case dec_struct block_step j [] of
            None \<Rightarrow> Inl ErrBadJSON | Some ts \<Rightarrow> Inr (Some ts))))
   }"

text \<open>\<open>RefundRequest\<close> leaves out an empty user or batch id.\<close>

definition refund_body :: "string \<Rightarrow> string list \<Rightarrow> string \<Rightarrow> json" where
  "refund_body userID txs batchID = JObj (
     (if userID = [] then [] else [(''userId'', JStr userID)])
     @ [(''transactionIds'', case txs of [] \<Rightarrow> JNull | ts \<Rightarrow> JArr (map JStr ts))]
     @ (if batchID = [] then [] else [(''batchId'', JStr batchID)]))"

definition RefundTransactions :: "env \<Rightarrow> BFFBillingClient \<Rightarrow> string \<Rightarrow> string list \<Rightarrow> string \<Rightarrow>
    (world, go_error option) state" where
  "RefundTransactions e c userID txs batchID = do {
     resp \<leftarrow> http_post e (CallRefund userID txs batchID) (bc_url c @ ''/internal/billing/refund'')
       (json_print (refund_body userID txs batchID));
     State_Monad.return (case checked_body ''refund'' resp of Inl err \<Rightarrow> Some err | Inr body \<Rightarrow> None)
   }"

definition billing_of :: "env \<Rightarrow> BFFBillingClient \<Rightarrow> world BillingClient" where
  "billing_of e c = \<lparr>Billing_Quote = Quote e c, Billing_BlockBatch = BlockBatch e c,
     Billing_RefundTransactions = RefundTransactions e c\<rparr>"

lemma run_http_post [run_simps]:
  "result (http_post e call url body) w = eHTTP e (wTick w) url body"
  "after (http_post e call url body) w = w\<lparr>wTick := Suc (wTick w), wCalls := wCalls w @ [call]\<rparr>"
  by (simp_all add: http_post_def run_simps)

lemma keeps_http_post:
  "(\<And>w n. v (w\<lparr>wTick := n\<rparr>) = v w) \<Longrightarrow> (\<And>w l. v (w\<lparr>wCalls := l\<rparr>) = v w) \<Longrightarrow>
    keeps v (http_post e call url body)"
  by (simp add: keeps_def run_simps)

lemmas billing_ops_defs = billing_of_def Quote_def BlockBatch_def RefundTransactions_def

interpretation bff_billing: billing_account "billing_of e c" wCalls for e c
  by unfold_locales (simp_all add: billing_ops_defs run_simps)

section \<open>The platform\<close>

lemma view_ticks [simp]:
  "pg_stored (w\<lparr>wLog := l\<rparr>) = pg_stored w" "pg_stored (w\<lparr>wCalls := cs\<rparr>) = pg_stored w"
  "pg_jobs (w\<lparr>wLog := l\<rparr>) = pg_jobs w" "pg_jobs (w\<lparr>wCalls := cs\<rparr>) = pg_jobs w"
  by (simp_all add: pg_stored_def pg_jobs_def fun_eq_iff)

lemma keeps_Publish:
  "(\<And>w n. v (w\<lparr>wTick := n\<rparr>) = v w) \<Longrightarrow> (\<And>w l. v (w\<lparr>wLog := l\<rparr>) = v w) \<Longrightarrow>
    keeps v (Producer_Publish (producer_of e brokers) t m)"
  by (simp add: producer_of_def Publish_def keeps_attempts keeps_WriteMessages)

lemma billing_ops_keep:
  assumes "\<And>w n. v (w\<lparr>wTick := n\<rparr>) = v w" "\<And>w l. v (w\<lparr>wCalls := l\<rparr>) = v w"
  shows "keeps v (Billing_Quote (billing_of e c) u n)"
    "keeps v (Billing_BlockBatch (billing_of e c) u n i)"
    "keeps v (Billing_RefundTransactions (billing_of e c) u ts i)"
  by (auto simp: billing_ops_defs assms intro!: frame_intros keeps_http_post)

lemma runtime_ops_keep:
  assumes "\<And>w n. v (w\<lparr>wTick := n\<rparr>) = v w"
  shows "keeps v (Rt_Now (runtime_of e))" "keeps v (Rt_NewUUID (runtime_of e))"
  by (auto simp: runtime_of_def assms intro!: frame_intros keeps_tick)

text \<open>The production wiring of \<open>di.NewDeps\<close> keeps every contract at once.\<close>

interpretation prod: platform "batchRepository e" pg_stored "jobRepository e" pg_jobs
  "producer_of e brokers" wLog "billing_of e c" wCalls "runtime_of e" for e brokers c
  by unfold_locales
    (simp_all add: keeps_Publish batch_ops_keep job_ops_keep billing_ops_keep runtime_ops_keep)

end
