(* ===== verification/Fixtures.thy ===== *)
theory Fixtures
  imports Billing
begin

text \<open>
  A concrete environment and worlds, on which the witnesses of the properties run the model: no
  statement or message fails, every text is a UUID, the clock shows the ticks, and the billing
  service answers as the fixture says.
\<close>

definition env0 :: env where
  "env0 = \<lparr>eDB = (\<lambda>n. None), eBatchOrder = (\<lambda>n rs. rs), eJobOrder = (\<lambda>n rs. rs),
     eErrorOrder = (\<lambda>n rs. rs), eUUIDok = (\<lambda>s. True), eTimeRFC3339 = (\<lambda>s. None),
     eNow = (\<lambda>n. 1000 + int n), eUUID = (\<lambda>n. CHR ''u'' # Itoa (int n)), eGetenv = (\<lambda>k. []),
     eKafka = (\<lambda>n. None), eHTTP = (\<lambda>n path body. Reply 200 ''{}'')\<rparr>"

text \<open>An environment whose statement at one tick fails.\<close>

definition env_fail :: "nat \<Rightarrow> env" where
  "env_fail k = env0\<lparr>eDB := (\<lambda>n. if n = k then Some ''down'' else None)\<rparr>"

definition empty_world :: world where
  "empty_world = \<lparr>wBatches = [], wJobs = [], wErrors = [], wLog = [], wCalls = [],
     wLimits = initial_limits, wExports = NewManager 10, wTick = 0\<rparr>"

definition brow :: "string \<Rightarrow> string \<Rightarrow> int \<Rightarrow> json \<Rightarrow> batch_row" where
  "brow i st n txs = \<lparr>br_id = i, br_user_id = Some ''user'', br_status = st, br_revision = ''R'',
     br_file_storage_id = None, br_total_rows = n, br_valid_rows = n, br_approved_count = 0,
     br_completed_count = 0, br_failed_count = 0, br_created_at = 5, br_completed_at = None,
     br_transaction_ids = Some (JObj [(''transactions'', txs)])\<rparr>"

definition jrow :: "string \<Rightarrow> string \<Rightarrow> int \<Rightarrow> string \<Rightarrow> job_row" where
  "jrow i b n st = \<lparr>jr_id = i, jr_batch_id = b, jr_row_number = n, jr_status = st,
     jr_input_data = JObj [], jr_build_id = None, jr_barcode_urls = None, jr_error_code = None,
     jr_error_message = None, jr_billing_transaction_id = None\<rparr>"

definition world0 :: world where
  "world0 = empty_world\<lparr>
     wBatches := [brow ''b1'' BatchStatusProcessing 3 (JArr [JStr ''t1'', JStr ''t2'']),
                  brow ''b2'' BatchStatusReady 1 JNull],
     wJobs := [jrow ''j1'' ''b1'' 1 JobStatusCompleted, jrow ''j2'' ''b1'' 2 JobStatusQueued,
               jrow ''j3'' ''b1'' 3 JobStatusFailed, jrow ''k1'' ''b2'' 1 JobStatusPending]\<rparr>"

definition client0 :: BFFBillingClient where
  "client0 = \<lparr>bc_url = ''http://bff'', bc_token = []\<rparr>"

end
