(* ===== verification/AdapterLaws.thy ===== *)
theory AdapterLaws
  imports Fixtures
begin

text \<open>
  Properties of the adapters: what a stored batch reads as, the query builder and the pages of the
  filtered list, the administration statistics, the results of jobs, the producer's retries and
  the billing client's decoding.
\<close>

section \<open>Facts\<close>

lemma scan_inserted: "ToDomain (scan_batch (insert_row (toPostgres b) t)) =
    b\<lparr>b_CreatedAt := t, b_CompletedAt := None, b_Priority := [], b_TimeoutMs := 0\<rparr>"
  by (simp add: scan_batch_def insert_row_def parse_txArg parse_txArg_roundtrip)
    (simp add: ToDomain_def toPostgres_def)

lemma scan_updated: "ToDomain (scan_batch (update_row (toPostgres b) r)) =
    b\<lparr>b_ID := br_id r, b_UserID := of_null (br_user_id r), b_Revision := br_revision r,
      b_CreatedAt := br_created_at r, b_CompletedAt := norm_time (b_CompletedAt b),
      b_Priority := [], b_TimeoutMs := 0\<rparr>"
  by (simp add: scan_batch_def update_row_def parse_txArg parse_txArg_roundtrip)
    (simp add: ToDomain_def toPostgres_def norm_time_def split: option.split)

lemma run_get: "result (BatchRepo_GetByID (batchRepository e) i) w =
    (case eDB e (wTick w) of Some s \<Rightarrow> Inl (ErrExternal s)
     | None \<Rightarrow> if \<not> eUUIDok e i then Inl bad_uuid
         else (case find (\<lambda>r. br_id r = i) (wBatches w) of None \<Rightarrow> Inl ErrNoRows
           | Some r \<Rightarrow> Inr (Some (ToDomain (scan_batch r)))))"
  "wBatches (after (BatchRepo_GetByID (batchRepository e) i) w) = wBatches w"
  by (simp_all add: batchRepository_def repo_batch_GetByID_def pg_batch_GetByID_def run_simps
      split: option.splits)

lemma run_create:
  assumes "result (BatchRepo_Create (batchRepository e) b) w = None"
  shows "find (\<lambda>r. br_id r = b_ID b) (wBatches (after (BatchRepo_Create (batchRepository e) b) w)) =
    Some (insert_row (toPostgres b) (eNow e (wTick w)))"
proof -
  from assms have "b_ID b \<notin> br_id ` set (wBatches w)"
    and w': "after (BatchRepo_Create (batchRepository e) b) w =
      w\<lparr>wTick := Suc (wTick w), wBatches := wBatches w @ [insert_row (toPostgres b) (eNow e (wTick w))]\<rparr>"
    by (auto simp: batchRepository_def pg_batch_Create_def sql_insert_batch_def run_simps Let_def
        split: option.splits if_splits)
  then have "find (\<lambda>r. br_id r = b_ID b) (wBatches w) = None" by (simp add: find_None_key)
  then show ?thesis by (simp add: w' find_append)
qed

lemma run_update:
  assumes "result (BatchRepo_Update (batchRepository e) b) w = None"
  shows "wBatches (after (BatchRepo_Update (batchRepository e) b) w) =
    map (\<lambda>r. if br_id r = b_ID b then update_row (toPostgres b) r else r) (wBatches w)"
  using assms
  by (auto simp: batchRepository_def pg_batch_Update_def run_simps Let_def split: option.splits if_splits)

lemma exec_failed_rows: "result (db_exec e f) w = Some x \<Longrightarrow> wBatches (after (db_exec e f) w) = wBatches w"
  by (simp add: db_exec_failed)

section \<open>Stored batches\<close>

text \<open>A batch that was created reads back as it was given, with the time of its creation, no
  completion time and no configuration: priority and timeout are not stored.  A creation that fails
  leaves the table.\<close>

theorem create_then_get:
  "case run_state (do {
      c \<leftarrow> BatchRepo_Create (batchRepository e) b;
      g \<leftarrow> BatchRepo_GetByID (batchRepository e) (b_ID b);
      State_Monad.return (c, g) }) w of
    ((c, g), w') \<Rightarrow> (case c of
      Some err \<Rightarrow> wBatches w' = wBatches w
    | None \<Rightarrow> (case g of
        Inl err \<Rightarrow> err \<noteq> ErrNoRows
      | Inr None \<Rightarrow> False
      | Inr (Some b') \<Rightarrow> b' = b\<lparr>b_CreatedAt := eNow e (wTick w), b_CompletedAt := None,
          b_Priority := [], b_TimeoutMs := 0\<rparr>))"
proof (cases "result (BatchRepo_Create (batchRepository e) b) w")
  case None
  from run_create [OF None] None show ?thesis
    by (simp add: run_state_result_after run_get scan_inserted bad_uuid_def split: option.split)
next
  case (Some err)
  then have "wBatches (after (BatchRepo_Create (batchRepository e) b) w) = wBatches w"
    by (simp add: batchRepository_def pg_batch_Create_def sql_insert_batch_def exec_failed_rows)
  with Some show ?thesis by (simp add: run_state_result_after run_get)
qed


section \<open>Filtered lists\<close>

definition clause_text :: "cond list \<Rightarrow> int \<Rightarrow> string" where
  "clause_text cs i = concat (map (\<lambda>(c, n). '' AND '' @ cond_text c @ Itoa (i + int n)) (zip cs [0..<length cs]))"

lemma clause_text_snoc: "clause_text (cs @ [c]) i = clause_text cs i @ '' AND '' @ cond_text c @ Itoa (i + int (length cs))"
  by (simp add: clause_text_def)

lemma foldl_add_cond: "foldl add_cond (text, args, i) cs =
    (text @ clause_text cs i, args @ map cond_arg cs, i + int (length cs))"
proof (induction cs rule: rev_induct)
  case (snoc c cs)
  then show ?case by (simp add: add_cond_def clause_text_snoc)
qed (simp add: clause_text_def)

text \<open>The query builder numbers its placeholders \<open>$1\<close>, \<open>$2\<close>, ... in the order of the arguments it
  passes, one condition for each filter that is set, and the limit and the offset take the next two.\<close>

theorem list_query_placeholders:
  "let n = int (length cs) in
   list_query cs sortBy desc limit offset =
    (''SELECT id,user_id,status,revision,file_storage_id,total_rows,valid_rows,approved_count,'' @
     ''completed_count,failed_count,created_at,completed_at,transaction_ids FROM batches'' @
     '' WHERE 1=1'' @ concat (map (\<lambda>(c, k). '' AND '' @ cond_text c @ Itoa (1 + int k)) (zip cs [0..<length cs])) @
     '' ORDER BY '' @ orderBy sortBy @ '' '' @ (if desc then ''DESC'' else ''ASC'') @
     '' LIMIT $'' @ Itoa (n + 1) @ '' OFFSET $'' @ Itoa (n + 2),
     map cond_arg cs @ [ArgInt limit, ArgInt offset])"
  by (simp add: list_query_def where_clause_def foldl_add_cond clause_text_def algebra_simps)

text \<open>The order of a list: by creation or completion time, rows without a completion time last, or first
  in a descending list.\<close>

definition sort_value :: "string \<Rightarrow> batch_row \<Rightarrow> int option" where
  "sort_value sortBy r = (if sortBy = ''completedAt'' then br_completed_at r else Some (br_created_at r))"

definition in_sort_order :: "string \<Rightarrow> bool \<Rightarrow> batch_row \<Rightarrow> batch_row \<Rightarrow> bool" where
  "in_sort_order sortBy desc r s = (let key = (\<lambda>r. position_of (sort_value sortBy r)) in
     if desc then key s \<le> key r else key r \<le> key s)"

lemma sort_rows_key: "sort_rows sortBy desc rs =
    (if desc then rev else id) (sort_key (\<lambda>r. position_of (sort_value sortBy r)) rs)"
  by (simp add: sort_rows_def orderBy_def sort_value_def Let_def)

lemma sort_rows_sorted: "sorted_wrt (in_sort_order sortBy desc) (sort_rows sortBy desc rs)"
  using sorted_sort_key [of "\<lambda>r. position_of (sort_value sortBy r)" rs]
  by (auto simp: sort_rows_key in_sort_order_def [abs_def] Let_def sorted_map sorted_wrt_rev)

lemma sort_rows_mset: "mset (sort_rows sortBy desc rs) = mset rs"
  by (simp add: sort_rows_key)

text \<open>What a filter asks of a batch; an empty or unreadable cursor asks nothing.\<close>

definition cursor_time :: "env \<Rightarrow> BatchFilter \<Rightarrow> int option" where
  "cursor_time e f = (if f_Cursor f \<noteq> [] then eTimeRFC3339 e (f_Cursor f) else None)"

definition beyond :: "bool \<Rightarrow> int option \<Rightarrow> int \<Rightarrow> bool" where
  "beyond desc x t = (case x of None \<Rightarrow> False | Some v \<Rightarrow> if desc then v < t else t < v)"

definition matches_filter :: "env \<Rightarrow> BatchFilter \<Rightarrow> batch_row \<Rightarrow> bool" where
  "matches_filter e f r \<longleftrightarrow>
     (f_Status f \<noteq> [] \<longrightarrow> br_status r = f_Status f) \<and>
     (f_UserID f \<noteq> [] \<longrightarrow> br_user_id r = Some (f_UserID f)) \<and>
     (f_Revision f \<noteq> [] \<longrightarrow> br_revision r = f_Revision f) \<and>
     (\<forall>t. f_From f = Some t \<longrightarrow> t \<le> br_created_at r) \<and>
     (\<forall>t. f_To f = Some t \<longrightarrow> br_created_at r \<le> t) \<and>
     (\<forall>t. cursor_time e f = Some t \<longrightarrow> beyond (f_SortDesc f) (sort_value (f_SortBy f) r) t)"

lemma list_conds_matches:
  "list_all (\<lambda>c. cond_holds c r) (list_conds (f_Status f) (f_UserID f) (f_Revision f) (f_From f) (f_To f)
     (f_SortBy f) (f_SortDesc f) (cursor_time e f)) = matches_filter e f r"
proof -
  have cursor: "list_all (\<lambda>c. cond_holds c r) (case cursor_time e f of None \<Rightarrow> []
      | Some t \<Rightarrow> (if f_SortBy f = ''completedAt''
          then (if f_SortDesc f then [CompletedBefore t] else [CompletedAfter t])
          else (if f_SortDesc f then [CreatedBefore t] else [CreatedAfter t]))) =
      (\<forall>t. cursor_time e f = Some t \<longrightarrow> beyond (f_SortDesc f) (sort_value (f_SortBy f) r) t)"
    by (auto simp: beyond_def sort_value_def split: option.split)
  show ?thesis
    unfolding list_conds_def list_all_append matches_filter_def cursor
    by (auto split: option.split)
qed


section \<open>Statistics\<close>

lemma count_where_append: "count_where s \<le> count_where (s @ t)"
  by (induction s) (auto simp: HasPrefix_def intro: le_SucI)

lemma count_where_append2: "count_where t \<le> count_where (s @ t)"
  by (induction s) auto

text \<open>A computation that returns an error from every world and keeps the tables.\<close>

definition fails :: "(world, go_error + 'a) state \<Rightarrow> bool" where
  "fails m \<longleftrightarrow> (\<forall>w. (\<exists>err. result m w = Inl err) \<and> wBatches (after m w) = wBatches w \<and>
     wJobs (after m w) = wJobs w)"

lemma fails_later:
  assumes "\<And>x. fails (k x)"
  shows "fails (State_Monad.bind (db_text e t g) (\<lambda>q. case q of Inl err \<Rightarrow> State_Monad.return (Inl err) | Inr x \<Rightarrow> k x))"
proof -
  have "after (db_text e t g) w = w\<lparr>wTick := Suc (wTick w)\<rparr>" for w by (simp add: db_text_def run_simps)
  with assms show ?thesis by (auto simp: fails_def split: sum.split)
qed

lemma fails_here:
  assumes "1 < count_where t"
  shows "fails (State_Monad.bind (db_text e t g) (\<lambda>q. case q of Inl err \<Rightarrow> State_Monad.return (Inl err) | Inr x \<Rightarrow> k x))"
  unfolding fails_def
proof
  fix w
  obtain err where "result (db_text e t g) w = Inl err"
    using assms by (cases "eDB e (wTick w)") (auto simp: db_text_def run_simps)
  moreover have "after (db_text e t g) w = w\<lparr>wTick := Suc (wTick w)\<rparr>" by (simp add: db_text_def run_simps)
  ultimately show "(\<exists>err. result (State_Monad.bind (db_text e t g)
      (\<lambda>q. case q of Inl err \<Rightarrow> State_Monad.return (Inl err) | Inr x \<Rightarrow> k x)) w = Inl err) \<and>
    wBatches (after (State_Monad.bind (db_text e t g)
      (\<lambda>q. case q of Inl err \<Rightarrow> State_Monad.return (Inl err) | Inr x \<Rightarrow> k x)) w) = wBatches w \<and>
    wJobs (after (State_Monad.bind (db_text e t g)
      (\<lambda>q. case q of Inl err \<Rightarrow> State_Monad.return (Inl err) | Inr x \<Rightarrow> k x)) w) = wJobs w"
    by simp
qed

text \<open>C36: the administration's statistics always fail: the query for failed jobs has two WHERE clauses,
  whatever the time range.\<close>

theorem stats_always_fail:
  "case run_state (BatchRepo_AdminStats (batchRepository e) from to) w of
    (Inl err, w') \<Rightarrow> wBatches w' = wBatches w \<and> wJobs w' = wJobs w | (Inr x, w') \<Rightarrow> False"
proof -
  let ?wh = "fst (where_clause (time_conds from to))"
  obtain rest where wh: "?wh = '' WHERE 1=1'' @ rest"
    by (simp add: where_clause_def foldl_add_cond)
  have "count_where (fail_text @ '' WHERE 1=1'') = 2" by code_simp
  then have two: "1 < count_where (fail_text @ ?wh)"
    using count_where_append [of "fail_text @ '' WHERE 1=1''" rest] by (simp add: wh)
  have "fails (pg_batch_AdminStats e from to)"
    unfolding pg_batch_AdminStats_def Let_def
    by (rule fails_later, rule fails_later, rule fails_here) (rule two)
  then obtain err where "result (pg_batch_AdminStats e from to) w = Inl err"
    "wBatches (after (pg_batch_AdminStats e from to) w) = wBatches w"
    "wJobs (after (pg_batch_AdminStats e from to) w) = wJobs w" by (auto simp: fails_def)
  then show ?thesis by (simp add: run_state_result_after batchRepository_def)
qed

section \<open>Results of jobs\<close>

text \<open>The text a JSON column gives back for a text it was given.\<close>

definition reformatted :: "string \<Rightarrow> string" where
  "reformatted t = (if t = [] then [] else json_print (the (json_parse t)))"

definition put_result :: "string \<Rightarrow> string \<Rightarrow> JobResult \<Rightarrow> job_row \<Rightarrow> job_row" where
  "put_result i s r q = (if jr_id q = i then q\<lparr>jr_status := s, jr_build_id := null_str (r_BuildID r),
     jr_barcode_urls := map_option (\<lambda>t. the (json_parse t)) (null_str (r_BarcodeURLs r)),
     jr_error_code := null_str (r_ErrorCode r), jr_error_message := null_str (r_ErrorMessage r),
     jr_billing_transaction_id := null_str (r_BillingTransactionID r)\<rparr> else q)"

lemma run_put_result:
  fixes e i s r
  defines "m \<equiv> JobRepo_UpdateStatusWithResult (jobRepository e) i s r"
  shows "wJobs (after m w) = (if result m w = None then map (put_result i s r) (wJobs w) else wJobs w)"
proof -
  have upd: "wJobs (after (sql_update_job e i g) w) =
      (if result (sql_update_job e i g) w = None then map (\<lambda>q. if jr_id q = i then g q else q) (wJobs w) else wJobs w)"
    for g using sql_update_job_ok [of e i g w] sql_update_job_failed [of e i g w] by auto
  have refused: "wJobs (after (db_exec e (\<lambda>n w. Inl x)) w) = wJobs w" "result (db_exec e (\<lambda>n w. Inl x)) w \<noteq> None" for x
    using db_exec_Inl by (simp_all add: db_exec_failed)
  show ?thesis
    unfolding m_def jobRepository_def pg_job_UpdateStatusWithResult_def Let_def put_result_def
    by (auto simp: upd refused split: option.split)
qed

text \<open>A stored result is what the results of its batch show: build id, error and barcode texts of the
  message, the latter as the JSON column gives them back; the results of all other jobs of the batch are
  as before, and a result that is refused changes nothing.\<close>

lemma results_after:
  "case run_state (do {
      u \<leftarrow> JobRepo_UpdateStatusWithResult (jobRepository e) i s r;
      g \<leftarrow> JobRepo_GetResultsByBatch (jobRepository e) k;
      State_Monad.return (u, g) }) w of
    ((u, g), w') \<Rightarrow> (case g of
      Inl err \<Rightarrow> True
    | Inr rs \<Rightarrow> mset rs = {# (if u = None \<and> jr_id q = i
        then \<lparr>r_JobID = i, r_RowNumber = jr_row_number q, r_BuildID = r_BuildID r,
          r_BarcodeURLs = reformatted (r_BarcodeURLs r), r_ErrorCode = r_ErrorCode r,
          r_ErrorMessage = r_ErrorMessage r, r_BillingTransactionID = []\<rparr>
        else result_row q). q \<in># mset (filter (\<lambda>q. jr_batch_id q = k) (wJobs w)) #})"
proof -
  let ?m = "JobRepo_UpdateStatusWithResult (jobRepository e) i s r"
  have reads: "of_null (null_str t) = t" "of_null (map_option json_print (map_option (\<lambda>t. the (json_parse t)) (null_str t))) = reformatted t"
    for t by (auto simp: null_str_def of_null_def reformatted_def)
  have put: "result_row (put_result i s r q) = (if jr_id q = i
        then \<lparr>r_JobID = i, r_RowNumber = jr_row_number q, r_BuildID = r_BuildID r,
          r_BarcodeURLs = reformatted (r_BarcodeURLs r), r_ErrorCode = r_ErrorCode r,
          r_ErrorMessage = r_ErrorMessage r, r_BillingTransactionID = []\<rparr>
        else result_row q)" for q
    by (simp add: put_result_def result_row_def reads)
  have images: "image_mset result_row (image_mset (put_result i s r) M) = {# (if jr_id q = i
        then \<lparr>r_JobID = i, r_RowNumber = jr_row_number q, r_BuildID = r_BuildID r,
          r_BarcodeURLs = reformatted (r_BarcodeURLs r), r_ErrorCode = r_ErrorCode r,
          r_ErrorMessage = r_ErrorMessage r, r_BillingTransactionID = []\<rparr>
        else result_row q). q \<in># M #}" for M
    by (simp add: image_mset.compositionality comp_def put)
  have batch: "jr_batch_id (put_result i s r q) = jr_batch_id q" for q by (simp add: put_result_def)
  show ?thesis
    unfolding run_state_result_after
    using run_put_result [of e i s r w]
    by (auto simp: jobRepository_def pg_job_GetResultsByBatch_def run_simps filter_map comp_def batch images
        mset_map simp flip: mset_filter split: option.split)
qed

section \<open>Publishing\<close>


text \<open>A handler that always fails is run once more than the retry count says.\<close>

lemma attempts_all_fail:
  assumes "\<And>w. result act w \<noteq> None"
  shows "n > 0 \<Longrightarrow> result (attempts n act x) w \<noteq> None"
    and "after (attempts n act x) w = (after act ^^ n) w"
proof -
  show "n > 0 \<Longrightarrow> result (attempts n act x) w \<noteq> None"
  proof (induction n arbitrary: w x)
    case (Suc n)
    obtain err where "result act w = Some err" using assms by blast
    then show ?case using Suc.IH by (cases n) auto
  qed simp
  show "after (attempts n act x) w = (after act ^^ n) w"
  proof (induction n arbitrary: w x)
    case (Suc n)
    obtain err where "result act w = Some err" using assms by blast
    then show ?case using Suc.IH by (simp add: funpow_swap1)
  qed simp
qed

text \<open>A message whose handler keeps failing is handled once more than the retry count says and then
  published once to the dead-letter topic, with the event it was decoded to.\<close>

theorem dead_letter:
  assumes "unmarshal_event ptime m = Some ev" "rc_handler c = Some h" "\<And>w. result (h ev) w \<noteq> None"
    and "0 \<le> rc_retryCount c" "rc_producer c = Some p" "rc_dlqTopic c \<noteq> []"
  shows "after (process_message ptime c m) w =
    after (Producer_Publish p (rc_dlqTopic c) (ResultMsg ev)) ((after (h ev) ^^ nat (rc_retryCount c + 1)) w)"
proof -
  let ?n = "nat (rc_retryCount c + 1)"
  have "?n > 0" using assms(4) by simp
  then obtain err where "result (attempts ?n (h ev) None) w = Some err"
    using attempts_all_fail(1) [of "h ev" ?n None w] assms(3) by blast
  then show ?thesis
    using assms attempts_all_fail(2) [of "h ev" ?n None w] by (simp add: process_message_def)
qed

theorem dead_letter_witness:
  "wLog (after (process_message (\<lambda>s. None) \<lparr>rc_handler = Some (\<lambda>ev. State_Monad.return (Some (ErrMsg ''no''))),
      rc_producer = Some (producer_of env0 ''b''), rc_dlqTopic = ''dlq'', rc_retryCount = 3\<rparr> ''{}'') empty_world) =
    [(''dlq'', ResultMsg empty_event)]"
proof -
  let ?c = "\<lparr>rc_handler = Some (\<lambda>ev. State_Monad.return (Some (ErrMsg ''no''))),
      rc_producer = Some (producer_of env0 ''b''), rc_dlqTopic = ''dlq'', rc_retryCount = 3\<rparr>"
  have "unmarshal_event (\<lambda>s. None) ''{}'' = Some empty_event" by code_simp
  from dead_letter [OF this, of ?c "\<lambda>ev. State_Monad.return (Some (ErrMsg ''no''))" "producer_of env0 ''b''" empty_world]
  have "after (process_message (\<lambda>s. None) ?c ''{}'') empty_world = after (Producer_Publish (producer_of env0 ''b'') ''dlq''
      (ResultMsg empty_event)) ((after (State_Monad.return (Some (ErrMsg ''no''))) ^^ nat (3 + 1)) empty_world)" by simp
  moreover have "(after (State_Monad.return (Some (ErrMsg ''no''))) ^^ n) w = w" for n and w :: world
    by (induction n) simp_all
  ultimately show ?thesis
    by (simp add: kafka_bus.publish_events) (simp add: producer_of_def Publish_def NewProducer_def run_simps
        env0_def empty_world_def Let_def numeral_eq_Suc)
qed

section \<open>The billing service's answers\<close>

text \<open>A reservation is one request, whatever the answer; with status 200 it yields the transactions the
  answer lists, with any other status or without an answer an error.\<close>

theorem block_reply:
  assumes "eHTTP e (wTick w) (bc_url c @ ''/internal/billing/block-batch'') (json_print (block_body u n i)) =
    Reply st (json_print (JObj [(''transactionIds'', JArr (map JStr ts))]))"
  shows "case run_state (Billing_BlockBatch (billing_of e c) u n i) w of (r, w') \<Rightarrow>
    w' = w\<lparr>wTick := Suc (wTick w), wCalls := wCalls w @ [CallBlock u n i]\<rparr> \<and>
    (if st = 200 then r = Inr (Some ts) else (case r of Inl err \<Rightarrow> True | Inr x \<Rightarrow> False))"
proof -
  let ?j = "JObj [(''transactionIds'', JArr (map JStr ts))]"
  have "json_first (json_print ?j) = Some ?j" by (rule json_first_print) (simp add: list_all_iff)
  moreover have "ToLower ''transactionIds'' = ''transactionids''" by code_simp
  then have "dec_struct block_step ?j [] = Some ts"
    by (simp add: dec_struct_def block_step_def dec_strings_JStr)
  ultimately show ?thesis
    using assms by (simp add: billing_of_def BlockBatch_def run_state_result_after run_simps checked_body_def)
qed

theorem block_reply_witness:
  "result (Billing_BlockBatch (billing_of (env0\<lparr>eHTTP := (\<lambda>n path body. Reply 200 (json_print (JObj
     [(''transactionIds'', JArr (map JStr [''t1'', ''t2'']))])))\<rparr>) client0) [] 2 ''b1'') empty_world =
   Inr (Some [''t1'', ''t2''])"
  using block_reply [of "env0\<lparr>eHTTP := (\<lambda>n path body. Reply 200 (json_print (JObj
     [(''transactionIds'', JArr (map JStr [''t1'', ''t2'']))])))\<rparr>" empty_world client0 "[]" 2 "''b1''" 200 "[''t1'', ''t2'']"]
  by (simp add: run_state_result_after del: json_print.simps)

text \<open>The flat form of \<open>bySource\<close> is never reached for an object without the structured keys: units given
  only as \<open>credits_type1\<close> are lost.\<close>

lemma credits_type1_lost:
  "dec_BySource (Some (JObj [(''credits_type1'', JNum (Itoa n))])) = zero_breakdown"
proof -
  have "ToLower ''credits_type1'' = ''credits_type1''" by code_simp
  then show ?thesis by (simp add: dec_BySource_def dec_struct_def breakdown_step_def)
qed

end
