(* ===== verification/Manager.thy ===== *)
theory Manager
  imports Fixtures
begin

text \<open>
  \<open>internal/batch/manager.go\<close>: the life cycle of a batch.  A \<open>BatchManager\<close> holds the
  interfaces it was given, None for a nil one; its operations are computations over any world that
  provides them.  A batch a repository returns as nil without an error is dereferenced: Panic.
\<close>

section \<open>The manager and its operations\<close>

record 'w BatchManager =
  bm_batchRepo :: "'w BatchRepository option"
  bm_jobRepo :: "'w JobRepository option"
  bm_billing :: "'w BillingClient option"
  bm_history :: "'w Tagger option"
  bm_producer :: "'w KafkaProducer option"
  bm_bulkStatusTopic :: string

definition no_batch_repo :: go_error where
  "no_batch_repo = ErrMsg ''batch repo not configured''"

text \<open>The progress numbers of a \<open>bulk.status\<close> message.\<close>

definition status_pending :: "batch \<Rightarrow> int" where
  "status_pending b = (let pending = b_TotalRows b - b_CompletedCount b - b_FailedCount b
     in if pending < 0 then 0 else pending)"

definition status_percent :: "batch \<Rightarrow> rat" where
  "status_percent b = (if 0 < b_TotalRows b
     then of_int (b_CompletedCount b) * 100 / of_int (b_TotalRows b) else 0)"

definition status_msg :: "batch \<Rightarrow> int \<Rightarrow> kafka_msg" where
  "status_msg b now = StatusMsg \<lparr>se_batchId = b_ID b, se_status = b_Status b,
     se_total = b_TotalRows b, se_completed = b_CompletedCount b, se_failed = b_FailedCount b,
     se_pending = status_pending b, se_percentComplete = status_percent b, se_timestamp = now\<rparr>"

definition publishStatus :: "'w Runtime \<Rightarrow> 'w BatchManager \<Rightarrow> batch \<Rightarrow> ('w, unit) state" where
  "publishStatus rt m b = (case bm_producer m of
     None \<Rightarrow> State_Monad.return ()
   | Some p \<Rightarrow> if bm_bulkStatusTopic m = [] then State_Monad.return ()
       else do {
         now \<leftarrow> Rt_Now rt;
         _ \<leftarrow> Producer_Publish p (bm_bulkStatusTopic m) (status_msg b now);
         State_Monad.return ()
       })"

text \<open>The common start of the operations: fetch the batch, and panic on a nil one.\<close>

definition with_batch :: "'w BatchManager \<Rightarrow> string \<Rightarrow> (go_error \<Rightarrow> 'r) \<Rightarrow>
    ('w BatchRepository \<Rightarrow> batch \<Rightarrow> ('w, 'r go) state) \<Rightarrow> ('w, 'r go) state" where
  "with_batch m batchID fail k = (case bm_batchRepo m of
     None \<Rightarrow> State_Monad.return (Ret (fail no_batch_repo))
   | Some r \<Rightarrow> do {
       x \<leftarrow> BatchRepo_GetByID r batchID;
       (case x of
          Inl err \<Rightarrow> State_Monad.return (Ret (fail err))
        | Inr None \<Rightarrow> State_Monad.return Panic
        | Inr (Some b) \<Rightarrow> k r b)
     })"

text \<open>The common end: update, and publish the status when that worked.\<close>

definition update_and_publish :: "'w Runtime \<Rightarrow> 'w BatchManager \<Rightarrow> 'w BatchRepository \<Rightarrow> batch \<Rightarrow>
    ('w, go_error option go) state" where
  "update_and_publish rt m r b = do {
     u \<leftarrow> BatchRepo_Update r b;
     (case u of
        Some err \<Rightarrow> State_Monad.return (Ret (Some err))
      | None \<Rightarrow> do { publishStatus rt m b; State_Monad.return (Ret None) })
   }"

definition tag_partial :: "'w Runtime \<Rightarrow> 'w BatchManager \<Rightarrow> string \<Rightarrow> int \<Rightarrow> int \<Rightarrow> ('w, unit) state" where
  "tag_partial rt m batchID approved requested = (case bm_history m of
     None \<Rightarrow> State_Monad.return ()
   | Some h \<Rightarrow> do {
       _ \<leftarrow> TagEvent rt h ''batch.partial_available'' (PartialPayload batchID approved requested);
       State_Monad.return ()
     })"

definition quote_for :: "'w BatchManager \<Rightarrow> batch \<Rightarrow> int \<Rightarrow> ('w, QuoteResponse option) state" where
  "quote_for m b validRows = (case bm_billing m of
     None \<Rightarrow> State_Monad.return None
   | Some c \<Rightarrow> do {
       qr \<leftarrow> Billing_Quote c (b_UserID b) validRows;
       State_Monad.return (case qr of Inl err \<Rightarrow> None | Inr q \<Rightarrow> q)
     })"

definition FinalizeAfterUpload :: "'w Runtime \<Rightarrow> 'w BatchManager \<Rightarrow> string \<Rightarrow> int \<Rightarrow> int \<Rightarrow>
    ('w, go_error option go) state" where
  "FinalizeAfterUpload rt m batchID validRows invalidRows =
     with_batch m batchID Some (\<lambda>r b. let b = b\<lparr>b_ValidRows := validRows\<rparr> in
       if 0 < invalidRows
       then update_and_publish rt m r (b\<lparr>b_Status := BatchStatusValidationErrors\<rparr>)
       else do {
         qr \<leftarrow> quote_for m b validRows;
         (case qr of
            Some q \<Rightarrow>
              if q_AllowedTotal q < validRows then do {
                tag_partial rt m (b_ID b) (q_AllowedTotal q) validRows;
                update_and_publish rt m r (b\<lparr>b_Status := BatchStatusPartialAvailable,
                  b_ApprovedCount := q_AllowedTotal q\<rparr>)
              }
              else update_and_publish rt m r (b\<lparr>b_Status := BatchStatusReady\<rparr>)
          | None \<Rightarrow> update_and_publish rt m r (b\<lparr>b_Status := BatchStatusReady\<rparr>))
       })"

definition SetProcessing :: "'w Runtime \<Rightarrow> 'w BatchManager \<Rightarrow> string \<Rightarrow> ('w, go_error option go) state"
  where
  "SetProcessing rt m batchID =
     with_batch m batchID Some (\<lambda>r b. update_and_publish rt m r (b\<lparr>b_Status := BatchStatusProcessing\<rparr>))"

text \<open>\<open>SetCancelled\<close>: the refund of the reserved transactions, and the count of refunded jobs.\<close>

definition refund_job :: "'w JobRepository \<Rightarrow> job \<Rightarrow> ('w, unit) state" where
  "refund_job jr j = (if job_active (j_Status j)
     then do { _ \<leftarrow> JobRepo_UpdateStatus jr (j_ID j) JobStatusRefunded; State_Monad.return () }
     else State_Monad.return ())"

definition refund_jobs :: "'w BatchManager \<Rightarrow> string \<Rightarrow> ('w, unit) state" where
  "refund_jobs m batchID = (case bm_jobRepo m of
     None \<Rightarrow> State_Monad.return ()
   | Some jr \<Rightarrow> do {
       js \<leftarrow> JobRepo_GetByBatch jr batchID;
       (case js of Inl err \<Rightarrow> State_Monad.return () | Inr xs \<Rightarrow> for_range xs (refund_job jr))
     })"

definition tag_refunded :: "'w Runtime \<Rightarrow> 'w BatchManager \<Rightarrow> string \<Rightarrow> string list \<Rightarrow> ('w, unit) state"
  where
  "tag_refunded rt m batchID txs = (case bm_history m of
     None \<Rightarrow> State_Monad.return ()
   | Some h \<Rightarrow> do {
       _ \<leftarrow> TagEvent rt h ''batch.refunded'' (RefundedPayload batchID txs);
       State_Monad.return ()
     })"

definition refund_batch :: "'w Runtime \<Rightarrow> 'w BatchManager \<Rightarrow> 'w BatchRepository \<Rightarrow> string \<Rightarrow> batch \<Rightarrow>
    ('w, unit) state" where
  "refund_batch rt m r batchID b = (case bm_billing m of
     None \<Rightarrow> State_Monad.return ()
   | Some c \<Rightarrow>
       if b_BillingTransactionIDs b = [] then State_Monad.return ()
       else do {
         err \<leftarrow> Billing_RefundTransactions c (b_UserID b) (b_BillingTransactionIDs b) batchID;
         (case err of
            Some _ \<Rightarrow> State_Monad.return ()
          | None \<Rightarrow> do {
              refund_jobs m batchID;
              _ \<leftarrow> BatchRepo_Update r (b\<lparr>b_BillingTransactionIDs := []\<rparr>);
              tag_refunded rt m batchID (b_BillingTransactionIDs b)
            })
       })"

definition count_refunded :: "'w BatchManager \<Rightarrow> string \<Rightarrow> ('w, int) state" where
  "count_refunded m batchID = (case bm_jobRepo m of
     None \<Rightarrow> State_Monad.return 0
   | Some jr \<Rightarrow> do {
       js \<leftarrow> JobRepo_GetByBatch jr batchID;
       State_Monad.return (case js of
          Inl err \<Rightarrow> 0
        | Inr xs \<Rightarrow> int (length (filter (\<lambda>j. j_Status j = JobStatusRefunded) xs)))
     })"

definition SetCancelled :: "'w Runtime \<Rightarrow> 'w BatchManager \<Rightarrow> string \<Rightarrow> ('w, (go_error + int) go) state"
  where
  "SetCancelled rt m batchID =
     with_batch m batchID Inl (\<lambda>r b. let b = b\<lparr>b_Status := BatchStatusCancelled\<rparr> in do {
       u \<leftarrow> BatchRepo_Update r b;
       (case u of
          Some err \<Rightarrow> State_Monad.return (Ret (Inl err))
        | None \<Rightarrow> do {
            publishStatus rt m b;
            refund_batch rt m r batchID b;
            n \<leftarrow> count_refunded m batchID;
            State_Monad.return (Ret (Inr n))
          })
     })"

text \<open>The loop of \<open>OnJobStatusChange\<close> over the jobs: pending, completed and failed counts.\<close>

fun count_job :: "job \<Rightarrow> int \<times> int \<times> int \<Rightarrow> int \<times> int \<times> int" where
  "count_job j (pending, completed, failed) =
     (if job_active (j_Status j) then (pending + 1, completed, failed)
      else if j_Status j = JobStatusCompleted \<or> j_Status j = JobStatusRefunded
      then (pending, completed + 1, failed)
      else if j_Status j = JobStatusFailed then (pending, completed + 1, failed + 1)
      else (pending + 1, completed, failed))"

definition count_jobs :: "job list \<Rightarrow> int \<times> int \<times> int" where
  "count_jobs js = fold count_job js (0, 0, 0)"

definition update_progress ::
  "'w Runtime \<Rightarrow> 'w BatchManager \<Rightarrow> string \<Rightarrow> job list \<Rightarrow> ('w, go_error option go) state" where
  "update_progress rt m batchID js = (case count_jobs js of (pending, completed, failed) \<Rightarrow>
     with_batch m batchID Some (\<lambda>r b.
       let b = b\<lparr>b_CompletedCount := completed, b_FailedCount := failed\<rparr>
       in if pending = 0 then do {
            now \<leftarrow> Rt_Now rt;
            update_and_publish rt m r (b\<lparr>b_Status := BatchStatusCompleted, b_CompletedAt := Some now\<rparr>)
          }
          else update_and_publish rt m r (b\<lparr>b_Status := BatchStatusProcessing\<rparr>)))"

definition OnJobStatusChange ::
  "'w Runtime \<Rightarrow> 'w BatchManager \<Rightarrow> string \<Rightarrow> ('w, go_error option go) state" where
  "OnJobStatusChange rt m batchID = (case (bm_batchRepo m, bm_jobRepo m) of
     (Some r, Some jr) \<Rightarrow> do {
       js \<leftarrow> JobRepo_GetByBatch jr batchID;
       (case js of
          Inl err \<Rightarrow> State_Monad.return (Ret (Some err))
        | Inr xs \<Rightarrow> if xs = [] then State_Monad.return (Ret None) else update_progress rt m batchID xs)
     }
   | _ \<Rightarrow> State_Monad.return (Ret (Some (ErrMsg ''repos not configured''))))"

section \<open>Counting jobs\<close>

text \<open>The jobs that are done: completed, refunded or failed.\<close>

definition job_done :: "job \<Rightarrow> bool" where
  "job_done j \<longleftrightarrow> j_Status j \<in> {JobStatusCompleted, JobStatusRefunded, JobStatusFailed}"

lemma active_not_done: "job_active (j_Status j) \<Longrightarrow> \<not> job_done j"
  by (auto simp: job_active_def job_done_def job_status_defs)

lemma fold_count_job:
  "fold count_job js (p, c, f) =
     (p + int (length (filter (\<lambda>j. \<not> job_done j) js)),
      c + int (length (filter job_done js)),
      f + int (length (filter (\<lambda>j. j_Status j = JobStatusFailed) js)))"
proof (induction js arbitrary: p c f)
  case (Cons j js)
  show ?case
    by (auto simp: Cons job_done_def job_active_def job_status_defs)
qed simp

lemma count_jobs_eq:
  "count_jobs js = (int (length (filter (\<lambda>j. \<not> job_done j) js)), int (length (filter job_done js)),
     int (length (filter (\<lambda>j. j_Status j = JobStatusFailed) js)))"
  by (simp add: count_jobs_def fold_count_job)

text \<open>The counts do not depend on the order in which the store returns the jobs.\<close>

lemma count_jobs_mset: "mset xs = mset ys \<Longrightarrow> count_jobs xs = count_jobs ys"
  by (simp add: count_jobs_eq size_mset [symmetric] del: size_mset)

section \<open>Over the contracts\<close>

text \<open>A manager that holds, where it holds something, the given interfaces.\<close>

definition wired :: "'w BatchRepository \<Rightarrow> 'w JobRepository \<Rightarrow> 'w BillingClient \<Rightarrow> 'w KafkaProducer \<Rightarrow>
    'w BatchManager \<Rightarrow> bool" where
  "wired r jr c p m \<longleftrightarrow>
     (\<forall>x. bm_batchRepo m = Some x \<longrightarrow> x = r) \<and> (\<forall>x. bm_jobRepo m = Some x \<longrightarrow> x = jr) \<and>
     (\<forall>x. bm_billing m = Some x \<longrightarrow> x = c) \<and> (\<forall>x. bm_producer m = Some x \<longrightarrow> x = p) \<and>
     (\<forall>h. bm_history m = Some h \<longrightarrow> tg_producer h = p)"

definition NewBatchManager :: "'w BatchRepository \<Rightarrow> 'w JobRepository \<Rightarrow> 'w BillingClient \<Rightarrow>
    'w Tagger \<Rightarrow> 'w KafkaProducer \<Rightarrow> string \<Rightarrow> 'w BatchManager" where
  "NewBatchManager r jr c h p topic = \<lparr>bm_batchRepo = Some r, bm_jobRepo = Some jr,
     bm_billing = Some c, bm_history = Some h, bm_producer = Some p, bm_bulkStatusTopic = topic\<rparr>"

lemma NewBatchManager_wired: "tg_producer h = p \<Longrightarrow> wired r jr c p (NewBatchManager r jr c h p topic)"
  by (simp add: wired_def NewBatchManager_def)

lemmas BatchManager_sel [simp] = BatchManager.simps

context platform
begin

lemma TagEvent_keeps:
  assumes "tg_producer h = producer"
  shows "keeps stored (TagEvent rt h t p)" "keeps jobs (TagEvent rt h t p)"
    "keeps calls (TagEvent rt h t p)"
  by (auto simp: TagEvent_def assms intro!: frame_intros)

lemma publishStatus_keeps [frame_intros]:
  assumes "wired brepo jrepo bclient producer m"
  shows "keeps stored (publishStatus rt m b)" "keeps jobs (publishStatus rt m b)"
    "keeps calls (publishStatus rt m b)"
  using assms
  by (auto simp: publishStatus_def wired_def intro!: frame_intros split: option.split)

lemma tags_keep [frame_intros]:
  assumes "wired brepo jrepo bclient producer m"
  shows "keeps stored (tag_partial rt m i a n)" "keeps jobs (tag_partial rt m i a n)"
    "keeps calls (tag_partial rt m i a n)"
    "keeps stored (tag_refunded rt m i ts)" "keeps jobs (tag_refunded rt m i ts)"
    "keeps calls (tag_refunded rt m i ts)"
  using assms
  by (auto simp: tag_partial_def tag_refunded_def wired_def intro!: frame_intros TagEvent_keeps
      split: option.split)

lemma quote_for_keeps [frame_intros]:
  assumes "wired brepo jrepo bclient producer m"
  shows "keeps stored (quote_for m b n)" "keeps jobs (quote_for m b n)" "keeps events (quote_for m b n)"
  using assms by (auto simp: quote_for_def wired_def intro!: frame_intros split: option.split)

text \<open>Fetching a batch: an error with nothing changed, or the stored batch up to its configuration.\<close>

lemma with_batch_spec:
  assumes m: "wired brepo jrepo bclient producer m"
    and failed: "\<And>err w. views stored jobs calls w = (S, J, C) \<Longrightarrow> Q (Ret (fail err)) w"
    and found: "\<And>b. bm_batchRepo m = Some brepo \<Longrightarrow> b_ID b = i \<Longrightarrow> S i = Some (core b) \<Longrightarrow>
      spec (\<lambda>w. views stored jobs calls w = (S, J, C)) (k brepo b) Q"
  shows "spec (\<lambda>w. views stored jobs calls w = (S, J, C)) (with_batch m i fail k) Q"
proof (cases "bm_batchRepo m")
  case None
  then show ?thesis by (simp add: with_batch_def spec_return failed)
next
  case (Some r)
  with m have r: "bm_batchRepo m = Some brepo" by (simp add: wired_def)
  have view: "keeps (views stored jobs calls) (BatchRepo_GetByID brepo i)"
    by (intro frame_intros get_keeps)
  show ?thesis
  proof (rule specI)
    fix w assume P: "views stored jobs calls w = (S, J, C)"
    let ?w1 = "after (BatchRepo_GetByID brepo i) w"
    have P1: "views stored jobs calls ?w1 = (S, J, C)" using keepsD [OF view, of w] P by simp
    show "Q (result (with_batch m i fail k) w) (after (with_batch m i fail k) w)"
    proof (cases "result (BatchRepo_GetByID brepo i) w")
      case (Inl err)
      with r failed [OF P1] show ?thesis by (simp add: with_batch_def)
    next
      case (Inr x)
      from get_found [OF Inr] obtain b where "x = Some b" "b_ID b = i" "stored w i = Some (core b)"
        by blast
      moreover from P have "stored w = S" by (simp add: views_eq)
      ultimately show ?thesis using Inr r specD [OF found P1] by (simp add: with_batch_def)
    qed
  qed
qed

text \<open>Updating with a changed copy of the stored batch, then publishing.\<close>

lemma update_spec:
  assumes "S i = Some (core old)" "b_ID b = i" "b_ID old = i"
    "b_UserID b = b_UserID old" "b_Revision b = b_Revision old" "b_CreatedAt b = b_CreatedAt old"
  shows "spec (\<lambda>w. views stored jobs calls w = (S, J, C)) (BatchRepo_Update brepo b)
    (\<lambda>r w. views stored jobs calls w = (if r = None then S(i \<mapsto> core b) else S, J, C))"
proof (rule specI)
  fix w assume P: "views stored jobs calls w = (S, J, C)"
  have "jobs (after (BatchRepo_Update brepo b) w) = jobs w"
    "calls (after (BatchRepo_Update brepo b) w) = calls w"
    by (simp_all add: keepsD batch_ops_keep_jobs stores_keep_calls)
  with P assms update_stored [of w b "core old"]
  show "views stored jobs calls (after (BatchRepo_Update brepo b) w) =
      (if result (BatchRepo_Update brepo b) w = None then S(i \<mapsto> core b) else S, J, C)"
    by (cases "result (BatchRepo_Update brepo b) w") (simp_all add: update_failed views_eq)
qed

lemma update_and_publish_spec:
  assumes m: "wired brepo jrepo bclient producer m"
    and b: "S i = Some (core old)" "b_ID b = i" "b_ID old = i"
    "b_UserID b = b_UserID old" "b_Revision b = b_Revision old" "b_CreatedAt b = b_CreatedAt old"
    and Q: "\<And>w. views stored jobs calls w = (S(i \<mapsto> core b), J, C) \<Longrightarrow> Q (Ret None) w"
    "\<And>err w. views stored jobs calls w = (S, J, C) \<Longrightarrow> Q (Ret (Some err)) w"
  shows "spec (\<lambda>w. views stored jobs calls w = (S, J, C)) (update_and_publish rt m brepo b) Q"
  unfolding update_and_publish_def
proof (rule spec_bind [OF update_spec [of S i old b]])
  have pub: "keeps (views stored jobs calls) (publishStatus rt m b)"
    using m by (intro frame_intros publishStatus_keeps)
  fix r
  show "spec (\<lambda>w. views stored jobs calls w = (if r = None then S(i \<mapsto> core b) else S, J, C))
    (case r of None \<Rightarrow> do { publishStatus rt m b; State_Monad.return (Ret None) }
      | Some err \<Rightarrow> State_Monad.return (Ret (Some err))) Q"
    using Q b by (cases r) (auto intro!: spec_return spec_bind_keeps [OF pub])
qed (use b in simp_all)

end

text \<open>What \<open>FinalizeAfterUpload\<close> makes of a batch, given the quote it got.\<close>

definition finalize_spec :: "batch \<Rightarrow> int \<Rightarrow> int \<Rightarrow> QuoteResponse option \<Rightarrow> batch" where
  "finalize_spec b valid invalid q = (let b = b\<lparr>b_ValidRows := valid\<rparr> in
     if 0 < invalid then b\<lparr>b_Status := BatchStatusValidationErrors\<rparr>
     else (case q of
        Some qr \<Rightarrow> if q_AllowedTotal qr < valid
          then b\<lparr>b_Status := BatchStatusPartialAvailable, b_ApprovedCount := q_AllowedTotal qr\<rparr>
          else b\<lparr>b_Status := BatchStatusReady\<rparr>
      | None \<Rightarrow> b\<lparr>b_Status := BatchStatusReady\<rparr>))"

text \<open>What \<open>OnJobStatusChange\<close> makes of a batch with the jobs \<open>js\<close> at the time \<open>now\<close>.\<close>

definition progress_spec :: "job list \<Rightarrow> int \<Rightarrow> batch \<Rightarrow> batch" where
  "progress_spec js now b = (case count_jobs js of (pending, completed, failed) \<Rightarrow>
     let b = b\<lparr>b_CompletedCount := completed, b_FailedCount := failed\<rparr>
     in if pending = 0 then b\<lparr>b_Status := BatchStatusCompleted, b_CompletedAt := Some now\<rparr>
        else b\<lparr>b_Status := BatchStatusProcessing\<rparr>)"

lemma progress_spec_sel [simp]:
  "b_CompletedCount (progress_spec js now b) = int (length (filter job_done js))"
  "b_FailedCount (progress_spec js now b) = int (length (filter (\<lambda>j. j_Status j = JobStatusFailed) js))"
  "b_Status (progress_spec js now b) =
     (if list_all job_done js then BatchStatusCompleted else BatchStatusProcessing)"
  "b_TotalRows (progress_spec js now b) = b_TotalRows b"
  "b_BillingTransactionIDs (progress_spec js now b) = b_BillingTransactionIDs b"
proof -
  have "filter (\<lambda>j. \<not> job_done j) js = [] \<longleftrightarrow> list_all job_done js"
    by (simp add: filter_empty_conv list_all_iff)
  then show "b_Status (progress_spec js now b) =
     (if list_all job_done js then BatchStatusCompleted else BatchStatusProcessing)"
    by (simp add: progress_spec_def count_jobs_eq Let_def)
qed (simp_all add: progress_spec_def count_jobs_eq Let_def)

context platform
begin

lemma quote_for_spec:
  assumes "wired brepo jrepo bclient producer m"
  shows "spec (\<lambda>w. views stored jobs calls w = (S, J, C)) (quote_for m b n)
    (\<lambda>q w. \<exists>C. views stored jobs calls w = (S, J, C))"
proof (rule specI)
  fix w assume "views stored jobs calls w = (S, J, C)"
  then show "\<exists>C. views stored jobs calls (after (quote_for m b n) w) = (S, J, C)"
    by (simp add: views_eq keepsD [OF quote_for_keeps(1) [OF assms]]
        keepsD [OF quote_for_keeps(2) [OF assms]])
qed

lemma finalize_run:
  assumes m: "wired brepo jrepo bclient producer m"
  shows "spec (\<lambda>w. views stored jobs calls w = (S, J, C)) (FinalizeAfterUpload rt m i v n)
    (\<lambda>r w. r \<noteq> Panic \<and> jobs w = J \<and>
       (r = Ret None \<longrightarrow> (\<exists>b q. S i = Some (core b) \<and> b_ID b = i \<and>
          stored w = S(i \<mapsto> core (finalize_spec b v n q)))) \<and>
       (r \<noteq> Ret None \<longrightarrow> stored w = S))" (is "spec ?P _ ?Q")
  unfolding FinalizeAfterUpload_def
proof (rule with_batch_spec [OF m], goal_cases)
  case (2 b)
  have upd: "spec (\<lambda>w. views stored jobs calls w = (S, J, C')) (update_and_publish rt m brepo b') ?Q"
    if "b' = finalize_spec b v n q" for b' q C'
    by (rule update_and_publish_spec [OF m, where old = b and i = i])
      (use 2 that in \<open>auto simp: views_eq finalize_spec_def Let_def split: option.split\<close>)
  have tag: "keeps (views stored jobs calls) (tag_partial rt m k a x)" for k a x
    using m by (intro frame_intros)
  show ?case
    using 2(1) unfolding Let_def
  proof (intro spec_if spec_bind [OF quote_for_spec [OF m]] spec_ex, goal_cases)
    case 1
    then show ?case using upd [where q = None] by (simp add: finalize_spec_def)
  next
    case (2 q C')
    then show ?case
      using upd [where q = q]
      by (cases q) (auto simp: finalize_spec_def intro: spec_bind_keeps [OF tag])
  qed
qed (simp add: views_eq)

end

text \<open>Cancelling changes jobs only by refunding the active ones of the batch.\<close>

definition refund_rel :: "string \<Rightarrow> job \<Rightarrow> job \<Rightarrow> bool" where
  "refund_rel i j j' \<longleftrightarrow> j' = j \<or>
     j_BatchID j = i \<and> job_active (j_Status j) \<and> j' = j\<lparr>j_Status := JobStatusRefunded\<rparr>"

lemma refund_rel_refl: "list_all2 (refund_rel i) J J"
  by (simp add: refund_rel_def list_all2_refl)

lemma refund_rel_step:
  assumes "distinct (map j_ID J)" "list_all2 (refund_rel i) J J'"
    "x \<in> set J" "j_BatchID x = i" "job_active (j_Status x)"
  shows "list_all2 (refund_rel i) J (map (set_status (j_ID x) JobStatusRefunded) J')"
proof -
  have "refund_rel i j (set_status (j_ID x) JobStatusRefunded j')"
    if "j \<in> set J" "refund_rel i j j'" for j j'
    using that assms(1,3-5) by (auto simp: refund_rel_def set_status_def inj_on_def distinct_map)
  with assms(2) show ?thesis
    by (auto simp: list_all2_conv_all_nth)
qed

definition calls_of_cancel :: "'w BatchManager \<Rightarrow> string \<Rightarrow> batch \<Rightarrow> outcall list" where
  "calls_of_cancel m i b = (if bm_billing m = None \<or> b_BillingTransactionIDs b = [] then []
     else [CallRefund (b_UserID b) (b_BillingTransactionIDs b) i])"

context platform
begin

lemma setprocessing_run:
  assumes m: "wired brepo jrepo bclient producer m"
  shows "spec (\<lambda>w. views stored jobs calls w = (S, J, C)) (SetProcessing rt m i)
    (\<lambda>r w. r \<noteq> Panic \<and> jobs w = J \<and> calls w = C \<and>
       (r = Ret None \<longrightarrow> (\<exists>b. S i = Some (core b) \<and> b_ID b = i \<and>
          stored w = S(i \<mapsto> core (b\<lparr>b_Status := BatchStatusProcessing\<rparr>)))) \<and>
       (r \<noteq> Ret None \<longrightarrow> stored w = S))"
  unfolding SetProcessing_def
proof (rule with_batch_spec [OF m], goal_cases)
  case (2 b)
  then show ?case
    by (intro update_and_publish_spec [OF m, where old = b and i = i]) (auto simp: views_eq)
qed (simp add: views_eq)

lemma refund_job_spec:
  assumes "distinct (map j_ID J)" "x \<in> set J" "j_BatchID x = i"
  shows "spec (\<lambda>w. \<exists>J'. list_all2 (refund_rel i) J J' \<and> views stored jobs calls w = (S, J', C))
    (refund_job jrepo x)
    (\<lambda>_ w. \<exists>J'. list_all2 (refund_rel i) J J' \<and> views stored jobs calls w = (S, J', C))"
proof (rule specI, elim exE conjE)
  fix w J' assume J': "list_all2 (refund_rel i) J J'" "views stored jobs calls w = (S, J', C)"
  let ?u = "JobRepo_UpdateStatus jrepo (j_ID x) JobStatusRefunded"
  have "stored (after ?u w) = stored w" "calls (after ?u w) = calls w"
    by (simp_all add: keepsD job_ops_keep_batches stores_keep_calls)
  with J' refund_rel_step [OF assms(1) J'(1) assms(2,3)] refund_rel_step [OF assms(1) J'(1) assms(2,3)]
  show "\<exists>J'. list_all2 (refund_rel i) J J' \<and>
      views stored jobs calls (after (refund_job jrepo x) w) = (S, J', C)"
    by (cases "result ?u w") (auto simp: refund_job_def views_eq status_jobs)
qed

lemma by_batch_after [simp]:
  "stored (after (JobRepo_GetByBatch jrepo i) w) = stored w"
  "jobs (after (JobRepo_GetByBatch jrepo i) w) = jobs w"
  "calls (after (JobRepo_GetByBatch jrepo i) w) = calls w"
  by (simp_all add: keepsD job_ops_keep_batches by_batch_keeps stores_keep_calls)

lemma refund_jobs_spec:
  assumes m: "wired brepo jrepo bclient producer m" and J: "distinct (map j_ID J)"
  shows "spec (\<lambda>w. views stored jobs calls w = (S, J, C)) (refund_jobs m i)
    (\<lambda>_ w. \<exists>J'. list_all2 (refund_rel i) J J' \<and> views stored jobs calls w = (S, J', C))"
proof (cases "bm_jobRepo m")
  case None
  then show ?thesis using refund_rel_refl by (auto simp: refund_jobs_def intro!: spec_return)
next
  case (Some r)
  with m have r: "bm_jobRepo m = Some jrepo" by (simp add: wired_def)
  have "spec (\<lambda>w. views stored jobs calls w = (S, J, C)) (JobRepo_GetByBatch jrepo i)
     (\<lambda>x w. views stored jobs calls w = (S, J, C) \<and> (\<forall>xs. x = Inr xs \<longrightarrow>
        (\<forall>j \<in> set xs. j \<in> set J \<and> j_BatchID j = i)))"
    by (rule specI) (auto simp: by_batch_member views_eq)
  then show ?thesis
    unfolding refund_jobs_def r option.case
  proof (rule spec_bind)
    fix x
    show "spec (\<lambda>w. views stored jobs calls w = (S, J, C) \<and> (\<forall>xs. x = Inr xs \<longrightarrow>
        (\<forall>j \<in> set xs. j \<in> set J \<and> j_BatchID j = i)))
      (case x of Inl err \<Rightarrow> State_Monad.return () | Inr xs \<Rightarrow> for_range xs (refund_job jrepo))
      (\<lambda>_ w. \<exists>J'. list_all2 (refund_rel i) J J' \<and> views stored jobs calls w = (S, J', C))"
    proof (cases x)
      case (Inr xs)
      show ?thesis
      proof (cases "\<forall>j \<in> set xs. j \<in> set J \<and> j_BatchID j = i")
        case True
        then have "spec (\<lambda>w. \<exists>J'. list_all2 (refund_rel i) J J' \<and> views stored jobs calls w = (S, J', C))
          (for_range xs (refund_job jrepo))
          (\<lambda>_ w. \<exists>J'. list_all2 (refund_rel i) J J' \<and> views stored jobs calls w = (S, J', C))"
          by (intro spec_for_range refund_job_spec J) auto
        with Inr show ?thesis
          by (auto intro: spec_conseq refund_rel_refl)
      qed (auto simp: spec_def Inr)
    qed (use refund_rel_refl in \<open>auto intro!: spec_return\<close>)
  qed
qed

lemma count_refunded_spec:
  assumes m: "wired brepo jrepo bclient producer m"
  shows "spec (\<lambda>w. views stored jobs calls w = (S, J, C)) (count_refunded m i)
    (\<lambda>k w. views stored jobs calls w = (S, J, C) \<and>
      (k = 0 \<or> k = int (length (filter (\<lambda>j. j_BatchID j = i \<and> j_Status j = JobStatusRefunded) J))))"
proof (cases "bm_jobRepo m")
  case None
  then show ?thesis by (auto simp: count_refunded_def intro!: spec_return)
next
  case (Some r)
  with m have r: "bm_jobRepo m = Some jrepo" by (simp add: wired_def)
  have len: "length (filter P xs) = length (filter (\<lambda>j. j_BatchID j = i \<and> P j) (jobs w))"
    if "result (JobRepo_GetByBatch jrepo i) w = Inr xs" for w xs P
  proof -
    have "length (filter P xs) = size (filter_mset P (mset xs))" by (simp flip: mset_filter)
    also have "\<dots> = size (filter_mset P (mset (filter (\<lambda>j. j_BatchID j = i) (jobs w))))"
      using by_batch [OF that] by simp
    finally show ?thesis by (simp flip: mset_filter add: conj_commute)
  qed
  show ?thesis
    unfolding count_refunded_def r option.case
    by (rule specI) (auto simp: views_eq len split: sum.split)
qed

end

definition cancelled :: "batch \<Rightarrow> batch" where
  "cancelled b = b\<lparr>b_Status := BatchStatusCancelled\<rparr>"

definition refund_cleared :: "batch \<Rightarrow> batch" where
  "refund_cleared b = b\<lparr>b_BillingTransactionIDs := []\<rparr>"

context platform
begin

lemma refund_call_spec:
  "spec (\<lambda>w. views stored jobs calls w = (S, J, C)) (Billing_RefundTransactions bclient u ts i)
    (\<lambda>_ w. views stored jobs calls w = (S, J, C @ [CallRefund u ts i]))"
  by (rule specI) (simp add: views_eq refund_calls keepsD billing_keeps)

text \<open>The refund: nothing without a client or transactions; otherwise one call, and jobs and
  transactions are only touched when it succeeded.\<close>

lemma refund_batch_spec:
  assumes m: "wired brepo jrepo bclient producer m" and J: "distinct (map j_ID J)"
    and b: "S i = Some (core b)" "b_ID b = i"
  shows "spec (\<lambda>w. views stored jobs calls w = (S, J, C)) (refund_batch rt m brepo i b)
    (\<lambda>_ w. \<exists>S' J'. views stored jobs calls w = (S', J', C @ calls_of_cancel m i b) \<and>
      list_all2 (refund_rel i) J J' \<and> (S' = S \<or> S' = S(i \<mapsto> core (refund_cleared b))) \<and>
      (calls_of_cancel m i b = [] \<longrightarrow> J' = J \<and> S' = S))" (is "spec _ _ ?Q")
proof (cases "bm_billing m = None \<or> b_BillingTransactionIDs b = []")
  case True
  then show ?thesis
    using refund_rel_refl [of i J]
    by (auto simp: refund_batch_def calls_of_cancel_def intro!: spec_return split: option.split)
next
  case False
  let ?C = "C @ [CallRefund (b_UserID b) (b_BillingTransactionIDs b) i]"
  from False m have c: "bm_billing m = Some bclient" by (auto simp: wired_def)
  have calls: "C @ calls_of_cancel m i b = ?C" using False by (simp add: calls_of_cancel_def)
  have ne: "calls_of_cancel m i b \<noteq> []" using False by (simp add: calls_of_cancel_def)
  have tag: "keeps (views stored jobs calls) (tag_refunded rt m i ts)" for ts
    using m by (intro frame_intros)
  have upd: "spec (\<lambda>w. views stored jobs calls w = (S, J', ?C))
    (BatchRepo_Update brepo (b\<lparr>b_BillingTransactionIDs := []\<rparr>))
    (\<lambda>r w. views stored jobs calls w = (if r = None then S(i \<mapsto> core (refund_cleared b)) else S, J', ?C))" for J'
    using update_spec [where old = b and b = "b\<lparr>b_BillingTransactionIDs := []\<rparr>" and S = S and J = J' and C = ?C and i = i] b
    by (simp add: refund_cleared_def cong: if_cong)
  have rest: "spec (\<lambda>w. list_all2 (refund_rel i) J J' \<and> views stored jobs calls w = (S, J', ?C))
      (do {
         _ \<leftarrow> BatchRepo_Update brepo (b\<lparr>b_BillingTransactionIDs := []\<rparr>);
         tag_refunded rt m i (b_BillingTransactionIDs b)
       }) ?Q" for J'
  proof (cases "list_all2 (refund_rel i) J J'")
    case True
    then show ?thesis
      by (auto simp: calls ne intro!: spec_bind [OF upd] spec_keeps [OF tag])
  qed (simp add: spec_def)
  show ?thesis
    unfolding refund_batch_def c option.case using False c
    by (intro spec_if spec_bind [OF refund_call_spec] spec_case_option spec_return
        spec_bind [OF refund_jobs_spec [OF m J]] spec_ex rest)
      (auto simp: calls ne intro: refund_rel_refl)
qed

lemma setcancelled_run:
  assumes m: "wired brepo jrepo bclient producer m" and J: "distinct (map j_ID J)"
  shows "spec (\<lambda>w. views stored jobs calls w = (S, J, C)) (SetCancelled rt m i)
    (\<lambda>r w. r \<noteq> Panic \<and>
      (\<forall>err. r = Ret (Inl err) \<longrightarrow> views stored jobs calls w = (S, J, C)) \<and>
      (\<forall>k. r = Ret (Inr k) \<longrightarrow> (\<exists>b S' J'. S i = Some (core b) \<and> b_ID b = i \<and>
         views stored jobs calls w = (S', J', C @ calls_of_cancel m i b) \<and>
         list_all2 (refund_rel i) J J' \<and>
         (S' = S(i \<mapsto> core (cancelled b)) \<or> S' = S(i \<mapsto> core (refund_cleared (cancelled b)))) \<and>
         (calls_of_cancel m i b = [] \<longrightarrow> J' = J \<and> S' = S(i \<mapsto> core (cancelled b))) \<and>
         (k = 0 \<or> k = int (length (filter (\<lambda>j. j_BatchID j = i \<and> j_Status j = JobStatusRefunded) J'))))))"
    (is "spec _ _ ?Q")
  unfolding SetCancelled_def
proof (rule with_batch_spec [OF m], goal_cases)
  case (2 b)
  let ?b = "b\<lparr>b_Status := BatchStatusCancelled\<rparr>"
  let ?S = "S(i \<mapsto> core ?b)"
  have pub: "keeps (views stored jobs calls) (publishStatus rt m ?b)"
    using m by (intro frame_intros publishStatus_keeps)
  have upd: "spec (\<lambda>w. views stored jobs calls w = (S, J, C)) (BatchRepo_Update brepo ?b)
    (\<lambda>r w. views stored jobs calls w = (if r = None then ?S else S, J, C))"
    using update_spec [where old = b and b = ?b and S = S and J = J and C = C and i = i] 2 by simp
  have calls: "calls_of_cancel m i ?b = calls_of_cancel m i b"
    by (simp add: calls_of_cancel_def)
  have refund: "spec (\<lambda>w. views stored jobs calls w = (?S, J, C)) (refund_batch rt m brepo i ?b)
    (\<lambda>_ w. \<exists>S' J'. views stored jobs calls w = (S', J', C @ calls_of_cancel m i b) \<and>
      list_all2 (refund_rel i) J J' \<and> (S' = ?S \<or> S' = S(i \<mapsto> core (refund_cleared ?b))) \<and>
      (calls_of_cancel m i b = [] \<longrightarrow> J' = J \<and> S' = ?S))"
    using refund_batch_spec [OF m J, of ?S i ?b] 2 by (simp add: calls)
  have cnt: "spec (\<lambda>w. views stored jobs calls w = (S', J', C @ calls_of_cancel m i b) \<and>
      list_all2 (refund_rel i) J J' \<and> (S' = ?S \<or> S' = S(i \<mapsto> core (refund_cleared ?b))) \<and>
      (calls_of_cancel m i b = [] \<longrightarrow> J' = J \<and> S' = ?S))
    (do { n \<leftarrow> count_refunded m i; State_Monad.return (Ret (Inr n)) }) ?Q" for S' J'
  proof (rule specI, elim conjE)
    fix w assume *: "views stored jobs calls w = (S', J', C @ calls_of_cancel m i b)"
      "list_all2 (refund_rel i) J J'" "S' = ?S \<or> S' = S(i \<mapsto> core (refund_cleared ?b))"
      "calls_of_cancel m i b = [] \<longrightarrow> J' = J \<and> S' = ?S"
    from specD [OF count_refunded_spec [OF m] *(1), of i] * 2
    show "?Q (result (do { n \<leftarrow> count_refunded m i; State_Monad.return (Ret (Inr n)) }) w)
        (after (do { n \<leftarrow> count_refunded m i; State_Monad.return (Ret (Inr n)) }) w)"
      by (simp only: cancelled_def result_bind after_bind result_return after_return) fastforce
  qed
  show ?case
    unfolding Let_def
  proof (rule spec_bind [OF upd])
    fix r
    show "spec (\<lambda>w. views stored jobs calls w = (if r = None then ?S else S, J, C))
      (case r of None \<Rightarrow> do { publishStatus rt m ?b; refund_batch rt m brepo i ?b;
            n \<leftarrow> count_refunded m i; State_Monad.return (Ret (Inr n)) }
        | Some err \<Rightarrow> State_Monad.return (Ret (Inl err))) ?Q"
    proof (cases r)
      case None
      show ?thesis
        unfolding None option.case if_True simp_thms
        by (intro spec_bind_keeps [OF pub] spec_bind [OF refund] spec_ex cnt)
    qed (auto intro!: spec_return)
  qed
qed simp

text \<open>Counting the jobs of a batch into it: a failure changes nothing, and neither does a batch without
  jobs.\<close>

lemma progress_run:
  assumes m: "wired brepo jrepo bclient producer m"
    and xs: "mset xs = mset js" "js \<noteq> []"
  shows "spec (\<lambda>w. views stored jobs calls w = (S, J, C)) (update_progress rt m i xs)
    (\<lambda>r w. r \<noteq> Panic \<and> jobs w = J \<and> calls w = C \<and> (r \<noteq> Ret None \<longrightarrow> stored w = S) \<and>
      (r = Ret None \<longrightarrow> (\<exists>b now. S i = Some (core b) \<and> b_ID b = i \<and>
           stored w = S(i \<mapsto> core (progress_spec js now b)))))"
    (is "spec _ _ ?Q")
proof -
  have now: "keeps (views stored jobs calls) (Rt_Now rt)" by (intro frame_intros)
  obtain p c f where cnt: "count_jobs js = (p, c, f)" by (cases "count_jobs js")
  then have cnt': "count_jobs xs = (p, c, f)" using count_jobs_mset [OF xs(1)] by simp
  show ?thesis
    unfolding update_progress_def cnt' prod.case
  proof (intro with_batch_spec [OF m], goal_cases)
    case (2 b)
    have upd: "spec (\<lambda>w. views stored jobs calls w = (S, J, C)) (update_and_publish rt m brepo b') ?Q"
      if "b' = progress_spec js now b" for b' now
      by (rule update_and_publish_spec [OF m, where old = b and i = i])
        (use 2 that in \<open>auto simp: views_eq progress_spec_def cnt Let_def\<close>)
    show ?case
      by (intro spec_Let spec_if spec_bind_keeps [OF now] upd) (simp_all add: progress_spec_def cnt)
  qed (simp add: views_eq)
qed

lemma onjobstatus_run:
  assumes m: "wired brepo jrepo bclient producer m"
  shows "spec (\<lambda>w. views stored jobs calls w = (S, J, C)) (OnJobStatusChange rt m i)
    (\<lambda>r w. r \<noteq> Panic \<and> jobs w = J \<and> calls w = C \<and>
      (r \<noteq> Ret None \<longrightarrow> stored w = S) \<and>
      (r = Ret None \<longrightarrow> (if filter (\<lambda>j. j_BatchID j = i) J = [] then stored w = S
         else \<exists>b now. S i = Some (core b) \<and> b_ID b = i \<and>
           stored w = S(i \<mapsto> core (progress_spec (filter (\<lambda>j. j_BatchID j = i) J) now b)))))"
    (is "spec _ _ ?Q")
proof (cases "bm_batchRepo m = Some brepo \<and> bm_jobRepo m = Some jrepo")
  case False
  with m have "OnJobStatusChange rt m i = State_Monad.return (Ret (Some (ErrMsg ''repos not configured'')))"
    by (auto simp: OnJobStatusChange_def wired_def split: option.split)
  then show ?thesis by (auto simp: views_eq intro!: spec_return)
next
  case True
  let ?js = "filter (\<lambda>j. j_BatchID j = i) J"
  have fetch: "spec (\<lambda>w. views stored jobs calls w = (S, J, C)) (JobRepo_GetByBatch jrepo i)
     (\<lambda>x w. (\<forall>xs. x = Inr xs \<longrightarrow> mset xs = mset ?js) \<and> views stored jobs calls w = (S, J, C))"
    by (rule specI) (auto simp: by_batch views_eq)
  have body: "spec (\<lambda>w. views stored jobs calls w = (S, J, C))
      (if xs = [] then State_Monad.return (Ret None) else update_progress rt m i xs) ?Q"
    if xs: "mset xs = mset ?js" for xs
  proof (cases "xs = []")
    case True
    with xs have "?js = []" by (metis mset_zero_iff)
    with True show ?thesis by (auto simp: views_eq intro!: spec_return)
  next
    case False
    with xs have ne: "?js \<noteq> []" by (metis mset_zero_iff)
    show ?thesis
      unfolding if_not_P [OF False] by (rule spec_conseq [OF progress_run [OF m xs ne]]) (use ne in auto)
  qed
  from True have eq: "OnJobStatusChange rt m i = do {
       x \<leftarrow> JobRepo_GetByBatch jrepo i;
       (case x of Inl err \<Rightarrow> State_Monad.return (Ret (Some err))
        | Inr xs \<Rightarrow> if xs = [] then State_Monad.return (Ret None) else update_progress rt m i xs) }"
    by (simp add: OnJobStatusChange_def)
  show ?thesis
    unfolding eq
    by (intro spec_bind [OF fetch] spec_pure spec_case_sum body)
      (auto simp: views_eq intro!: spec_return)
qed

end

section \<open>The production manager\<close>

text \<open>The manager \<open>di.NewDeps\<close> builds; a batch-status topic is \<open>t\<close>, the history topic \<open>h\<close>.\<close>

definition prod_manager :: "env \<Rightarrow> string \<Rightarrow> BFFBillingClient \<Rightarrow> string \<Rightarrow> string \<Rightarrow> world BatchManager"
  where
  "prod_manager e brokers c h t = (let p = producer_of e brokers in
     NewBatchManager (batchRepository e) (jobRepository e) (billing_of e c)
       \<lparr>tg_producer = p, tg_topic = h\<rparr> p t)"

lemma prod_manager_wired: "wired (batchRepository e) (jobRepository e) (billing_of e c)
    (producer_of e brokers) (prod_manager e brokers c h t)"
  by (simp add: prod_manager_def Let_def NewBatchManager_wired)

section \<open>Properties\<close>

text \<open>C11: after an upload the stored batch has the given number of valid rows; it is in
  \<open>validation_errors\<close> exactly when there were invalid rows, otherwise ready, or partially available
  with an approved count below the valid rows; nothing else of it, no other batch and no job
  changes.  An error leaves everything as it was, and no run panics.\<close>

theorem finalize_after_upload:
  "case run_state (FinalizeAfterUpload (runtime_of e) (prod_manager e brokers c h t) i valid invalid) w of
     (r, w') \<Rightarrow> pg_jobs w' = pg_jobs w \<and> (case r of
       Panic \<Rightarrow> False
     | Ret (Some err) \<Rightarrow> pg_stored w' = pg_stored w
     | Ret None \<Rightarrow> (\<exists>b b'. pg_stored w i = Some b \<and> pg_stored w' = (pg_stored w)(i \<mapsto> b') \<and>
         b_ValidRows b' = valid \<and>
         (if 0 < invalid then b_Status b' = BatchStatusValidationErrors
          else b_Status b' = BatchStatusReady \<or>
               b_Status b' = BatchStatusPartialAvailable \<and> b_ApprovedCount b' < valid) \<and>
         b' = b\<lparr>b_ValidRows := valid, b_Status := b_Status b', b_ApprovedCount := b_ApprovedCount b'\<rparr> \<and>
         (if b_Status b' = BatchStatusPartialAvailable then True
          else b_ApprovedCount b' = b_ApprovedCount b)))"
proof (rule spec_run [OF prod.finalize_run [OF prod_manager_wired]], rule views_def, goal_cases)
  case (1 r w')
  have fin: "case finalize_spec b valid invalid q of b' \<Rightarrow>
      b_ValidRows b' = valid \<and>
      (if 0 < invalid then b_Status b' = BatchStatusValidationErrors
       else b_Status b' = BatchStatusReady \<or>
            b_Status b' = BatchStatusPartialAvailable \<and> b_ApprovedCount b' < valid) \<and>
      core b' = (core b)\<lparr>b_ValidRows := valid, b_Status := b_Status b', b_ApprovedCount := b_ApprovedCount b'\<rparr> \<and>
      (if b_Status b' = BatchStatusPartialAvailable then True
       else b_ApprovedCount b' = b_ApprovedCount b)" for b q
    by (cases q) (simp_all add: finalize_spec_def core_def batch_status_defs Let_def)
  show ?case
  proof (cases r)
    case (Ret x)
    show ?thesis
    proof (cases x)
      case None
      with 1 Ret obtain b q where "pg_stored w i = Some (core b)"
        "pg_stored w' = (pg_stored w)(i \<mapsto> core (finalize_spec b valid invalid q))" "pg_jobs w' = pg_jobs w"
        by auto
      with fin [of b q] show ?thesis
        unfolding Ret None
        by (auto intro!: exI [of _ "core (finalize_spec b valid invalid q)"])
    qed (use 1 Ret in simp)
  qed (use 1 in simp)
qed

lemma cancel_calls: "calls_of_cancel (prod_manager e brokers c h t) i b =
    (if b_BillingTransactionIDs b = [] then []
     else [CallRefund (b_UserID b) (b_BillingTransactionIDs b) i])"
  by (simp add: calls_of_cancel_def prod_manager_def NewBatchManager_def Let_def)

text \<open>C10: cancelling marks the stored batch cancelled and asks for a refund of exactly the
  transactions stored with it, in one call and only when there are some; jobs of other batches and
  finished jobs keep their state, active jobs of the batch may become refunded, and the number
  returned is that of refunded jobs (or 0, when they could not be read).  An error changes
  nothing.\<close>

theorem set_cancelled:
  assumes "distinct (map jr_id (wJobs w))"
  shows "case run_state (SetCancelled (runtime_of e) (prod_manager e brokers c h t) i) w of
    (r, w') \<Rightarrow> (case r of
      Panic \<Rightarrow> False
    | Ret (Inl err) \<Rightarrow> pg_stored w' = pg_stored w \<and> pg_jobs w' = pg_jobs w \<and> wCalls w' = wCalls w
    | Ret (Inr k) \<Rightarrow> (\<exists>b b'. pg_stored w i = Some b \<and> pg_stored w' = (pg_stored w)(i \<mapsto> b') \<and>
        b_Status b' = BatchStatusCancelled \<and>
        b_BillingTransactionIDs b' \<in> {b_BillingTransactionIDs b, []} \<and>
        wCalls w' = wCalls w @ (if b_BillingTransactionIDs b = [] then []
          else [CallRefund (b_UserID b) (b_BillingTransactionIDs b) i]) \<and>
        list_all2 (\<lambda>j j'. j' = j \<or> b_BillingTransactionIDs b \<noteq> [] \<and> j_BatchID j = i \<and>
          job_active (j_Status j) \<and> j' = j\<lparr>j_Status := JobStatusRefunded\<rparr>) (pg_jobs w) (pg_jobs w') \<and>
        k \<in> {0, int (length (filter (\<lambda>j. j_BatchID j = i \<and> j_Status j = JobStatusRefunded)
          (pg_jobs w')))}))"
proof (rule spec_run [OF prod.setcancelled_run [OF prod_manager_wired,
      where S = "pg_stored w" and J = "pg_jobs w" and C = "wCalls w"]], goal_cases)
  case 1
  show ?case using assms by (simp add: pg_jobs_def comp_def)
next
  case 2
  show ?case by (rule views_def)
next
  case (3 r w')
  show ?case
  proof (cases r)
    case (Ret x)
    show ?thesis
    proof (cases x)
      case (Inl err)
      with 3 Ret show ?thesis by (simp add: views_eq)
    next
      case (Inr k)
      with 3 Ret obtain b S' J' where *: "pg_stored w i = Some (core b)" "b_ID b = i"
        "views pg_stored pg_jobs wCalls w' =
          (S', J', wCalls w @ calls_of_cancel (prod_manager e brokers c h t) i b)"
        "list_all2 (refund_rel i) (pg_jobs w) J'"
        "S' = (pg_stored w)(i \<mapsto> core (cancelled b)) \<or>
         S' = (pg_stored w)(i \<mapsto> core (refund_cleared (cancelled b)))"
        "calls_of_cancel (prod_manager e brokers c h t) i b = [] \<longrightarrow>
          J' = pg_jobs w \<and> S' = (pg_stored w)(i \<mapsto> core (cancelled b))"
        "k = 0 \<or> k = int (length (filter (\<lambda>j. j_BatchID j = i \<and> j_Status j = JobStatusRefunded) J'))"
        by blast
      obtain b' where b': "S' = (pg_stored w)(i \<mapsto> b')" "b_Status b' = BatchStatusCancelled"
        "b_BillingTransactionIDs b' \<in> {b_BillingTransactionIDs b, []}"
        using *(5) by (auto simp: cancelled_def refund_cleared_def)
      have jobs: "list_all2 (\<lambda>j j'. j' = j \<or> b_BillingTransactionIDs b \<noteq> [] \<and> j_BatchID j = i \<and>
          job_active (j_Status j) \<and> j' = j\<lparr>j_Status := JobStatusRefunded\<rparr>) (pg_jobs w) J'"
        by (cases "b_BillingTransactionIDs b = []")
          (use *(4,6) in \<open>simp_all add: cancel_calls list_all2_refl refund_rel_def [abs_def]\<close>)
      show ?thesis
        unfolding Ret Inr go.case sum.case
        by (rule exI [of _ "core b"], rule exI [of _ b'])
          (use * b' jobs in \<open>simp add: views_eq cancel_calls\<close>)
    qed
  qed (use 3 in simp)
qed

theorem set_cancelled_witness:
  "distinct (map jr_id (wJobs world0)) \<and>
   (case run_state (SetCancelled (runtime_of env0) (prod_manager env0 ''k'' client0 ''h'' ''t'') ''b1'') world0 of
      (r, w') \<Rightarrow> r \<noteq> Panic)"
proof -
  have d: "distinct (map jr_id (wJobs world0))" by (simp add: world0_def jrow_def)
  with set_cancelled [OF d, where e = env0 and brokers = "''k''" and c = client0 and h = "''h''"
      and t = "''t''" and i = "''b1''"] show ?thesis
    by (auto split: go.splits)
qed

text \<open>C3: a recalculation counts every job of the batch, in whatever order the store returns them:
  the completed count is the number of completed, refunded and failed jobs, and the batch is
  completed, with a completion time, exactly when no other job is left, and processing otherwise.  A
  batch without jobs and a failed run keep everything.\<close>

theorem on_job_status_change:
  "case run_state (OnJobStatusChange (runtime_of e) (prod_manager e brokers c h t) i) w of
    (r, w') \<Rightarrow> (let js = filter (\<lambda>j. j_BatchID j = i) (pg_jobs w) in
      pg_jobs w' = pg_jobs w \<and> wCalls w' = wCalls w \<and> (case r of
        Panic \<Rightarrow> False
      | Ret (Some err) \<Rightarrow> pg_stored w' = pg_stored w
      | Ret None \<Rightarrow> (if js = [] then pg_stored w' = pg_stored w
          else \<exists>b b'. pg_stored w i = Some b \<and> pg_stored w' = (pg_stored w)(i \<mapsto> b') \<and>
            b_CompletedCount b' = int (length (filter job_done js)) \<and>
            b_FailedCount b' = int (length (filter (\<lambda>j. j_Status j = JobStatusFailed) js)) \<and>
            b_Status b' = (if list_all job_done js then BatchStatusCompleted else BatchStatusProcessing) \<and>
            b_BillingTransactionIDs b' = b_BillingTransactionIDs b \<and>
            b_TotalRows b' = b_TotalRows b)))"
proof (rule spec_run [OF prod.onjobstatus_run [OF prod_manager_wired]], rule views_def, goal_cases)
  case (1 r w')
  show ?case
  proof (cases r)
    case (Ret x)
    show ?thesis
    proof (cases x)
      case None
      let ?js = "filter (\<lambda>j. j_BatchID j = i) (pg_jobs w)"
      show ?thesis
      proof (cases "?js = []")
        case False
        with 1 Ret None obtain b now where "pg_stored w i = Some (core b)" "pg_jobs w' = pg_jobs w"
          "pg_stored w' = (pg_stored w)(i \<mapsto> core (progress_spec ?js now b))" "wCalls w' = wCalls w"
          by auto
        then show ?thesis
          unfolding Ret None Let_def go.case option.case if_not_P [OF False]
          by (intro conjI exI [of _ "core b"] exI [of _ "core (progress_spec ?js now b)"])
            (simp_all del: filter_filter)
      qed (use 1 Ret None in \<open>simp add: Let_def\<close>)
    qed (use 1 Ret in \<open>simp add: Let_def\<close>)
  qed (use 1 in simp)
qed

end
