(* ===== verification/Parser.thy ===== *)
theory Parser
  imports Domain
begin

text \<open>
  \<open>internal/parser\<close> and \<open>pkg/xls\<close>: reading the first sheet of an upload, detecting its columns
  from the aliases of a revision, and mapping its rows to field codes.  XLSX and XLS files are read
  by third-party libraries, which are parameters; CSV is read by \<open>encoding/csv\<close>, modelled here.
  A Go map is an association list in the order of its iteration, which Go leaves open.
\<close>

section \<open>CSV\<close>

abbreviation LF :: char where "LF \<equiv> CHR 0x0A"
abbreviation CR :: char where "CR \<equiv> CHR 0x0D"

text \<open>Line ends are LF or CR LF, and a CR at the end of the input is dropped.\<close>

fun norm_newlines :: "string \<Rightarrow> string" where
  "norm_newlines [] = []"
| "norm_newlines [c] = (if c = CR then [] else [c])"
| "norm_newlines (c # d # s) = (if c = CR \<and> d = LF then LF # norm_newlines s
     else c # norm_newlines (d # s))"

text \<open>The rest of a quoted field: its value and what follows the closing quote.\<close>

fun csv_quoted :: "string \<Rightarrow> (string \<times> string) option" where
  "csv_quoted [] = None"
| "csv_quoted [c] = (if c = QT then Some ([], []) else None)"
| "csv_quoted (c # d # s) =
     (if c \<noteq> QT then map_option (apfst (Cons c)) (csv_quoted (d # s))
      else if d = QT then map_option (apfst (Cons QT)) (csv_quoted s)
      else if d = CHR '','' \<or> d = LF then Some ([], d # s)
      else None)"

definition csv_field :: "string \<Rightarrow> (string \<times> string) option" where
  "csv_field s = (case s of
     c # r \<Rightarrow> if c = QT then csv_quoted r
       else (let f = takeWhile (\<lambda>x. x \<noteq> CHR '','' \<and> x \<noteq> LF) s in
         if QT \<in> set f then None else Some (f, drop (length f) s))
   | [] \<Rightarrow> Some ([], []))"

lemma csv_quoted_length: "csv_quoted s = Some (f, r) \<Longrightarrow> length r < length s"
  by (induction s arbitrary: f r rule: csv_quoted.induct) (fastforce split: if_splits)+

lemma csv_field_length: "csv_field s = Some (f, r) \<Longrightarrow> length r \<le> length s"
  by (auto simp: csv_field_def Let_def dest: csv_quoted_length split: list.splits if_splits)

function csv_record :: "string \<Rightarrow> (string list \<times> string) option" where
  "csv_record s = (case csv_field s of
     None \<Rightarrow> None
   | Some (f, []) \<Rightarrow> Some ([f], [])
   | Some (f, c # r) \<Rightarrow> if c = CHR '','' then map_option (apfst (Cons f)) (csv_record r)
       else Some ([f], r))"
  by pat_completeness auto
termination
  by (relation "measure length") (auto dest: csv_field_length)

declare csv_record.simps [simp del]

lemma csv_record_length: "csv_record s = Some (rec, r) \<Longrightarrow> s \<noteq> [] \<Longrightarrow> length r < length s"
proof (induction s arbitrary: rec r rule: csv_record.induct)
  case (1 s)
  from "1.prems" obtain f t where f: "csv_field s = Some (f, t)"
    by (auto simp: csv_record.simps [of s] split: option.splits)
  show ?case
  proof (cases t)
    case Nil
    with "1.prems" f show ?thesis by (auto simp: csv_record.simps [of s])
  next
    case (Cons c u)
    with csv_field_length [OF f] have "length u < length s" by simp
    moreover have "r = []" if "csv_record [] = Some (rec', r)" for rec'
      using that by (simp add: csv_record.simps csv_field_def)
    ultimately show ?thesis
      using "1.prems" f Cons "1.IH" [OF f refl Cons]
      by (cases "u = []") (fastforce simp: csv_record.simps [of s] split: if_splits)+
  qed
qed

text \<open>\<open>ReadAll\<close>: empty lines are skipped, and all records have the length of the first.\<close>

function csv_records :: "string \<Rightarrow> string list list option" where
  "csv_records s = (case s of
     [] \<Rightarrow> Some []
   | c # r \<Rightarrow> if c = LF then csv_records r
       else (case csv_record s of
           None \<Rightarrow> None
         | Some (rec, rest) \<Rightarrow> map_option (Cons rec) (csv_records rest)))"
  by pat_completeness auto
termination
  by (relation "measure length") (auto dest: csv_record_length)

declare csv_records.simps [simp del]

definition csv_ReadAll :: "string \<Rightarrow> go_error + string list list" where
  "csv_ReadAll s = (case csv_records (norm_newlines s) of
     None \<Rightarrow> Inl (ErrMsg ''csv parse error'')
   | Some rs \<Rightarrow> if list_all (\<lambda>r. length r = length (hd rs)) rs then Inr rs
       else Inl (ErrMsg ''csv wrong number of fields''))"

section \<open>Sheets\<close>

record sheet_readers =
  read_xlsx :: "string \<Rightarrow> go_error + string list list"
  read_xls :: "string \<Rightarrow> go_error + string list list"

definition ReadFirstSheet :: "sheet_readers \<Rightarrow> string \<Rightarrow> go_error + string list list" where
  "ReadFirstSheet rd data =
     (if HasPrefix data ''PK'' then read_xlsx rd data
      else if HasPrefix data [CHR 0xD0, CHR 0xCF, CHR 0x11, CHR 0xE0] then read_xls rd data
      else csv_ReadAll data)"

section \<open>Columns\<close>

text \<open>The Russian aliases, in UTF-8: name, surname, date of birth, address, city, state, index,
  term of validity and date of issue.\<close>

definition ru_name :: string where
  "ru_name = [CHR 0xD0, CHR 0xB8, CHR 0xD0, CHR 0xBC, CHR 0xD1, CHR 0x8F]"
definition ru_surname :: string where
  "ru_surname = [CHR 0xD1, CHR 0x84, CHR 0xD0, CHR 0xB0, CHR 0xD0, CHR 0xBC, CHR 0xD0, CHR 0xB8, CHR 0xD0, CHR 0xBB,
     CHR 0xD0, CHR 0xB8, CHR 0xD1, CHR 0x8F]"
definition ru_birth :: string where
  "ru_birth = [CHR 0xD0, CHR 0xB4, CHR 0xD0, CHR 0xB0, CHR 0xD1, CHR 0x82, CHR 0xD0, CHR 0xB0, CHR 0x20, CHR 0xD1,
     CHR 0x80, CHR 0xD0, CHR 0xBE, CHR 0xD0, CHR 0xB6, CHR 0xD0, CHR 0xB4, CHR 0xD0, CHR 0xB5, CHR 0xD0,
     CHR 0xBD, CHR 0xD0, CHR 0xB8, CHR 0xD1, CHR 0x8F]"
definition ru_address :: string where
  "ru_address = [CHR 0xD0, CHR 0xB0, CHR 0xD0, CHR 0xB4, CHR 0xD1, CHR 0x80, CHR 0xD0, CHR 0xB5, CHR 0xD1, CHR 0x81]"
definition ru_city :: string where
  "ru_city = [CHR 0xD0, CHR 0xB3, CHR 0xD0, CHR 0xBE, CHR 0xD1, CHR 0x80, CHR 0xD0, CHR 0xBE, CHR 0xD0, CHR 0xB4]"
definition ru_state :: string where
  "ru_state = [CHR 0xD1, CHR 0x88, CHR 0xD1, CHR 0x82, CHR 0xD0, CHR 0xB0, CHR 0xD1, CHR 0x82]"
definition ru_index :: string where
  "ru_index = [CHR 0xD0, CHR 0xB8, CHR 0xD0, CHR 0xBD, CHR 0xD0, CHR 0xB4, CHR 0xD0, CHR 0xB5, CHR 0xD0, CHR 0xBA,
     CHR 0xD1, CHR 0x81]"
definition ru_expiry :: string where
  "ru_expiry = [CHR 0xD1, CHR 0x81, CHR 0xD1, CHR 0x80, CHR 0xD0, CHR 0xBE, CHR 0xD0, CHR 0xBA, CHR 0x20, CHR 0xD0,
     CHR 0xB4, CHR 0xD0, CHR 0xB5, CHR 0xD0, CHR 0xB9, CHR 0xD1, CHR 0x81, CHR 0xD1, CHR 0x82, CHR 0xD0,
     CHR 0xB2, CHR 0xD0, CHR 0xB8, CHR 0xD1, CHR 0x8F]"
definition ru_issue :: string where
  "ru_issue = [CHR 0xD0, CHR 0xB4, CHR 0xD0, CHR 0xB0, CHR 0xD1, CHR 0x82, CHR 0xD0, CHR 0xB0, CHR 0x20, CHR 0xD0,
     CHR 0xB2, CHR 0xD1, CHR 0x8B, CHR 0xD0, CHR 0xB4, CHR 0xD0, CHR 0xB0, CHR 0xD1, CHR 0x87, CHR 0xD0,
     CHR 0xB8]"

definition defaultColumnAliases :: "(string \<times> string list) list" where
  "defaultColumnAliases =
    [(''DAC'', [''first_name'', ''firstname'', ''first name'', ru_name, ''dac'']),
     (''DCS'', [''last_name'', ''lastname'', ''last name'', ru_surname, ''dcs'']),
     (''DBB'', [''dob'', ''date_of_birth'', ''birthdate'', ru_birth, ''dbb'']),
     (''DAG'', [''address'', ''street'', ''street_address'', ru_address, ''dag'']),
     (''DAI'', [''city'', ru_city, ''dai'']),
     (''DAJ'', [''state'', ru_state, ''daj'']),
     (''DAK'', [''zip'', ''zipcode'', ''zip_code'', ru_index, ''dak'']),
     (''DBA'', [''expiration'', ''exp_date'', ''expiry'', ru_expiry, ''dba'']),
     (''DBD'', [''issue_date'', ''issued'', ru_issue, ''dbd''])]"

definition revisionAliasExtensions :: "(string \<times> (string \<times> string list) list) list" where
  "revisionAliasExtensions = [(''US_CA_08292017'', [])]"

definition requiredFields :: "string list" where
  "requiredFields = [''DAC'', ''DCS'', ''DBB'', ''DAG'', ''DAI'', ''DAJ'', ''DAK'', ''DBA'', ''DBD'']"

definition revisionRequiredFields :: "(string \<times> string list) list" where
  "revisionRequiredFields = [(''US_CA_08292017'', requiredFields)]"

definition RequiredHeaders :: "string \<Rightarrow> string list" where
  "RequiredHeaders revision = (case map_of revisionRequiredFields revision of
     Some fs \<Rightarrow> fs | None \<Rightarrow> requiredFields)"

definition add_aliases :: "string \<times> string list \<Rightarrow> (string \<times> string list) list \<Rightarrow> (string \<times> string list) list"
  where
  "add_aliases x m = (case x of (code, extra) \<Rightarrow>
     AList.update code ((case map_of m code of Some l \<Rightarrow> l | None \<Rightarrow> []) @ extra) m)"

definition buildAliasMap :: "string \<Rightarrow> (string \<times> string list) list" where
  "buildAliasMap revision = (case map_of revisionAliasExtensions revision of
     Some ext \<Rightarrow> fold add_aliases ext defaultColumnAliases
   | None \<Rightarrow> defaultColumnAliases)"

text \<open>The code of one header, with the alias map iterated in the order of the list.\<close>

definition detect_in :: "(string \<times> string list) list \<Rightarrow> string \<Rightarrow> string" where
  "detect_in aliases h = (let norm = ToLower (TrimSpace h) in
     case find (\<lambda>(code, as). list_ex (\<lambda>a. norm = ToLower a) as) aliases of
       Some (code, as) \<Rightarrow> code
     | None \<Rightarrow> (let up = ToUpper norm in if up \<in> fst ` set aliases then up else []))"

definition DetectColumns :: "string list \<Rightarrow> string \<Rightarrow> (string \<times> string) list" where
  "DetectColumns headers revision = fold (\<lambda>h. AList.update h (detect_in (buildAliasMap revision) h)) headers []"

section \<open>Parsing an upload\<close>

record XLSParser =
  xp_MaxRows :: int
  xp_MaxCols :: int
  xp_MaxFileSize :: int

definition NewXLSParser :: "int \<Rightarrow> int \<Rightarrow> int \<Rightarrow> XLSParser" where
  "NewXLSParser maxRows maxCols maxFileSize =
     \<lparr>xp_MaxRows = maxRows, xp_MaxCols = maxCols, xp_MaxFileSize = maxFileSize\<rparr>"

definition NewInvalidHeadersError :: "string list \<Rightarrow> go_error" where
  "NewInvalidHeadersError missing = (if missing = [] then ErrInvalidHeaders else InvalidHeadersError missing)"

text \<open>\<open>errors.Is(err, ErrInvalidHeaders)\<close>.\<close>

definition IsInvalidHeaders :: "go_error \<Rightarrow> bool" where
  "IsInvalidHeaders err = (case err of ErrInvalidHeaders \<Rightarrow> True | InvalidHeadersError _ \<Rightarrow> True | _ \<Rightarrow> False)"

definition col :: "(string \<times> string) list \<Rightarrow> string \<Rightarrow> string" where
  "col m h = (case map_of m h of Some c \<Rightarrow> c | None \<Rightarrow> [])"

text \<open>One row: the cells under recognized headers, trimmed; a later column of the same code wins.
  The row number counts the header as row 1.\<close>

fun row_cells :: "(string \<times> string) list \<Rightarrow> string list \<Rightarrow> string list \<Rightarrow> (string \<times> string) list \<Rightarrow>
    (string \<times> string) list" where
  "row_cells m (h # hs) (c # cs) acc =
     row_cells m hs cs (if col m h \<noteq> [] then AList.update (col m h) (TrimSpace c) acc else acc)"
| "row_cells m _ _ acc = acc"

definition parse_row :: "XLSParser \<Rightarrow> (string \<times> string) list \<Rightarrow> string list \<Rightarrow> nat \<Rightarrow> string list \<Rightarrow>
    (string \<times> string) list" where
  "parse_row p m headers i row = (let hs = (if 0 < xp_MaxCols p then take (nat (xp_MaxCols p)) headers else headers)
     in AList.update ''_row'' (Itoa (int i + 2)) (row_cells m hs row []))"

definition Parse :: "sheet_readers \<Rightarrow> XLSParser \<Rightarrow> string \<Rightarrow> string \<Rightarrow>
    go_error + (string \<times> string) list list" where
  "Parse rd p data revision =
     (if 0 < xp_MaxFileSize p \<and> xp_MaxFileSize p < int (length data) then Inl ErrParseInvalidFileFormat
      else (case ReadFirstSheet rd data of
        Inl _ \<Rightarrow> Inl ErrParseInvalidFileFormat
      | Inr [] \<Rightarrow> Inl ErrEmptyFile
      | Inr (headers # rows) \<Rightarrow>
          if 0 < xp_MaxCols p \<and> xp_MaxCols p < int (length headers) then Inl ErrTooManyCols
          else if 0 < xp_MaxRows p \<and> xp_MaxRows p < int (length rows) then Inl ErrTooManyRows
          else (let m = DetectColumns headers revision in
            if list_all (\<lambda>h. col m h = []) headers then Inl (NewInvalidHeadersError [])
            else Inr (map (\<lambda>(i, row). parse_row p m headers i row) (enumerate 0 rows)))))"

definition MapRowToFields :: "string list \<Rightarrow> (string \<times> string) list" where
  "MapRowToFields row = map (\<lambda>(i, v). (''col_'' @ Itoa (int i), v)) (enumerate 0 row)"

section \<open>Barcode URLs\<close>

text \<open>\<open>ParseBarcodeURLs\<close>: an object with either key, an array of strings, or two texts
  separated by a comma.\<close>

definition try_str :: "(string \<times> json) list \<Rightarrow> string \<Rightarrow> string" where
  "try_str obj k = (case map_of (rev obj) k of
     Some (JStr s) \<Rightarrow> s | Some j \<Rightarrow> json_print j | None \<Rightarrow> [])"

definition first_nonempty :: "string \<Rightarrow> string \<Rightarrow> string" where
  "first_nonempty a b = (if a \<noteq> [] then a else b)"

definition nth_str :: "string list \<Rightarrow> nat \<Rightarrow> string" where
  "nth_str xs i = (if i < length xs then xs ! i else [])"

definition barcode_array :: "json \<Rightarrow> string list option" where
  "barcode_array j = (case j of
     JArr js \<Rightarrow> those (map map_elem js)
   | _ \<Rightarrow> None)"

definition ParseBarcodeURLs :: "string \<Rightarrow> string \<times> string" where
  "ParseBarcodeURLs s =
     (if s = [] then ([], [])
      else (case json_parse s of
        Some (JObj obj) \<Rightarrow>
          (first_nonempty (try_str obj ''pdf417'') (try_str obj ''pdf417_url''),
           first_nonempty (try_str obj ''code128'') (try_str obj ''code128_url''))
      | Some JNull \<Rightarrow> ([], [])
      | j \<Rightarrow> (case Option.bind j barcode_array of
          Some arr \<Rightarrow> (nth_str arr 0, nth_str arr 1)
        | None \<Rightarrow> (let parts = Split CHR '','' s
            in (TrimSpace (nth_str parts 0), TrimSpace (nth_str parts 1))))))"

section \<open>Facts about detection and parsing\<close>

lemma buildAliasMap_default [simp]: "buildAliasMap revision = defaultColumnAliases"
  by (simp add: buildAliasMap_def revisionAliasExtensions_def)

lemma alias_codes: "map fst defaultColumnAliases = requiredFields"
  by (simp add: defaultColumnAliases_def requiredFields_def)

lemma aliases_distinct: "distinct (concat (map (\<lambda>(c, as). map ToLower as) defaultColumnAliases))"
  by code_simp

lemma find_unique:
  assumes "set xs = set ys" and "\<And>x y. x \<in> set ys \<Longrightarrow> y \<in> set ys \<Longrightarrow> P x \<Longrightarrow> P y \<Longrightarrow> x = y"
  shows "find P xs = find P ys"
proof (cases "find P ys")
  case None
  then have "find P xs = None" using assms(1) by (auto simp: find_None_iff)
  with None show ?thesis by simp
next
  case (Some y)
  then have y: "y \<in> set ys" "P y" by (auto simp: find_Some_iff)
  show ?thesis
  proof (cases "find P xs")
    case None
    with y assms(1) show ?thesis by (auto simp: find_None_iff)
  next
    case (Some x)
    then have "x \<in> set xs" "P x" by (auto simp: find_Some_iff)
    with y assms Some \<open>find P ys = Some y\<close> show ?thesis by simp
  qed
qed

lemma distinct_concat_member:
  "distinct (concat (map f xs)) \<Longrightarrow> x \<in> set xs \<Longrightarrow> y \<in> set xs \<Longrightarrow> a \<in> set (f x) \<Longrightarrow> a \<in> set (f y) \<Longrightarrow> x = y"
  by (induction xs) auto

lemma alias_code_unique:
  assumes "x \<in> set defaultColumnAliases" "y \<in> set defaultColumnAliases"
    "(\<lambda>(code, as). list_ex (\<lambda>a. n = ToLower a) as) x" "(\<lambda>(code, as). list_ex (\<lambda>a. n = ToLower a) as) y"
  shows "x = y"
  by (rule distinct_concat_member [OF aliases_distinct assms(1,2), of n])
    (use assms(3,4) in \<open>cases x; cases y; auto simp: list_ex_iff\<close>)+

lemma find_SomeD: "find P xs = Some x \<Longrightarrow> P x \<and> x \<in> set xs"
  by (auto simp: find_Some_iff)

lemma detect_in_codes:
  "detect_in cs h = [] \<or> detect_in cs h \<in> fst ` set cs"
  by (force simp: detect_in_def Let_def dest: find_SomeD split: option.splits)

lemma map_of_fold_update:
  "map_of (fold (\<lambda>h. AList.update h (f h)) hs m) x = (if x \<in> set hs then Some (f x) else map_of m x)"
  by (induction hs arbitrary: m) (auto simp: update_conv')

lemma col_DetectColumns: "h \<in> set hs \<Longrightarrow> col (DetectColumns hs r) h = detect_in (buildAliasMap r) h"
  by (simp add: col_def DetectColumns_def map_of_fold_update)

lemma row_cells_keys: "fst ` set (row_cells m hs cs acc) \<subseteq> fst ` set acc \<union> (col m ` set hs - {[]})"
proof (induction m hs cs acc rule: row_cells.induct)
  case (1 m h hs c cs acc)
  show ?case
  proof (cases "col m h = []")
    case False
    with 1 have "fst ` set (row_cells m (h # hs) (c # cs) acc) \<subseteq>
        fst ` set (AList.update (col m h) (TrimSpace c) acc) \<union> (col m ` set hs - {[]})"
      by simp
    also have "\<dots> \<subseteq> fst ` set acc \<union> (col m ` set (h # hs) - {[]})"
      unfolding dom_update using False by auto
    finally show ?thesis .
  next
    case True
    with 1 have "fst ` set (row_cells m (h # hs) (c # cs) acc) \<subseteq> fst ` set acc \<union> (col m ` set hs - {[]})"
      by simp
    also have "\<dots> \<subseteq> fst ` set acc \<union> (col m ` set (h # hs) - {[]})" by auto
    finally show ?thesis .
  qed
qed simp_all

section \<open>Properties\<close>

text \<open>C38: the code found for a header does not depend on the order in which Go iterates over the
  alias map.\<close>

theorem detect_order_independent:
  assumes "mset aliases = mset (buildAliasMap revision)"
  shows "detect_in aliases h = detect_in (buildAliasMap revision) h"
proof -
  have s: "set aliases = set defaultColumnAliases"
    using mset_eq_setD [OF assms] by simp
  have "find (\<lambda>(code, as). list_ex (\<lambda>a. n = ToLower a) as) aliases =
      find (\<lambda>(code, as). list_ex (\<lambda>a. n = ToLower a) as) defaultColumnAliases" for n
    by (rule find_unique [OF s]) (rule alias_code_unique)
  with s show ?thesis
    by (simp add: detect_in_def Let_def split: option.split)
qed

theorem detect_order_independent_witness:
  "detect_in (rev (buildAliasMap ''X'')) '' First_Name '' = detect_in (buildAliasMap ''X'') '' First_Name ''"
  by (rule detect_order_independent) (rule mset_rev)

text \<open>A header that equals an alias of a code, up to white space around it and letter case, is
  detected as that code, in every revision.\<close>

theorem alias_detected:
  assumes "(code, as) \<in> set (buildAliasMap revision)" "a \<in> set as"
    "ToLower (TrimSpace h) = ToLower a"
  shows "detect_in (buildAliasMap revision) h = code"
proof -
  let ?P = "\<lambda>(code, as). list_ex (\<lambda>a. ToLower (TrimSpace h) = ToLower a) as"
  have "find ?P defaultColumnAliases = Some (code, as)"
  proof (cases "find ?P defaultColumnAliases")
    case None
    with assms show ?thesis by (auto simp: find_None_iff list_ex_iff)
  next
    case (Some x)
    have x: "x \<in> set defaultColumnAliases" "?P x" using find_SomeD [OF Some] by auto
    have c: "(code, as) \<in> set defaultColumnAliases" "?P (code, as)"
      using assms by (auto simp: list_ex_iff)
    have "x = (code, as)" by (rule alias_code_unique [OF x(1) c(1) x(2) c(2)])
    with Some show ?thesis by simp
  qed
  then show ?thesis by (simp add: detect_in_def)
qed

theorem alias_detected_witness: "detect_in (buildAliasMap ''v1'') '' ZIP '' = ''DAK''"
  by (rule alias_detected [of _ "[''zip'', ''zipcode'', ''zip_code'', ru_index, ''dak'']" _ "''zip''"])
    (simp add: defaultColumnAliases_def, simp, code_simp)

text \<open>C29: parsing fails with one of five errors, or gives at most \<open>MaxRows\<close> rows, numbered from 2
  in the order of the sheet, whose other keys are field codes.\<close>

theorem parse_outcome:
  "case Parse rd p data revision of
     Inl err \<Rightarrow> err \<in> {ErrParseInvalidFileFormat, ErrEmptyFile, ErrTooManyCols, ErrTooManyRows, ErrInvalidHeaders}
   | Inr rows \<Rightarrow> (xp_MaxRows p \<le> 0 \<or> int (length rows) \<le> xp_MaxRows p) \<and>
       map (\<lambda>r. map_of r ''_row'') rows = map (\<lambda>i. Some (Itoa (int i + 2))) [0..<length rows] \<and>
       list_all (\<lambda>r. fst ` set r \<subseteq> insert ''_row'' (set (RequiredHeaders revision))) rows"
proof (cases "Parse rd p data revision")
  case (Inl err)
  then show ?thesis
    by (auto simp: Parse_def Let_def NewInvalidHeadersError_def split: if_splits sum.splits list.splits)
next
  case (Inr rows)
  then obtain headers srows where rd: "ReadFirstSheet rd data = Inr (headers # srows)"
    and bound: "xp_MaxRows p \<le> 0 \<or> int (length srows) \<le> xp_MaxRows p"
    and rows: "rows = map (\<lambda>(i, row). parse_row p (DetectColumns headers revision) headers i row) (enumerate 0 srows)"
    by (auto simp: Parse_def Let_def split: if_splits sum.splits list.splits)
  have codes: "set (RequiredHeaders revision) = fst ` set defaultColumnAliases"
    by (simp add: RequiredHeaders_def revisionRequiredFields_def flip: alias_codes)
  have keys: "fst ` set (parse_row p (DetectColumns headers revision) headers i row) \<subseteq>
      insert ''_row'' (set (RequiredHeaders revision))" for i row
  proof -
    let ?m = "DetectColumns headers revision"
    have "fst ` set (row_cells ?m hs row []) \<subseteq> fst ` set defaultColumnAliases" if "set hs \<subseteq> set headers" for hs
    proof -
      have "col ?m h \<in> insert [] (fst ` set defaultColumnAliases)" if "h \<in> set hs" for h
      proof -
        have "col ?m h = detect_in defaultColumnAliases h"
          using that \<open>set hs \<subseteq> set headers\<close> col_DetectColumns [of h headers revision] by auto
        with detect_in_codes [of defaultColumnAliases h] show ?thesis by auto
      qed
      then have "col ?m ` set hs - {[]} \<subseteq> fst ` set defaultColumnAliases" by auto
      with row_cells_keys [of ?m hs row "[]"] show ?thesis by auto
    qed
    then show ?thesis
      unfolding parse_row_def Let_def codes
      by (auto simp: dom_update simp del: set_take_subset dest: in_set_takeD split: if_splits)
  qed
  have len: "length rows = length srows" by (simp add: rows)
  have nums: "map (\<lambda>r. map_of r ''_row'') rows = map (\<lambda>i. Some (Itoa (int i + 2))) [0..<length rows]"
    by (rule nth_equalityI) (simp_all add: rows nth_enumerate_eq parse_row_def Let_def update_conv')
  have all: "list_all (\<lambda>r. fst ` set r \<subseteq> insert ''_row'' (set (RequiredHeaders revision))) rows"
    unfolding rows list_all_length by (simp add: nth_enumerate_eq keys)
  show ?thesis
    unfolding Inr sum.case using bound nums all by (simp add: len)
qed

end
