(* ===== verification/Rules.thy ===== *)
theory Rules
  imports Billing
begin

text \<open>
  \<open>pkg/validation\<close> and \<open>internal/validation\<close>: the field rules of a revision, the local
  validator, and the client of the validation service behind the BFF.  The patterns of the rules
  are all anchored, so that \<open>MatchString\<close> is a match of the whole value; the model matches with
  derivatives of regular expressions over bytes.
\<close>

section \<open>Regular expressions\<close>

datatype regex =
    NoMatch
  | Eps
  | Cls "(char \<times> char) list"          \<comment> \<open>a class, as ranges\<close>
  | Alt regex regex
  | Cat regex regex
  | Star regex

definition in_cls :: "(char \<times> char) list \<Rightarrow> char \<Rightarrow> bool" where
  "in_cls rs c = list_ex (\<lambda>(a, b). (of_char a :: nat) \<le> of_char c \<and> (of_char c :: nat) \<le> of_char b) rs"

fun nullable :: "regex \<Rightarrow> bool" where
  "nullable NoMatch = False"
| "nullable Eps = True"
| "nullable (Cls rs) = False"
| "nullable (Alt r s) = (nullable r \<or> nullable s)"
| "nullable (Cat r s) = (nullable r \<and> nullable s)"
| "nullable (Star r) = True"

fun deriv :: "char \<Rightarrow> regex \<Rightarrow> regex" where
  "deriv c NoMatch = NoMatch"
| "deriv c Eps = NoMatch"
| "deriv c (Cls rs) = (if in_cls rs c then Eps else NoMatch)"
| "deriv c (Alt r s) = Alt (deriv c r) (deriv c s)"
| "deriv c (Cat r s) = (let d = Cat (deriv c r) s in if nullable r then Alt d (deriv c s) else d)"
| "deriv c (Star r) = Cat (deriv c r) (Star r)"

primrec matches :: "regex \<Rightarrow> string \<Rightarrow> bool" where
  "matches r [] = nullable r"
| "matches r (c # s) = matches (deriv c r) s"

text \<open>\<open>r{n}\<close>, \<open>r{n,n+k}\<close>, \<open>r+\<close> and \<open>r?\<close>.\<close>

primrec times :: "nat \<Rightarrow> regex \<Rightarrow> regex" where
  "times 0 r = Eps"
| "times (Suc n) r = Cat r (times n r)"

primrec up_to :: "nat \<Rightarrow> regex \<Rightarrow> regex" where
  "up_to 0 r = Eps"
| "up_to (Suc n) r = Alt Eps (Cat r (up_to n r))"

definition digits :: "(char \<times> char) list" where "digits = [(CHR ''0'', CHR ''9'')]"
definition uppers :: "(char \<times> char) list" where "uppers = [(CHR ''A'', CHR ''Z'')]"
definition name_cls :: "(char \<times> char) list" where
  "name_cls = [(CHR ''A'', CHR ''Z''), (CHR ''a'', CHR ''z''), (CHR '' '', CHR '' ''),
     (CHR 0x27, CHR 0x27), (CHR ''-'', CHR ''-'')]"

text \<open>What a match is.\<close>

lemma matches_NoMatch [simp]: "\<not> matches NoMatch s"
  by (induction s) simp_all

lemma matches_Eps [simp]: "matches Eps s \<longleftrightarrow> s = []"
  by (cases s) simp_all

lemma matches_Cls [simp]: "matches (Cls rs) s \<longleftrightarrow> (\<exists>c. s = [c] \<and> in_cls rs c)"
  by (cases s) auto

lemma matches_Alt [simp]: "matches (Alt r s) w \<longleftrightarrow> matches r w \<or> matches s w"
  by (induction w arbitrary: r s) simp_all

lemma matches_Cat: "matches (Cat r s) w \<longleftrightarrow> (\<exists>u v. w = u @ v \<and> matches r u \<and> matches s v)"
proof (induction w arbitrary: r s)
  case (Cons c w)
  have "matches (Cat r s) (c # w) \<longleftrightarrow>
      (\<exists>u v. w = u @ v \<and> matches (deriv c r) u \<and> matches s v) \<or> nullable r \<and> matches (deriv c s) w"
    by (simp add: Let_def Cons)
  also have "\<dots> \<longleftrightarrow> (\<exists>u v. c # w = u @ v \<and> matches r u \<and> matches s v)" (is "?l \<or> ?n \<longleftrightarrow> ?r")
  proof
    assume "?l \<or> ?n"
    then show ?r
    proof
      assume ?l
      then obtain u v where "w = u @ v" "matches (deriv c r) u" "matches s v" by blast
      then have "c # w = (c # u) @ v \<and> matches r (c # u) \<and> matches s v" by simp
      then show ?r by blast
    next
      assume ?n
      then have "c # w = [] @ (c # w) \<and> matches r [] \<and> matches s (c # w)" by simp
      then show ?r by blast
    qed
  next
    assume ?r
    then obtain u v where uv: "c # w = u @ v" "matches r u" "matches s v" by blast
    then show "?l \<or> ?n" by (cases u) auto
  qed
  finally show ?case .
qed simp

lemma matches_times_Cls:
  "matches (times n (Cls rs)) w \<longleftrightarrow> length w = n \<and> list_all (in_cls rs) w"
proof (induction n arbitrary: w)
  case (Suc n)
  then show ?case by (cases w) (auto simp: matches_Cat Cons_eq_append_conv)
qed auto

lemma matches_up_to_Cls:
  "matches (up_to n (Cls rs)) w \<longleftrightarrow> length w \<le> n \<and> list_all (in_cls rs) w"
proof (induction n arbitrary: w)
  case (Suc n)
  then show ?case by (cases w) (auto simp: matches_Cat Cons_eq_append_conv)
qed auto

lemma matches_Star_Cls: "matches (Star (Cls rs)) w \<longleftrightarrow> list_all (in_cls rs) w"
proof (induction w)
  case (Cons c w)
  have e: "matches (Cat Eps r) v = matches r v" "\<not> matches (Cat NoMatch r) v" for r v
    by (simp_all add: matches_Cat)
  from Cons show ?case by (simp add: e)
qed simp

lemma list_all_append_split:
  "(\<exists>u v. w = u @ v \<and> (length u = n \<and> list_all P u) \<and> (length v = k \<and> list_all P v)) \<longleftrightarrow>
    length w = n + k \<and> list_all P w"
proof
  assume "length w = n + k \<and> list_all P w"
  then have "w = take n w @ drop n w \<and> length (take n w) = n \<and> list_all P (take n w) \<and>
      length (drop n w) = k \<and> list_all P (drop n w)"
    by (auto simp: list_all_iff dest: in_set_takeD in_set_dropD)
  then show "\<exists>u v. w = u @ v \<and> (length u = n \<and> list_all P u) \<and> (length v = k \<and> list_all P v)" by blast
qed auto

section \<open>Field rules\<close>

record FieldRule =
  fr_Pattern :: "regex option"
  fr_MinLength :: int
  fr_MaxLength :: int
  fr_Required :: bool

type_synonym rules = "(string \<times> FieldRule) list"

definition rule :: "regex option \<Rightarrow> int \<Rightarrow> int \<Rightarrow> bool \<Rightarrow> FieldRule" where
  "rule p lo hi req = \<lparr>fr_Pattern = p, fr_MinLength = lo, fr_MaxLength = hi, fr_Required = req\<rparr>"

definition re_name :: regex where "re_name = Cat (Cls name_cls) (Star (Cls name_cls))"
definition re_date8 :: regex where "re_date8 = times 8 (Cls digits)"
definition re_state :: regex where "re_state = times 2 (Cls uppers)"
definition re_zip :: regex where
  "re_zip = Cat (times 5 (Cls digits)) (Alt Eps (times 4 (Cls digits)))"
definition re_passport :: regex where
  "re_passport = Cat (times 6 (Cls (uppers @ digits))) (up_to 4 (Cls (uppers @ digits)))"
definition re_date :: regex where
  "re_date = (let dash = Cls [(CHR ''-'', CHR ''-'')] in
     Cat (times 4 (Cls digits)) (Cat dash (Cat (times 2 (Cls digits)) (Cat dash (times 2 (Cls digits))))))"

text \<open>The embedded files \<open>rules/*.yaml\<close>, as YAML decodes them.\<close>

definition rulesFS :: "(string \<times> rules) list" where
  "rulesFS = [
     (''US_CA_08292017'',
       [(''DAC'', rule (Some re_name) 1 40 True), (''DCS'', rule (Some re_name) 1 40 True),
        (''DBB'', rule (Some re_date8) 0 0 True), (''DAG'', rule None 1 100 True),
        (''DAI'', rule None 1 50 True), (''DAJ'', rule (Some re_state) 2 2 True),
        (''DAK'', rule (Some re_zip) 5 9 True), (''DBA'', rule (Some re_date8) 0 0 True),
        (''DBD'', rule (Some re_date8) 0 0 True)]),
     (''v1'',
       [(''passportNumber'', rule (Some re_passport) 6 10 True), (''fullName'', rule None 2 200 True),
        (''birthDate'', rule (Some re_date) 0 0 False)])]"

definition builtin_v1 :: rules where
  "builtin_v1 = [(''passportNumber'', rule (Some re_passport) 6 10 True),
     (''fullName'', rule None 2 200 True), (''birthDate'', rule (Some re_date) 0 0 False)]"

definition loadRulesForRevision :: "string \<Rightarrow> rules" where
  "loadRulesForRevision revision = (case map_of rulesFS revision of
     Some rs \<Rightarrow> rs
   | None \<Rightarrow> if revision = ''v1'' then builtin_v1 else [])"

record FieldError =
  fe_Code :: string
  fe_Message :: string

record ValidationResult =
  vr_Valid :: bool
  vr_Errors :: "FieldError list"

definition field_error :: "string \<Rightarrow> string \<Rightarrow> string \<Rightarrow> FieldError" where
  "field_error code field what = \<lparr>fe_Code = code, fe_Message = ''Field '' @ field @ what\<rparr>"

definition Validate :: "rules \<Rightarrow> string \<Rightarrow> string \<Rightarrow> FieldError option" where
  "Validate rs field v = (case map_of rs field of
     None \<Rightarrow> None
   | Some r \<Rightarrow>
       if fr_Required r \<and> v = [] then Some (field_error ''MISSING_MANDATORY'' field '' is required'')
       else if v \<noteq> [] \<and> (case fr_Pattern r of Some p \<Rightarrow> \<not> matches p v | None \<Rightarrow> False)
       then Some (field_error ''INVALID_FORMAT'' field '' has invalid format'')
       else if 0 < fr_MinLength r \<and> int (length v) < fr_MinLength r
       then Some (field_error ''TOO_SHORT'' field '' is too short'')
       else if 0 < fr_MaxLength r \<and> fr_MaxLength r < int (length v)
       then Some (field_error ''TOO_LONG'' field '' is too long'')
       else None)"

text \<open>\<open>ValidateRow\<close> visits the fields that are present, in the order of the map's iteration.\<close>

definition ValidateRow :: "rules \<Rightarrow> (string \<times> string) list \<Rightarrow> ValidationResult" where
  "ValidateRow rs row = (let errs = concat (map (\<lambda>(f, v). case Validate rs f v of
       Some err \<Rightarrow> [err] | None \<Rightarrow> []) row)
     in \<lparr>vr_Valid = (errs = []), vr_Errors = errs\<rparr>)"

definition LocalValidator_ValidateRow :: "string \<Rightarrow> (string \<times> string) list \<Rightarrow> ValidationResult" where
  "LocalValidator_ValidateRow revision row = ValidateRow (loadRulesForRevision revision) row"

section \<open>The validation service\<close>

record BFFValidator =
  bv_url :: string
  bv_token :: string

text \<open>The interface the upload uses: a result, possibly nil, or an error.\<close>

record 'w RowValidator =
  Val_ValidateRow :: "(string \<times> string) list \<Rightarrow> string \<Rightarrow> ('w, go_error + ValidationResult option) state"

definition field_error_step :: "string \<Rightarrow> json \<Rightarrow> FieldError \<Rightarrow> FieldError option" where
  "field_error_step k j r =
     (if k = ''code'' then map_option (\<lambda>x. r\<lparr>fe_Code := x\<rparr>) (dec_string j (fe_Code r))
      else if k = ''message'' then map_option (\<lambda>x. r\<lparr>fe_Message := x\<rparr>) (dec_string j (fe_Message r))
      else Some r)"

definition result_step :: "string \<Rightarrow> json \<Rightarrow> ValidationResult \<Rightarrow> ValidationResult option" where
  "result_step k j r =
     (if k = ''valid'' then map_option (\<lambda>x. r\<lparr>vr_Valid := x\<rparr>) (dec_bool j (vr_Valid r))
      else if k = ''errors'' then (case j of
          JNull \<Rightarrow> Some (r\<lparr>vr_Errors := []\<rparr>)
        | JArr js \<Rightarrow> map_option (\<lambda>x. r\<lparr>vr_Errors := x\<rparr>)
            (dec_all (\<lambda>x. dec_struct field_error_step x \<lparr>fe_Code = [], fe_Message = []\<rparr>) js)
        | _ \<Rightarrow> None)
      else Some r)"

definition validate_body :: "(string \<times> string) list \<Rightarrow> string \<Rightarrow> json" where
  "validate_body row revision = JObj [(''revision'', JStr revision),
     (''fields'', JObj (map (\<lambda>(k, v). (k, JStr v)) (sort_key fst row)))]"

definition BFFValidator_ValidateRow :: "env \<Rightarrow> BFFValidator \<Rightarrow> (string \<times> string) list \<Rightarrow> string \<Rightarrow>
    (world, go_error + ValidationResult option) state" where
  "BFFValidator_ValidateRow e v row revision = do {
     resp \<leftarrow> http_post e (CallValidate row revision) (bv_url v @ ''/internal/validate'')
       (json_print (validate_body row revision));
     State_Monad.return (case resp of
        Unreachable s \<Rightarrow> Inl (ErrExternal s)
      | Reply st body \<Rightarrow>
          if st \<noteq> 200
          then Inl (ErrMsg (''bff validate returned status '' @ Itoa st @ '': '' @ body))
          else (case json_first body of
              None \<Rightarrow> Inl ErrBadJSON
            | Some j \<Rightarrow> (case dec_struct result_step j \<lparr>vr_Valid = False, vr_Errors = []\<rparr> of
                None \<Rightarrow> Inl ErrBadJSON | Some r \<Rightarrow> Inr (Some r))))
   }"

definition validator_of :: "env \<Rightarrow> BFFValidator \<Rightarrow> world RowValidator" where
  "validator_of e v = \<lparr>Val_ValidateRow = BFFValidator_ValidateRow e v\<rparr>"

section \<open>Properties\<close>

definition all_in :: "(char \<times> char) list \<Rightarrow> string \<Rightarrow> bool" where
  "all_in rs s = list_all (in_cls rs) s"

lemmas re_defs = re_name_def re_date8_def re_state_def re_zip_def

lemma matches_zip: "matches re_zip v \<longleftrightarrow> (length v = 5 \<or> length v = 9) \<and> all_in digits v"
proof -
  have "matches re_zip v \<longleftrightarrow> (\<exists>a b. v = a @ b \<and> (length a = 5 \<and> all_in digits a) \<and> b = []) \<or>
      (\<exists>a b. v = a @ b \<and> (length a = 5 \<and> all_in digits a) \<and> (length b = 4 \<and> all_in digits b))"
    unfolding re_zip_def matches_Cat matches_Alt matches_times_Cls matches_Eps all_in_def by blast
  also have "(\<exists>a b. v = a @ b \<and> (length a = 5 \<and> all_in digits a) \<and> (length b = 4 \<and> all_in digits b)) \<longleftrightarrow>
      length v = 9 \<and> all_in digits v"
    unfolding all_in_def list_all_append_split by simp
  finally show ?thesis by auto
qed

lemma matches_name: "matches re_name v \<longleftrightarrow> v \<noteq> [] \<and> all_in name_cls v"
  by (cases v) (auto simp: re_name_def matches_Cat matches_Star_Cls all_in_def Cons_eq_append_conv)

definition field_ok :: "FieldRule \<Rightarrow> string \<Rightarrow> bool" where
  "field_ok r v \<longleftrightarrow> (if v = [] then \<not> fr_Required r
       else (case fr_Pattern r of Some p \<Rightarrow> matches p v | None \<Rightarrow> True)) \<and>
     (fr_MinLength r \<le> 0 \<or> fr_MinLength r \<le> int (length v)) \<and>
     (fr_MaxLength r \<le> 0 \<or> int (length v) \<le> fr_MaxLength r)"

lemma Validate_None:
  "Validate rs f v = None \<longleftrightarrow> (case map_of rs f of None \<Rightarrow> True | Some r \<Rightarrow> field_ok r v)"
  by (auto simp: Validate_def field_ok_def split: option.splits)

lemma length_ge_1: "Suc 0 \<le> length v \<longleftrightarrow> v \<noteq> []"
  by (cases v) simp_all

lemma us_ca_field_ok:
  "field_ok (rule (Some re_date8) 0 0 True) v \<longleftrightarrow> length v = 8 \<and> all_in digits v"
  "field_ok (rule (Some re_state) 2 2 True) v \<longleftrightarrow> length v = 2 \<and> all_in uppers v"
  "field_ok (rule (Some re_zip) 5 9 True) v \<longleftrightarrow> (length v = 5 \<or> length v = 9) \<and> all_in digits v"
  "field_ok (rule (Some re_name) 1 40 True) v \<longleftrightarrow> v \<noteq> [] \<and> length v \<le> 40 \<and> all_in name_cls v"
  "field_ok (rule None 1 100 True) v \<longleftrightarrow> v \<noteq> [] \<and> length v \<le> 100"
  "field_ok (rule None 1 50 True) v \<longleftrightarrow> v \<noteq> [] \<and> length v \<le> 50"
  unfolding re_date8_def re_state_def
  by (auto simp: field_ok_def rule_def matches_zip matches_name matches_times_Cls all_in_def
      length_ge_1 simp del: times.simps)

text \<open>C30: for the revision \<open>US_CA_08292017\<close> a field is accepted exactly when it has the form the
  rules describe: eight digits for the dates, two capitals for the state, five or nine digits for the
  postal code, 1 to 40 letters, blanks, apostrophes and hyphens for the names, and 1 to 100 or 50
  bytes for address and city; other fields are not checked.\<close>

theorem us_ca_accepts:
  "Validate (loadRulesForRevision ''US_CA_08292017'') f v = None \<longleftrightarrow>
     (if f \<in> {''DBB'', ''DBA'', ''DBD''} then length v = 8 \<and> all_in digits v
      else if f = ''DAJ'' then length v = 2 \<and> all_in uppers v
      else if f = ''DAK'' then (length v = 5 \<or> length v = 9) \<and> all_in digits v
      else if f = ''DAC'' \<or> f = ''DCS'' then 1 \<le> length v \<and> length v \<le> 40 \<and> all_in name_cls v
      else if f = ''DAG'' then 1 \<le> length v \<and> length v \<le> 100
      else if f = ''DAI'' then 1 \<le> length v \<and> length v \<le> 50
      else True)"
  unfolding Validate_None loadRulesForRevision_def rulesFS_def
  by (simp add: us_ca_field_ok length_ge_1)

text \<open>C31: a row is valid exactly when each of its fields is accepted, and the errors are one for
  each field that is not, in the order in which the fields are visited; the order does not change
  which errors there are.\<close>

theorem validate_row_errors:
  assumes "mset row' = mset row"
  shows "vr_Valid (ValidateRow rs row) = list_all (\<lambda>(f, v). Validate rs f v = None) row \<and>
    vr_Valid (ValidateRow rs row') = vr_Valid (ValidateRow rs row) \<and>
    mset (vr_Errors (ValidateRow rs row')) = mset (vr_Errors (ValidateRow rs row))"
proof (intro conjI)
  have valid: "vr_Valid (ValidateRow rs r) = list_all (\<lambda>(f, v). Validate rs f v = None) r" for r
    by (auto simp: ValidateRow_def Let_def list_all_iff split: option.splits)
  then show "vr_Valid (ValidateRow rs row) = list_all (\<lambda>(f, v). Validate rs f v = None) row" .
  show "vr_Valid (ValidateRow rs row') = vr_Valid (ValidateRow rs row)"
    using mset_eq_setD [OF assms] by (auto simp: valid list_all_iff)
  have "mset (concat (map g r)) = (\<Sum>x \<in># mset r. mset (g x))"
    for g :: "string \<times> string \<Rightarrow> FieldError list" and r
    by (induction r) simp_all
  then show "mset (vr_Errors (ValidateRow rs row')) = mset (vr_Errors (ValidateRow rs row))"
    by (simp add: ValidateRow_def Let_def assms)
qed

theorem validate_row_errors_witness:
  "vr_Valid (ValidateRow (loadRulesForRevision ''v1'') [(''birthDate'', ''x''), (''fullName'', ''Al'')]) =
   vr_Valid (ValidateRow (loadRulesForRevision ''v1'') [(''fullName'', ''Al''), (''birthDate'', ''x'')])"
  using validate_row_errors [of "[(''birthDate'', ''x''), (''fullName'', ''Al'')]"
      "[(''fullName'', ''Al''), (''birthDate'', ''x'')]"] by simp

text \<open>Only the fields that are present are checked: a row without any field is valid, so that the
  local check does not find a missing mandatory column.\<close>

lemma absent_fields_pass: "vr_Valid (LocalValidator_ValidateRow revision [])"
  by (simp add: LocalValidator_ValidateRow_def ValidateRow_def)

end
