(* ===== verification/Service.thy ===== *)
theory Service
  imports Manager Parser Rules BulkLimits
begin

text \<open>
  \<open>internal/usecase/bulk/service.go\<close>: creating a batch from an uploaded file, confirming it
  (billing, publication of its jobs, compensation) and exporting its results.  The reader of an
  upload is its content and the error that ends it; limits are the value \<open>limits.Get()\<close> returns.
  The spreadsheet writer of the export is third-party; the model is the table of cells it is given.
\<close>

section \<open>The service\<close>

record 'w Storage =
  St_Save :: "string \<Rightarrow> string \<Rightarrow> ('w, go_error + string) state"

record 'w Service =
  sv_batchRepo :: "'w BatchRepository option"
  sv_jobRepo :: "'w JobRepository option"
  sv_validator :: "'w RowValidator option"
  sv_billing :: "'w BillingClient option"
  sv_producer :: "'w KafkaProducer option"
  sv_storage :: "'w Storage option"

record CreateBatchResult =
  cr_BatchID :: string
  cr_TotalRows :: int
  cr_ValidRows :: int
  cr_InvalidRows :: int
  cr_Errors :: "ValidationError list"

section \<open>Creating a batch\<close>

text \<open>\<open>io.CopyN(&buf, r, n)\<close>: at most \<open>n\<close> bytes; an error other than the end of the input when
  the reader ends early.\<close>

record reader =
  rd_data :: string
  rd_err :: "go_error option"          \<comment> \<open>None: \<open>io.EOF\<close>\<close>

definition CopyN :: "reader \<Rightarrow> int \<Rightarrow> string \<times> go_error option" where
  "CopyN r n = (if n \<le> int (length (rd_data r)) then (take (nat n) (rd_data r), None)
     else (rd_data r, rd_err r))"

definition env_override :: "(string \<Rightarrow> string) \<Rightarrow> string \<Rightarrow> (int \<Rightarrow> int) \<Rightarrow> int \<Rightarrow> int" where
  "env_override getenv k f d = (if getenv k \<noteq> []
     then (case Atoi (getenv k) of Some n \<Rightarrow> f n | None \<Rightarrow> d) else d)"

definition row_error :: "nat \<Rightarrow> string \<Rightarrow> string \<Rightarrow> ValidationError" where
  "row_error i code msg = \<lparr>ve_RowNumber = int i, ve_Field = [], ve_ErrorCode = code,
     ve_ErrorMessage = msg, ve_OriginalValue = []\<rparr>"

definition row_errors :: "nat \<Rightarrow> FieldError list \<Rightarrow> ValidationError list" where
  "row_errors i es = map (\<lambda>x. row_error i (fe_Code x) (fe_Message x)) es"

definition err_text :: "go_error \<Rightarrow> string" where
  "err_text err = (case err of ErrMsg s \<Rightarrow> s | ErrExternal s \<Rightarrow> s | ErrBadJSON \<Rightarrow> ''invalid JSON'' | _ \<Rightarrow> [])"

text \<open>One row: the local check first, the validation service only for a row that passes it.\<close>

definition validate_row :: "'w Service \<Rightarrow> string \<Rightarrow> nat \<Rightarrow> (string \<times> string) list \<Rightarrow>
    ('w, bool \<times> ValidationError list) state" where
  "validate_row s revision i flds = (
     let lr = LocalValidator_ValidateRow revision flds in
     if \<not> vr_Valid lr then State_Monad.return (False, row_errors i (vr_Errors lr))
     else (case sv_validator s of
       None \<Rightarrow> State_Monad.return (True, [])
     | Some v \<Rightarrow> do {
         r \<leftarrow> Val_ValidateRow v flds revision;
         State_Monad.return (case r of
            Inl err \<Rightarrow> (False, [row_error i ''VALIDATOR_ERROR'' (err_text err)])
          | Inr None \<Rightarrow> (False, [row_error i ''INVALID_ROW'' ''row validation failed''])
          | Inr (Some vr) \<Rightarrow> if vr_Valid vr then (True, []) else (False, row_errors i (vr_Errors vr)))
       }))"

definition row_number :: "nat \<Rightarrow> (string \<times> string) list \<Rightarrow> int" where
  "row_number i row = (case map_of row ''_row'' of
     Some v \<Rightarrow> (case Atoi v of Some n \<Rightarrow> n | None \<Rightarrow> int i + 2)
   | None \<Rightarrow> int i + 2)"

definition create_job :: "'w Runtime \<Rightarrow> 'w Service \<Rightarrow> string \<Rightarrow> nat \<Rightarrow> (string \<times> string) list \<Rightarrow>
    (string \<times> string) list \<Rightarrow> ('w, unit) state" where
  "create_job rt s batchID i row flds = (case sv_jobRepo s of
     None \<Rightarrow> State_Monad.return ()
   | Some jr \<Rightarrow> do {
       jid \<leftarrow> Rt_NewUUID rt;
       _ \<leftarrow> JobRepo_Create jr \<lparr>j_ID = jid, j_BatchID = batchID, j_RowNumber = row_number i row,
         j_Status = JobStatusPending, j_InputData = marshal_map flds, j_BillingTransactionID = None\<rparr>;
       State_Monad.return ()
     })"

text \<open>The loop over the rows, with the counts and errors so far.\<close>

fun create_rows :: "'w Runtime \<Rightarrow> 'w Service \<Rightarrow> string \<Rightarrow> string \<Rightarrow> nat \<Rightarrow> (string \<times> string) list list \<Rightarrow>
    int \<times> int \<times> ValidationError list \<Rightarrow> ('w, int \<times> int \<times> ValidationError list) state" where
  "create_rows rt s revision batchID i [] acc = State_Monad.return acc"
| "create_rows rt s revision batchID i (row # rows) (valid, invalid, errs) = (
     let flds = filter (\<lambda>(k, v). k \<noteq> ''_row'') row in do {
       r \<leftarrow> validate_row s revision i flds;
       create_job rt s batchID i row flds;
       create_rows rt s revision batchID (Suc i) rows
         (if fst r then (valid + 1, invalid, errs @ snd r) else (valid, invalid + 1, errs @ snd r))
     })"

definition new_batch :: "string \<Rightarrow> string \<Rightarrow> int \<Rightarrow> batch" where
  "new_batch batchID revision n = \<lparr>b_ID = batchID, b_UserID = [], b_Status = BatchStatusPending,
     b_Revision = revision, b_FileStorageID = [], b_TotalRows = n, b_ValidRows = n,
     b_CreatedAt = 0, b_ApprovedCount = 0, b_CompletedCount = 0, b_FailedCount = 0,
     b_CompletedAt = None, b_BillingTransactionIDs = [], b_Priority = [], b_TimeoutMs = 0\<rparr>"

definition save_file :: "'w Service \<Rightarrow> string \<Rightarrow> string \<Rightarrow> ('w, go_error + string) state" where
  "save_file s batchID data = (case sv_storage s of
     None \<Rightarrow> State_Monad.return (Inr [])
   | Some st \<Rightarrow> St_Save st (batchID @ ''.xlsx'') data)"

definition create_batch_row :: "'w Service \<Rightarrow> batch \<Rightarrow> ('w, go_error option) state" where
  "create_batch_row s b = (case sv_batchRepo s of
     None \<Rightarrow> State_Monad.return None | Some r \<Rightarrow> BatchRepo_Create r b)"

definition update_batch_row :: "'w Service \<Rightarrow> batch \<Rightarrow> ('w, unit) state" where
  "update_batch_row s b = (case sv_batchRepo s of
     None \<Rightarrow> State_Monad.return ()
   | Some r \<Rightarrow> do { _ \<leftarrow> BatchRepo_Update r b; State_Monad.return () })"

text \<open>The parser of an upload, with the limits and the variables that override them.\<close>

definition upload_rows :: "(string \<Rightarrow> string) \<Rightarrow> sheet_readers \<Rightarrow> Limits \<Rightarrow> reader \<Rightarrow> string \<Rightarrow>
    go_error + string \<times> (string \<times> string) list list" where
  "upload_rows getenv rds l r revision = (
     let maxFileBytes = lim_MaxFileSize l;
         (buf, err) = CopyN r (int64 (maxFileBytes + 1))
     in case err of
          Some x \<Rightarrow> Inl x
        | None \<Rightarrow>
            if maxFileBytes < int (length buf) then Inl (ErrMsg ''file too large'')
            else (let maxRows = env_override getenv ''MAX_ROWS_PER_BATCH'' (\<lambda>n. n) (lim_MaxRowsPerBatch l);
                      maxBytes = env_override getenv ''MAX_FILE_SIZE_MB''
                        (\<lambda>n. int64 (int64 (n * 1024) * 1024)) maxFileBytes
              in (case Parse rds (NewXLSParser maxRows 0 maxBytes) buf revision of
                    Inl perr \<Rightarrow> Inl perr
                  | Inr rows \<Rightarrow> Inr (buf, rows))))"

text \<open>The end of the function: the file, the valid rows of the batch, and the answer.\<close>

definition finish_create :: "'w Service \<Rightarrow> batch \<Rightarrow> string \<Rightarrow> int \<Rightarrow> int \<times> int \<times> ValidationError list \<Rightarrow>
    ('w, go_error + CreateBatchResult) state" where
  "finish_create s b buf n counts = do {
     sid \<leftarrow> save_file s (b_ID b) buf;
     (case sid of
        Inl err \<Rightarrow> State_Monad.return (Inl err)
      | Inr fid \<Rightarrow> do {
          update_batch_row s (b\<lparr>b_ValidRows := fst counts, b_FileStorageID := fid\<rparr>);
          State_Monad.return (Inr \<lparr>cr_BatchID = b_ID b, cr_TotalRows = n,
            cr_ValidRows = fst counts, cr_InvalidRows = fst (snd counts),
            cr_Errors = snd (snd counts)\<rparr>)
        })
   }"

definition CreateBatchFromFile :: "'w Runtime \<Rightarrow> sheet_readers \<Rightarrow> 'w Service \<Rightarrow> Limits \<Rightarrow> reader \<Rightarrow>
    string \<Rightarrow> ('w, go_error + CreateBatchResult) state" where
  "CreateBatchFromFile rt rds s l r revision = (case upload_rows (Rt_Getenv rt) rds l r revision of
     Inl err \<Rightarrow> State_Monad.return (Inl err)
   | Inr (buf, rows) \<Rightarrow> do {
       batchID \<leftarrow> Rt_NewUUID rt;
       let b = new_batch batchID revision (int (length rows));
       c \<leftarrow> create_batch_row s b;
       (case c of
          Some err \<Rightarrow> State_Monad.return (Inl err)
        | None \<Rightarrow> do {
            counts \<leftarrow> create_rows rt s revision batchID 0 rows (0, 0, []);
            finish_create s b buf (int (length rows)) counts
          })
     })"

section \<open>Confirming a batch\<close>

text \<open>What the hook \<open>blockFunc\<close> may return for its \<open>interface{}\<close>.\<close>

datatype block_result =
    BlockPtr "string list option"
  | BlockVal "string list"
  | BlockMap "(string \<times> json) list"
  | BlockOther

definition block_txs :: "block_result \<Rightarrow> string list" where
  "block_txs r = (case r of
     BlockPtr (Some ts) \<Rightarrow> ts
   | BlockPtr None \<Rightarrow> []
   | BlockVal ts \<Rightarrow> ts
   | BlockMap m \<Rightarrow> (case json_get m ''transactionIds'' of Some (JArr js) \<Rightarrow> json_strings js | _ \<Rightarrow> [])
   | BlockOther \<Rightarrow> [])"

text \<open>A lookup whose error and nil result the code skips.\<close>

definition peek_batch :: "'w Service \<Rightarrow> string \<Rightarrow> ('w, batch option) state" where
  "peek_batch s batchID = (case sv_batchRepo s of
     None \<Rightarrow> State_Monad.return None
   | Some r \<Rightarrow> do {
       x \<leftarrow> BatchRepo_GetByID r batchID;
       State_Monad.return (case x of Inl err \<Rightarrow> None | Inr y \<Rightarrow> y)
     })"

definition persist_txs :: "'w Service \<Rightarrow> string \<Rightarrow> string list \<Rightarrow> ('w, unit) state" where
  "persist_txs s batchID txs = (if txs = [] then State_Monad.return ()
     else do {
       x \<leftarrow> peek_batch s batchID;
       (case x of
          None \<Rightarrow> State_Monad.return ()
        | Some b \<Rightarrow> update_batch_row s (b\<lparr>b_BillingTransactionIDs := txs\<rparr>))
     })"

type_synonym 'w blockFunc = "string \<Rightarrow> int \<Rightarrow> string \<Rightarrow> ('w, go_error + block_result) state"
type_synonym 'w publishFunc = "string \<Rightarrow> kafka_msg \<Rightarrow> ('w, go_error option) state"

definition block_billing :: "'w Service \<Rightarrow> 'w blockFunc option \<Rightarrow> string \<Rightarrow> int \<Rightarrow>
    ('w, go_error + string list) state" where
  "block_billing s blockFunc batchID cnt = (case blockFunc of
     Some f \<Rightarrow> do {
       r \<leftarrow> f [] cnt batchID;
       (case r of
          Inl err \<Rightarrow> State_Monad.return (Inl err)
        | Inr res \<Rightarrow> do {
            persist_txs s batchID (block_txs res);
            State_Monad.return (Inr (block_txs res))
          })
     }
   | None \<Rightarrow> (case sv_billing s of
       None \<Rightarrow> State_Monad.return (Inr [])
     | Some c \<Rightarrow> do {
         r \<leftarrow> Billing_BlockBatch c [] cnt batchID;
         State_Monad.return (case r of
            Inl err \<Rightarrow> Inl err
          | Inr None \<Rightarrow> Inr []
          | Inr (Some ts) \<Rightarrow> Inr ts)
       }))"

definition assignTx :: "string list \<Rightarrow> int \<Rightarrow> nat \<Rightarrow> string option" where
  "assignTx txs cnt i =
     (if txs = [] then None
      else if length txs = 1 then Some (hd txs)
      else if int (length txs) = cnt then Some (txs ! i)
      else if i < length txs then Some (txs ! i)
      else None)"

definition job_msg :: "job \<Rightarrow> string \<Rightarrow> string \<Rightarrow> string option \<Rightarrow> string \<Rightarrow> int \<Rightarrow> kafka_msg" where
  "job_msg j user revision tx corr now = JobMsg \<lparr>
     je_jobId = j_ID j, je_batchId = j_BatchID j, je_rowNumber = j_RowNumber j,
     je_userId = Some user, je_buildId = Some (j_ID j), je_revision = Some revision,
     je_fields = Some (if j_InputData j = [] then []
       else (case unmarshal_map (j_InputData j) of Some m \<Rightarrow> m | None \<Rightarrow> [])),
     je_billingPreApproved = Some (tx \<noteq> None), je_transactionId = tx,
     je_correlationId = Some corr, je_timestamp = Some now\<rparr>"

definition job_topic :: "'w Runtime \<Rightarrow> string" where
  "job_topic rt = (if Rt_Getenv rt ''KAFKA_TOPIC_BULK_JOB'' \<noteq> []
     then Rt_Getenv rt ''KAFKA_TOPIC_BULK_JOB'' else ''bulk.job'')"

text \<open>The accumulators of the publication loop: jobs queued, whether a publication failed, and the
  transactions given to jobs.\<close>

type_synonym confirm_acc = "int \<times> bool \<times> string list"

definition assign_tx_to :: "'w Runtime \<Rightarrow> 'w JobRepository \<Rightarrow> job \<Rightarrow> string option \<Rightarrow> string list \<Rightarrow>
    ('w, string list) state" where
  "assign_tx_to rt jr j tx assigned = (case tx of
     None \<Rightarrow> State_Monad.return assigned
   | Some t \<Rightarrow>
       if Rt_UUIDParse rt t then do {
         _ \<leftarrow> JobRepo_UpdateBillingTransactionID jr (j_ID j) (Some t);
         State_Monad.return (assigned @ [t])
       } else State_Monad.return assigned)"

definition publish_with :: "'w Service \<Rightarrow> 'w publishFunc option \<Rightarrow> string \<Rightarrow> kafka_msg \<Rightarrow>
    ('w, go_error option) state" where
  "publish_with s publishFunc topic m = (case publishFunc of
     Some f \<Rightarrow> f topic m
   | None \<Rightarrow> (case sv_producer s of
       Some p \<Rightarrow> Producer_Publish p topic m
     | None \<Rightarrow> State_Monad.return None))"

definition correlation :: "'w Runtime \<Rightarrow> string option \<Rightarrow> ('w, string) state" where
  "correlation rt trace = (case trace of Some t \<Rightarrow> State_Monad.return t | None \<Rightarrow> Rt_NewUUID rt)"

definition confirm_job :: "'w Runtime \<Rightarrow> 'w Service \<Rightarrow> 'w publishFunc option \<Rightarrow> string option \<Rightarrow>
    'w JobRepository \<Rightarrow> string \<Rightarrow> string \<Rightarrow> string list \<Rightarrow> int \<Rightarrow> nat \<Rightarrow> job \<Rightarrow> confirm_acc \<Rightarrow>
    ('w, confirm_acc) state" where
  "confirm_job rt s publishFunc trace jr user revision txs cnt i j acc = (case acc of
     (queued, publishError, assigned) \<Rightarrow> do {
       let tx = assignTx txs cnt i;
       assigned' \<leftarrow> assign_tx_to rt jr j tx assigned;
       now \<leftarrow> Rt_Now rt;
       corr \<leftarrow> correlation rt trace;
       perr \<leftarrow> publish_with s publishFunc (job_topic rt) (job_msg j user revision tx corr now);
       (case perr of
          Some err \<Rightarrow> State_Monad.return (queued, True, assigned')
        | None \<Rightarrow> do {
            u \<leftarrow> JobRepo_UpdateStatus jr (j_ID j) JobStatusQueued;
            State_Monad.return (if u = None then queued + 1 else queued, publishError, assigned')
          })
     })"

fun confirm_jobs :: "'w Runtime \<Rightarrow> 'w Service \<Rightarrow> 'w publishFunc option \<Rightarrow> string option \<Rightarrow>
    'w JobRepository \<Rightarrow> string \<Rightarrow> string \<Rightarrow> string list \<Rightarrow> int \<Rightarrow> nat \<Rightarrow> job list \<Rightarrow> confirm_acc \<Rightarrow>
    ('w, confirm_acc) state" where
  "confirm_jobs rt s pf trace jr user revision txs cnt i [] acc = State_Monad.return acc"
| "confirm_jobs rt s pf trace jr user revision txs cnt i (j # js) acc =
     (if cnt \<le> int i then State_Monad.return acc
      else do {
        acc' \<leftarrow> confirm_job rt s pf trace jr user revision txs cnt i j acc;
        confirm_jobs rt s pf trace jr user revision txs cnt (Suc i) js acc'
      })"

text \<open>The compensation after a failed publication: refund what was assigned, cancel the batch, and
  mark the jobs from index \<open>queued\<close> to \<open>count\<close> as refunded.\<close>

definition compensate :: "'w Service \<Rightarrow> 'w JobRepository \<Rightarrow> string \<Rightarrow> int \<Rightarrow> job list \<Rightarrow> int \<Rightarrow>
    string list \<Rightarrow> ('w, unit) state" where
  "compensate s jr batchID cnt js queued assigned = do {
     (case sv_billing s of
        Some c \<Rightarrow> if assigned \<noteq> []
          then do { _ \<leftarrow> Billing_RefundTransactions c [] assigned batchID; State_Monad.return () }
          else State_Monad.return ()
      | None \<Rightarrow> State_Monad.return ());
     x \<leftarrow> peek_batch s batchID;
     (case x of
        None \<Rightarrow> State_Monad.return ()
      | Some b \<Rightarrow> update_batch_row s (b\<lparr>b_Status := BatchStatusCancelled\<rparr>));
     for_range (drop (nat queued) (take (nat cnt) js)) (\<lambda>j. do {
       _ \<leftarrow> JobRepo_UpdateStatus jr (j_ID j) JobStatusRefunded;
       State_Monad.return ()
     })
   }"

definition publish_jobs :: "'w Runtime \<Rightarrow> 'w Service \<Rightarrow> 'w publishFunc option \<Rightarrow> string option \<Rightarrow>
    string \<Rightarrow> int \<Rightarrow> string list \<Rightarrow> ('w, go_error + int) state" where
  "publish_jobs rt s publishFunc trace batchID cnt txs = (case sv_jobRepo s of
     None \<Rightarrow> State_Monad.return (Inr 0)
   | Some jr \<Rightarrow> do {
       js \<leftarrow> JobRepo_GetByBatch jr batchID;
       (case js of
          Inl err \<Rightarrow> State_Monad.return (Inl err)
        | Inr xs \<Rightarrow> do {
            x \<leftarrow> peek_batch s batchID;
            let (user, revision) = (case x of Some b \<Rightarrow> (b_UserID b, b_Revision b) | None \<Rightarrow> ([], []));
            acc \<leftarrow> confirm_jobs rt s publishFunc trace jr user revision txs cnt 0 xs (0, False, []);
            (case acc of (queued, publishError, assigned) \<Rightarrow>
               if publishError then do {
                 compensate s jr batchID cnt xs queued assigned;
                 State_Monad.return (Inr queued)
               }
               else State_Monad.return (Inr queued))
          })
     })"

definition ConfirmBatch :: "'w Runtime \<Rightarrow> 'w Service \<Rightarrow> 'w blockFunc option \<Rightarrow> 'w publishFunc option \<Rightarrow>
    string option \<Rightarrow> string \<Rightarrow> int \<Rightarrow> ('w, go_error + int) state" where
  "ConfirmBatch rt s blockFunc publishFunc trace batchID cnt = do {
     x \<leftarrow> peek_batch s batchID;
     (if (case x of Some b \<Rightarrow> 0 < b_ApprovedCount b \<and> b_ApprovedCount b < cnt | None \<Rightarrow> False)
      then State_Monad.return (Inl (ErrMsg (''requested count '' @ Itoa cnt @
        '' exceeds approved allowedTotal '' @ Itoa (b_ApprovedCount (the x)))))
      else do {
        r \<leftarrow> block_billing s blockFunc batchID cnt;
        (case r of
           Inl err \<Rightarrow> State_Monad.return (Inl err)
         | Inr txs \<Rightarrow> publish_jobs rt s publishFunc trace batchID cnt txs)
      })
   }"

section \<open>Exporting results\<close>

datatype cell = CellInt int | CellStr string

definition export_headers :: "string list" where
  "export_headers = [''row'', ''buildId'', ''pdf417_url'', ''code128_url'', ''error_code'', ''error_message'']"

definition export_row :: "JobResult \<Rightarrow> cell list" where
  "export_row r = (case ParseBarcodeURLs (r_BarcodeURLs r) of (pdf, code128) \<Rightarrow>
     [CellInt (r_RowNumber r), CellStr (r_BuildID r), CellStr pdf, CellStr code128,
      CellStr (r_ErrorCode r), CellStr (r_ErrorMessage r)])"

text \<open>The sheet of \<open>ExportResultsXLS\<close>, None for the nil reader of a service without jobs.\<close>

definition ExportResultsXLS :: "'w Service \<Rightarrow> string \<Rightarrow> int \<Rightarrow> ('w, go_error + cell list list option) state"
  where
  "ExportResultsXLS s batchID limit = (case sv_jobRepo s of
     None \<Rightarrow> State_Monad.return (Inr None)
   | Some jr \<Rightarrow> do {
       rs \<leftarrow> JobRepo_GetResultsByBatch jr batchID;
       State_Monad.return (case rs of
          Inl err \<Rightarrow> Inl err
        | Inr xs \<Rightarrow> Inr (Some (map CellStr export_headers #
            map export_row (if 0 < limit then take (nat limit) xs else xs))))
     })"

end
