(* ===== verification/FileStore.thy ===== *)
theory FileStore
  imports Store GoJson
begin

text \<open>
  \<open>internal/storage/file_client.go\<close>: the client of the S3-compatible object store.  The store itself
  (\<open>minio.Client\<close>) is third-party: its answers are the parameters \<open>object_store\<close>, taken at the tick
  of the call.  \<open>path.Clean\<close> of the standard library is written out, since it decides the key of
  an object.
\<close>

section \<open>path.Clean\<close>

definition clean_step :: "bool \<Rightarrow> string \<Rightarrow> string list \<Rightarrow> string list" where
  "clean_step rooted c out =
     (if c = [] \<or> c = ''.'' then out
      else if c = ''..'' then (case out of
          [] \<Rightarrow> if rooted then [] else [c]
        | x # xs \<Rightarrow> if x = ''..'' then c # out else xs)
      else c # out)"

definition path_Clean :: "string \<Rightarrow> string" where
  "path_Clean p = (let rooted = (p \<noteq> [] \<and> hd p = CHR ''/'');
       s = join (CHR ''/'') (rev (fold (clean_step rooted) (Split (CHR ''/'') p) []))
     in if rooted then CHR ''/'' # s else if s = [] then ''.'' else s)"

section \<open>The client\<close>

record object_store =
  os_PutObject :: "nat \<Rightarrow> string \<Rightarrow> string \<Rightarrow> string \<Rightarrow> go_error + string"     \<comment> \<open>bucket, key, content; key\<close>
  os_Presigned :: "nat \<Rightarrow> string \<Rightarrow> string \<Rightarrow> int \<Rightarrow> go_error + string"        \<comment> \<open>bucket, key, expiry\<close>
  os_GetObject :: "nat \<Rightarrow> string \<Rightarrow> string \<Rightarrow> go_error + string \<times> go_error option"
                                            \<comment> \<open>content, and the error that ends reading it\<close>
  os_BucketExists :: "nat \<Rightarrow> string \<Rightarrow> go_error + bool"
  os_MakeBucket :: "nat \<Rightarrow> string \<Rightarrow> go_error option"

record FileClient =
  fc_client :: "object_store option"
  fc_bucket :: string
  fc_baseURL :: string
  fc_useObject :: bool

definition not_configured :: go_error where
  "not_configured = ErrMsg ''storage client not configured''"

text \<open>\<open>NewFileClientFromEnv\<close>: four variables must be set, and the bucket is made when missing;
  \<open>connect\<close> is \<open>minio.New\<close> on endpoint, keys and the SSL flag.\<close>

definition NewFileClientFromEnv :: "(string \<Rightarrow> string) \<Rightarrow>
    (string \<Rightarrow> string \<Rightarrow> string \<Rightarrow> bool \<Rightarrow> go_error + object_store) \<Rightarrow> (world, go_error + FileClient) state" where
  "NewFileClientFromEnv getenv connect = (
     let endpoint = getenv ''STORAGE_ENDPOINT''; access = getenv ''STORAGE_ACCESS_KEY'';
         secret = getenv ''STORAGE_SECRET_KEY''; bucket = getenv ''STORAGE_BUCKET'';
         useSSL = (getenv ''STORAGE_USE_SSL'' = ''true'')
     in if endpoint = [] \<or> access = [] \<or> secret = [] \<or> bucket = []
        then State_Monad.return (Inl (ErrMsg
          ''storage configuration missing (STORAGE_ENDPOINT/ACCESS_KEY/SECRET_KEY/BUCKET)''))
        else (case connect endpoint access secret useSSL of
          Inl err \<Rightarrow> State_Monad.return (Inl err)
        | Inr c \<Rightarrow> do {
            n \<leftarrow> tick;
            let fc = \<lparr>fc_client = Some c, fc_bucket = bucket, fc_baseURL = getenv ''STORAGE_BASE_URL'',
              fc_useObject = True\<rparr>;
            (case os_BucketExists c n bucket of
               Inl err \<Rightarrow> State_Monad.return (Inl err)
             | Inr True \<Rightarrow> State_Monad.return (Inr fc)
             | Inr False \<Rightarrow> do {
                 n' \<leftarrow> tick;
                 State_Monad.return (case os_MakeBucket c n' bucket of Some err \<Rightarrow> Inl err | None \<Rightarrow> Inr fc)
               })
          }))"

text \<open>The common shape of the operations: a nil or unusable client is an error.\<close>

definition with_client :: "FileClient option \<Rightarrow> (object_store \<Rightarrow> string \<Rightarrow> nat \<Rightarrow> go_error + 'a) \<Rightarrow>
    (world, go_error + 'a) state" where
  "with_client f k = (case f of
     None \<Rightarrow> State_Monad.return (Inl not_configured)
   | Some fc \<Rightarrow> if \<not> fc_useObject fc then State_Monad.return (Inl not_configured)
       else (case fc_client fc of
         None \<Rightarrow> State_Monad.return (Inl not_configured)
       | Some c \<Rightarrow> do { n \<leftarrow> tick; State_Monad.return (k c (fc_bucket fc) n) }))"

definition FileClient_Save :: "FileClient option \<Rightarrow> string \<Rightarrow> string \<Rightarrow> (world, go_error + string) state" where
  "FileClient_Save f name data = with_client f (\<lambda>c bucket n. os_PutObject c n bucket (path_Clean name) data)"

definition FileClient_Presign :: "FileClient option \<Rightarrow> string \<Rightarrow> int \<Rightarrow> (world, go_error + string) state" where
  "FileClient_Presign f name expiry = with_client f (\<lambda>c bucket n. os_Presigned c n bucket (path_Clean name) expiry)"

definition FileClient_Get :: "FileClient option \<Rightarrow> string \<Rightarrow>
    (world, go_error + string \<times> go_error option) state" where
  "FileClient_Get f name = with_client f (\<lambda>c bucket n. os_GetObject c n bucket (path_Clean name))"

text \<open>\<open>path.Join\<close>, and \<open>PublicURL\<close>: \<open>url.Parse\<close> splits the base into a path and a function that writes the
  URL with another path.\<close>

definition path_Join :: "string list \<Rightarrow> string" where
  "path_Join elems = (let es = filter (\<lambda>x. x \<noteq> []) elems in
     if es = [] then [] else path_Clean (join (CHR ''/'') es))"

definition PublicURL :: "(string \<Rightarrow> go_error + string \<times> (string \<Rightarrow> string)) \<Rightarrow> FileClient option \<Rightarrow> string \<Rightarrow>
    go_error + string" where
  "PublicURL url_Parse f name = (case f of
     None \<Rightarrow> Inl not_configured
   | Some fc \<Rightarrow>
       if fc_baseURL fc = [] then Inl (ErrMsg ''baseURL not configured'')
       else (case url_Parse (fc_baseURL fc) of
           Inl err \<Rightarrow> Inl err
         | Inr (p, write) \<Rightarrow> Inr (write (path_Join [p, fc_bucket fc, path_Clean name]))))"

lemma keeps_with_client: "(\<And>w n. v (w\<lparr>wTick := n\<rparr>) = v w) \<Longrightarrow> keeps v (with_client f k)"
  by (auto simp: with_client_def intro!: frame_intros keeps_tick split: option.split)

lemma keeps_FileClient:
  assumes "\<And>w n. v (w\<lparr>wTick := n\<rparr>) = v w"
  shows "keeps v (FileClient_Save f name data)" "keeps v (FileClient_Get f name)"
    "keeps v (FileClient_Presign f name t)"
  unfolding FileClient_Save_def FileClient_Get_def FileClient_Presign_def
  by (intro keeps_with_client assms)+

section \<open>Keys\<close>

text \<open>A name without a slash that is not empty, \<open>.\<close> or \<open>..\<close> is its own key.\<close>

lemma Split_plain: "c \<notin> set p \<Longrightarrow> Split c p = [p]"
  by (induction p) auto

lemma path_Clean_plain:
  "CHR ''/'' \<notin> set p \<Longrightarrow> p \<notin> {[], ''.'', ''..''} \<Longrightarrow> path_Clean p = p"
  by (cases p) (auto simp: path_Clean_def Split_plain clean_step_def Let_def)

text \<open>A name that climbs leaves the bucket in a public URL: the path is cleaned again after the bucket was
  put before it.\<close>

lemma public_url_leaves_bucket: "path_Join [''/files'', ''bulk'', path_Clean ''../other/x''] = ''/files/other/x''"
  by code_simp

text \<open>No rooted key climbs: a rooted key has no \<open>..\<close> component.\<close>

lemma clean_step_rooted:
  "''..'' \<notin> set out \<Longrightarrow> ''..'' \<notin> set (clean_step True c out)"
  by (auto simp: clean_step_def split: list.splits)

lemma clean_rooted: "''..'' \<notin> set out \<Longrightarrow> ''..'' \<notin> set (fold (clean_step True) cs out)"
  by (induction cs arbitrary: out) (simp_all add: clean_step_rooted)

end
