(* ===== verification/Creating.thy ===== *)
theory Creating
  imports Service FileStore "HOL-Library.Sublist"
begin

text \<open>
  What \<open>CreateBatchFromFile\<close> does to the stores, proved over the platform contracts: which jobs the
  loop over the rows creates, and what is stored when the run ends in either way.
\<close>

section \<open>Jobs of a file\<close>

definition row_numbers :: "nat \<Rightarrow> (string \<times> string) list list \<Rightarrow> int list" where
  "row_numbers i rows = map (\<lambda>(k, row). row_number k row) (enumerate i rows)"

lemma row_numbers_simps [simp]:
  "row_numbers i [] = []" "row_numbers i (r # rs) = row_number i r # row_numbers (Suc i) rs"
  by (simp_all add: row_numbers_def)

text \<open>The jobs \<open>js\<close> made of \<open>rows\<close>, beside the jobs \<open>J\<close>: pending jobs of the batch without a
  transaction, in row order, under new and different ids.\<close>

definition made_of :: "string \<Rightarrow> int list \<Rightarrow> job list \<Rightarrow> job list \<Rightarrow> bool" where
  "made_of batchID nums J js \<longleftrightarrow>
     list_all (\<lambda>j. j_BatchID j = batchID \<and> j_Status j = JobStatusPending \<and> j_BillingTransactionID j = None) js \<and>
     subseq (map j_RowNumber js) nums \<and>
     distinct (map j_ID js) \<and> j_ID ` set js \<inter> j_ID ` set J = {}"

lemma made_of_Nil [simp]: "made_of i nums J []"
  by (simp add: made_of_def)

definition next_job :: "string \<Rightarrow> int \<Rightarrow> job list \<Rightarrow> job \<Rightarrow> bool" where
  "next_job batchID n J j \<longleftrightarrow> j_ID j \<notin> j_ID ` set J \<and> j_BatchID j = batchID \<and>
     j_Status j = JobStatusPending \<and> j_BillingTransactionID j = None \<and> j_RowNumber j = n"

lemma made_of_Cons: "made_of i nums (J @ [j]) js \<Longrightarrow> next_job i n J j \<Longrightarrow> made_of i (n # nums) J (j # js)"
  by (auto simp: made_of_def next_job_def)

lemma made_of_skip: "made_of i nums J js \<Longrightarrow> made_of i (n # nums) J js"
  by (auto simp: made_of_def)

text \<open>A service with the two repositories, whose validator and storage change neither.\<close>

definition creates_in :: "'w BatchRepository \<Rightarrow> 'w JobRepository \<Rightarrow> ('w \<Rightarrow> 'a) \<Rightarrow> ('w \<Rightarrow> 'b) \<Rightarrow>
    'w Service \<Rightarrow> bool" where
  "creates_in r jr st jb s \<longleftrightarrow> sv_batchRepo s = Some r \<and> sv_jobRepo s = Some jr \<and>
     (\<forall>v fs rv. sv_validator s = Some v \<longrightarrow>
        keeps st (Val_ValidateRow v fs rv) \<and> keeps jb (Val_ValidateRow v fs rv)) \<and>
     (\<forall>f name d. sv_storage s = Some f \<longrightarrow> keeps st (St_Save f name d) \<and> keeps jb (St_Save f name d))"

lemma validate_row_keeps:
  assumes "\<And>v fs rv. sv_validator s = Some v \<Longrightarrow> keeps V (Val_ValidateRow v fs rv)"
  shows "keeps V (validate_row s revision i flds)"
  by (auto simp: validate_row_def Let_def intro!: frame_intros assms split: option.split)

context platform
begin

abbreviation sees where
  "sees S J \<equiv> \<lambda>w. stored w = S \<and> jobs w = J"

lemma kept_sees:
  "keeps stored m \<Longrightarrow> keeps jobs m \<Longrightarrow> spec (sees S J) m (\<lambda>_. sees S J)"
  by (simp add: spec_def keeps_def)

lemma create_job_spec:
  assumes s: "creates_in brepo jrepo stored jobs s"
  shows "spec (sees S J) (create_job rt s i k row flds)
    (\<lambda>_ w. sees S J w \<or> (\<exists>j. next_job i (row_number k row) J j \<and> sees S (J @ [j]) w))"
proof -
  let ?j = "\<lambda>jid. \<lparr>j_ID = jid, j_BatchID = i, j_RowNumber = row_number k row,
         j_Status = JobStatusPending, j_InputData = marshal_map flds, j_BillingTransactionID = None\<rparr>"
  have uuid: "spec (sees S J) (Rt_NewUUID rt) (\<lambda>_. sees S J)"
    by (intro kept_sees frame_intros)
  have cr: "spec (sees S J) (JobRepo_Create jrepo (?j jid)) (\<lambda>_ w.
      sees S J w \<or> (\<exists>j. next_job i (row_number k row) J j \<and> sees S (J @ [j]) w))" for jid
  proof (rule specI)
    fix w assume P: "sees S J w"
    let ?m = "JobRepo_Create jrepo (?j jid)"
    have "stored (after ?m w) = S" using P by (simp add: keepsD job_ops_keep_batches)
    then show "sees S J (after ?m w) \<or>
        (\<exists>j. next_job i (row_number k row) J j \<and> sees S (J @ [j]) (after ?m w))"
      using P job_create_ok [of "?j jid" w] job_create_failed [of "?j jid" w]
      by (cases "result ?m w") (auto simp: next_job_def)
  qed
  from s have jr: "sv_jobRepo s = Some jrepo" by (simp add: creates_in_def)
  show ?thesis
    unfolding create_job_def jr option.case
    by (rule spec_bind [OF uuid], rule spec_bind [OF cr], rule spec_return)
qed

text \<open>Every row counts as valid or invalid.\<close>

lemma create_rows_spec:
  assumes s: "creates_in brepo jrepo stored jobs s"
  shows "spec (sees S J) (create_rows rt s revision i k rows acc)
    (\<lambda>acc' w. fst acc \<le> fst acc' \<and> fst (snd acc) \<le> fst (snd acc') \<and>
       fst acc' + fst (snd acc') = fst acc + fst (snd acc) + int (length rows) \<and>
       (\<exists>js. sees S (J @ js) w \<and> made_of i (row_numbers k rows) J js))"
proof (induction rows arbitrary: k acc J)
  case Nil
  then show ?case by (auto intro: spec_return)
next
  case (Cons row rows)
  obtain v n es where acc: "acc = (v, n, es)" by (cases acc)
  let ?flds = "filter (\<lambda>(k, v). k \<noteq> ''_row'') row"
  let ?Q = "\<lambda>acc' w. v \<le> fst acc' \<and> n \<le> fst (snd acc') \<and>
       fst acc' + fst (snd acc') = v + n + int (length (row # rows)) \<and>
       (\<exists>js. sees S (J @ js) w \<and> made_of i (row_numbers k (row # rows)) J js)"
  have val: "spec (sees S J) (validate_row s revision k ?flds) (\<lambda>_. sees S J)"
    by (intro kept_sees validate_row_keeps) (use s in \<open>auto simp: creates_in_def\<close>)
  have skip: "spec (sees S J) (create_rows rt s revision i (Suc k) rows acc') ?Q"
    and made: "next_job i (row_number k row) J j \<Longrightarrow>
      spec (sees S (J @ [j])) (create_rows rt s revision i (Suc k) rows acc') ?Q"
    if "acc' = (v + 1, n, es') \<or> acc' = (v, n + 1, es')" for acc' es' j
  proof -
    show "spec (sees S J) (create_rows rt s revision i (Suc k) rows acc') ?Q"
      by (rule spec_conseq [OF Cons.IH]) (use that in \<open>auto intro: made_of_skip\<close>)
    assume nj: "next_job i (row_number k row) J j"
    show "spec (sees S (J @ [j])) (create_rows rt s revision i (Suc k) rows acc') ?Q"
      by (rule spec_conseq [OF Cons.IH]) (use that made_of_Cons [OF _ nj] in fastforce)+
  qed
  have rest: "spec (\<lambda>w. sees S J w \<or> (\<exists>j. next_job i (row_number k row) J j \<and> sees S (J @ [j]) w))
      (create_rows rt s revision i (Suc k) rows (if x then (v + 1, n, es') else (v, n + 1, es'))) ?Q"
    for x es'
    using skip [of "if x then (v + 1, n, es') else (v, n + 1, es')" es']
      made [of "if x then (v + 1, n, es') else (v, n + 1, es')" es'] unfolding spec_def by auto
  show ?case
    unfolding acc create_rows.simps Let_def fst_conv snd_conv
    by (intro spec_bind [OF val] spec_bind [OF create_job_spec [OF s]] rest)
qed

end

text \<open>A batch made of a file with \<open>n\<close> rows.\<close>

definition fresh_batch :: "string \<Rightarrow> string \<Rightarrow> int \<Rightarrow> batch \<Rightarrow> bool" where
  "fresh_batch batchID revision n b \<longleftrightarrow> b_ID b = batchID \<and> b_UserID b = [] \<and>
     b_Status b = BatchStatusPending \<and> b_Revision b = revision \<and> b_TotalRows b = n \<and>
     b_ApprovedCount b = 0 \<and> b_CompletedCount b = 0 \<and> b_FailedCount b = 0 \<and>
     b_BillingTransactionIDs b = []"

text \<open>The state after a run that stored the batch \<open>i\<close> for the rows of an accepted file, and what the
  run returned: an error only when the file could not be saved.\<close>

definition created :: "(string \<Rightarrow> batch option) \<Rightarrow> job list \<Rightarrow> string \<Rightarrow> (string \<times> string) list list \<Rightarrow> bool \<Rightarrow>
    go_error + CreateBatchResult \<Rightarrow> (string \<Rightarrow> batch option) \<Rightarrow> job list \<Rightarrow> bool" where
  "created S J revision rows saving x st jb \<longleftrightarrow> (\<exists>i b js.
     S i = None \<and> fresh_batch i revision (int (length rows)) b \<and> made_of i (row_numbers 0 rows) J js \<and>
     st = S(i \<mapsto> b) \<and> jb = J @ js \<and>
     (case x of Inl err \<Rightarrow> saving
      | Inr res \<Rightarrow> cr_BatchID res = i \<and> cr_TotalRows res = int (length rows) \<and>
          0 \<le> cr_ValidRows res \<and> 0 \<le> cr_InvalidRows res \<and>
          cr_ValidRows res + cr_InvalidRows res = cr_TotalRows res \<and>
          b_ValidRows b \<in> {cr_ValidRows res, cr_TotalRows res}))"

context platform
begin

lemma create_batch_spec:
  assumes s: "creates_in brepo jrepo stored jobs s"
  shows "spec (sees S J) (create_batch_row s (new_batch i revision n))
    (\<lambda>c w. (c \<noteq> None \<and> sees S J w) \<or> (c = None \<and> S i = None \<and>
       (\<exists>b. fresh_batch i revision n b \<and> b_ValidRows b = n \<and> sees (S(i \<mapsto> b)) J w)))"
proof (rule specI)
  fix w assume P: "sees S J w"
  let ?b = "new_batch i revision n" and ?m = "BatchRepo_Create brepo (new_batch i revision n)"
  from s have m: "create_batch_row s ?b = ?m" by (simp add: create_batch_row_def creates_in_def)
  have "jobs (after ?m w) = J" using P by (simp add: keepsD batch_ops_keep_jobs)
  show "(result (create_batch_row s ?b) w \<noteq> None \<and> sees S J (after (create_batch_row s ?b) w)) \<or>
     (result (create_batch_row s ?b) w = None \<and> S i = None \<and>
       (\<exists>b. fresh_batch i revision n b \<and> b_ValidRows b = n \<and>
          sees (S(i \<mapsto> b)) J (after (create_batch_row s ?b) w)))"
  proof (cases "result ?m w")
    case None
    from create_ok [OF None] obtain t where t: "stored w (b_ID ?b) = None"
      "stored (after ?m w) = (stored w)(b_ID ?b \<mapsto> core (?b\<lparr>b_CreatedAt := t, b_CompletedAt := None\<rparr>))"
      by blast
    have "b_ID ?b = i" "fresh_batch i revision n (core (?b\<lparr>b_CreatedAt := t, b_CompletedAt := None\<rparr>))"
      "b_ValidRows (core (?b\<lparr>b_CreatedAt := t, b_CompletedAt := None\<rparr>)) = n"
      by (simp_all add: new_batch_def fresh_batch_def)
    with t P None \<open>jobs (after ?m w) = J\<close> show ?thesis
      unfolding m by (intro disjI2 conjI exI [of _ "core (?b\<lparr>b_CreatedAt := t, b_CompletedAt := None\<rparr>)"]) simp_all
  next
    case (Some err)
    with P \<open>jobs (after ?m w) = J\<close> show ?thesis unfolding m by (simp add: create_failed [OF Some])
  qed
qed

lemma update_batch_spec:
  assumes s: "creates_in brepo jrepo stored jobs s" and b: "fresh_batch i revision n b"
    and S: "S i = Some old" "fresh_batch i revision n old"
  shows "spec (sees S J) (update_batch_row s b)
    (\<lambda>_ w. \<exists>b'. fresh_batch i revision n b' \<and> b_ValidRows b' \<in> {b_ValidRows b, b_ValidRows old} \<and>
       sees (S(i \<mapsto> b')) J w)"
proof (rule specI)
  fix w assume P: "sees S J w"
  let ?m = "BatchRepo_Update brepo b"
  have m: "after (update_batch_row s b) w = after ?m w"
    using s by (simp add: update_batch_row_def creates_in_def)
  have j: "jobs (after ?m w) = J" using P by (simp add: keepsD batch_ops_keep_jobs)
  show "\<exists>b'. fresh_batch i revision n b' \<and> b_ValidRows b' \<in> {b_ValidRows b, b_ValidRows old} \<and>
       sees (S(i \<mapsto> b')) J (after (update_batch_row s b) w)"
  proof (cases "result ?m w")
    case None
    with P j b S show ?thesis
      by (intro exI [of _ "persisted b old"]) (auto simp: m update_ok fresh_batch_def)
  next
    case (Some err)
    with P j S show ?thesis
      by (intro exI [of _ old]) (auto simp: m update_failed fun_upd_idem)
  qed
qed

text \<open>The end of a creation: a file that can not be saved leaves the batch and its jobs as they are.\<close>

lemma save_spec:
  assumes s: "creates_in brepo jrepo stored jobs s"
  shows "spec (sees S J) (save_file s i buf) (\<lambda>x w. (sv_storage s = None \<longrightarrow> (\<exists>y. x = Inr y)) \<and> sees S J w)"
  using s unfolding save_file_def creates_in_def
  by (cases "sv_storage s") (auto simp: spec_def keeps_def)

lemma createdI:
  assumes "fresh_batch i revision (int (length rows)) b" "S i = None" "made_of i (row_numbers 0 rows) J js"
    and "case x of Inl err \<Rightarrow> saving
      | Inr res \<Rightarrow> cr_BatchID res = i \<and> cr_TotalRows res = int (length rows) \<and>
          0 \<le> cr_ValidRows res \<and> 0 \<le> cr_InvalidRows res \<and>
          cr_ValidRows res + cr_InvalidRows res = cr_TotalRows res \<and>
          b_ValidRows b \<in> {cr_ValidRows res, cr_TotalRows res}"
  shows "created S J revision rows saving x (S(i \<mapsto> b)) (J @ js)"
  unfolding created_def using assms
  by (intro exI [of _ i] exI [of _ b] exI [of _ js]) simp

lemma finish_create_spec:
  assumes s: "creates_in brepo jrepo stored jobs s"
    and b: "fresh_batch i revision (int (length rows)) b" "b_ValidRows b = int (length rows)" "S i = None"
    and js: "made_of i (row_numbers 0 rows) J js"
    and ok: "0 \<le> fst counts" "0 \<le> fst (snd counts)" "fst counts + fst (snd counts) = int (length rows)"
  shows "spec (sees (S(i \<mapsto> b)) (J @ js))
    (finish_create s (new_batch i revision (int (length rows))) buf (int (length rows)) counts)
    (\<lambda>x w. created S J revision rows (sv_storage s \<noteq> None) x (stored w) (jobs w))"
proof -
  have new: "b_ID (new_batch i revision n) = i" for n by (simp add: new_batch_def)
  have fresh: "fresh_batch i revision (int (length rows)) ((new_batch i revision (int (length rows)))
      \<lparr>b_ValidRows := fst counts, b_FileStorageID := fid\<rparr>)" for fid
    by (simp add: fresh_batch_def new_batch_def)
  show ?thesis
    unfolding finish_create_def new
  proof (intro spec_bind [OF save_spec [OF s]] spec_pure spec_case_sum, goal_cases)
    case (1 x err)
    show ?case by (rule spec_return) (use 1 b js in \<open>auto intro!: createdI\<close>)
  next
    case (2 x fid)
    show ?case
      by (rule spec_bind [OF update_batch_spec [OF s fresh _ b(1), where S = "S(i \<mapsto> b)"]], simp,
          rule spec_return) (use b js ok in \<open>auto intro!: createdI\<close>)
  qed
qed

text \<open>The whole creation.  A file that is not accepted and a batch that is not stored leave
  everything; a file that cannot be saved leaves the batch and its jobs behind.\<close>

lemma create_run:
  assumes s: "creates_in brepo jrepo stored jobs s"
  shows "spec (sees S J) (CreateBatchFromFile rt rds s l r revision)
    (\<lambda>x w. (\<exists>err. x = Inl err) \<and> sees S J w \<or>
       (\<exists>buf rows. upload_rows (Rt_Getenv rt) rds l r revision = Inr (buf, rows) \<and>
          created S J revision rows (sv_storage s \<noteq> None) x (stored w) (jobs w)))"
  (is "spec _ _ ?Q")
proof (cases "upload_rows (Rt_Getenv rt) rds l r revision")
  case (Inl err)
  then show ?thesis by (auto simp: CreateBatchFromFile_def intro: spec_return)
next
  case (Inr br)
  obtain buf rows where up: "upload_rows (Rt_Getenv rt) rds l r revision = Inr (buf, rows)"
    using Inr by (cases br) simp
  let ?n = "int (length rows)"
  have uuid: "spec (sees S J) (Rt_NewUUID rt) (\<lambda>_. sees S J)"
    by (intro kept_sees frame_intros)
  have tail: "spec (sees (S(i \<mapsto> b)) J) (do {
            counts \<leftarrow> create_rows rt s revision i 0 rows (0, 0, []);
            finish_create s (new_batch i revision ?n) buf ?n counts }) ?Q"
    if b: "fresh_batch i revision ?n b" "b_ValidRows b = ?n" "S i = None" for i b
  proof (rule spec_bind [OF create_rows_spec [OF s]], goal_cases)
    case (1 counts)
    have "spec (sees (S(i \<mapsto> b)) (J @ js)) (finish_create s (new_batch i revision ?n) buf ?n counts) ?Q"
      if "made_of i (row_numbers 0 rows) J js" "0 \<le> fst counts" "0 \<le> fst (snd counts)"
        "fst counts + fst (snd counts) = ?n" for js
      by (rule spec_conseq [OF finish_create_spec [where S = S and i = i, OF s b that]]) (auto simp: up)
    then show ?case unfolding spec_def by auto
  qed
  show ?thesis
    unfolding CreateBatchFromFile_def up sum.case prod.case Let_def
  proof (intro spec_bind [OF uuid] spec_bind [OF create_batch_spec [OF s]] spec_case_option, goal_cases)
    case (1 i c)
    then show ?case using tail [unfolded up, where i = i] unfolding spec_def by blast
  next
    case (2 i c err)
    then show ?case by (auto intro: spec_return)
  qed
qed

end

section \<open>The production service\<close>

definition storage_of :: "FileClient \<Rightarrow> world Storage" where
  "storage_of fc = \<lparr>St_Save = (\<lambda>name d. FileClient_Save (Some fc) name d)\<rparr>"

text \<open>The service of \<open>di.NewDeps\<close>; storage is optional.\<close>

definition prod_service :: "env \<Rightarrow> string \<Rightarrow> BFFBillingClient \<Rightarrow> BFFValidator \<Rightarrow> FileClient option \<Rightarrow>
    world Service" where
  "prod_service e brokers c v fc = \<lparr>sv_batchRepo = Some (batchRepository e),
     sv_jobRepo = Some (jobRepository e), sv_validator = Some (validator_of e v),
     sv_billing = Some (billing_of e c), sv_producer = Some (producer_of e brokers),
     sv_storage = map_option storage_of fc\<rparr>"

lemma keeps_validator:
  assumes "\<And>w n. v (w\<lparr>wTick := n\<rparr>) = v w" "\<And>w cs. v (w\<lparr>wCalls := cs\<rparr>) = v w"
  shows "keeps v (Val_ValidateRow (validator_of e val) fs rv)"
  using assms by (auto simp: keeps_def validator_of_def BFFValidator_ValidateRow_def http_post_def run_simps)

lemma prod_creates: "creates_in (batchRepository e) (jobRepository e) pg_stored pg_jobs (prod_service e brokers c v fc)"
  by (auto simp: creates_in_def prod_service_def storage_of_def intro!: keeps_validator keeps_FileClient)

lemma Parse_bound:
  "Parse rd p data revision = Inr rows \<Longrightarrow> xp_MaxRows p \<le> 0 \<or> int (length rows) \<le> xp_MaxRows p"
  by (auto simp: Parse_def Let_def split: if_splits sum.splits list.splits)

section \<open>Properties\<close>

text \<open>C23: a file is accepted only when all of it was read, it has at most the number of bytes of the
  limit, and it has at most the number of rows of the limit in force.\<close>

theorem upload_within_limits:
  assumes "lim_MaxFileSize l < 2 ^ 63 - 1"
  shows "case upload_rows getenv rds l r revision of Inl err \<Rightarrow> True
    | Inr (buf, rows) \<Rightarrow> buf = rd_data r \<and> int (length buf) \<le> lim_MaxFileSize l \<and>
        (let n = env_override getenv ''MAX_ROWS_PER_BATCH'' (\<lambda>n. n) (lim_MaxRowsPerBatch l)
         in if 0 < n then int (length rows) \<le> n else True)"
proof (cases "upload_rows getenv rds l r revision")
  case (Inr br)
  obtain buf rows where br: "br = (buf, rows)" by (cases br)
  let ?n = "env_override getenv ''MAX_ROWS_PER_BATCH'' (\<lambda>n. n) (lim_MaxRowsPerBatch l)"
  let ?m = "int64 (lim_MaxFileSize l + 1)"
  from Inr br have buf: "CopyN r ?m = (buf, None)" "int (length buf) \<le> lim_MaxFileSize l"
    and parse: "\<exists>b. Parse rds (NewXLSParser ?n 0 b) buf revision = Inr rows"
    by (auto simp: upload_rows_def Let_def split: prod.splits option.splits if_splits sum.splits)
  from buf have ge: "0 \<le> lim_MaxFileSize l" by linarith
  with assms have m: "?m = lim_MaxFileSize l + 1" by (simp add: int64_id)
  have "buf = rd_data r"
  proof (cases "?m \<le> int (length (rd_data r))")
    case True
    with buf m ge show ?thesis by (auto simp: CopyN_def split: if_splits)
  qed (use buf in \<open>simp add: CopyN_def\<close>)
  moreover have "?n \<le> 0 \<or> int (length rows) \<le> ?n"
    using parse Parse_bound by (force simp: NewXLSParser_def)
  ultimately show ?thesis using buf Inr br by (auto simp: Let_def)
qed simp

theorem upload_within_limits_witness:
  "lim_MaxFileSize initial_limits < 2 ^ 63 - 1 \<and>
   (case upload_rows (\<lambda>k. []) \<lparr>read_xlsx = (\<lambda>d. Inl ErrBadJSON), read_xls = (\<lambda>d. Inl ErrBadJSON)\<rparr>
       initial_limits \<lparr>rd_data = ''zip'' @ [CHR 0x0A] @ ''12345'', rd_err = None\<rparr> ''v1'' of
      Inl err \<Rightarrow> True | Inr (buf, rows) \<Rightarrow> int (length buf) \<le> lim_MaxFileSize initial_limits)"
proof -
  have l: "lim_MaxFileSize initial_limits < 2 ^ 63 - 1" by (simp add: initial_limits_def)
  from upload_within_limits [OF l, where getenv = "\<lambda>k. []" and revision = "''v1''"
      and rds = "\<lparr>read_xlsx = (\<lambda>d. Inl ErrBadJSON), read_xls = (\<lambda>d. Inl ErrBadJSON)\<rparr>"
      and r = "\<lparr>rd_data = ''zip'' @ [CHR 0x0A] @ ''12345'', rd_err = None\<rparr>"] l
  show ?thesis by (auto split: sum.splits prod.splits)
qed


end
