(* ===== verification/ServiceLaws.thy ===== *)
theory ServiceLaws
  imports Creating
begin

text \<open>
  What \<open>ConfirmBatch\<close> and \<open>CreateBatchFromFile\<close> do to the stores, the message log and the billing
  account: client lemmas over the platform contracts, then the properties for the production
  service.
\<close>

section \<open>The service over the contracts\<close>

definition service_of :: "'w BatchRepository \<Rightarrow> 'w JobRepository \<Rightarrow> 'w BillingClient \<Rightarrow>
    'w KafkaProducer \<Rightarrow> 'w Service \<Rightarrow> bool" where
  "service_of r jr c p s \<longleftrightarrow> sv_batchRepo s = Some r \<and> sv_jobRepo s = Some jr \<and>
     sv_billing s = Some c \<and> sv_producer s = Some p"

definition msg_job :: "kafka_msg \<Rightarrow> string option" where
  "msg_job m = (case m of JobMsg e \<Rightarrow> Some (je_jobId e) | _ \<Rightarrow> None)"

definition msg_tx :: "kafka_msg \<Rightarrow> string option" where
  "msg_tx m = (case m of JobMsg e \<Rightarrow> je_transactionId e | _ \<Rightarrow> None)"

lemma msg_of_job_msg [simp]:
  "msg_job (job_msg j u r t c n) = Some (j_ID j)" "msg_tx (job_msg j u r t c n) = t"
  by (simp_all add: msg_job_def msg_tx_def job_msg_def)

text \<open>The messages due for the first \<open>n\<close> jobs: each with the transaction of its position.\<close>

definition due :: "string list \<Rightarrow> int \<Rightarrow> job list \<Rightarrow> nat \<Rightarrow> (string option \<times> string option) list" where
  "due txs cnt js n = map (\<lambda>i. (Some (j_ID (js ! i)), assignTx txs cnt i)) [0..<n]"

lemma due_Suc: "due txs cnt js (Suc n) = due txs cnt js n @ [(Some (j_ID (js ! n)), assignTx txs cnt n)]"
  by (simp add: due_def)

lemma length_due [simp]: "length (due txs cnt js n) = n"
  by (simp add: due_def)

text \<open>A confirmation changes only the status and transaction of the batch's jobs.\<close>

definition touched :: "string set \<Rightarrow> job \<Rightarrow> job \<Rightarrow> bool" where
  "touched ids j j' \<longleftrightarrow> (\<exists>s t. s \<in> {j_Status j, JobStatusQueued, JobStatusRefunded} \<and>
     j' = j\<lparr>j_Status := s, j_BillingTransactionID := t\<rparr> \<and> (j_ID j \<in> ids \<or> j' = j))"

lemma touched_refl: "touched ids j j"
  unfolding touched_def
  by (rule exI [of _ "j_Status j"], rule exI [of _ "j_BillingTransactionID j"]) simp

lemma touched_status:
  assumes "touched ids j j'" "i \<in> ids" "s \<in> {JobStatusQueued, JobStatusRefunded}"
  shows "touched ids j (set_status i s j')"
proof (cases "j_ID j' = i")
  case True
  from assms(1) obtain s' t where "j' = j\<lparr>j_Status := s', j_BillingTransactionID := t\<rparr>"
    unfolding touched_def by blast
  with True assms(2,3) show ?thesis
    unfolding touched_def set_status_def by (intro exI [of _ s] exI [of _ t]) simp
qed (use assms(1) in \<open>simp add: set_status_def\<close>)

lemma touched_tx:
  assumes "touched ids j j'" "i \<in> ids"
  shows "touched ids j (set_tx i t j')"
proof (cases "j_ID j' = i")
  case True
  from assms(1) obtain s' t' where "s' \<in> {j_Status j, JobStatusQueued, JobStatusRefunded}"
    "j' = j\<lparr>j_Status := s', j_BillingTransactionID := t'\<rparr>"
    unfolding touched_def by blast
  with True assms(2) show ?thesis
    unfolding touched_def set_tx_def by (intro exI [of _ s'] exI [of _ t]) simp
qed (use assms(1) in \<open>simp add: set_tx_def\<close>)

lemma touched_all_status:
  "list_all2 (touched ids) J jbs \<Longrightarrow> i \<in> ids \<Longrightarrow> s \<in> {JobStatusQueued, JobStatusRefunded} \<Longrightarrow>
    list_all2 (touched ids) J (map (set_status i s) jbs)"
  by (simp add: list_all2_map2 list_all2_mono touched_status)

lemma touched_all_tx:
  "list_all2 (touched ids) J jbs \<Longrightarrow> i \<in> ids \<Longrightarrow> list_all2 (touched ids) J (map (set_tx i t) jbs)"
  by (simp add: list_all2_map2 list_all2_mono touched_tx)

text \<open>The state of a confirmation after \<open>n\<close> of the jobs \<open>js\<close>: \<open>ms\<close> are the messages so far, \<open>acc\<close>
  the counters, \<open>jbs\<close> the table of jobs that started as \<open>J\<close>.\<close>

definition confirmed :: "string \<Rightarrow> string list \<Rightarrow> int \<Rightarrow> job list \<Rightarrow> job list \<Rightarrow> nat \<Rightarrow>
    (string \<times> kafka_msg) list \<Rightarrow> confirm_acc \<Rightarrow> job list \<Rightarrow> bool" where
  "confirmed topic txs cnt js J n ms acc jbs \<longleftrightarrow>
     subseq (map (\<lambda>(t, m). (msg_job m, msg_tx m)) ms) (due txs cnt js n) \<and>
     (\<forall>m \<in> set ms. fst m = topic) \<and>
     (case acc of (queued, publishError, assigned) \<Rightarrow>
        0 \<le> queued \<and> queued \<le> int (length ms) \<and> (publishError \<longleftrightarrow> length ms < n) \<and>
        set assigned \<subseteq> set txs) \<and>
     list_all2 (touched (j_ID ` set js)) J jbs"

lemma assignTx_member: "assignTx txs cnt i = Some t \<Longrightarrow> int i < cnt \<Longrightarrow> t \<in> set txs"
  by (auto simp: assignTx_def split: if_splits)

lemma core_status: "core (b\<lparr>b_Status := s\<rparr>) = (core b)\<lparr>b_Status := s\<rparr>"
  by (cases b) (simp add: core_def)

text \<open>The views of the world during a confirmation: the stored batches and the billing calls stand
  still, the messages so far follow \<open>E\<close>.\<close>

definition confirming :: "('w \<Rightarrow> string \<Rightarrow> batch option) \<Rightarrow> ('w \<Rightarrow> job list) \<Rightarrow>
    ('w \<Rightarrow> (string \<times> kafka_msg) list) \<Rightarrow> ('w \<Rightarrow> outcall list) \<Rightarrow>
    (string \<Rightarrow> batch option) \<times> outcall list \<times> (string \<times> kafka_msg) list \<Rightarrow>
    (nat \<Rightarrow> (string \<times> kafka_msg) list \<Rightarrow> confirm_acc \<Rightarrow> job list \<Rightarrow> bool) \<Rightarrow>
    nat \<Rightarrow> confirm_acc \<Rightarrow> 'w \<Rightarrow> bool" where
  "confirming st jb ev ca base I n acc w \<longleftrightarrow> (case base of (S, C, E) \<Rightarrow>
     st w = S \<and> ca w = C \<and> (\<exists>ms. ev w = E @ ms \<and> I n ms acc (jb w)))"

lemma confirming_views:
  "st w' = st w \<Longrightarrow> jb w' = jb w \<Longrightarrow> ev w' = ev w \<Longrightarrow> ca w' = ca w \<Longrightarrow>
    confirming st jb ev ca base I n acc w' = confirming st jb ev ca base I n acc w"
  by (simp add: confirming_def)

lemma confirmed_published:
  assumes "confirmed topic txs cnt js J n ms (q, pe, as) jbs" "length ms \<le> n"
  shows "confirmed topic txs cnt js J (Suc n)
      (ms @ [(topic, job_msg (js ! n) u r (assignTx txs cnt n) c t)]) (q, pe, as) jbs"
    and "confirmed topic txs cnt js J (Suc n)
      (ms @ [(topic, job_msg (js ! n) u r (assignTx txs cnt n) c t)]) (q + 1, pe, as) jbs"
    and "confirmed topic txs cnt js J (Suc n) ms (q, True, as) jbs"
  using assms by (auto simp: confirmed_def due_Suc list_emb_append_mono intro: list_emb_append2
      subseq_order.trans)

lemma confirmed_length: "confirmed topic txs cnt js J n ms acc jbs \<Longrightarrow> length ms \<le> n"
  using list_emb_length by (fastforce simp: confirmed_def)

lemma confirmed_queue:
  "confirmed topic txs cnt js J n ms acc jbs \<Longrightarrow> i \<in> j_ID ` set js \<Longrightarrow>
    confirmed topic txs cnt js J n ms acc (map (set_status i JobStatusQueued) jbs)"
  by (simp add: confirmed_def touched_all_status)

lemma confirmed_tx:
  "confirmed topic txs cnt js J n ms (q, pe, as) jbs \<Longrightarrow> i \<in> j_ID ` set js \<Longrightarrow>
    confirmed topic txs cnt js J n ms (q, pe, as) (map (set_tx i t) jbs)"
  by (simp add: confirmed_def touched_all_tx)

lemma confirmed_assigned:
  "confirmed topic txs cnt js J n ms (q, pe, as) jbs \<Longrightarrow> t \<in> set txs \<Longrightarrow>
    confirmed topic txs cnt js J n ms (q, pe, as @ [t]) jbs"
  by (simp add: confirmed_def)

context platform
begin

abbreviation conf where
  "conf base topic txs cnt js J \<equiv> confirming stored jobs events calls base (confirmed topic txs cnt js J)"

lemma kept_conf:
  assumes "keeps stored m" "keeps jobs m" "keeps events m" "keeps calls m"
  shows "spec (conf base topic txs cnt js J n acc) m (\<lambda>_. conf base topic txs cnt js J n acc)"
  by (rule specI) (simp add: confirming_def keepsD [OF assms(1)] keepsD [OF assms(2)]
      keepsD [OF assms(3)] keepsD [OF assms(4)])

lemma assign_tx_spec:
  assumes j: "j \<in> set js" and n: "int n < cnt"
  shows "spec (conf base topic txs cnt js J n (q, pe, as))
      (assign_tx_to rt jrepo j (assignTx txs cnt n) as)
      (\<lambda>as. conf base topic txs cnt js J n (q, pe, as))"
proof (cases "assignTx txs cnt n")
  case (Some t)
  let ?m = "JobRepo_UpdateBillingTransactionID jrepo (j_ID j) (Some t)"
  have t: "t \<in> set txs" by (rule assignTx_member [OF Some n])
  have tx: "confirmed topic txs cnt js J n ms (q, pe, as) (jobs (after ?m w))"
    if "confirmed topic txs cnt js J n ms (q, pe, as) (jobs w)" for ms w
    using that j tx_ok [of "j_ID j" "Some t" w] tx_failed [of "j_ID j" "Some t" w]
    by (cases "result ?m w") (simp_all add: confirmed_tx)
  have keep: "stored (after ?m w) = stored w" "events (after ?m w) = events w"
    "calls (after ?m w) = calls w" for w
    by (simp_all add: keepsD job_ops_keep_batches stores_keep_events stores_keep_calls)
  have "spec (conf base topic txs cnt js J n (q, pe, as)) ?m
      (\<lambda>_. conf base topic txs cnt js J n (q, pe, as @ [t]))"
    by (rule specI) (auto simp: confirming_def keep split: prod.splits intro: tx
        confirmed_assigned [OF _ t])
  then show ?thesis
    unfolding Some assign_tx_to_def option.case
    by (intro spec_if spec_bind spec_return) simp_all
qed (auto simp: assign_tx_to_def intro: spec_return)

lemma queue_spec:
  assumes "j \<in> set js"
  shows "spec (conf base topic txs cnt js J n acc) (JobRepo_UpdateStatus jrepo (j_ID j) JobStatusQueued)
    (\<lambda>_. conf base topic txs cnt js J n acc)"
proof -
  let ?m = "JobRepo_UpdateStatus jrepo (j_ID j) JobStatusQueued"
  have "confirmed topic txs cnt js J n ms acc (jobs (after ?m w))"
    if "confirmed topic txs cnt js J n ms acc (jobs w)" for ms w
    using that assms by (simp add: status_jobs confirmed_queue)
  moreover have "stored (after ?m w) = stored w" "events (after ?m w) = events w"
    "calls (after ?m w) = calls w" for w
    by (simp_all add: keepsD job_ops_keep_batches stores_keep_events stores_keep_calls)
  ultimately show ?thesis
    by (intro specI) (auto simp: confirming_def split: prod.splits)
qed

text \<open>One job: a publication that fails leaves the log; one that works adds the job's message.\<close>

text \<open>One message: when it was published the progress counts it, with the job queued or not.\<close>

lemma publish_one:
  assumes "j = js ! n"
  shows "spec (conf base topic txs cnt js J n (q, pe, as))
    (Producer_Publish producer topic (job_msg j user revision (assignTx txs cnt n) corr now))
    (\<lambda>r w. (if r = None then conf base topic txs cnt js J (Suc n) (q, pe, as) w \<and>
          conf base topic txs cnt js J (Suc n) (q + 1, pe, as) w
        else conf base topic txs cnt js J (Suc n) (q, True, as) w))"
proof (rule specI)
  let ?m = "Producer_Publish producer topic (job_msg j user revision (assignTx txs cnt n) corr now)"
  have keep: "stored (after ?m w) = stored w" "jobs (after ?m w) = jobs w"
    "calls (after ?m w) = calls w" for w
    by (simp_all add: keepsD publish_keeps)
  fix w assume P: "conf base topic txs cnt js J n (q, pe, as) w"
  obtain S C E where base: "base = (S, C, E)" by (cases base)
  from P obtain ms where ms: "events w = E @ ms" "stored w = S" "calls w = C"
    "confirmed topic txs cnt js J n ms (q, pe, as) (jobs w)"
    by (auto simp: confirming_def base)
  note after = confirmed_published [OF ms(4) confirmed_length [OF ms(4)], folded assms]
  show "if result ?m w = None then conf base topic txs cnt js J (Suc n) (q, pe, as) (after ?m w) \<and>
      conf base topic txs cnt js J (Suc n) (q + 1, pe, as) (after ?m w)
    else conf base topic txs cnt js J (Suc n) (q, True, as) (after ?m w)"
  proof (cases "result ?m w = None")
    case True
    with ms after(1,2) show ?thesis
      by (auto simp: confirming_def base keep publish_events)
  next
    case False
    with ms after(3) show ?thesis
      by (auto simp: confirming_def base keep publish_events)
  qed
qed

lemma publish_spec:
  assumes "service_of brepo jrepo bclient producer s" and j: "j = js ! n" "n < length js"
  shows "spec (conf base topic txs cnt js J n (q, pe, as))
    (do {
       perr \<leftarrow> publish_with s None topic (job_msg j user revision (assignTx txs cnt n) corr now);
       (case perr of
          Some err \<Rightarrow> State_Monad.return (q, True, as)
        | None \<Rightarrow> do {
            u \<leftarrow> JobRepo_UpdateStatus jrepo (j_ID j) JobStatusQueued;
            State_Monad.return (if u = None then q + 1 else q, pe, as)
          })
     })
    (conf base topic txs cnt js J (Suc n))"
proof -
  have member: "j \<in> set js" using j by simp
  have "publish_with s None topic msg = Producer_Publish producer topic msg" for msg
    using assms(1) by (simp add: publish_with_def service_of_def)
  then show ?thesis
  proof (simp, intro spec_bind [OF publish_one [OF j(1)]] spec_case_option, goal_cases)
    case (1 x)
    have "spec (\<lambda>w. conf base topic txs cnt js J (Suc n) (q, pe, as) w \<and>
        conf base topic txs cnt js J (Suc n) (q + 1, pe, as) w)
      (JobRepo_UpdateStatus jrepo (j_ID j) JobStatusQueued)
      (\<lambda>_ w. conf base topic txs cnt js J (Suc n) (q, pe, as) w \<and>
        conf base topic txs cnt js J (Suc n) (q + 1, pe, as) w)"
      using queue_spec [OF member] unfolding spec_def by blast
    with 1 show ?case by (auto intro!: spec_bind spec_return)
  qed (simp add: spec_return)
qed

lemma confirm_job_spec:
  assumes "service_of brepo jrepo bclient producer s" "n < length js" "int n < cnt"
  shows "spec (conf base (job_topic rt) txs cnt js J n acc)
    (confirm_job rt s None trace jrepo user revision txs cnt n (js ! n) acc)
    (conf base (job_topic rt) txs cnt js J (Suc n))"
proof (cases acc)
  case (fields q pe as)
  have now: "spec (conf base (job_topic rt) txs cnt js J n a) (Rt_Now rt)
      (\<lambda>_. conf base (job_topic rt) txs cnt js J n a)"
    and corr: "spec (conf base (job_topic rt) txs cnt js J n a) (correlation rt trace)
      (\<lambda>_. conf base (job_topic rt) txs cnt js J n a)" for a
    by (rule kept_conf; auto simp: correlation_def intro!: frame_intros)+
  show ?thesis
    unfolding confirm_job_def fields prod.case Let_def
    by (intro spec_bind [OF assign_tx_spec] spec_bind [OF now] spec_bind [OF corr]
        publish_spec assms nth_mem refl)
qed

lemma confirm_jobs_spec:
  assumes "service_of brepo jrepo bclient producer s" and "xs = drop n js" "n \<le> length js"
    "n \<le> nat cnt"
  shows "spec (conf base (job_topic rt) txs cnt js J n acc)
    (confirm_jobs rt s None trace jrepo user revision txs cnt n xs acc)
    (conf base (job_topic rt) txs cnt js J (min (nat cnt) (length js)))"
  using assms(2-4)
proof (induction xs arbitrary: n acc)
  case Nil
  then have "min (nat cnt) (length js) = n" by simp
  then show ?case by (auto intro!: spec_return)
next
  case (Cons x xs)
  have lt: "n < length js" using Cons.prems(1) by (metis drop_all list.distinct(1) not_le)
  then have x: "x = js ! n" "xs = drop (Suc n) js"
    using Cons.prems(1) by (simp_all add: Cons_nth_drop_Suc [symmetric])
  show ?case
  proof (cases "cnt \<le> int n")
    case True
    with Cons.prems lt have "min (nat cnt) (length js) = n" by auto
    with True show ?thesis by (auto intro!: spec_return)
  next
    case False
    have "spec (conf base (job_topic rt) txs cnt js J (Suc n) acc')
        (confirm_jobs rt s None trace jrepo user revision txs cnt (Suc n) xs acc')
        (conf base (job_topic rt) txs cnt js J (min (nat cnt) (length js)))" for acc'
      by (rule Cons.IH) (use x lt False in simp_all)
    with False show ?thesis
      by (cases acc) (simp add: x(1) spec_bind [OF confirm_job_spec [OF assms(1) lt]])
  qed
qed

lemma peek_spec:
  assumes "service_of brepo jrepo bclient producer s"
  shows "spec P (peek_batch s i) (\<lambda>x w'. \<exists>w. P w \<and> w' = after (BatchRepo_GetByID brepo i) w \<and>
    (\<forall>b. x = Some b \<longrightarrow> b_ID b = i \<and> stored w i = Some (core b)))"
proof (rule specI, rule exI, intro conjI, assumption)
  fix w assume "P w"
  have eq: "peek_batch s i = do { x \<leftarrow> BatchRepo_GetByID brepo i;
      State_Monad.return (case x of Inl err \<Rightarrow> None | Inr y \<Rightarrow> y) }"
    using assms by (simp add: peek_batch_def service_of_def)
  show "after (peek_batch s i) w = after (BatchRepo_GetByID brepo i) w" by (simp add: eq)
  show "\<forall>b. result (peek_batch s i) w = Some b \<longrightarrow> b_ID b = i \<and> stored w i = Some (core b)"
    using get_found [of i w] by (auto simp: eq split: sum.splits)
qed

lemma get_kept: "stored (after (BatchRepo_GetByID brepo i) w) = stored w"
  "jobs (after (BatchRepo_GetByID brepo i) w) = jobs w"
  "events (after (BatchRepo_GetByID brepo i) w) = events w"
  "calls (after (BatchRepo_GetByID brepo i) w) = calls w"
  by (simp_all add: keepsD get_keeps batch_ops_keep_jobs stores_keep_events stores_keep_calls)

lemma update_kept:
  "jobs (after (BatchRepo_Update brepo b) w) = jobs w"
  "events (after (BatchRepo_Update brepo b) w) = events w"
  "calls (after (BatchRepo_Update brepo b) w) = calls w"
  by (simp_all add: keepsD batch_ops_keep_jobs stores_keep_events stores_keep_calls)

text \<open>Cancelling the batch in the compensation.\<close>

lemma cancel_spec:
  assumes s: "service_of brepo jrepo bclient producer s"
  shows "spec (\<lambda>w. stored w = S \<and> R (jobs w) (events w) (calls w))
    (do { x \<leftarrow> peek_batch s i;
          (case x of None \<Rightarrow> State_Monad.return ()
           | Some b \<Rightarrow> update_batch_row s (b\<lparr>b_Status := BatchStatusCancelled\<rparr>)) })
    (\<lambda>_ w. (stored w = S \<or> (\<exists>b. S i = Some b \<and> stored w = S(i \<mapsto> b\<lparr>b_Status := BatchStatusCancelled\<rparr>)))
       \<and> R (jobs w) (events w) (calls w))"
proof (rule spec_bind [OF peek_spec [OF s]])
  fix x
  let ?P = "\<lambda>w'. \<exists>w. (stored w = S \<and> R (jobs w) (events w) (calls w)) \<and>
    w' = after (BatchRepo_GetByID brepo i) w \<and> (\<forall>b. x = Some b \<longrightarrow> b_ID b = i \<and> stored w i = Some (core b))"
  show "spec ?P (case x of None \<Rightarrow> State_Monad.return ()
      | Some b \<Rightarrow> update_batch_row s (b\<lparr>b_Status := BatchStatusCancelled\<rparr>))
    (\<lambda>_ w. (stored w = S \<or> (\<exists>b. S i = Some b \<and> stored w = S(i \<mapsto> b\<lparr>b_Status := BatchStatusCancelled\<rparr>)))
       \<and> R (jobs w) (events w) (calls w))"
  proof (cases x)
    case None
    then show ?thesis by (auto intro!: spec_return simp: get_kept)
  next
    case (Some b)
    let ?b = "b\<lparr>b_Status := BatchStatusCancelled\<rparr>"
    have upd: "stored (after (BatchRepo_Update brepo ?b) w) =
        (if result (BatchRepo_Update brepo ?b) w = None then S(i \<mapsto> (core b)\<lparr>b_Status := BatchStatusCancelled\<rparr>) else S)"
      if "stored w = S" "S i = Some (core b)" "b_ID b = i" for w
    proof (cases "result (BatchRepo_Update brepo ?b) w")
      case None
      with that update_stored [of w ?b "core b"] show ?thesis
        by (simp add: core_status)
    qed (use that in \<open>simp add: update_failed\<close>)
    have "update_batch_row s ?b = do { _ \<leftarrow> BatchRepo_Update brepo ?b; State_Monad.return () }"
      using s by (simp add: update_batch_row_def service_of_def)
    then show ?thesis
      unfolding Some by (auto intro!: specI simp: update_kept get_kept upd)
  qed
qed

lemma refund_step:
  assumes "service_of brepo jrepo bclient producer s"
  shows "spec (conf (S, C, E) topic txs cnt js J n acc)
    (case sv_billing s of
        Some c \<Rightarrow> if as \<noteq> []
          then do { _ \<leftarrow> Billing_RefundTransactions c [] as i; State_Monad.return () }
          else State_Monad.return ()
      | None \<Rightarrow> State_Monad.return ())
    (\<lambda>_. conf (S, C @ (if as = [] then [] else [CallRefund [] as i]), E) topic txs cnt js J n acc)"
proof -
  let ?m = "Billing_RefundTransactions bclient [] as i"
  have "stored (after ?m w) = stored w" "jobs (after ?m w) = jobs w" "events (after ?m w) = events w"
    for w by (simp_all add: keepsD billing_keeps)
  then show ?thesis
    using assms by (auto simp: service_of_def confirming_def refund_calls intro!: specI)
qed

lemma compensate_spec:
  assumes s: "service_of brepo jrepo bclient producer s"
  shows "spec (conf (S, C, E) topic txs cnt js J n (q, True, as))
    (compensate s jrepo i cnt js k as)
    (\<lambda>_ w. (stored w = S \<or> (\<exists>b. S i = Some b \<and> stored w = S(i \<mapsto> b\<lparr>b_Status := BatchStatusCancelled\<rparr>))) \<and>
       calls w = C @ (if as = [] then [] else [CallRefund [] as i]) \<and>
       (\<exists>ms. events w = E @ ms \<and> confirmed topic txs cnt js J n ms (q, True, as) (jobs w)))"
  (is "spec _ _ (\<lambda>_. ?Q)")
proof -
  let ?R = "\<lambda>jb ev ca. ca = C @ (if as = [] then [] else [CallRefund [] as i]) \<and>
     (\<exists>ms. ev = E @ ms \<and> confirmed topic txs cnt js J n ms (q, True, as) jb)"
  have pre: "conf (S, C @ (if as = [] then [] else [CallRefund [] as i]), E) topic txs cnt js J n (q, True, as) =
      (\<lambda>w. stored w = S \<and> ?R (jobs w) (events w) (calls w))"
    by (simp add: confirming_def fun_eq_iff)
  have body: "spec ?Q (do { _ \<leftarrow> JobRepo_UpdateStatus jrepo (j_ID j) JobStatusRefunded;
      State_Monad.return () }) (\<lambda>_. ?Q)" if "j \<in> set js" for j
  proof -
    let ?m = "JobRepo_UpdateStatus jrepo (j_ID j) JobStatusRefunded"
    have "confirmed topic txs cnt js J n ms (q, True, as) (jobs (after ?m w))"
      if "confirmed topic txs cnt js J n ms (q, True, as) (jobs w)" for ms w
      using that \<open>j \<in> set js\<close> by (simp add: status_jobs confirmed_def touched_all_status)
    moreover have "stored (after ?m w) = stored w" "events (after ?m w) = events w"
      "calls (after ?m w) = calls w" for w
      by (simp_all add: keepsD job_ops_keep_batches stores_keep_events stores_keep_calls)
    ultimately show ?thesis by (intro specI) auto
  qed
  have loop: "spec ?Q (for_range (drop (nat k) (take (nat cnt) js)) (\<lambda>j. do {
      _ \<leftarrow> JobRepo_UpdateStatus jrepo (j_ID j) JobStatusRefunded; State_Monad.return () })) (\<lambda>_. ?Q)"
    by (rule spec_for_range, rule body) (meson in_set_dropD in_set_takeD)
  have cancel: "spec (\<lambda>w. stored w = S \<and> ?R (jobs w) (events w) (calls w))
    (do { x \<leftarrow> peek_batch s i;
          (case x of None \<Rightarrow> State_Monad.return ()
           | Some b \<Rightarrow> update_batch_row s (b\<lparr>b_Status := BatchStatusCancelled\<rparr>)) })
    (\<lambda>_. ?Q)"
    by (rule spec_conseq [OF cancel_spec [OF s, where S = S and R = ?R]]) auto
  have bind: "State_Monad.bind (State_Monad.bind m f) g = State_Monad.bind m (\<lambda>x. State_Monad.bind (f x) g)"
    for m :: "('a, 'x) state" and f :: "'x \<Rightarrow> ('a, 'y) state" and g :: "'y \<Rightarrow> ('a, 'z) state"
    by simp
  show ?thesis
    unfolding compensate_def
    by (rule spec_bind [OF refund_step [OF s]], unfold pre, subst bind [symmetric],
        rule spec_bind [OF cancel loop])
qed

end

text \<open>The outcome of publishing the jobs of the batch \<open>i\<close>, from the views \<open>(S, J, E, C)\<close>.\<close>

definition published :: "(string \<Rightarrow> batch option) \<times> job list \<times> (string \<times> kafka_msg) list \<times> outcall list \<Rightarrow>
    string \<Rightarrow> int \<Rightarrow> string \<Rightarrow> string list \<Rightarrow> go_error + int \<Rightarrow>
    (string \<Rightarrow> batch option) \<Rightarrow> job list \<Rightarrow> (string \<times> kafka_msg) list \<Rightarrow> outcall list \<Rightarrow> bool" where
  "published base i cnt topic txs r st jb ev ca \<longleftrightarrow> (case base of (S, J, E, C) \<Rightarrow> (case r of
     Inl err \<Rightarrow> st = S \<and> jb = J \<and> ev = E \<and> ca = C
   | Inr k \<Rightarrow> (\<exists>js ms as. let n = min (nat cnt) (length js) in
       mset js = mset (filter (\<lambda>j. j_BatchID j = i) J) \<and> ev = E @ ms \<and>
       confirmed topic txs cnt js J n ms (k, length ms < n, as) jb \<and>
       (if length ms < n
        then (st = S \<or> (\<exists>b. S i = Some b \<and> st = S(i \<mapsto> b\<lparr>b_Status := BatchStatusCancelled\<rparr>))) \<and>
          ca = C @ (if as = [] then [] else [CallRefund [] as i])
        else st = S \<and> ca = C))))"

lemma confirmed_0: "confirmed topic txs cnt js J 0 [] (0, False, []) J"
  by (simp add: confirmed_def list_all2_refl touched_refl)

lemma confirmed_error: "confirmed topic txs cnt js J n ms (q, pe, as) jbs \<Longrightarrow> pe \<longleftrightarrow> length ms < n"
  by (simp add: confirmed_def)

lemma publishedI:
  assumes "mset js = mset (filter (\<lambda>j. j_BatchID j = i) J)"
    and "confirmed topic txs cnt js J (min (nat cnt) (length js)) ms (k, pe, as) jb"
    and "ev = E @ ms"
    and "if pe then (st = S \<or> (\<exists>b. S i = Some b \<and> st = S(i \<mapsto> b\<lparr>b_Status := BatchStatusCancelled\<rparr>))) \<and>
        ca = C @ (if as = [] then [] else [CallRefund [] as i])
      else st = S \<and> ca = C"
  shows "published (S, J, E, C) i cnt topic txs (Inr k) st jb ev ca"
proof -
  have "pe = (length ms < min (nat cnt) (length js))" by (rule confirmed_error [OF assms(2)])
  with assms show ?thesis
    unfolding published_def prod.case sum.case Let_def
    by (intro exI [of _ js] exI [of _ ms] exI [of _ as] conjI) simp_all
qed

context platform
begin

text \<open>After the loop: the compensation when a publication failed, and the answer.\<close>

lemma publish_end_spec:
  assumes s: "service_of brepo jrepo bclient producer s"
    and js: "mset js = mset (filter (\<lambda>j. j_BatchID j = i) J)"
  shows "spec (conf (S, C, E) topic txs cnt js J (min (nat cnt) (length js)) acc)
      (case acc of (queued, publishError, assigned) \<Rightarrow>
         if publishError then do {
           compensate s jrepo i cnt js queued assigned;
           State_Monad.return (Inr queued)
         }
         else State_Monad.return (Inr queued))
    (\<lambda>r w. published (S, J, E, C) i cnt topic txs r (stored w) (jobs w) (events w) (calls w))"
  (is "spec _ _ ?Q")
proof (cases acc)
  case (fields q pe as)
  let ?n = "min (nat cnt) (length js)" and ?conf = "conf (S, C, E) topic txs cnt js J"
  show ?thesis
  proof (cases pe)
    case True
    have "spec (?conf ?n (q, True, as)) (compensate s jrepo i cnt js q as) (\<lambda>_. ?Q (Inr q))"
      by (rule spec_conseq [OF compensate_spec [OF s]]) (auto intro: publishedI [OF js])
    with True show ?thesis
      unfolding fields by simp (rule spec_bind, assumption, rule spec_return, assumption)
  next
    case False
    have "?Q (Inr q) w" if "?conf ?n (q, False, as) w" for w
    proof -
      from that obtain ms where "stored w = S" "calls w = C" "events w = E @ ms"
        "confirmed topic txs cnt js J ?n ms (q, False, as) (jobs w)"
        by (auto simp: confirming_def)
      then show ?thesis by (intro publishedI [OF js, where pe = False and ms = ms and as = as]) simp_all
    qed
    with False show ?thesis unfolding fields by (auto intro!: spec_return)
  qed
qed

lemma publish_jobs_spec:
  assumes s: "service_of brepo jrepo bclient producer s"
  shows "spec (\<lambda>w. stored w = S \<and> jobs w = J \<and> events w = E \<and> calls w = C)
    (publish_jobs rt s None trace i cnt txs)
    (\<lambda>r w. published (S, J, E, C) i cnt (job_topic rt) txs r (stored w) (jobs w) (events w) (calls w))"
  (is "spec ?P _ ?Q")
proof -
  let ?conf = "\<lambda>js. conf (S, C, E) (job_topic rt) txs cnt js J"
  have get: "spec ?P (JobRepo_GetByBatch jrepo i) (\<lambda>x w.
      (\<forall>js. x = Inr js \<longrightarrow> mset js = mset (filter (\<lambda>j. j_BatchID j = i) J)) \<and> ?P w)"
    by (rule specI) (auto simp: by_batch keepsD job_ops_keep_batches by_batch_keeps
        stores_keep_events stores_keep_calls)
  have peek: "spec ?P (peek_batch s i) (\<lambda>_. ?conf js 0 (0, False, []))" for js
    by (rule spec_conseq [OF peek_spec [OF s, of ?P]])
      (auto simp: get_kept confirming_def confirmed_0)
  have loop: "spec (?conf js 0 (0, False, []))
      (confirm_jobs rt s None trace jrepo u rv txs cnt 0 js (0, False, []))
      (?conf js (min (nat cnt) (length js)))" for js u rv
    by (rule confirm_jobs_spec [OF s]) simp_all
  have jr: "sv_jobRepo s = Some jrepo" using s by (simp add: service_of_def)
  show ?thesis
    unfolding publish_jobs_def jr option.case Let_def
  proof (intro spec_bind [OF get] spec_pure spec_case_sum, goal_cases)
    case (1 x err)
    then show ?case by (auto intro!: spec_return simp: published_def)
  next
    case (2 x js)
    show ?case
      by (intro spec_bind [OF peek [of js]] spec_case_prod spec_bind [OF loop] publish_end_spec [OF s]
          2(1) [rule_format, OF 2(2)])
  qed
qed

lemma block_spec:
  assumes s: "service_of brepo jrepo bclient producer s"
  shows "spec (\<lambda>w. stored w = S \<and> jobs w = J \<and> events w = E \<and> calls w = C)
    (block_billing s None i cnt)
    (\<lambda>_ w. stored w = S \<and> jobs w = J \<and> events w = E \<and> calls w = C @ [CallBlock [] cnt i])"
proof -
  have "block_billing s None i cnt = do {
      r \<leftarrow> Billing_BlockBatch bclient [] cnt i;
      State_Monad.return (case r of Inl err \<Rightarrow> Inl err
        | Inr None \<Rightarrow> Inr [] | Inr (Some ts) \<Rightarrow> Inr ts) }"
    using s by (simp add: block_billing_def service_of_def)
  then show ?thesis
    by (auto intro!: specI simp: keepsD billing_keeps block_calls)
qed

text \<open>The whole confirmation: refused by the guard, or one reservation and then the publication.\<close>

lemma confirm_run:
  assumes s: "service_of brepo jrepo bclient producer s"
  shows "spec (\<lambda>w. stored w = S \<and> jobs w = J \<and> events w = E \<and> calls w = C)
    (ConfirmBatch rt s None None trace i cnt)
    (\<lambda>r w. (\<exists>msg b. r = Inl (ErrMsg msg) \<and> S i = Some b \<and> 0 < b_ApprovedCount b \<and> b_ApprovedCount b < cnt \<and>
          stored w = S \<and> jobs w = J \<and> events w = E \<and> calls w = C) \<or>
       (\<exists>txs. published (S, J, E, C @ [CallBlock [] cnt i]) i cnt (job_topic rt) txs r
          (stored w) (jobs w) (events w) (calls w)))"
  (is "spec ?P _ ?Q")
proof -
  have go: "spec ?P (do {
        r \<leftarrow> block_billing s None i cnt;
        (case r of
           Inl err \<Rightarrow> State_Monad.return (Inl err)
         | Inr txs \<Rightarrow> publish_jobs rt s None trace i cnt txs)
      }) ?Q"
  proof (intro spec_bind [OF block_spec [OF s]] spec_case_sum spec_return, goal_cases)
    case (1 x err w)
    then show ?case by (auto simp: published_def)
  next
    case (2 x txs)
    show ?case
      by (rule spec_conseq [OF publish_jobs_spec [OF s, where S = S and J = J and E = E
          and C = "C @ [CallBlock [] cnt i]"]]) auto
  qed
  show ?thesis
    unfolding ConfirmBatch_def
  proof (intro spec_bind [OF peek_spec [OF s]] spec_if spec_return, goal_cases)
    case (1 x w)
    then show ?case by (auto simp: get_kept split: option.splits)
  next
    case (2 x)
    show ?case by (rule spec_conseq [OF go]) (auto simp: get_kept)
  qed
qed

end

section \<open>Properties\<close>

lemma prod_service_of: "service_of (batchRepository e) (jobRepository e) (billing_of e c)
    (producer_of e brokers) (prod_service e brokers c v fc)"
  by (simp add: service_of_def prod_service_def)

lemma prod_confirm_run:
  "spec (\<lambda>w. pg_stored w = S \<and> pg_jobs w = J \<and> wLog w = E \<and> wCalls w = C)
    (ConfirmBatch (runtime_of e) (prod_service e brokers c v fc) None None trace i cnt)
    (\<lambda>r w. (\<exists>msg b. r = Inl (ErrMsg msg) \<and> S i = Some b \<and> 0 < b_ApprovedCount b \<and> b_ApprovedCount b < cnt \<and>
          pg_stored w = S \<and> pg_jobs w = J \<and> wLog w = E \<and> wCalls w = C) \<or>
       (\<exists>txs. published (S, J, E, C @ [CallBlock [] cnt i]) i cnt (job_topic (runtime_of e)) txs r
          (pg_stored w) (pg_jobs w) (wLog w) (wCalls w)))"
  by (rule prod.confirm_run [OF prod_service_of])






text \<open>A reservation through the billing client is not stored with the batch, so that cancelling
  the batch afterwards refunds nothing: only the hook \<open>blockFunc\<close> stores its transactions.\<close>

lemma published_stored:
  assumes "published (S, J, E, C) i cnt topic txs r st jb ev ca"
  shows "st = S \<or> (\<exists>b. S i = Some b \<and> st = S(i \<mapsto> b\<lparr>b_Status := BatchStatusCancelled\<rparr>))"
proof (cases r)
  case (Inr k)
  with assms show ?thesis
    unfolding published_def prod.case Inr sum.case Let_def by (elim exE conjE) (simp split: if_splits)
qed (use assms in \<open>simp add: published_def\<close>)

lemma published_ids:
  assumes "published (S, J, E, C) i cnt topic txs r st jb ev ca"
  shows "map j_ID jb = map j_ID J"
proof -
  have "map j_ID jb = map j_ID J" if "list_all2 (touched ids) J jb" for ids
    using that by (induction rule: list_all2_induct) (auto simp: touched_def)
  with assms show ?thesis
    by (auto simp: published_def confirmed_def Let_def split: sum.splits)
qed

lemma confirm_keeps_transactions:
  "spec (\<lambda>w. pg_stored w = S \<and> pg_jobs w = J)
    (ConfirmBatch (runtime_of e) (prod_service e brokers c v fc) None None trace i cnt)
    (\<lambda>r w. map_option b_BillingTransactionIDs (pg_stored w i) = map_option b_BillingTransactionIDs (S i) \<and>
       map j_ID (pg_jobs w) = map j_ID J)"
proof (rule specI)
  fix w assume w: "pg_stored w = S \<and> pg_jobs w = J"
  let ?m = "ConfirmBatch (runtime_of e) (prod_service e brokers c v fc) None None trace i cnt"
  have "(\<exists>msg b. result ?m w = Inl (ErrMsg msg) \<and> S i = Some b \<and> 0 < b_ApprovedCount b \<and> b_ApprovedCount b < cnt \<and>
        pg_stored (after ?m w) = S \<and> pg_jobs (after ?m w) = J \<and> wLog (after ?m w) = wLog w \<and>
        wCalls (after ?m w) = wCalls w) \<or>
     (\<exists>txs. published (S, J, wLog w, wCalls w @ [CallBlock [] cnt i]) i cnt (job_topic (runtime_of e)) txs
        (result ?m w) (pg_stored (after ?m w)) (pg_jobs (after ?m w)) (wLog (after ?m w)) (wCalls (after ?m w)))"
    by (rule specD [OF prod_confirm_run]) (simp add: w)
  then show "map_option b_BillingTransactionIDs (pg_stored (after ?m w) i) =
      map_option b_BillingTransactionIDs (S i) \<and> map j_ID (pg_jobs (after ?m w)) = map j_ID J"
  proof (elim disjE exE conjE)
    fix txs
    assume p: "published (S, J, wLog w, wCalls w @ [CallBlock [] cnt i]) i cnt (job_topic (runtime_of e)) txs
        (result ?m w) (pg_stored (after ?m w)) (pg_jobs (after ?m w)) (wLog (after ?m w)) (wCalls (after ?m w))"
    from published_stored [OF p] published_ids [OF p] show ?thesis by auto
  qed simp
qed

text \<open>C28: cancelling right after a confirmation refunds nothing when the batch had no transactions
  before it, although the confirmation reserved some: the reservation made through the billing client is
  not stored with the batch.\<close>

theorem cancel_after_confirm:
  assumes "distinct (map jr_id (wJobs w))" "pg_stored w i = Some b" "b_BillingTransactionIDs b = []"
  shows "case run_state (ConfirmBatch (runtime_of e) (prod_service e brokers c v fc) None None trace i cnt) w of
    (r, w1) \<Rightarrow> (case run_state (SetCancelled (runtime_of e) (prod_manager e brokers c h t) i) w1 of
      (r', w2) \<Rightarrow> wCalls w2 = wCalls w1 \<and> pg_jobs w2 = pg_jobs w1)"
proof (rule spec_run [OF confirm_keeps_transactions [where S = "pg_stored w" and J = "pg_jobs w"]],
    simp, elim conjE)
  fix r w1
  assume txs: "map_option b_BillingTransactionIDs (pg_stored w1 i) = map_option b_BillingTransactionIDs (pg_stored w i)"
    and ids: "map j_ID (pg_jobs w1) = map j_ID (pg_jobs w)"
  from assms(1) ids have d: "distinct (map j_ID (pg_jobs w1))" by (simp add: pg_jobs_def comp_def)
  show "case run_state (SetCancelled (runtime_of e) (prod_manager e brokers c h t) i) w1 of
      (r', w2) \<Rightarrow> wCalls w2 = wCalls w1 \<and> pg_jobs w2 = pg_jobs w1"
  proof (rule spec_run [OF prod.setcancelled_run [OF prod_manager_wired d, where S = "pg_stored w1"
        and C = "wCalls w1"]], rule views_def, goal_cases)
    case (1 r' w2)
    show ?case
    proof (cases r')
      case (Ret x)
      show ?thesis
      proof (cases x)
        case (Inl err)
        with 1 Ret show ?thesis by (simp add: views_eq)
      next
        case (Inr k)
        with 1 Ret obtain b' S' J' where *: "pg_stored w1 i = Some (core b')"
          "views pg_stored pg_jobs wCalls w2 = (S', J', wCalls w1 @ calls_of_cancel (prod_manager e brokers c h t) i b')"
          "calls_of_cancel (prod_manager e brokers c h t) i b' = [] \<longrightarrow>
            J' = pg_jobs w1 \<and> S' = (pg_stored w1)(i \<mapsto> core (cancelled b'))"
          by blast
        from *(1) txs assms(2,3) have "b_BillingTransactionIDs b' = []" by simp
        with * show ?thesis by (simp add: views_eq calls_of_cancel_def)
      qed
    qed (use 1 in simp)
  qed
qed

theorem cancel_after_confirm_witness:
  "case run_state (ConfirmBatch (runtime_of env0) (prod_service env0 ''k'' client0
       \<lparr>bv_url = [], bv_token = []\<rparr> None) None None None ''b2'' 1) world0 of
    (r, w1) \<Rightarrow> (case run_state (SetCancelled (runtime_of env0) (prod_manager env0 ''k'' client0 ''h'' ''t'') ''b2'') w1 of
      (r', w2) \<Rightarrow> wCalls w2 = wCalls w1)"
proof -
  have d: "distinct (map jr_id (wJobs world0))" by (simp add: world0_def jrow_def)
  have "map_option b_BillingTransactionIDs (pg_stored world0 ''b2'') = Some []" by code_simp
  then obtain b where "pg_stored world0 ''b2'' = Some b" "b_BillingTransactionIDs b = []" by auto
  from cancel_after_confirm [OF d this, where e = env0 and brokers = "''k''" and c = client0 and h = "''h''"
      and t = "''t''" and v = "\<lparr>bv_url = [], bv_token = []\<rparr>" and fc = None and trace = None and cnt = 1]
  show ?thesis by auto
qed

text \<open>The compensation goes by the number of queued jobs, not by which they are: when the first message is
  lost and the second goes out, the second job is marked refunded and both transactions are given back,
  while the first job, which was never sent, stays pending.\<close>

definition env_first_lost :: env where
  "env_first_lost = env0\<lparr>eKafka := (\<lambda>n. if n < 14 then Some ''down'' else None),
     eHTTP := (\<lambda>n path body. Reply 200 ''{\"transactionIds\":[\"t1\",\"t2\"]}'')\<rparr>"

definition world_two :: world where
  "world_two = empty_world\<lparr>wBatches := [brow ''b'' BatchStatusReady 2 JNull],
     wJobs := [jrow ''k1'' ''b'' 1 JobStatusPending, jrow ''k2'' ''b'' 2 JobStatusPending]\<rparr>"

theorem compensation_hits_published:
  "(case run_state (ConfirmBatch (runtime_of env_first_lost)
       (prod_service env_first_lost ''k'' client0 \<lparr>bv_url = [], bv_token = []\<rparr> None) None None None ''b'' 2) world_two of
     (r, w') \<Rightarrow> (r, map (\<lambda>(t, m). msg_job m) (wLog w'), wCalls w', map (\<lambda>j. (j_ID j, j_Status j)) (pg_jobs w'))) =
   (Inr 1, [Some ''k2''], [CallBlock [] 2 ''b'', CallRefund [] [''t1'', ''t2''] ''b''],
     [(''k1'', JobStatusPending), (''k2'', JobStatusRefunded)])"
  by code_simp

end
