(* ===== verification/Exporter.thy ===== *)
theory Exporter
  imports Creating
begin

text \<open>
  \<open>internal/exporter/manager.go\<close>: the in-memory queue of asynchronous exports and its worker.

  The manager is shared by the goroutines of requests and the worker.  What runs under its mutex,
  and a channel operation, is one atomic step: an enqueuing goroutine registers the export and
  then offers its id to the queue, and the worker takes an id, marks the export as running,
  produces the file outside the mutex and records the outcome.  \<open>export_system\<close> adds to the
  manager where these goroutines stand, and \<open>estep\<close> interleaves their steps.  The queue is the
  buffer of the channel, which has room for at least one id (\<open>di.NewDeps\<close> gives it ten).
\<close>

section \<open>The manager\<close>

text \<open>\<open>Enqueue\<close>: the part under the mutex, then the \<open>select\<close> on the queue.\<close>

definition register :: "int \<Rightarrow> int \<Rightarrow> string \<Rightarrow> 'z ExportManager_scheme \<Rightarrow>
    go_error option \<times> 'z ExportManager_scheme" where
  "register t1 t2 i m = (if em_results m i \<noteq> None then (Some (ErrMsg ''export already exists''), m)
     else (None, m\<lparr>em_results := (em_results m)(i \<mapsto> \<lparr>xr_ID = i, xr_Status = StatusPending,
       xr_StorageID = [], xr_Error = [], xr_CreatedAt = t1, xr_UpdatedAt = t2\<rparr>)\<rparr>))"

definition offer :: "string \<Rightarrow> 'z ExportManager_scheme \<Rightarrow> go_error option \<times> 'z ExportManager_scheme" where
  "offer i m = (if length (em_queue m) < em_buf m then (None, m\<lparr>em_queue := em_queue m @ [i]\<rparr>)
     else (Some (ErrMsg ''export queue full''), m))"

definition Enqueue :: "int \<Rightarrow> int \<Rightarrow> string \<Rightarrow> 'z ExportManager_scheme \<Rightarrow>
    go_error option \<times> 'z ExportManager_scheme" where
  "Enqueue t1 t2 i m = (case register t1 t2 i m of
     (Some err, m') \<Rightarrow> (Some err, m') | (None, m') \<Rightarrow> offer i m')"

definition Get :: "string \<Rightarrow> 'z ExportManager_scheme \<Rightarrow> ExportResult option" where
  "Get i m = em_results m i"

section \<open>The worker\<close>

text \<open>One round: an id from the queue; an export that is not known is skipped.\<close>

definition mark_running :: "int \<Rightarrow> string \<Rightarrow> 'z ExportManager_scheme \<Rightarrow>
    string option \<times> 'z ExportManager_scheme" where
  "mark_running t i m = (case em_results m i of
     None \<Rightarrow> (None, m)
   | Some r \<Rightarrow> (Some i, m\<lparr>em_results := (em_results m)(i \<mapsto> r\<lparr>xr_Status := StatusRunning, xr_UpdatedAt := t\<rparr>)\<rparr>))"

definition take_export :: "int \<Rightarrow> 'z ExportManager_scheme \<Rightarrow> string option \<times> 'z ExportManager_scheme" where
  "take_export t m = (case em_queue m of [] \<Rightarrow> (None, m) | i # q \<Rightarrow> mark_running t i (m\<lparr>em_queue := q\<rparr>))"

text \<open>The file: the service's sheet, or a line of text without a service, saved under the id.
  \<open>sheet\<close> are the bytes the spreadsheet writer makes of the cells.\<close>

definition export_name :: "string \<Rightarrow> string" where
  "export_name i = ''exports/'' @ i @ ''.xlsx''"

definition save_export :: "FileClient option \<Rightarrow> string \<Rightarrow> string \<Rightarrow> (world, go_error + string) state" where
  "save_export st i data = (case st of
     None \<Rightarrow> State_Monad.return (Inr [])
   | Some c \<Rightarrow> FileClient_Save (Some c) (export_name i) data)"

definition export_file :: "(cell list list \<Rightarrow> string) \<Rightarrow> world Service option \<Rightarrow> FileClient option \<Rightarrow>
    string \<Rightarrow> (world, go_error + string) state" where
  "export_file sheet sv st i = (case sv of
     Some s \<Rightarrow> do {
       r \<leftarrow> ExportResultsXLS s i 0;
       (case r of
          Inl err \<Rightarrow> State_Monad.return (Inl err)
        | Inr None \<Rightarrow> State_Monad.return (Inr [])
        | Inr (Some cells) \<Rightarrow> save_export st i (sheet cells))
     }
   | None \<Rightarrow> save_export st i (''export for batch '' @ i))"

definition finish_export :: "int \<Rightarrow> string \<Rightarrow> go_error + string \<Rightarrow> 'z ExportManager_scheme \<Rightarrow>
    'z ExportManager_scheme" where
  "finish_export t i out m = m\<lparr>em_results := (em_results m)(i := map_option (\<lambda>r. (case out of
       Inl err \<Rightarrow> r\<lparr>xr_Status := StatusFailed, xr_Error := err_text err, xr_UpdatedAt := t\<rparr>
     | Inr sid \<Rightarrow> r\<lparr>xr_Status := StatusDone, xr_StorageID := sid, xr_UpdatedAt := t\<rparr>)) (em_results m i))\<rparr>"

text \<open>A whole round of the worker on the process's manager, and the rounds that empty a queue nobody
  adds to.\<close>

definition in_exports :: "(ExportManager \<Rightarrow> 'a \<times> ExportManager) \<Rightarrow> (world, 'a) state" where
  "in_exports f = do {
     w \<leftarrow> State_Monad.get;
     State_Monad.set (w\<lparr>wExports := snd (f (wExports w))\<rparr>);
     State_Monad.return (fst (f (wExports w)))
   }"

definition worker_round :: "env \<Rightarrow> (cell list list \<Rightarrow> string) \<Rightarrow> world Service option \<Rightarrow>
    FileClient option \<Rightarrow> (world, unit) state" where
  "worker_round e sheet sv st = do {
     t \<leftarrow> Rt_Now (runtime_of e);
     x \<leftarrow> in_exports (take_export t);
     (case x of
        None \<Rightarrow> State_Monad.return ()
      | Some i \<Rightarrow> do {
          out \<leftarrow> export_file sheet sv st i;
          t' \<leftarrow> Rt_Now (runtime_of e);
          in_exports (\<lambda>m. ((), finish_export t' i out m))
        })
   }"

primrec worker_rounds :: "env \<Rightarrow> (cell list list \<Rightarrow> string) \<Rightarrow> world Service option \<Rightarrow>
    FileClient option \<Rightarrow> nat \<Rightarrow> (world, unit) state" where
  "worker_rounds e sheet sv st 0 = State_Monad.return ()"
| "worker_rounds e sheet sv st (Suc n) = do { worker_round e sheet sv st; worker_rounds e sheet sv st n }"

section \<open>Interleaving\<close>

text \<open>\<open>xs_sending\<close> are the ids registered by goroutines that have not offered them yet, and
  \<open>xs_working\<close> is the export the worker produces.\<close>

record export_system = ExportManager +
  xs_sending :: "string list"
  xs_working :: "string option"

definition start_system :: "nat \<Rightarrow> export_system" where
  "start_system buf = \<lparr>em_buf = buf, em_queue = [], em_results = Map.empty, xs_sending = [], xs_working = None\<rparr>"

inductive estep :: "export_system \<Rightarrow> export_system \<Rightarrow> bool" where
  registered: "register t1 t2 i s = (None, s') \<Longrightarrow> estep s (s'\<lparr>xs_sending := i # xs_sending s\<rparr>)"
| refused: "register t1 t2 i s = (Some err, s') \<Longrightarrow> estep s s'"
| offered: "i \<in> set (xs_sending s) \<Longrightarrow> offer i s = (x, s') \<Longrightarrow>
    estep s (s'\<lparr>xs_sending := remove1 i (xs_sending s)\<rparr>)"
| taken: "xs_working s = None \<Longrightarrow> em_queue s \<noteq> [] \<Longrightarrow> take_export t s = (x, s') \<Longrightarrow>
    estep s (s'\<lparr>xs_working := x\<rparr>)"
| finished: "xs_working s = Some i \<Longrightarrow> estep s ((finish_export t i out s)\<lparr>xs_working := None\<rparr>)"

inductive_cases estepE: "estep s s'"

text \<open>Reachable from a fresh manager with room for at least one id.\<close>

inductive reachable :: "export_system \<Rightarrow> bool" where
  init: "0 < buf \<Longrightarrow> reachable (start_system buf)"
| step: "reachable s \<Longrightarrow> estep s s' \<Longrightarrow> reachable s'"

section \<open>The invariant\<close>

definition status_of :: "'z ExportManager_scheme \<Rightarrow> string \<Rightarrow> ExportStatus option" where
  "status_of s i = map_option xr_Status (em_results s i)"

definition in_flight :: "export_system \<Rightarrow> string list" where
  "in_flight s = em_queue s @ xs_sending s"

text \<open>What an entry says: its id, its status, and a storage id or an error only of its outcome.\<close>

definition entry_ok :: "string \<Rightarrow> ExportResult \<Rightarrow> bool" where
  "entry_ok i r \<longleftrightarrow> xr_ID r = i \<and> xr_Status r \<in> {StatusPending, StatusRunning, StatusDone, StatusFailed} \<and>
     (xr_StorageID r \<noteq> [] \<longrightarrow> xr_Status r = StatusDone) \<and> (xr_Error r \<noteq> [] \<longrightarrow> xr_Status r = StatusFailed)"

definition export_ok :: "export_system \<Rightarrow> bool" where
  "export_ok s \<longleftrightarrow> 0 < em_buf s \<and> length (em_queue s) \<le> em_buf s \<and> distinct (in_flight s) \<and>
     (\<forall>i \<in> set (in_flight s). status_of s i = Some StatusPending) \<and>
     (\<forall>i. status_of s i = Some StatusRunning \<longleftrightarrow> xs_working s = Some i) \<and>
     (\<forall>i r. em_results s i = Some r \<longrightarrow> entry_ok i r)"

lemmas export_op_defs = register_def offer_def take_export_def mark_running_def finish_export_def

lemma export_ok_start: "0 < buf \<Longrightarrow> export_ok (start_system buf)"
  by (simp add: export_ok_def start_system_def in_flight_def status_of_def)

lemma export_ok_known: "export_ok s \<Longrightarrow> i \<in> set (in_flight s) \<Longrightarrow>
    \<exists>r. em_results s i = Some r \<and> xr_Status r = StatusPending \<and> entry_ok i r"
  by (auto simp: export_ok_def status_of_def)

lemma status_of_fields [simp]:
  "status_of (s\<lparr>em_results := (em_results s)(i \<mapsto> r)\<rparr>) = (status_of s)(i \<mapsto> xr_Status r)"
  "status_of (s\<lparr>em_queue := q\<rparr>) = status_of s"
  "status_of (t\<lparr>xs_sending := q\<rparr>) = status_of t" "status_of (t\<lparr>xs_working := x\<rparr>) = status_of t"
  by (auto simp: status_of_def fun_eq_iff)

lemma status_of_None: "em_results s i = None \<longleftrightarrow> status_of s i = None"
  by (simp add: status_of_def)

text \<open>What one step does to the statuses, and the entries it writes.\<close>

lemma register_ok: "register t1 t2 i s = (None, s') \<Longrightarrow> status_of s i = None \<and>
    s' = s\<lparr>em_results := (em_results s)(i \<mapsto> \<lparr>xr_ID = i, xr_Status = StatusPending, xr_StorageID = [],
      xr_Error = [], xr_CreatedAt = t1, xr_UpdatedAt = t2\<rparr>)\<rparr>"
  by (auto simp: register_def status_of_def split: if_splits)

lemma register_refused: "register t1 t2 i s = (Some err, s') \<Longrightarrow> s' = s \<and> status_of s i \<noteq> None"
  by (auto simp: register_def status_of_def split: if_splits)

lemma offer_cases: "offer i s = (x, s') \<Longrightarrow>
    s' = (if length (em_queue s) < em_buf s then s\<lparr>em_queue := em_queue s @ [i]\<rparr> else s)"
  by (auto simp: offer_def)

lemma take_known:
  "em_queue s = i # q \<Longrightarrow> em_results s i = Some r \<Longrightarrow> take_export t s =
    (Some i, s\<lparr>em_queue := q, em_results := (em_results s)(i \<mapsto> r\<lparr>xr_Status := StatusRunning, xr_UpdatedAt := t\<rparr>)\<rparr>)"
  by (simp add: take_export_def mark_running_def)

definition outcome :: "int \<Rightarrow> go_error + string \<Rightarrow> ExportResult \<Rightarrow> ExportResult" where
  "outcome t out r = (case out of
     Inl err \<Rightarrow> r\<lparr>xr_Status := StatusFailed, xr_Error := err_text err, xr_UpdatedAt := t\<rparr>
   | Inr sid \<Rightarrow> r\<lparr>xr_Status := StatusDone, xr_StorageID := sid, xr_UpdatedAt := t\<rparr>)"

lemma finish_known: "em_results s i = Some r \<Longrightarrow>
    finish_export t i out s = s\<lparr>em_results := (em_results s)(i \<mapsto> outcome t out r)\<rparr>"
  by (auto simp: finish_export_def outcome_def)

lemma outcome_status: "xr_Status (outcome t out r) = (if isl out then StatusFailed else StatusDone)"
  by (cases out) (simp_all add: outcome_def)

lemma outcome_ok: "entry_ok i r \<Longrightarrow> xr_Status r = StatusRunning \<Longrightarrow> entry_ok i (outcome t out r)"
  using export_status_distinct
  by (cases out) (auto simp: entry_ok_def outcome_def simp del: export_status_distinct)

lemma running_ok: "entry_ok i r \<Longrightarrow> xr_Status r = StatusPending \<Longrightarrow>
    entry_ok i (r\<lparr>xr_Status := StatusRunning, xr_UpdatedAt := t\<rparr>)"
  using export_status_distinct
  by (auto simp: entry_ok_def simp del: export_status_distinct)

lemma pending_ok: "entry_ok i \<lparr>xr_ID = i, xr_Status = StatusPending, xr_StorageID = [],
    xr_Error = [], xr_CreatedAt = t1, xr_UpdatedAt = t2\<rparr>"
  by (simp add: entry_ok_def)

lemma export_ok_working: "export_ok s \<Longrightarrow> xs_working s = Some i \<longleftrightarrow> status_of s i = Some StatusRunning"
  by (simp add: export_ok_def)

lemmas pending_not_running = StatusPending_def StatusRunning_def StatusDone_def StatusFailed_def

lemma export_ok_step:
  assumes "estep s s'" "export_ok s"
  shows "export_ok s'"
  using assms(1)
proof cases
  case (registered t1 t2 i s1)
  note s1 = register_ok [OF registered(2)]
  with \<open>export_ok s\<close> have "i \<notin> set (in_flight s)" by (auto simp: export_ok_def)
  moreover from s1 export_ok_working [OF \<open>export_ok s\<close>] have "xs_working s \<noteq> Some i" by simp
  ultimately show ?thesis using registered(1) s1 \<open>export_ok s\<close> pending_ok
    by (auto simp: export_ok_def in_flight_def pending_not_running)
next
  case (refused t1 t2 i err)
  with \<open>export_ok s\<close> register_refused show ?thesis by blast
next
  case (offered i x)
  with \<open>export_ok s\<close> show ?thesis
    by (auto simp: offer_cases [OF offered(3)] export_ok_def in_flight_def)
next
  case (taken t x s1)
  then obtain i q where q: "em_queue s = i # q" by (cases "em_queue s") auto
  with export_ok_known [OF \<open>export_ok s\<close>, of i] obtain r where
    r: "em_results s i = Some r" "xr_Status r = StatusPending" "entry_ok i r" by (auto simp: in_flight_def)
  from taken(4) take_known [OF q r(1), of t] have "x = Some i" "s1 = s\<lparr>em_queue := q,
      em_results := (em_results s)(i \<mapsto> r\<lparr>xr_Status := StatusRunning, xr_UpdatedAt := t\<rparr>)\<rparr>"
    by simp_all
  with taken(1) have s': "s' = s\<lparr>em_queue := q, xs_working := Some i,
      em_results := (em_results s)(i \<mapsto> r\<lparr>xr_Status := StatusRunning, xr_UpdatedAt := t\<rparr>)\<rparr>"
    by simp
  have "status_of s' = (status_of s)(i \<mapsto> StatusRunning)"
    by (simp add: s' fun_eq_iff status_of_def)
  then show ?thesis
    using \<open>export_ok s\<close> running_ok [OF r(3,2)] taken(2) q
    by (auto simp: s' export_ok_def in_flight_def pending_not_running)
next
  case (finished i t out)
  with \<open>export_ok s\<close> have run: "status_of s i = Some StatusRunning" by (simp add: export_ok_def)
  then obtain r where r: "em_results s i = Some r" "xr_Status r = StatusRunning"
    by (auto simp: status_of_def)
  with \<open>export_ok s\<close> have "entry_ok i (outcome t out r)" by (auto simp: export_ok_def intro: outcome_ok)
  moreover from run export_ok_known [OF \<open>export_ok s\<close>, of i] have "i \<notin> set (in_flight s)"
    by (auto simp: status_of_def pending_not_running)
  ultimately show ?thesis
    using finished \<open>export_ok s\<close>
    by (auto simp: finish_known [OF r(1)] export_ok_def in_flight_def outcome_status pending_not_running)
qed

lemma export_ok_reachable: "reachable s \<Longrightarrow> export_ok s"
  by (induction rule: reachable.induct) (auto intro: export_ok_start export_ok_step)

section \<open>Properties\<close>

text \<open>The abstract machine of one export: unknown, pending, running, and one of the two outcomes,
  which are final.\<close>

definition export_next :: "ExportStatus option \<Rightarrow> ExportStatus option \<Rightarrow> bool" where
  "export_next a b \<longleftrightarrow> (a, b) \<in> {(None, Some StatusPending), (Some StatusPending, Some StatusRunning),
     (Some StatusRunning, Some StatusDone), (Some StatusRunning, Some StatusFailed)}"

text \<open>C14: in every reachable state of the exporter the queue is within its buffer, no id is queued or
  being offered twice, what is queued is pending, the running export is the worker's, and storage id
  and error are those of an outcome.\<close>

theorem export_invariant: "reachable s \<Longrightarrow> export_ok s"
  by (rule export_ok_reachable)

lemma reachable_example: "reachable ((snd (register 1 2 ''a'' (start_system 2)))\<lparr>xs_sending := [''a'']\<rparr>)"
proof -
  have "estep (start_system 2) ((snd (register 1 2 ''a'' (start_system 2)))\<lparr>xs_sending := ''a'' # []\<rparr>)"
    using estep.registered [of 1 2 "''a''" "start_system 2" "snd (register 1 2 ''a'' (start_system 2))"]
    by (simp add: register_def start_system_def)
  with reachable.init [of 2] show ?thesis by (auto intro: reachable.step)
qed

theorem export_invariant_witness:
  "export_ok ((snd (register 1 2 ''a'' (start_system 2)))\<lparr>xs_sending := [''a'']\<rparr>)"
  by (rule export_invariant) (rule reachable_example)

text \<open>C13: the exporter implements the abstract machine of each export: a step leaves the status of
  an id or moves it along the machine, and it does so for at most one id.\<close>

theorem export_refines:
  assumes "reachable s" "estep s s'"
  shows "\<exists>i. (status_of s' i = status_of s i \<or> export_next (status_of s i) (status_of s' i)) \<and>
    (\<forall>k. k \<noteq> i \<longrightarrow> status_of s' k = status_of s k)"
  using assms(2)
proof cases
  case (registered t1 t2 i)
  with register_ok [OF registered(2)] show ?thesis
    by (intro exI [of _ i]) (auto simp: export_next_def)
next
  case refused
  with register_refused show ?thesis by blast
next
  case (offered i)
  then show ?thesis by (auto simp: offer_cases [OF offered(3)])
next
  case (taken t x s1)
  then obtain i q where q: "em_queue s = i # q" by (cases "em_queue s") auto
  with export_ok_known [OF export_ok_reachable [OF assms(1)], of i] obtain r where
    r: "em_results s i = Some r" "xr_Status r = StatusPending" by (auto simp: in_flight_def)
  from taken(1,4) take_known [OF q r(1), of t]
  have "status_of s' = (status_of s)(i \<mapsto> StatusRunning)" by (auto simp: fun_eq_iff status_of_def)
  with r show ?thesis by (intro exI [of _ i]) (auto simp: export_next_def status_of_def)
next
  case (finished i t out)
  with export_ok_working [OF export_ok_reachable [OF assms(1)]] obtain r where
    r: "em_results s i = Some r" "xr_Status r = StatusRunning" by (auto simp: status_of_def)
  with finished show ?thesis
    by (intro exI [of _ i]) (auto simp: finish_known [OF r(1)] export_next_def outcome_status status_of_def)
qed

theorem export_refines_witness:
  "\<exists>i. (status_of ((snd (register 1 2 ''a'' (start_system 2)))\<lparr>xs_sending := [''a'']\<rparr>) i =
        status_of (start_system 2) i \<or>
      export_next (status_of (start_system 2) i)
        (status_of ((snd (register 1 2 ''a'' (start_system 2)))\<lparr>xs_sending := [''a'']\<rparr>) i)) \<and>
    (\<forall>k. k \<noteq> i \<longrightarrow> status_of ((snd (register 1 2 ''a'' (start_system 2)))\<lparr>xs_sending := [''a'']\<rparr>) k =
      status_of (start_system 2) k)"
  by (rule export_refines [OF reachable.init])
    (use estep.registered [of 1 2 "''a''" "start_system 2" "snd (register 1 2 ''a'' (start_system 2))"]
      in \<open>simp_all add: register_def start_system_def\<close>)

section \<open>Emptying the queue\<close>

definition enqueue_all :: "nat \<Rightarrow> (int \<times> int \<times> string) list \<Rightarrow> ExportManager" where
  "enqueue_all buf reqs = foldl (\<lambda>m (t1, t2, i). snd (Enqueue t1 t2 i m)) (NewManager buf) reqs"

text \<open>The first occurrence of each id.\<close>

definition first_seen :: "'a list \<Rightarrow> 'a list" where
  "first_seen xs = rev (remdups (rev xs))"

lemma first_seen_snoc [simp]:
  "first_seen [] = []" "first_seen (xs @ [x]) = first_seen xs @ (if x \<in> set xs then [] else [x])"
  by (simp_all add: first_seen_def)

lemma first_seen_set [simp]: "set (first_seen xs) = set xs" "distinct (first_seen xs)"
  by (simp_all add: first_seen_def)

abbreviation ids :: "(int \<times> int \<times> string) list \<Rightarrow> string list" where
  "ids reqs \<equiv> map (\<lambda>(t1, t2, i). i) reqs"

lemma Enqueue_state:
  "snd (Enqueue t1 t2 i m) = (if status_of m i \<noteq> None then m
     else if length (em_queue m) < em_buf m then (snd (register t1 t2 i m))\<lparr>em_queue := em_queue m @ [i]\<rparr>
     else snd (register t1 t2 i m))"
  by (auto simp: Enqueue_def offer_def register_def status_of_None)

lemma register_state:
  "em_buf (snd (register t1 t2 i m)) = em_buf m" "em_queue (snd (register t1 t2 i m)) = em_queue m"
  "status_of m i = None \<Longrightarrow> status_of (snd (register t1 t2 i m)) = (status_of m)(i \<mapsto> StatusPending)"
  by (auto simp: register_def status_of_None)

lemma enqueue_all_state:
  "em_buf (enqueue_all buf reqs) = buf \<and> em_queue (enqueue_all buf reqs) = take buf (first_seen (ids reqs)) \<and>
    status_of (enqueue_all buf reqs) = (\<lambda>i. if i \<in> set (ids reqs) then Some StatusPending else None)"
proof (induction reqs rule: rev_induct)
  case Nil
  then show ?case by (simp add: enqueue_all_def NewManager_def status_of_def)
next
  case (snoc x reqs)
  obtain t1 t2 i where x: "x = (t1, t2, i)" by (cases x)
  let ?m = "enqueue_all buf reqs"
  have m': "enqueue_all buf (reqs @ [x]) = snd (Enqueue t1 t2 i ?m)" by (simp add: enqueue_all_def x)
  from snoc have st: "em_buf ?m = buf" "em_queue ?m = take buf (first_seen (ids reqs))"
    "status_of ?m = (\<lambda>k. if k \<in> set (ids reqs) then Some StatusPending else None)" by simp_all
  then show ?case
    unfolding m' by (auto simp: Enqueue_state register_state x st fun_eq_iff)
qed

text \<open>An outcome the manager may record: that of producing the file at some moment.\<close>

definition finished_as :: "(cell list list \<Rightarrow> string) \<Rightarrow> world Service option \<Rightarrow> FileClient option \<Rightarrow>
    string \<Rightarrow> ExportResult \<Rightarrow> bool" where
  "finished_as sheet sv st i r \<longleftrightarrow> (\<exists>w. case result (export_file sheet sv st i) w of
     Inl err \<Rightarrow> xr_Status r = StatusFailed \<and> xr_Error r = err_text err
   | Inr sid \<Rightarrow> xr_Status r = StatusDone \<and> xr_StorageID r = sid)"

lemma run_in_exports [run_simps]:
  "result (in_exports f) w = fst (f (wExports w))"
  "after (in_exports f) w = w\<lparr>wExports := snd (f (wExports w))\<rparr>"
  by (simp_all add: in_exports_def)

lemma keeps_export_file:
  assumes "\<And>w n. v (w\<lparr>wTick := n\<rparr>) = v w" "\<And>w bs. v (w\<lparr>wJobs := bs\<rparr>) = v w"
  shows "keeps v (export_file sheet (Some (prod_service e brokers c val fc)) st i)"
  by (auto simp: export_file_def ExportResultsXLS_def prod_service_def save_export_def
      intro!: frame_intros job_ops_keep keeps_FileClient assms)

lemma now_exports [simp]: "wExports (after (Rt_Now (runtime_of e)) w) = wExports w"
  by (simp add: runtime_of_def run_simps)

text \<open>A round with an id at the head of the queue.\<close>

lemma worker_round_head:
  fixes sv :: "world Service option"
  assumes "em_queue (wExports w) = i # q" "em_results (wExports w) i = Some r"
    and "keeps wExports (export_file sheet sv st i)"
  obtains r' where "wExports (after (worker_round e sheet sv st) w) =
      (wExports w)\<lparr>em_queue := q, em_results := (em_results (wExports w))(i \<mapsto> r')\<rparr>"
    "finished_as sheet sv st i r'"
proof -
  let ?t = "result (Rt_Now (runtime_of e)) w"
  let ?r = "r\<lparr>xr_Status := StatusRunning, xr_UpdatedAt := ?t\<rparr>"
  let ?m = "(wExports w)\<lparr>em_queue := q, em_results := (em_results (wExports w))(i \<mapsto> ?r)\<rparr>"
  let ?w1 = "(after (Rt_Now (runtime_of e)) w)\<lparr>wExports := ?m\<rparr>"
  let ?out = "result (export_file sheet sv st i) ?w1"
  let ?w2 = "after (export_file sheet sv st i) ?w1"
  let ?r' = "outcome (result (Rt_Now (runtime_of e)) ?w2) ?out ?r"
  have "finished_as sheet sv st i ?r'"
    unfolding finished_as_def
    by (rule exI [of _ ?w1]) (simp add: outcome_def split: sum.split)
  moreover have "wExports ?w2 = ?m" using keepsD [OF assms(3), of ?w1] by simp
  then have "wExports (after (worker_round e sheet sv st) w) =
      (wExports w)\<lparr>em_queue := q, em_results := (em_results (wExports w))(i \<mapsto> ?r')\<rparr>"
    using take_known [OF assms(1,2), of ?t]
    by (simp add: worker_round_def run_simps finish_known [where r = ?r])
  ultimately show thesis using that by blast
qed

lemma worker_rounds_empty:
  fixes sv :: "world Service option"
  assumes "\<And>i. keeps wExports (export_file sheet sv st i)"
    and "distinct (em_queue (wExports w))" "\<And>i. i \<in> set (em_queue (wExports w)) \<Longrightarrow> em_results (wExports w) i \<noteq> None"
  shows "let m = wExports w; m' = wExports (after (worker_rounds e sheet sv st (length (em_queue m))) w) in
    em_queue m' = [] \<and> (\<forall>i \<in> set (em_queue m). \<exists>r. em_results m' i = Some r \<and> finished_as sheet sv st i r) \<and>
    (\<forall>i. i \<notin> set (em_queue m) \<longrightarrow> em_results m' i = em_results m i)"
  using assms(2,3)
proof (induction "em_queue (wExports w)" arbitrary: w)
  case Nil
  then show ?case by (simp flip: Nil.hyps)
next
  case (Cons i q)
  note hq = Cons.hyps(2) [symmetric]
  from Cons.prems(2) [of i] obtain r where r: "em_results (wExports w) i = Some r" by (auto simp: hq)
  obtain r' where rnd: "wExports (after (worker_round e sheet sv st) w) =
      (wExports w)\<lparr>em_queue := q, em_results := (em_results (wExports w))(i \<mapsto> r')\<rparr>"
    and fin: "finished_as sheet sv st i r'"
    using worker_round_head [OF hq r assms(1)] by metis
  let ?w = "after (worker_round e sheet sv st) w"
  from Cons.prems(1) have dist: "distinct (em_queue (wExports ?w))" "i \<notin> set q" by (simp_all add: hq rnd)
  have known: "em_results (wExports ?w) k \<noteq> None" if "k \<in> set (em_queue (wExports ?w))" for k
    using Cons.prems(2) [of k] that by (simp add: hq rnd)
  have "q = em_queue (wExports ?w)" by (simp add: rnd)
  from Cons.hyps(1) [OF this dist(1) known] dist(2) fin show ?case
    by (auto simp: hq rnd Let_def)
qed

text \<open>C12: after any requests, running the worker once per queued id finishes exactly the exports the
  queue accepted, each with the outcome of producing its file, and empties the queue; those are the
  first distinct ids up to the size of the buffer.  Every other requested export stays pending.\<close>

theorem exports_finish:
  "let sv = Some (prod_service e brokers c v fc); m = enqueue_all buf reqs;
      m' = wExports (after (worker_rounds e sheet sv fc (length (em_queue m))) (w\<lparr>wExports := m\<rparr>))
    in em_queue m' = [] \<and>
      (\<forall>i. if i \<in> set (take buf (first_seen (ids reqs)))
        then (case Get i m' of Some r \<Rightarrow> finished_as sheet sv fc i r | None \<Rightarrow> False)
        else if i \<in> set (ids reqs) then status_of m' i = Some StatusPending
        else Get i m' = None)"
proof -
  let ?sv = "Some (prod_service e brokers c v fc)" and ?w = "w\<lparr>wExports := enqueue_all buf reqs\<rparr>"
  note st = enqueue_all_state [of buf reqs]
  then have q: "em_queue (wExports ?w) = take buf (first_seen (ids reqs))" by simp
  have known: "em_results (wExports ?w) i \<noteq> None" if "i \<in> set (em_queue (wExports ?w))" for i
  proof -
    from that have "i \<in> set (ids reqs)" by (metis q in_set_takeD first_seen_set(1))
    with st show ?thesis by (auto simp: status_of_None)
  qed
  have "distinct (em_queue (wExports ?w))" by (subst q) simp
  note fin = worker_rounds_empty [where sheet = sheet and sv = ?sv and st = fc and e = e, OF keeps_export_file this known]
  define m' where "m' = wExports (after (worker_rounds e sheet ?sv fc (length (em_queue (wExports ?w)))) ?w)"
  note all = fin [unfolded Let_def, folded m'_def, unfolded q]
  then have fin': "em_queue m' = []"
    "\<And>i. i \<in> set (take buf (first_seen (ids reqs))) \<Longrightarrow> \<exists>r. em_results m' i = Some r \<and> finished_as sheet ?sv fc i r"
    "\<And>i. i \<notin> set (take buf (first_seen (ids reqs))) \<Longrightarrow> em_results m' i = em_results (enqueue_all buf reqs) i"
    by simp_all
  have "if i \<in> set (take buf (first_seen (ids reqs)))
      then (case Get i m' of Some r \<Rightarrow> finished_as sheet ?sv fc i r | None \<Rightarrow> False)
      else if i \<in> set (ids reqs) then status_of m' i = Some StatusPending else Get i m' = None" for i
  proof (cases "i \<in> set (take buf (first_seen (ids reqs)))")
    case True
    from fin'(2) [OF True] True show ?thesis by (auto simp: Get_def)
  next
    case False
    have "map_option xr_Status (em_results (enqueue_all buf reqs) i) =
        (if i \<in> set (ids reqs) then Some StatusPending else None)"
      using st by (simp add: status_of_def fun_eq_iff)
    with fin'(3) [OF False] False show ?thesis by (auto simp: Get_def status_of_def)
  qed
  note key = this
  have m': "wExports (after (worker_rounds e sheet ?sv fc (length (em_queue (enqueue_all buf reqs)))) ?w) = m'"
    by (simp add: m'_def)
  show ?thesis unfolding Let_def m' by (intro conjI allI fin'(1) key)
qed

section \<open>Exports the queue refuses\<close>

definition lost :: "string \<Rightarrow> export_system \<Rightarrow> bool" where
  "lost i s \<longleftrightarrow> export_ok s \<and> status_of s i = Some StatusPending \<and> i \<notin> set (in_flight s)"

lemma lost_step:
  assumes "estep s s'" "lost i s"
  shows "lost i s'"
proof -
  from assms have ok: "export_ok s'" and st: "status_of s i = Some StatusPending"
    and out: "i \<notin> set (em_queue s)" "i \<notin> set (xs_sending s)"
    by (auto simp: lost_def in_flight_def intro: export_ok_step)
  from assms(1) have "status_of s' i = Some StatusPending \<and> i \<notin> set (em_queue s') \<and> i \<notin> set (xs_sending s')"
  proof cases
    case (registered t1 t2 k s1)
    with register_ok [OF registered(2)] st out show ?thesis by auto
  next
    case refused
    with register_refused st out show ?thesis by blast
  next
    case (offered k)
    then show ?thesis using st out by (auto simp: offer_cases [OF offered(3)] dest: notin_set_remove1)
  next
    case (taken t x s1)
    then obtain k q where q: "em_queue s = k # q" by (cases "em_queue s") auto
    with assms(2) export_ok_known [of s k] obtain r where r: "em_results s k = Some r"
      by (auto simp: lost_def in_flight_def)
    from q out have "k \<noteq> i" "i \<notin> set q" by auto
    with taken(1,4) take_known [OF q r, of t] st out show ?thesis by (auto simp: status_of_def)
  next
    case (finished k t out)
    with st assms(2) have "k \<noteq> i"
      using export_ok_working [of s i] by (auto simp: lost_def pending_not_running)
    with finished st out show ?thesis by (auto simp: finish_export_def status_of_def)
  qed
  with ok show ?thesis by (simp add: lost_def in_flight_def)
qed

text \<open>An export refused because the queue is full is never produced: whatever the requests and the
  worker do after, it stays pending and not queued, and every further request for it is refused as a
  duplicate.\<close>

theorem refused_stays_pending:
  assumes "reachable s" "i \<in> set (xs_sending s)" "offer i s = (Some err, s1)"
    and "estep\<^sup>*\<^sup>* (s1\<lparr>xs_sending := remove1 i (xs_sending s)\<rparr>) s2"
  shows "status_of s2 i = Some StatusPending \<and> i \<notin> set (em_queue s2) \<and>
    fst (Enqueue t1 t2 i s2) = Some (ErrMsg ''export already exists'')"
proof -
  from assms(3) have s1: "s1 = s" by (auto simp: offer_def split: if_splits)
  note ok = export_ok_reachable [OF assms(1)]
  from ok assms(2) have "distinct (em_queue s @ xs_sending s)" "status_of s i = Some StatusPending"
    by (auto simp: export_ok_def in_flight_def)
  moreover have "export_ok (s\<lparr>xs_sending := remove1 i (xs_sending s)\<rparr>)"
    using export_ok_step [OF estep.offered [OF assms(2,3)] ok] by (simp add: s1)
  ultimately have "lost i (s1\<lparr>xs_sending := remove1 i (xs_sending s)\<rparr>)"
    using assms(2) by (auto simp: lost_def in_flight_def s1)
  with assms(4) have "lost i s2" by (induction rule: rtranclp_induct) (auto intro: lost_step)
  then show ?thesis
    by (auto simp: lost_def in_flight_def Enqueue_def register_def status_of_def)
qed

text \<open>A manager whose only place is taken.\<close>

definition full_system :: export_system where
  "full_system = (let s1 = snd (register 1 2 ''a'' (start_system 1)); s2 = snd (offer ''a'' s1);
     s3 = snd (register 3 4 ''b'' s2) in s3\<lparr>xs_sending := [''b'']\<rparr>)"

lemma full_system_reachable: "reachable full_system"
proof -
  let ?s1 = "(snd (register 1 2 ''a'' (start_system 1)))\<lparr>xs_sending := [''a'']\<rparr>"
  let ?s2 = "(snd (offer ''a'' ?s1))\<lparr>xs_sending := []\<rparr>"
  have "reachable ?s1"
    using reachable.step [OF reachable.init [of 1] estep.registered [of 1 2 "''a''" "start_system 1"]]
    by (simp add: register_def start_system_def)
  then have "reachable ?s2"
    using reachable.step [OF _ estep.offered [of "''a''" ?s1 None]]
    by (simp add: register_def offer_def start_system_def)
  from reachable.step [OF this estep.registered [of 3 4 "''b''" ?s2]] show ?thesis
    by (simp add: full_system_def register_def offer_def start_system_def Let_def)
qed

theorem refused_stays_pending_witness:
  "status_of (full_system\<lparr>xs_sending := []\<rparr>) ''b'' = Some StatusPending \<and>
    ''b'' \<notin> set (em_queue (full_system\<lparr>xs_sending := []\<rparr>)) \<and>
    fst (Enqueue 5 6 ''b'' (full_system\<lparr>xs_sending := []\<rparr>)) = Some (ErrMsg ''export already exists'')"
  by (rule refused_stays_pending [OF full_system_reachable, where ?s1.0 = full_system])
    (simp_all add: full_system_def register_def offer_def start_system_def Let_def)

end
