(* ===== verification/Http.thy ===== *)
theory Http
  imports Exporter
begin

text \<open>
  The HTTP layer's values, shared by the handlers: what a handler reads of a request, the responses
  it writes (\<open>internal/transport/http/apperror\<close>), the dependencies of \<open>di.Deps\<close>, and the helpers
  at the top of \<open>handlers/batch.go\<close>.  Gin itself is third-party: a request is what its accessors
  return, and a panic is answered by its recovery.
\<close>

section \<open>Values and responses\<close>

text \<open>A value handed to \<open>c.JSON\<close>.  \<open>GTime\<close> is an instant written in RFC 3339 and \<open>GStamp\<close> one
  written by \<open>time.Time\<close>'s own encoding; a \<open>gin.H\<close> is an association list.\<close>

datatype gval =
    GStr string
  | GInt int
  | GFloat rat
  | GBool bool
  | GTime int
  | GStamp int
  | GArr "gval list"
  | GH "(string \<times> gval) list"

text \<open>\<open>Json\<close>: status and body.  \<open>Xlsx\<close>: file name, sheet and cells.  \<open>Stream\<close>: file name, bytes, and
  what follows them when the copy broke off.\<close>

datatype response =
    Json int gval
  | Xlsx string string "cell list list"
  | Stream string string "gval option"

definition status_code :: "response \<Rightarrow> int" where
  "status_code r = (case r of Json st _ \<Rightarrow> st | _ \<Rightarrow> 200)"

definition error_body :: "string \<Rightarrow> string \<Rightarrow> gval option \<Rightarrow> gval" where
  "error_body code message details = GH ([(''code'', GStr code), (''message'', GStr message)] @
     (case details of None \<Rightarrow> [] | Some d \<Rightarrow> [(''details'', d)]))"

definition WriteError :: "int \<Rightarrow> string \<Rightarrow> string \<Rightarrow> gval option \<Rightarrow> response" where
  "WriteError httpStatus code message details = Json httpStatus (error_body code message details)"

abbreviation fail_with :: "int \<Rightarrow> string \<Rightarrow> string \<Rightarrow> response" where
  "fail_with st code msg \<equiv> WriteError st code msg None"

text \<open>\<open>gin.Recovery\<close> answers a panic with a bare 500.\<close>

definition recovered :: "response go \<Rightarrow> response" where
  "recovered r = (case r of Ret x \<Rightarrow> x | Panic \<Rightarrow> Json 500 (GH []))"

definition go_bind :: "('w, 'a go) state \<Rightarrow> ('a \<Rightarrow> ('w, 'b go) state) \<Rightarrow> ('w, 'b go) state" where
  "go_bind m f = do { x \<leftarrow> m; (case x of Ret y \<Rightarrow> f y | Panic \<Rightarrow> State_Monad.return Panic) }"

abbreviation respond :: "response \<Rightarrow> ('w, response go) state" where
  "respond r \<equiv> State_Monad.return (Ret r)"

lemma keeps_go_bind [frame_intros]:
  "keeps v m \<Longrightarrow> (\<And>x. keeps v (f x)) \<Longrightarrow> keeps v (go_bind m f)"
  unfolding go_bind_def by (intro frame_intros)

lemma run_go_bind [run_simps]:
  "result (go_bind m f) w = (case result m w of Ret y \<Rightarrow> result (f y) (after m w) | Panic \<Rightarrow> Panic)"
  "after (go_bind m f) w = (case result m w of Ret y \<Rightarrow> after (f y) (after m w) | Panic \<Rightarrow> after m w)"
  by (simp_all add: go_bind_def split: go.split)

section \<open>Requests\<close>

text \<open>\<open>c.Param\<close> and \<open>c.Query\<close> return the empty string for what is absent.  The body is read by
  \<open>ShouldBindJSON\<close>; \<open>rq_invalid\<close> is the text of the validator's error.\<close>

record request =
  rq_param :: "string \<Rightarrow> string"
  rq_query :: "string \<Rightarrow> string"
  rq_body :: string
  rq_invalid :: string

definition bad_body :: "request \<Rightarrow> response" where
  "bad_body rq = WriteError 400 ''VALIDATION_ERROR'' ''invalid body''
     (Some (GH [(''details'', GStr (rq_invalid rq))]))"

definition ShouldBindJSON :: "(string \<Rightarrow> json \<Rightarrow> 'r \<Rightarrow> 'r option) \<Rightarrow> 'r \<Rightarrow> ('r \<Rightarrow> bool) \<Rightarrow> request \<Rightarrow> 'r option"
  where
  "ShouldBindJSON dec zero valid rq = (case json_first (rq_body rq) of
     None \<Rightarrow> None
   | Some j \<Rightarrow> (case dec_struct dec j zero of
       None \<Rightarrow> None | Some r \<Rightarrow> if valid r then Some r else None))"

definition query_positive :: "request \<Rightarrow> string \<Rightarrow> int \<Rightarrow> int" where
  "query_positive rq k d = (if rq_query rq k \<noteq> []
     then (case Atoi (rq_query rq k) of Some v \<Rightarrow> if 0 < v then v else d | None \<Rightarrow> d) else d)"

definition parseLimitParam :: "request \<Rightarrow> int" where
  "parseLimitParam rq = query_positive rq ''limit'' 0"

definition parseOptionalTime :: "(string \<Rightarrow> int option) \<Rightarrow> string \<Rightarrow> int option" where
  "parseOptionalTime ptime s = (if s = [] then None else ptime s)"

section \<open>Dependencies\<close>

record 'w StorageClient =
  Sto_Save :: "string \<Rightarrow> string \<Rightarrow> ('w, go_error + string) state"
  Sto_Presign :: "string \<Rightarrow> int \<Rightarrow> ('w, go_error + string) state"
  Sto_Get :: "string \<Rightarrow> ('w, go_error + reader) state"

record 'w ManagerAPI =
  Exp_Enqueue :: "string \<Rightarrow> ('w, go_error option) state"
  Exp_Get :: "string \<Rightarrow> ('w, ExportResult option) state"

record 'w Deps =
  dp_BatchRepo :: "'w BatchRepository option"
  dp_JobRepo :: "'w JobRepository option"
  dp_ValidationRepo :: "'w ValidationRepository option"
  dp_BatchManager :: "'w BatchManager option"
  dp_BillingClient :: "'w BillingClient option"
  dp_Producer :: "'w KafkaProducer option"
  dp_Service :: "'w Service option"
  dp_Storage :: "'w StorageClient option"
  dp_ExportManager :: "'w ManagerAPI option"

text \<open>A field of a pointer that may be nil.\<close>

definition dep :: "('w Deps \<Rightarrow> 'a option) \<Rightarrow> 'w Deps option \<Rightarrow> 'a option" where
  "dep f d = (case d of None \<Rightarrow> None | Some x \<Rightarrow> f x)"

lemma dep_simps [simp]: "dep f None = None" "dep f (Some d) = f d"
  by (simp_all add: dep_def)

section \<open>Helpers\<close>

definition getBulkJobTopic :: "'w Runtime \<Rightarrow> string" where
  "getBulkJobTopic rt = (if Rt_Getenv rt ''KAFKA_TOPIC_BULK_JOB'' = [] then ''bulk.job''
     else Rt_Getenv rt ''KAFKA_TOPIC_BULK_JOB'')"

definition fetch_failed :: response where
  "fetch_failed = fail_with 500 ''SERVICE_ERROR'' ''failed to fetch batch''"

definition batch_not_found :: response where
  "batch_not_found = fail_with 404 ''BATCH_NOT_FOUND'' ''batch not found''"

definition no_repo :: response where
  "no_repo = fail_with 404 ''MISSING_DEPENDENCY'' ''batch repo not configured''"

text \<open>\<open>requireBatch\<close>: the batch, or the response that was written instead.\<close>

definition requireBatch :: "'w Deps option \<Rightarrow> string \<Rightarrow> ('w, response + batch) state" where
  "requireBatch deps i = (case dep dp_BatchRepo deps of
     None \<Rightarrow> State_Monad.return (Inl no_repo)
   | Some r \<Rightarrow> do {
       x \<leftarrow> BatchRepo_GetByID r i;
       State_Monad.return (case x of
          Inl err \<Rightarrow> Inl fetch_failed
        | Inr None \<Rightarrow> Inl batch_not_found
        | Inr (Some b) \<Rightarrow> Inr b)
     })"

text \<open>Jobs or results of a batch whose error the caller drops.\<close>

definition jobs_or_none :: "'w JobRepository \<Rightarrow> string \<Rightarrow> ('w, job list) state" where
  "jobs_or_none jr i = do {
     x \<leftarrow> JobRepo_GetByBatch jr i;
     State_Monad.return (case x of Inl err \<Rightarrow> [] | Inr js \<Rightarrow> js)
   }"

definition results_or_none :: "'w JobRepository \<Rightarrow> string \<Rightarrow> ('w, JobResult list) state" where
  "results_or_none jr i = do {
     x \<leftarrow> JobRepo_GetResultsByBatch jr i;
     State_Monad.return (case x of Inl err \<Rightarrow> [] | Inr rs \<Rightarrow> rs)
   }"

text \<open>\<open>t.UTC().Format(time.RFC3339)\<close>, empty for the zero time.\<close>

definition time_text :: "int \<Rightarrow> gval" where
  "time_text t = (if t = 0 then GStr [] else GTime t)"

end
