(* ===== verification/Handlers.thy ===== *)
theory Handlers
  imports Http
begin

text \<open>
  The handlers of \<open>internal/transport/http/handlers\<close> on batches: \<open>batch.go\<close>, \<open>admin.go\<close>,
  \<open>export.go\<close>, \<open>export_async.go\<close> and \<open>template.go\<close>.  A handler is a computation that returns the
  response it writes; logging is left out.  \<open>ptime\<close> reads an RFC 3339 time, and an instant counts
  nanoseconds from the zero time.
\<close>

section \<open>Status of a batch\<close>

record status_view =
  sv_total :: int
  sv_completed :: int
  sv_failed :: int
  sv_created :: int
  sv_updated :: int
  sv_status :: string

definition batch_view :: "batch \<Rightarrow> status_view" where
  "batch_view b = \<lparr>sv_total = b_TotalRows b, sv_completed = b_CompletedCount b,
     sv_failed = b_FailedCount b, sv_created = b_CreatedAt b,
     sv_updated = (case b_CompletedAt b of Some t \<Rightarrow> t | None \<Rightarrow> b_CreatedAt b),
     sv_status = (if b_Status b \<noteq> [] then b_Status b else BatchStatusPending)\<rparr>"

definition no_view :: status_view where
  "no_view = \<lparr>sv_total = 0, sv_completed = 0, sv_failed = 0, sv_created = 0, sv_updated = 0,
     sv_status = BatchStatusPending\<rparr>"

definition load_view :: "'w Deps \<Rightarrow> string \<Rightarrow> ('w, response + status_view) state" where
  "load_view d i = (case dp_BatchRepo d of
     None \<Rightarrow> State_Monad.return (Inr no_view)
   | Some r \<Rightarrow> do {
       x \<leftarrow> BatchRepo_GetByID r i;
       State_Monad.return (case x of
          Inl err \<Rightarrow> Inl fetch_failed
        | Inr None \<Rightarrow> Inl batch_not_found
        | Inr (Some b) \<Rightarrow> Inr (batch_view b))
     })"

text \<open>The fallback on the jobs when the batch says nothing about its rows.\<close>

definition count_status :: "string \<Rightarrow> job list \<Rightarrow> int" where
  "count_status s js = int (length (filter (\<lambda>j. j_Status j = s) js))"

definition infer_view :: "job list \<Rightarrow> status_view \<Rightarrow> status_view" where
  "infer_view js v = (let v = v\<lparr>sv_total := int (length js)\<rparr> in
     if sv_completed v = 0 \<and> sv_failed v = 0
     then v\<lparr>sv_completed := count_status JobStatusCompleted js, sv_failed := count_status JobStatusFailed js\<rparr>
     else v)"

definition infer_from_jobs :: "'w Deps \<Rightarrow> string \<Rightarrow> status_view \<Rightarrow> ('w, status_view) state" where
  "infer_from_jobs d i v = (case dp_JobRepo d of
     None \<Rightarrow> State_Monad.return v
   | Some jr \<Rightarrow> if sv_total v \<noteq> 0 then State_Monad.return v
       else do {
         x \<leftarrow> JobRepo_GetByBatch jr i;
         State_Monad.return (case x of Inl err \<Rightarrow> v | Inr js \<Rightarrow> infer_view js v)
       })"

definition view_pending :: "status_view \<Rightarrow> int" where
  "view_pending v = (let pending = sv_total v - sv_completed v - sv_failed v
     in if pending < 0 then 0 else pending)"

definition view_percent :: "status_view \<Rightarrow> rat" where
  "view_percent v = (if 0 < sv_total v
     then of_int (sv_completed v) * 100 / of_int (sv_total v) else 0)"

definition result_ok :: "JobResult \<Rightarrow> bool" where
  "result_ok r \<longleftrightarrow> r_ErrorCode r = [] \<and> r_ErrorMessage r = []"

definition success_item :: "JobResult \<Rightarrow> gval" where
  "success_item r = (case ParseBarcodeURLs (r_BarcodeURLs r) of (pdf, code) \<Rightarrow>
     GH [(''row'', GInt (r_RowNumber r)), (''buildId'', GStr (r_BuildID r)),
       (''barcodeUrls'', GH [(''pdf417'', GStr pdf), (''code128'', GStr code)])])"

definition failure_item :: "JobResult \<Rightarrow> gval" where
  "failure_item r = GH [(''row'', GInt (r_RowNumber r)),
     (''error'', GH [(''code'', GStr (r_ErrorCode r)), (''message'', GStr (r_ErrorMessage r))])]"

definition status_body :: "string \<Rightarrow> status_view \<Rightarrow> JobResult list \<Rightarrow> gval" where
  "status_body i v rs = GH [
     (''batchId'', GStr i),
     (''status'', GStr (sv_status v)),
     (''progress'', GH [(''total'', GInt (sv_total v)), (''completed'', GInt (sv_completed v)),
        (''failed'', GInt (sv_failed v)), (''pending'', GInt (view_pending v)),
        (''percentComplete'', GFloat (view_percent v))]),
     (''results'', GH [(''successful'', GArr (map success_item (filter result_ok rs))),
        (''failed'', GArr (map failure_item (filter (\<lambda>r. \<not> result_ok r) rs)))]),
     (''billing'', GH [(''charged'', GInt (sv_completed v)), (''refunded'', GInt (sv_failed v)),
        (''pending'', GInt (view_pending v))]),
     (''createdAt'', time_text (sv_created v)),
     (''updatedAt'', time_text (sv_updated v))]"

definition HandleBatchStatus :: "'w Deps option \<Rightarrow> request \<Rightarrow> ('w, response go) state" where
  "HandleBatchStatus deps rq = (case deps of
     None \<Rightarrow> State_Monad.return Panic
   | Some d \<Rightarrow> (let i = rq_param rq ''id'' in do {
       x \<leftarrow> load_view d i;
       (case x of
          Inl resp \<Rightarrow> respond resp
        | Inr v \<Rightarrow> do {
            v' \<leftarrow> infer_from_jobs d i v;
            rs \<leftarrow> (case dp_JobRepo d of None \<Rightarrow> State_Monad.return [] | Some jr \<Rightarrow> results_or_none jr i);
            respond (Json 200 (status_body i v' rs))
          })
     }))"

section \<open>Confirming\<close>

record ConfirmRequest =
  cq_Action :: string
  cq_Count :: "int option"

definition dec_int_ptr :: "json \<Rightarrow> int option \<Rightarrow> int option option" where
  "dec_int_ptr j cur = (case j of JNull \<Rightarrow> Some None
     | _ \<Rightarrow> map_option Some (dec_int j (case cur of Some n \<Rightarrow> n | None \<Rightarrow> 0)))"

definition confirm_step :: "string \<Rightarrow> json \<Rightarrow> ConfirmRequest \<Rightarrow> ConfirmRequest option" where
  "confirm_step k j q =
     (if k = ''action'' then map_option (\<lambda>x. q\<lparr>cq_Action := x\<rparr>) (dec_string j (cq_Action q))
      else if k = ''count'' then map_option (\<lambda>x. q\<lparr>cq_Count := x\<rparr>) (dec_int_ptr j (cq_Count q))
      else Some q)"

definition confirm_actions :: "string list" where
  "confirm_actions = [''generate_all'', ''generate_partial'', ''generate_valid'', ''cancel'']"

definition bind_confirm :: "request \<Rightarrow> ConfirmRequest option" where
  "bind_confirm = ShouldBindJSON confirm_step \<lparr>cq_Action = [], cq_Count = None\<rparr>
     (\<lambda>q. cq_Action q \<in> set confirm_actions)"

text \<open>The number of jobs an action asks for, None for an unsupported one.\<close>

definition confirm_count :: "'w Deps \<Rightarrow> string \<Rightarrow> ConfirmRequest \<Rightarrow> ('w, int option) state" where
  "confirm_count d i q =
     (if cq_Action q = ''generate_all''
      then (case dp_JobRepo d of
          None \<Rightarrow> State_Monad.return (Some 0)
        | Some jr \<Rightarrow> do { js \<leftarrow> jobs_or_none jr i; State_Monad.return (Some (int (length js))) })
      else if cq_Action q = ''generate_partial'' \<and> cq_Count q \<noteq> None
      then State_Monad.return (cq_Count q)
      else if cq_Action q = ''generate_valid''
      then (case dp_BatchRepo d of
          None \<Rightarrow> State_Monad.return (Some 0)
        | Some r \<Rightarrow> do {
            x \<leftarrow> BatchRepo_GetByID r i;
            State_Monad.return (Some (case x of Inr (Some b) \<Rightarrow> b_ValidRows b | _ \<Rightarrow> 0))
          })
      else State_Monad.return None)"

definition perJobSeconds :: int where "perJobSeconds = 3"

definition respondAcceptedProcessing :: "string \<Rightarrow> int \<Rightarrow> int \<Rightarrow> response" where
  "respondAcceptedProcessing i queued estimated = Json 202 (GH [(''success'', GBool True),
     (''batchId'', GStr i), (''status'', GStr BatchStatusProcessing), (''jobsQueued'', GInt queued),
     (''estimatedTimeSeconds'', GInt estimated)])"

definition accepted :: "string \<Rightarrow> int \<Rightarrow> response" where
  "accepted i queued = respondAcceptedProcessing i queued (queued * perJobSeconds)"

definition insufficient_funds :: response where
  "insufficient_funds = fail_with 402 ''INSUFFICIENT_FUNDS'' ''billing block failed''"

text \<open>The path without a service: block, mark as processing, publish up to \<open>count\<close> jobs.\<close>

definition fallback_msg :: "job \<Rightarrow> int \<Rightarrow> kafka_msg" where
  "fallback_msg j now = JobMsg \<lparr>je_jobId = j_ID j, je_batchId = j_BatchID j,
     je_rowNumber = j_RowNumber j, je_userId = Some [], je_buildId = None, je_revision = Some [],
     je_fields = Some [], je_billingPreApproved = Some False, je_transactionId = None,
     je_correlationId = Some (j_ID j), je_timestamp = Some now\<rparr>"

primrec fallback_jobs :: "'w Runtime \<Rightarrow> 'w JobRepository \<Rightarrow> 'w KafkaProducer \<Rightarrow> job list \<Rightarrow> int \<Rightarrow>
    ('w, int) state" where
  "fallback_jobs rt jr p [] queued = State_Monad.return queued"
| "fallback_jobs rt jr p (j # js) queued = do {
     now \<leftarrow> Rt_Now rt;
     _ \<leftarrow> Producer_Publish p (getBulkJobTopic rt) (fallback_msg j now);
     u \<leftarrow> JobRepo_UpdateStatus jr (j_ID j) JobStatusQueued;
     fallback_jobs rt jr p js (if u = None then queued + 1 else queued)
   }"

definition set_processing :: "'w Runtime \<Rightarrow> 'w BatchManager option \<Rightarrow> string \<Rightarrow> ('w, unit go) state" where
  "set_processing rt bm i = (case bm of
     None \<Rightarrow> State_Monad.return (Ret ())
   | Some m \<Rightarrow> go_bind (SetProcessing rt m i) (\<lambda>_. State_Monad.return (Ret ())))"

definition confirm_fallback :: "'w Runtime \<Rightarrow> 'w Deps \<Rightarrow> string \<Rightarrow> int \<Rightarrow> ('w, response go) state" where
  "confirm_fallback rt d i cnt = go_bind (set_processing rt (dp_BatchManager d) i) (\<lambda>_.
     (case (dp_JobRepo d, dp_Producer d) of
        (Some jr, Some p) \<Rightarrow> do {
          js \<leftarrow> jobs_or_none jr i;
          queued \<leftarrow> fallback_jobs rt jr p (take (nat cnt) js) 0;
          respond (accepted i queued)
        }
      | _ \<Rightarrow> respond (accepted i 0)))"

definition HandleConfirm :: "'w Runtime \<Rightarrow> 'w Deps option \<Rightarrow> request \<Rightarrow> ('w, response go) state" where
  "HandleConfirm rt deps rq = (case deps of
     None \<Rightarrow> respond (fail_with 500 ''SERVER_ERROR'' ''service unavailable'')
   | Some d \<Rightarrow> (let i = rq_param rq ''id'' in (case bind_confirm rq of
       None \<Rightarrow> respond (bad_body rq)
     | Some q \<Rightarrow> do {
         n \<leftarrow> confirm_count d i q;
         (case n of
            None \<Rightarrow> respond (fail_with 400 ''VALIDATION_ERROR'' ''unsupported action'')
          | Some cnt \<Rightarrow> (case dp_Service d of
              Some s \<Rightarrow> do {
                r \<leftarrow> ConfirmBatch rt s None None None i cnt;
                respond (case r of Inl err \<Rightarrow> insufficient_funds | Inr queued \<Rightarrow> accepted i queued)
              }
            | None \<Rightarrow> (case dp_BillingClient d of
                None \<Rightarrow> confirm_fallback rt d i cnt
              | Some c \<Rightarrow> do {
                  r \<leftarrow> Billing_BlockBatch c [] cnt i;
                  (case r of
                     Inl err \<Rightarrow> respond insufficient_funds
                   | Inr _ \<Rightarrow> confirm_fallback rt d i cnt)
                })))
       })))"

section \<open>Cancelling\<close>

definition cancelled_body :: "string \<Rightarrow> int \<Rightarrow> int \<Rightarrow> string list \<Rightarrow> response" where
  "cancelled_body i pending refunded txs = Json 200 (GH [(''success'', GBool True),
     (''batchId'', GStr i), (''status'', GStr ''cancelled''),
     (''refund'', GH [(''pending'', GInt pending), (''refunded'', GInt refunded),
        (''transactionIds'', GArr (map GStr txs))])])"

definition pending_jobs :: "'w Deps option \<Rightarrow> string \<Rightarrow> ('w, int) state" where
  "pending_jobs deps i = (case dep dp_JobRepo deps of
     None \<Rightarrow> State_Monad.return 0
   | Some jr \<Rightarrow> do {
       js \<leftarrow> jobs_or_none jr i;
       State_Monad.return (int (length (filter (\<lambda>j. job_active (j_Status j)) js)))
     })"

definition transactions_of :: "'w Deps option \<Rightarrow> string \<Rightarrow> ('w, string list) state" where
  "transactions_of deps i = (case dep dp_BatchRepo deps of
     None \<Rightarrow> State_Monad.return []
   | Some r \<Rightarrow> do {
       x \<leftarrow> BatchRepo_GetByID r i;
       State_Monad.return (case x of Inr (Some b) \<Rightarrow> b_BillingTransactionIDs b | _ \<Rightarrow> [])
     })"

definition HandleCancel :: "'w Runtime \<Rightarrow> 'w Deps option \<Rightarrow> request \<Rightarrow> ('w, response go) state" where
  "HandleCancel rt deps rq = (let i = rq_param rq ''id'' in do {
     txs \<leftarrow> transactions_of deps i;
     pending \<leftarrow> pending_jobs deps i;
     (case dep dp_BatchManager deps of
        None \<Rightarrow> respond (cancelled_body i 0 0 [])
      | Some m \<Rightarrow> go_bind (SetCancelled rt m i) (\<lambda>r. respond (case r of
            Inl err \<Rightarrow> fail_with 500 ''SERVICE_ERROR'' ''failed to cancel batch''
          | Inr refunded \<Rightarrow> cancelled_body i pending refunded txs)))
   })"

section \<open>Lists of batches\<close>

definition list_item :: "batch \<Rightarrow> gval" where
  "list_item b = GH ([(''batchId'', GStr (b_ID b)), (''status'', GStr (b_Status b)),
     (''totalJobs'', GInt (b_TotalRows b)), (''completedJobs'', GInt (b_CompletedCount b)),
     (''failedJobs'', GInt (b_FailedCount b)), (''createdAt'', GStamp (b_CreatedAt b))] @
     (case b_CompletedAt b of None \<Rightarrow> [] | Some t \<Rightarrow> [(''completedAt'', GStamp t)]))"

definition list_failed :: response where
  "list_failed = fail_with 500 ''SERVICE_ERROR'' ''failed to list batches''"

text \<open>The path parameter \<open>userId\<close> overrides the query parameter.\<close>

definition list_filter :: "(string \<Rightarrow> int option) \<Rightarrow> request \<Rightarrow> BatchFilter" where
  "list_filter ptime rq = (let q = rq_query rq in \<lparr>f_Status = q ''status'',
     f_From = parseOptionalTime ptime (q ''from''), f_To = parseOptionalTime ptime (q ''to''),
     f_Page = query_positive rq ''page'' 1, f_Limit = query_positive rq ''limit'' 20,
     f_UserID = (if rq_param rq ''userId'' \<noteq> [] then rq_param rq ''userId'' else q ''userId''),
     f_Revision = q ''revision'', f_SortBy = q ''sortBy'', f_SortDesc = (q ''order'' = ''desc''),
     f_Cursor = q ''cursor''\<rparr>)"

definition HandleListBatches :: "(string \<Rightarrow> int option) \<Rightarrow> 'w Deps option \<Rightarrow> request \<Rightarrow>
    ('w, response go) state" where
  "HandleListBatches ptime deps rq = (case deps of
     None \<Rightarrow> State_Monad.return Panic
   | Some d \<Rightarrow> (case dp_BatchRepo d of
       None \<Rightarrow> respond no_repo
     | Some r \<Rightarrow> (let f = list_filter ptime rq in do {
         x \<leftarrow> BatchRepo_List r f;
         respond (case x of
            Inl err \<Rightarrow> list_failed
          | Inr (bs, total_rows) \<Rightarrow> Json 200 (GH [(''data'', GArr (map list_item bs)),
              (''meta'', GH [(''page'', GInt (f_Page f)), (''limit'', GInt (f_Limit f)),
                 (''total'', GInt total_rows)])]))
       })))"

text \<open>The administration list has its own parameter names and neither sorting nor a cursor.\<close>

definition admin_filter :: "(string \<Rightarrow> int option) \<Rightarrow> request \<Rightarrow> BatchFilter" where
  "admin_filter ptime rq = (let q = rq_query rq in \<lparr>f_Status = q ''status'',
     f_From = parseOptionalTime ptime (q ''from''), f_To = parseOptionalTime ptime (q ''to''),
     f_Page = query_positive rq ''page'' 1, f_Limit = query_positive rq ''perPage'' 20,
     f_UserID = q ''userId'', f_Revision = q ''revision'', f_SortBy = [], f_SortDesc = False,
     f_Cursor = []\<rparr>)"

definition admin_item :: "batch \<Rightarrow> gval" where
  "admin_item b = GH [(''id'', GStr (b_ID b)), (''userId'', GStr (b_UserID b)),
     (''status'', GStr (b_Status b)), (''totalJobs'', GInt (b_TotalRows b)),
     (''completedJobs'', GInt (b_CompletedCount b)), (''failedJobs'', GInt (b_FailedCount b)),
     (''createdAt'', time_text (b_CreatedAt b))]"

definition HandleAdminListBatches :: "(string \<Rightarrow> int option) \<Rightarrow> 'w Deps option \<Rightarrow> request \<Rightarrow>
    ('w, response go) state" where
  "HandleAdminListBatches ptime deps rq = (case dep dp_BatchRepo deps of
     None \<Rightarrow> respond no_repo
   | Some r \<Rightarrow> (let f = admin_filter ptime rq in do {
       x \<leftarrow> BatchRepo_List r f;
       respond (case x of
          Inl err \<Rightarrow> list_failed
        | Inr (bs, total_rows) \<Rightarrow> Json 200 (GH [(''batches'', GArr (map admin_item bs)),
            (''pagination'', GH [(''page'', GInt (f_Page f)), (''perPage'', GInt (f_Limit f)),
               (''total'', GInt total_rows)])]))
     }))"

section \<open>Administration of one batch\<close>

definition results_map :: "JobResult list \<Rightarrow> (string \<times> string) list" where
  "results_map rs = fold (\<lambda>r m. if r_JobID r \<noteq> [] then AList.update (r_JobID r) (r_BuildID r) m else m) rs []"

definition admin_job :: "(string \<times> string) list \<Rightarrow> job \<Rightarrow> gval" where
  "admin_job m j = GH [(''id'', GStr (j_ID j)), (''status'', GStr (j_Status j)),
     (''buildId'', GStr (case map_of m (j_ID j) of Some v \<Rightarrow> v | None \<Rightarrow> [])),
     (''rowNumber'', GInt (j_RowNumber j))]"

definition admin_jobs :: "'w Deps option \<Rightarrow> string \<Rightarrow> ('w, gval list) state" where
  "admin_jobs deps i = (case dep dp_JobRepo deps of
     None \<Rightarrow> State_Monad.return []
   | Some jr \<Rightarrow> do {
       js \<leftarrow> jobs_or_none jr i;
       rs \<leftarrow> results_or_none jr i;
       State_Monad.return (map (admin_job (results_map rs)) js)
     })"

definition updated_text :: "batch \<Rightarrow> gval" where
  "updated_text b = (case b_CompletedAt b of
     Some t \<Rightarrow> if t \<noteq> 0 then GTime t else time_text (b_CreatedAt b)
   | None \<Rightarrow> time_text (b_CreatedAt b))"

definition HandleAdminGetBatch :: "'w Deps option \<Rightarrow> request \<Rightarrow> ('w, response go) state" where
  "HandleAdminGetBatch deps rq = (let i = rq_param rq ''id'' in do {
     x \<leftarrow> requireBatch deps i;
     (case x of
        Inl resp \<Rightarrow> respond resp
      | Inr b \<Rightarrow> do {
          js \<leftarrow> admin_jobs deps i;
          respond (Json 200 (GH [(''id'', GStr (b_ID b)), (''userId'', GStr (b_UserID b)),
            (''status'', GStr (b_Status b)), (''revision'', GStr (b_Revision b)),
            (''jobs'', GArr js), (''config'', GH [(''revision'', GStr (b_Revision b))]),
            (''createdAt'', time_text (b_CreatedAt b)), (''updatedAt'', updated_text b)]))
        })
   })"

text \<open>Restarting the failed jobs.\<close>

record RestartRequest =
  rr_RestartMode :: string
  rr_Force :: bool

definition restart_step :: "string \<Rightarrow> json \<Rightarrow> RestartRequest \<Rightarrow> RestartRequest option" where
  "restart_step k j q =
     (if k = ''restartmode''
      then map_option (\<lambda>x. q\<lparr>rr_RestartMode := x\<rparr>) (dec_string j (rr_RestartMode q))
      else if k = ''force'' then map_option (\<lambda>x. q\<lparr>rr_Force := x\<rparr>) (dec_bool j (rr_Force q))
      else Some q)"

definition bind_restart :: "request \<Rightarrow> RestartRequest option" where
  "bind_restart = ShouldBindJSON restart_step \<lparr>rr_RestartMode = [], rr_Force = False\<rparr>
     (\<lambda>q. rr_RestartMode q = ''failed_only'')"

definition restart_msg :: "job \<Rightarrow> kafka_msg" where
  "restart_msg j = JobMsg \<lparr>je_jobId = j_ID j, je_batchId = j_BatchID j, je_rowNumber = j_RowNumber j,
     je_userId = None, je_buildId = None, je_revision = None, je_fields = None,
     je_billingPreApproved = None, je_transactionId = None, je_correlationId = None,
     je_timestamp = None\<rparr>"

definition publish_restart :: "'w Runtime \<Rightarrow> 'w Deps \<Rightarrow> job \<Rightarrow> ('w, go_error option) state" where
  "publish_restart rt d j = (case dp_Producer d of
     None \<Rightarrow> State_Monad.return None
   | Some p \<Rightarrow> Producer_Publish p (getBulkJobTopic rt) (restart_msg j))"

text \<open>One job; the result is whether it counts as restarted.\<close>

definition restart_job :: "'w Runtime \<Rightarrow> 'w Deps \<Rightarrow> 'w JobRepository \<Rightarrow> job \<Rightarrow> ('w, bool) state" where
  "restart_job rt d jr j = (if j_Status j \<noteq> JobStatusFailed then State_Monad.return False
     else do {
       perr \<leftarrow> publish_restart rt d j;
       (case perr of
          Some err \<Rightarrow> State_Monad.return False
        | None \<Rightarrow> do {
            u \<leftarrow> JobRepo_UpdateStatus jr (j_ID j) JobStatusQueued;
            State_Monad.return (u = None)
          })
     })"

primrec restart_jobs :: "'w Runtime \<Rightarrow> 'w Deps \<Rightarrow> 'w JobRepository \<Rightarrow> job list \<Rightarrow> int \<times> int \<Rightarrow>
    ('w, int \<times> int) state" where
  "restart_jobs rt d jr [] n = State_Monad.return n"
| "restart_jobs rt d jr (j # js) n = do {
     ok \<leftarrow> restart_job rt d jr j;
     restart_jobs rt d jr js (if ok then (fst n + 1, snd n) else (fst n, snd n + 1))
   }"

definition HandleAdminRestartBatch :: "'w Runtime \<Rightarrow> 'w Deps option \<Rightarrow> request \<Rightarrow> ('w, response go) state"
  where
  "HandleAdminRestartBatch rt deps rq = (let i = rq_param rq ''id'' in (case bind_restart rq of
     None \<Rightarrow> respond (bad_body rq)
   | Some q \<Rightarrow> (case deps of
       None \<Rightarrow> respond (fail_with 404 ''MISSING_DEPENDENCY'' ''required dependency not configured'')
     | Some d \<Rightarrow> (case (dp_BatchRepo d, dp_JobRepo d) of
         (Some r, Some jr) \<Rightarrow> do {
           x \<leftarrow> requireBatch deps i;
           (case x of
              Inl resp \<Rightarrow> respond resp
            | Inr b \<Rightarrow> do {
                js \<leftarrow> JobRepo_GetByBatch jr i;
                (case js of
                   Inl err \<Rightarrow> respond (fail_with 500 ''SERVICE_ERROR'' ''failed to fetch jobs'')
                 | Inr js \<Rightarrow> do {
                     n \<leftarrow> restart_jobs rt d jr js (0, 0);
                     go_bind (set_processing rt (dp_BatchManager d) i) (\<lambda>_.
                       respond (Json 200 (GH [(''restarted'', GInt (fst n)), (''skipped'', GInt (snd n))])))
                   })
              })
         }
       | _ \<Rightarrow> respond (fail_with 404 ''MISSING_DEPENDENCY'' ''required dependency not configured'')))))"

text \<open>Changing priority and timeout.\<close>

record UpdateBatchConfigRequest =
  uq_Priority :: string
  uq_Timeout :: int

definition config_step :: "string \<Rightarrow> json \<Rightarrow> UpdateBatchConfigRequest \<Rightarrow> UpdateBatchConfigRequest option" where
  "config_step k j q =
     (if k = ''priority'' then map_option (\<lambda>x. q\<lparr>uq_Priority := x\<rparr>) (dec_string j (uq_Priority q))
      else if k = ''timeout'' then map_option (\<lambda>x. q\<lparr>uq_Timeout := x\<rparr>) (dec_int j (uq_Timeout q))
      else Some q)"

definition bind_config :: "request \<Rightarrow> UpdateBatchConfigRequest option" where
  "bind_config = ShouldBindJSON config_step \<lparr>uq_Priority = [], uq_Timeout = 0\<rparr> (\<lambda>q. True)"

definition apply_config :: "UpdateBatchConfigRequest \<Rightarrow> batch \<Rightarrow> batch" where
  "apply_config q b = b\<lparr>
     b_Priority := if uq_Priority q \<noteq> [] then uq_Priority q else b_Priority b,
     b_TimeoutMs := if 0 < uq_Timeout q then uq_Timeout q else b_TimeoutMs b\<rparr>"

definition config_body :: "string \<Rightarrow> batch \<Rightarrow> response" where
  "config_body i b = Json 200 (GH [(''success'', GBool True), (''batchId'', GStr i),
     (''config'', GH [(''priority'', GStr (b_Priority b)), (''timeout'', GInt (b_TimeoutMs b))])])"

definition HandleAdminUpdateBatchConfig :: "'w Deps option \<Rightarrow> request \<Rightarrow> ('w, response go) state" where
  "HandleAdminUpdateBatchConfig deps rq = (let i = rq_param rq ''id'' in (case bind_config rq of
     None \<Rightarrow> respond (bad_body rq)
   | Some q \<Rightarrow> (case dep dp_BatchRepo deps of
       None \<Rightarrow> respond no_repo
     | Some r \<Rightarrow> do {
         x \<leftarrow> BatchRepo_GetByID r i;
         (case x of
            Inl err \<Rightarrow> respond fetch_failed
          | Inr None \<Rightarrow> respond batch_not_found
          | Inr (Some b) \<Rightarrow> do {
              u \<leftarrow> BatchRepo_Update r (apply_config q b);
              respond (case u of
                 Some err \<Rightarrow> fail_with 500 ''SERVICE_ERROR'' ''failed to update batch config''
               | None \<Rightarrow> config_body i (apply_config q b))
            })
       })))"

end
