(* ===== verification/Downloads.thy ===== *)
theory Downloads
  imports Handlers
begin

text \<open>
  The rest of the handlers: statistics (\<open>admin.go\<close>), the downloads of errors, results and the
  template (\<open>export.go\<close>, \<open>template.go\<close>) and asynchronous exports (\<open>export_async.go\<close>).  The
  spreadsheet writer is third-party: \<open>fault\<close> says which of its calls fails on given cells, if any.
\<close>

section \<open>Statistics\<close>

definition day_start :: "int \<Rightarrow> int" where
  "day_start t = t - t mod (86400 * Second)"

definition round_rat :: "rat \<Rightarrow> int" where
  "round_rat x = (if 0 \<le> x then \<lfloor>x + 1 / 2\<rfloor> else - \<lfloor>- x + 1 / 2\<rfloor>)"

definition time_param :: "(string \<Rightarrow> int option) \<Rightarrow> string \<Rightarrow> int \<Rightarrow> int" where
  "time_param ptime s d = (if s \<noteq> [] then (case ptime s of Some t \<Rightarrow> t | None \<Rightarrow> d) else d)"

definition zero_stats :: AdminStats where
  "zero_stats = \<lparr>as_BatchesCreated = 0, as_JobsProcessed = 0, as_JobsFailed = 0,
     as_AverageProcessingTimeMs = 0, as_BulkJobPending = 0, as_BulkResultPending = 0\<rparr>"

definition stats_body :: "AdminStats \<Rightarrow> gval" where
  "stats_body s = (let avg = round_rat (as_AverageProcessingTimeMs s) in GH [
     (''totalBatches'', GInt (as_BatchesCreated s)), (''activeBatches'', GInt 0),
     (''completedToday'', GInt (as_BatchesCreated s)), (''failedToday'', GInt (as_JobsFailed s)),
     (''avgProcessingTime'', GInt avg),
     (''today'', GH [(''batchesCreated'', GInt (as_BatchesCreated s)),
        (''jobsProcessed'', GInt (as_JobsProcessed s)), (''jobsFailed'', GInt (as_JobsFailed s)),
        (''averageProcessingTimeMs'', GFloat (of_int avg))]),
     (''queues'', GH [(''bulkJobPending'', GInt (as_BulkJobPending s)),
        (''bulkResultPending'', GInt (as_BulkResultPending s))])])"

definition HandleAdminStats :: "'w Runtime \<Rightarrow> (string \<Rightarrow> int option) \<Rightarrow> 'w Deps option \<Rightarrow> request \<Rightarrow>
    ('w, response go) state" where
  "HandleAdminStats rt ptime deps rq = do {
     now \<leftarrow> Rt_Now rt;
     let t1 = time_param ptime (rq_query rq ''from'') (day_start now);
     let t2 = time_param ptime (rq_query rq ''to'') now;
     (case dep dp_BatchRepo deps of
        None \<Rightarrow> respond (Json 200 (stats_body zero_stats))
      | Some r \<Rightarrow> do {
          s \<leftarrow> BatchRepo_AdminStats r (Some t1) (Some t2);
          respond (case s of
             Inl err \<Rightarrow> fail_with 500 ''SERVICE_ERROR'' ''failed to compute admin stats''
           | Inr None \<Rightarrow> Json 200 (stats_body zero_stats)
           | Inr (Some s) \<Rightarrow> Json 200 (stats_body s))
        })
   }"

section \<open>Spreadsheets\<close>

datatype xlsx_fault = NewSheet | NewStreamWriter | SetHeader | SetRow string | Flush | WriteOut

definition xlsx_error :: "xlsx_fault \<Rightarrow> response" where
  "xlsx_error x = fail_with 500 ''SERVICE_ERROR'' (case x of
     NewSheet \<Rightarrow> ''failed to create sheet''
   | NewStreamWriter \<Rightarrow> ''failed to create stream writer''
   | SetHeader \<Rightarrow> ''failed to write header''
   | SetRow msg \<Rightarrow> ''failed to write row: '' @ msg
   | Flush \<Rightarrow> ''failed to flush xlsx''
   | WriteOut \<Rightarrow> ''failed to write xlsx'')"

definition buildXLSXResponse :: "(cell list list \<Rightarrow> xlsx_fault option) \<Rightarrow> string \<Rightarrow> string \<Rightarrow> string \<Rightarrow>
    string list \<Rightarrow> cell list list \<Rightarrow> response" where
  "buildXLSXResponse fault batchID sheetName filenamePrefix headers rows = (
     let cells = map CellStr headers # rows in (case fault cells of
       Some x \<Rightarrow> xlsx_error x
     | None \<Rightarrow> Xlsx (filenamePrefix @ ''_'' @ batchID @ ''.xlsx'') sheetName cells))"

text \<open>The rows a positive limit lets through.\<close>

definition limited :: "int \<Rightarrow> 'a list \<Rightarrow> 'a list" where
  "limited n xs = (if 0 < n then take (nat n) xs else xs)"

definition error_headers :: "string list" where
  "error_headers = [''row'', ''field'', ''code'', ''message'', ''original_value'']"

definition error_row :: "ValidationError \<Rightarrow> cell list" where
  "error_row v = [CellInt (ve_RowNumber v), CellStr (ve_Field v), CellStr (ve_ErrorCode v),
     CellStr (ve_ErrorMessage v), CellStr (ve_OriginalValue v)]"

definition HandleDownloadErrorsXLS :: "(cell list list \<Rightarrow> xlsx_fault option) \<Rightarrow> 'w Deps option \<Rightarrow>
    request \<Rightarrow> ('w, response go) state" where
  "HandleDownloadErrorsXLS fault deps rq = (case deps of
     None \<Rightarrow> State_Monad.return Panic
   | Some d \<Rightarrow> (case dp_ValidationRepo d of
       None \<Rightarrow> respond (fail_with 404 ''MISSING_DEPENDENCY'' ''validation repo not configured'')
     | Some vr \<Rightarrow> do {
         x \<leftarrow> ValRepo_GetValidationErrors vr (rq_param rq ''id'');
         respond (case x of
            Inl err \<Rightarrow> fail_with 500 ''SERVICE_ERROR'' ''failed to fetch validation errors''
          | Inr es \<Rightarrow> buildXLSXResponse fault (rq_param rq ''id'') ''Errors'' ''errors'' error_headers
              (map error_row (limited (parseLimitParam rq) es)))
       }))"

definition HandleDownloadResultsXLS :: "(cell list list \<Rightarrow> xlsx_fault option) \<Rightarrow> 'w Deps option \<Rightarrow>
    request \<Rightarrow> ('w, response go) state" where
  "HandleDownloadResultsXLS fault deps rq = (case deps of
     None \<Rightarrow> State_Monad.return Panic
   | Some d \<Rightarrow> (case dp_JobRepo d of
       None \<Rightarrow> respond (fail_with 404 ''MISSING_DEPENDENCY'' ''job repo not configured'')
     | Some jr \<Rightarrow> do {
         x \<leftarrow> JobRepo_GetResultsByBatch jr (rq_param rq ''id'');
         respond (case x of
            Inl err \<Rightarrow> fail_with 500 ''SERVICE_ERROR'' ''failed to fetch job results''
          | Inr rs \<Rightarrow> buildXLSXResponse fault (rq_param rq ''id'') ''Results'' ''results'' export_headers
              (map export_row (limited (parseLimitParam rq) rs)))
       }))"

text \<open>The template: a header row of field codes and a sample row.\<close>

definition template_headers :: "string list" where
  "template_headers = [''DAC'', ''DCS'', ''DAG'', ''DAI'', ''DAJ'', ''DAK'', ''DBB'', ''DBA'', ''DBD'']"

definition template_sample :: "string list" where
  "template_sample = [''JOHN'', ''DOE'', ''123 MAIN ST'', ''LOS ANGELES'', ''CA'', ''90001'',
     ''19900115'', ''20280115'', ''20240115'']"

definition HandleDownloadTemplateXLS :: "(cell list list \<Rightarrow> xlsx_fault option) \<Rightarrow> request \<Rightarrow> response" where
  "HandleDownloadTemplateXLS fault rq = (
     let cells = [map CellStr template_headers, map CellStr template_sample] in (case fault cells of
       Some WriteOut \<Rightarrow> fail_with 500 ''SERVICE_ERROR'' ''failed to write template''
     | Some _ \<Rightarrow> fail_with 500 ''SERVICE_ERROR'' ''failed to build template''
     | None \<Rightarrow> Xlsx (''template_'' @ rq_param rq ''revision'' @ ''.xlsx'') ''Sheet1'' cells))"

section \<open>Asynchronous exports\<close>

definition ExportPresignTTL :: int where
  "ExportPresignTTL = 3600 * Second"

definition no_exporter :: response where
  "no_exporter = fail_with 404 ''MISSING_DEPENDENCY'' ''export manager not configured''"

definition HandleStartExport :: "'w Deps option \<Rightarrow> request \<Rightarrow> ('w, response go) state" where
  "HandleStartExport deps rq = (case dep dp_ExportManager deps of
     None \<Rightarrow> respond no_exporter
   | Some em \<Rightarrow> do {
       x \<leftarrow> Exp_Enqueue em (rq_param rq ''id'');
       respond (case x of
          Some err \<Rightarrow> fail_with 400 ''VALIDATION_ERROR'' (err_text err)
        | None \<Rightarrow> Json 202 (GH [(''id'', GStr (rq_param rq ''id'')), (''status'', GStr ''queued'')]))
     })"

definition presigned_body :: "ExportResult \<Rightarrow> string \<Rightarrow> int \<Rightarrow> response" where
  "presigned_body r url expires = Json 200 (GH [(''id'', GStr (xr_ID r)), (''status'', GStr (xr_Status r)),
     (''url'', GStr url), (''expires_at'', GTime expires), (''error'', GStr (xr_Error r))])"

definition metadata_body :: "ExportResult \<Rightarrow> response" where
  "metadata_body r = Json 200 (GH [(''id'', GStr (xr_ID r)), (''status'', GStr (xr_Status r)),
     (''storage_id'', GStr (xr_StorageID r)), (''error'', GStr (xr_Error r)),
     (''created_at'', GStamp (xr_CreatedAt r)), (''updated_at'', GStamp (xr_UpdatedAt r))])"

text \<open>The stored file; a copy that breaks off after some bytes has the error appended, since the
  status is sent with the first of them.\<close>

definition stream_file :: "ExportResult \<Rightarrow> reader \<Rightarrow> response" where
  "stream_file r rd = (let name = ''results_'' @ xr_ID r @ ''.xlsx'';
       code = ''SERVICE_ERROR''; msg = ''failed to stream file''
     in (case rd_err rd of
       None \<Rightarrow> Stream name (rd_data rd) None
     | Some err \<Rightarrow> if rd_data rd = [] then fail_with 500 code msg
         else Stream name (rd_data rd) (Some (error_body code msg None))))"

definition proxy_export :: "'w StorageClient option \<Rightarrow> ExportResult \<Rightarrow> ('w, response go) state" where
  "proxy_export st r = (case st of
     None \<Rightarrow> respond (metadata_body r)
   | Some s \<Rightarrow> if xr_StorageID r = [] then respond (metadata_body r)
       else do {
         x \<leftarrow> Sto_Get s (xr_StorageID r);
         respond (case x of Inl err \<Rightarrow> metadata_body r | Inr rd \<Rightarrow> stream_file r rd)
       })"

definition HandleGetExport :: "'w Runtime \<Rightarrow> 'w Deps option \<Rightarrow> request \<Rightarrow> ('w, response go) state" where
  "HandleGetExport rt deps rq = (case dep dp_ExportManager deps of
     None \<Rightarrow> respond no_exporter
   | Some em \<Rightarrow> do {
       x \<leftarrow> Exp_Get em (rq_param rq ''id'');
       (case x of
          None \<Rightarrow> respond (fail_with 404 ''NOT_FOUND'' ''export not found'')
        | Some r \<Rightarrow> (case dep dp_Storage deps of
            None \<Rightarrow> respond (metadata_body r)
          | Some s \<Rightarrow>
              if xr_StorageID r \<noteq> [] \<and> rq_query rq ''download'' \<noteq> ''true''
              then do {
                u \<leftarrow> Sto_Presign s (xr_StorageID r) ExportPresignTTL;
                (case u of
                   Inl err \<Rightarrow> proxy_export (Some s) r
                 | Inr url \<Rightarrow> do {
                     now \<leftarrow> Rt_Now rt;
                     respond (presigned_body r url (now + ExportPresignTTL))
                   })
              }
              else proxy_export (Some s) r))
     })"

end
