(* ===== verification/Upload.thy ===== *)
theory Upload
  imports Http
begin

text \<open>
  Uploading a file: \<open>maxbytes_reader.go\<close>, \<open>validate_upload.go\<close> and \<open>upload.go\<close>.  The multipart
  parser (\<open>form_file\<close>, on the bytes it may read and the error that ends them) and the content
  sniffer (\<open>sniff\<close>, which is \<open>http.DetectContentType\<close>) are parameters.
\<close>

section \<open>The limited reader\<close>

text \<open>\<open>io.EOF\<close>, or an error.\<close>

datatype read_error = EOF | ReadError go_error

text \<open>A reader is its state and a step that is given the length of the buffer: bytes, error, state.\<close>

type_synonym 's read_step = "'s \<Rightarrow> nat \<Rightarrow> string \<times> read_error option \<times> 's"

definition MaxBytes_Read :: "'s read_step \<Rightarrow> ('s \<times> int) read_step" where
  "MaxBytes_Read rd s k = (case s of (u, n) \<Rightarrow>
     if n \<le> 0 then ([], Some (ReadError ErrRequestBodyTooLarge), (u, n))
     else (case rd u (if n < int k then nat n else k) of
       (p, err, u') \<Rightarrow> (p, err, (u', n - int (length p)))))"

text \<open>Reading until an error with buffers of \<open>k\<close> bytes; None when the fuel runs out.\<close>

fun read_all :: "'s read_step \<Rightarrow> nat \<Rightarrow> nat \<Rightarrow> 's \<Rightarrow> string \<Rightarrow> (string \<times> read_error) option" where
  "read_all rd k 0 s acc = None"
| "read_all rd k (Suc f) s acc = (case rd s k of
     (p, Some err, s') \<Rightarrow> Some (acc @ p, err)
   | (p, None, s') \<Rightarrow> read_all rd k f s' (acc @ p))"

text \<open>A reader over bytes in memory.  With \<open>eager\<close> it reports the end together with the last bytes,
  as the body of a request with a length does; otherwise with the read after them.\<close>

definition bytes_Read :: "bool \<Rightarrow> string read_step" where
  "bytes_Read eager d k = (if d = [] then ([], Some EOF, [])
     else (take k d, (if eager \<and> length d \<le> k then Some EOF else None), drop k d))"

section \<open>Validation of the file\<close>

record upload_file =
  uf_name :: string
  uf_size :: int
  uf_content :: reader
  uf_revision :: string                   \<comment> \<open>\<open>c.Request.FormValue("revision")\<close>\<close>

definition allowedExtensions :: "string list" where
  "allowedExtensions = [''.xls'', ''.xlsx'', ''.csv'']"

definition nth_byte :: "string \<Rightarrow> nat \<Rightarrow> nat" where
  "nth_byte buf i = (if i < length buf then of_char (buf ! i) else 0)"

definition zip_magic :: "string \<Rightarrow> bool" where
  "zip_magic buf \<longleftrightarrow> nth_byte buf 0 = 80 \<and> nth_byte buf 1 = 75 \<and> nth_byte buf 2 \<in> {3, 5, 7}"

definition ole_magic :: "string \<Rightarrow> bool" where
  "ole_magic buf \<longleftrightarrow> nth_byte buf 0 = 208 \<and> nth_byte buf 1 = 207 \<and> nth_byte buf 2 = 17 \<and> nth_byte buf 3 = 224"

definition check_content :: "string \<Rightarrow> string \<Rightarrow> string \<Rightarrow> go_error option" where
  "check_content ext buf ctype =
     (if ext = ''.xlsx''
      then (if \<not> (4 \<le> length buf \<and> zip_magic buf) \<and>
               \<not> (Contains ctype ''zip'' \<or> ctype = ''application/zip'')
            then Some ErrInvalidFileFormat else None)
      else if ext = ''.xls''
      then (if \<not> (8 \<le> length buf \<and> ole_magic buf) \<and>
               \<not> Contains ctype ''ms-excel'' \<and> \<not> Contains ctype ''application/octet-stream''
            then Some ErrInvalidFileFormat else None)
      else if ext = ''.csv''
      then (if \<not> HasPrefix ctype ''text/'' \<and> \<not> Contains ctype ''csv'' \<and>
               ctype \<noteq> ''application/octet-stream'' \<and>
               \<not> Contains buf '','' \<and> \<not> Contains buf [CHR 0x0A]
            then Some ErrInvalidContentType else None)
      else Some ErrInvalidFileFormat)"

definition validateUploadImpl :: "(string \<Rightarrow> string) \<Rightarrow> Limits \<Rightarrow> upload_file \<Rightarrow> go_error option" where
  "validateUploadImpl sniff l f =
     (if lim_MaxFileSize l < uf_size f then Some ErrFileTooLarge
      else (let ext = ToLower (Ext (uf_name f)); buf = take 512 (rd_data (uf_content f)) in
        if ext \<notin> set allowedExtensions then Some ErrInvalidFileFormat
        else if buf = [] \<and> rd_err (uf_content f) \<noteq> None then rd_err (uf_content f)
        else check_content ext buf (sniff buf)))"

section \<open>The handler\<close>

definition too_large :: response where
  "too_large = fail_with 413 ''FILE_TOO_LARGE'' ''file too large''"

definition parserErrorResponse :: "go_error \<Rightarrow> response option" where
  "parserErrorResponse err = (case err of
     ErrEmptyFile \<Rightarrow> Some (fail_with 400 ''EMPTY_FILE'' ''file is empty'')
   | ErrTooManyRows \<Rightarrow> Some (fail_with 400 ''TOO_MANY_ROWS'' ''too many rows'')
   | InvalidHeadersError missing \<Rightarrow> Some (WriteError 400 ''INVALID_HEADERS'' ''invalid headers''
       (Some (GH [(''missingHeaders'', GArr (map GStr missing))])))
   | ErrInvalidHeaders \<Rightarrow> Some (fail_with 400 ''INVALID_HEADERS'' ''invalid headers'')
   | _ \<Rightarrow> None)"

definition multipartOverhead :: int where "multipartOverhead = 1024 * 16"

definition error_text :: "go_error \<Rightarrow> string" where
  "error_text err = (case err of ErrInvalidFileFormat \<Rightarrow> ''invalid file format''
     | ErrInvalidContentType \<Rightarrow> ''invalid content type'' | _ \<Rightarrow> err_text err)"

definition rejected_upload :: "go_error \<Rightarrow> response" where
  "rejected_upload err = (case err of
     ErrFileTooLarge \<Rightarrow> too_large
   | ErrInvalidFileFormat \<Rightarrow> fail_with 400 ''INVALID_FILE_FORMAT'' (error_text err)
   | ErrInvalidContentType \<Rightarrow> fail_with 400 ''INVALID_FILE_FORMAT'' (error_text err)
   | _ \<Rightarrow> fail_with 400 ''VALIDATION_ERROR'' (error_text err))"

text \<open>The part of the handler before the service: the file, or the response.\<close>

record upload_request =
  ur_ContentLength :: int                  \<comment> \<open>-1 when unknown\<close>
  ur_body :: string
  ur_eager :: bool

definition receive :: "(string \<Rightarrow> read_error \<Rightarrow> go_error + upload_file) \<Rightarrow> (string \<Rightarrow> string) \<Rightarrow> Limits \<Rightarrow>
    upload_request \<Rightarrow> response + upload_file" where
  "receive form_file sniff l q = (let maxFile = lim_MaxFileSize l; lim_body = int64 (maxFile + multipartOverhead) in
     if 0 < ur_ContentLength q \<and> lim_body < ur_ContentLength q then Inl too_large
     else (case read_all (MaxBytes_Read (bytes_Read (ur_eager q))) 4096 (length (ur_body q) + 2)
                 (ur_body q, lim_body) [] of
       None \<Rightarrow> Inl too_large
     | Some (bytes, err) \<Rightarrow> (case form_file bytes err of
         Inl ErrRequestBodyTooLarge \<Rightarrow> Inl too_large
       | Inl _ \<Rightarrow> Inl (fail_with 400 ''VALIDATION_ERROR'' ''file is required'')
       | Inr f \<Rightarrow> (case validateUploadImpl sniff l f of
           Some verr \<Rightarrow> Inl (rejected_upload verr)
         | None \<Rightarrow> if uf_revision f = [] then Inl (fail_with 400 ''MISSING_REVISION'' ''revision is required'')
             else Inr f))))"

text \<open>The part after the batch was created.\<close>

definition summary :: "CreateBatchResult \<Rightarrow> (string \<times> gval) list" where
  "summary r = [(''totalRows'', GInt (cr_TotalRows r)), (''validRows'', GInt (cr_ValidRows r)),
     (''invalidRows'', GInt (cr_InvalidRows r))]"

definition api_error :: "ValidationError \<Rightarrow> gval" where
  "api_error v = GH [(''row'', GInt (ve_RowNumber v)), (''field'', GStr (ve_Field v)),
     (''code'', GStr (ve_ErrorCode v)), (''message'', GStr (ve_ErrorMessage v)),
     (''value'', GStr (ve_OriginalValue v))]"

definition validation_errors_body :: "CreateBatchResult \<Rightarrow> response" where
  "validation_errors_body r = Json 200 (GH [(''success'', GBool True), (''batchId'', GStr (cr_BatchID r)),
     (''status'', GStr ''validation_errors''), (''summary'', GH (summary r)),
     (''errors'', GArr (map api_error (cr_Errors r))),
     (''options'', GH [
        (''generateValid'', GH [(''count'', GInt (cr_ValidRows r)),
           (''message'', GStr ''Generate valid rows, skip invalid?'')]),
        (''downloadErrors'', GH [(''url'', GStr (''/api/v1/batch/'' @ cr_BatchID r @ ''/errors.xlsx''))]),
        (''cancel'', GH [(''message'', GStr ''Cancel and fix file'')])])])"

definition nonzero :: "string \<Rightarrow> int \<Rightarrow> (string \<times> gval) list" where
  "nonzero k n = (if n \<noteq> 0 then [(k, GInt n)] else [])"

definition by_source :: "QuoteBreakdown \<Rightarrow> gval" where
  "by_source q = GH (nonzero ''subscription'' (sb_Units (qb_Subscription q))
     @ nonzero ''credits_type1'' (sb_Units (qb_Credits q)) @ nonzero ''wallet'' (sb_Units (qb_Wallet q)))"

definition cost :: "QuoteResponse \<Rightarrow> int \<Rightarrow> (string \<times> gval) list" where
  "cost q n = (if q_UnitPrice q \<noteq> 0
     then [(''estimatedCost'', GFloat (of_int n * q_UnitPrice q)), (''currency'', GStr ''credits_type1'')]
     else [])"

definition billing_info :: "QuoteResponse \<Rightarrow> int \<Rightarrow> gval" where
  "billing_info q n = GH ([(''canGenerate'', GBool (q_CanProcess q)), (''canProcess'', GBool (q_CanProcess q)),
     (''requested'', GInt n), (''allowedTotal'', GInt (q_AllowedTotal q)),
     (''bySource'', by_source (q_BySource q))]
     @ (if q_AllowedTotal q < n then [(''shortfall'', GInt (n - q_AllowedTotal q))] else [])
     @ (if q_UnitPrice q \<noteq> 0 then [(''unitPrice'', GFloat (q_UnitPrice q))] else []) @ cost q n)"

definition ready_body :: "CreateBatchResult \<Rightarrow> QuoteResponse \<Rightarrow> response" where
  "ready_body r q = Json 200 (GH [(''success'', GBool True), (''batchId'', GStr (cr_BatchID r)),
     (''status'', GStr ''ready''), (''summary'', GH (summary r @ cost q (cr_ValidRows r))),
     (''billing'', billing_info q (cr_ValidRows r)), (''nextStep'', GStr ''confirm'')])"

definition partial_body :: "CreateBatchResult \<Rightarrow> QuoteResponse \<Rightarrow> response" where
  "partial_body r q = (let msg = ''Insufficient funds. Generate '' @ Itoa (q_AllowedTotal q) @ '' of '' @
       Itoa (cr_ValidRows r) @ ''?''
     in WriteError 402 ''PARTIAL_AVAILABLE'' msg (Some (GH [(''batchId'', GStr (cr_BatchID r)),
       (''billing'', billing_info q (cr_ValidRows r)),
       (''options'', GH [
          (''generatePartial'', GH [(''count'', GInt (q_AllowedTotal q)), (''message'', GStr msg)]),
          (''cancel'', GH [(''message'', GStr ''Cancel batch and top up balance'')])])])))"

definition plain_ready_body :: "CreateBatchResult \<Rightarrow> response" where
  "plain_ready_body r = Json 200 (GH [(''success'', GBool True), (''batchId'', GStr (cr_BatchID r)),
     (''status'', GStr ''ready''), (''summary'', GH (summary r))])"

definition finalize :: "'w Runtime \<Rightarrow> 'w Deps \<Rightarrow> CreateBatchResult \<Rightarrow> ('w, unit go) state" where
  "finalize rt d r = (case dp_BatchManager d of
     None \<Rightarrow> State_Monad.return (Ret ())
   | Some m \<Rightarrow> go_bind (FinalizeAfterUpload rt m (cr_BatchID r) (cr_ValidRows r) (cr_InvalidRows r))
       (\<lambda>_. State_Monad.return (Ret ())))"

definition quote_upload :: "'w Deps \<Rightarrow> CreateBatchResult \<Rightarrow> ('w, response go) state" where
  "quote_upload d r = (case dp_BillingClient d of
     None \<Rightarrow> respond (plain_ready_body r)
   | Some c \<Rightarrow> do {
       qr \<leftarrow> Billing_Quote c [] (cr_ValidRows r);
       State_Monad.return (case qr of
          Inl err \<Rightarrow> Ret (fail_with 503 ''BILLING_ERROR'' ''billing quote failed'')
        | Inr None \<Rightarrow> Panic
        | Inr (Some q) \<Rightarrow> Ret (if cr_ValidRows r \<le> q_AllowedTotal q then ready_body r q
            else partial_body r q))
     })"

definition upload_failed :: "go_error \<Rightarrow> response" where
  "upload_failed err = (case parserErrorResponse err of
     Some resp \<Rightarrow> resp | None \<Rightarrow> fail_with 400 ''INVALID_FILE_FORMAT'' ''failed to parse file'')"

definition HandleUpload :: "'w Runtime \<Rightarrow> sheet_readers \<Rightarrow> (string \<Rightarrow> read_error \<Rightarrow> go_error + upload_file) \<Rightarrow>
    (string \<Rightarrow> string) \<Rightarrow> Limits \<Rightarrow> 'w Deps option \<Rightarrow> upload_request \<Rightarrow> ('w, response go) state" where
  "HandleUpload rt rds form_file sniff l deps rq = (case receive form_file sniff l rq of
     Inl resp \<Rightarrow> respond resp
   | Inr f \<Rightarrow> (case deps of
       None \<Rightarrow> respond (fail_with 500 ''SERVER_ERROR'' ''service unavailable'')
     | Some d \<Rightarrow> (case dp_Service d of
         None \<Rightarrow> respond (fail_with 500 ''SERVER_ERROR'' ''service unavailable'')
       | Some s \<Rightarrow> do {
           res \<leftarrow> CreateBatchFromFile rt rds s l (uf_content f) (uf_revision f);
           (case res of
              Inl err \<Rightarrow> respond (upload_failed err)
            | Inr r \<Rightarrow> go_bind (finalize rt d r) (\<lambda>_.
                if 0 < cr_InvalidRows r then respond (validation_errors_body r) else quote_upload d r))
         })))"

section \<open>What the limited reader lets through\<close>

text \<open>The specification: everything when it is shorter than the limit, and when it has the length of the
  limit only if the end is reported with the last bytes; otherwise the bytes up to the limit and the
  error.\<close>

definition limited_read :: "bool \<Rightarrow> string \<Rightarrow> int \<Rightarrow> string \<times> read_error" where
  "limited_read eager d n =
     (if int (length d) < n \<or> eager \<and> d \<noteq> [] \<and> int (length d) = n then (d, EOF)
      else (take (nat n) d, ReadError ErrRequestBodyTooLarge))"

lemma read_all_limited:
  assumes "length d + 2 \<le> f"
  shows "read_all (MaxBytes_Read (bytes_Read eager)) (Suc k) f (d, n) acc =
    Some (case limited_read eager d n of (p, err) \<Rightarrow> (acc @ p, err))"
  using assms
proof (induction f arbitrary: d n acc)
  case (Suc f)
  define m where "m = (if n < int (Suc k) then nat n else Suc k)"
  show ?case
  proof (cases "n \<le> 0 \<or> d = []")
    case True
    then show ?thesis by (auto simp: limited_read_def MaxBytes_Read_def bytes_Read_def)
  next
    case False
    then have m: "0 < m" "int m \<le> n" by (auto simp: m_def)
    have step: "MaxBytes_Read (bytes_Read eager) (d, n) (Suc k) =
        (take m d, if eager \<and> length d \<le> m then Some EOF else None, drop m d, n - int (length (take m d)))"
      using False by (simp add: MaxBytes_Read_def bytes_Read_def m_def)
    show ?thesis
    proof (cases "eager \<and> length d \<le> m")
      case True
      with m False show ?thesis
        unfolding read_all.simps step by (auto simp: limited_read_def)
    next
      case more: False
      from m False Suc.prems have "length (drop m d) + 2 \<le> f" by (cases d) auto
      note rest = Suc.IH [OF this, of "n - int (length (take m d))" "acc @ take m d"]
      show ?thesis
      proof (cases "length d \<le> m")
        case True
        with more m False show ?thesis
          unfolding read_all.simps step using rest by (auto simp: limited_read_def)
      next
        case longer: False
        from m have le: "m \<le> nat n" "nat (n - int m) = nat n - m" by auto
        then have "take m d @ take (nat (n - int m)) (drop m d) = take (nat n) d"
          using take_add [of m "nat n - m" d] by simp
        with longer more m False show ?thesis
          unfolding read_all.simps step using rest by (auto simp: limited_read_def)
      qed
    qed
  qed
qed simp

text \<open>C24: reading a request body through the limited reader ends, whatever the size of the buffer, with as
  many reads as the body has bytes and two; it yields the body or an error as specified, and never
  more than the limit.  A body of exactly the limit is refused when the end comes with a read of its
  own.\<close>

theorem limited_body:
  "read_all (MaxBytes_Read (bytes_Read eager)) (Suc k) (length d + 2 + f) (d, n) [] =
    Some (if int (length d) < n \<or> eager \<and> d \<noteq> [] \<and> int (length d) = n then (d, EOF)
      else (take (nat n) d, ReadError ErrRequestBodyTooLarge))"
  by (subst read_all_limited) (simp_all add: limited_read_def)

end
