(* ===== verification/Middleware.thy ===== *)
theory Middleware
  imports Http
begin

text \<open>
  \<open>internal/transport/http/middleware\<close>: authentication by JWT or legacy tokens (\<open>auth.go\<close>) and the
  limit on requests per second (\<open>ratelimit.go\<close>).  The JWKS cache, the JWT library and Redis are
  third-party: what they answer are parameters.
\<close>

section \<open>Authentication\<close>

text \<open>The claims of a verified token: \<open>parsed.Get\<close> into a string or a list fails (None) for an absent
  claim or one of another type.\<close>

record claims =
  cl_Issuer :: "string option"
  cl_Audience :: "string list"
  cl_role :: "string option"
  cl_roles :: "json list option"
  cl_scope :: "string option"

text \<open>The key cache of a configured JWKS: its lookup, which may fail, and then \<open>jwt.Parse\<close>.\<close>

record jwks =
  jk_Lookup :: "string option"                     \<comment> \<open>the text of its error\<close>
  jk_Parse :: "string \<Rightarrow> string + claims"

record auth_config =
  ac_cache :: "jwks option"
  ac_allowLegacy :: bool
  ac_adminRaw :: string
  ac_internalRaw :: string
  ac_expectedIss :: string
  ac_expectedAud :: string

text \<open>The start of the middleware; \<open>connect\<close> creates the cache and registers the URL with the minimal
  interval of refreshing, None when one of them fails.\<close>

definition AuthMiddleware :: "(string \<Rightarrow> string) \<Rightarrow> (string \<Rightarrow> int option) \<Rightarrow> bool \<Rightarrow>
    (string \<Rightarrow> int \<Rightarrow> jwks option) \<Rightarrow> auth_config go" where
  "AuthMiddleware getenv ParseDuration testing connect = (
     let url = getenv ''AUTH_JWKS_URL'';
         allowLegacy = (getenv ''AUTH_ALLOW_LEGACY_TOKENS'' = ''true'' \<or> testing);
         minRefresh = (case ParseDuration (getenv ''AUTH_JWKS_MIN_REFRESH_INTERVAL'') of
           Some d \<Rightarrow> if getenv ''AUTH_JWKS_MIN_REFRESH_INTERVAL'' \<noteq> [] \<and> 0 < d then d else 900 * Second
         | None \<Rightarrow> 900 * Second);
         cache = (if url \<noteq> [] then connect url minRefresh else None)
     in if cache = None \<and> \<not> allowLegacy then Panic
        else Ret \<lparr>ac_cache = cache, ac_allowLegacy = allowLegacy, ac_adminRaw = getenv ''ADMIN_JWT'',
          ac_internalRaw = getenv ''INTERNAL_SERVICE_JWT'', ac_expectedIss = getenv ''AUTH_JWT_ISS'',
          ac_expectedAud = getenv ''AUTH_JWT_AUD''\<rparr>)"

datatype verdict = Next | Abort response

definition deny :: "int \<Rightarrow> string \<Rightarrow> verdict" where
  "deny st msg = Abort (Json st (GH [(''error'', GStr msg)]))"

definition deny_with :: "string \<Rightarrow> string \<Rightarrow> verdict" where
  "deny_with msg details = Abort (Json 401 (GH [(''error'', GStr msg), (''details'', GStr details)]))"

text \<open>The token of an \<open>Authorization\<close> header.\<close>

definition bearer :: "string \<Rightarrow> verdict + string" where
  "bearer auth = (if auth = [] then Inl (deny 401 ''missing authorization'')
     else (case SplitN2 CHR '' '' auth of
       [scheme, token] \<Rightarrow> if ToLower scheme = ''bearer'' then Inr token
         else Inl (deny 401 ''invalid authorization header'')
     | _ \<Rightarrow> Inl (deny 401 ''invalid authorization header'')))"

text \<open>The token's claims, None for a legacy token.\<close>

definition authenticate :: "auth_config \<Rightarrow> string \<Rightarrow> verdict + claims option" where
  "authenticate cfg token = (case ac_cache cfg of
     Some k \<Rightarrow> (case jk_Lookup k of
         Some err \<Rightarrow> Inl (deny_with ''authentication unavailable'' err)
       | None \<Rightarrow> (case jk_Parse k token of
           Inl err \<Rightarrow> Inl (deny_with ''invalid token'' err)
         | Inr c \<Rightarrow>
             if ac_expectedIss cfg \<noteq> [] \<and> cl_Issuer c \<noteq> Some (ac_expectedIss cfg)
             then Inl (deny 401 ''invalid token issuer'')
             else if ac_expectedAud cfg \<noteq> [] \<and> ac_expectedAud cfg \<notin> set (cl_Audience c)
             then Inl (deny 401 ''invalid token audience'')
             else Inr (Some c)))
   | None \<Rightarrow>
       if ac_allowLegacy cfg
       then (if token \<noteq> ac_adminRaw cfg \<and> token \<noteq> ac_internalRaw cfg
         then Inl (deny 401 ''invalid legacy token'') else Inr None)
       else Inl (deny 500 ''authentication not configured''))"

definition admin_claim :: "claims \<Rightarrow> bool" where
  "admin_claim c \<longleftrightarrow>
     (case cl_role c of Some r \<Rightarrow> Contains r ''admin'' | None \<Rightarrow> False)
     \<or> (case cl_roles c of Some rs \<Rightarrow> JStr ''admin'' \<in> set rs | None \<Rightarrow> False)
     \<or> (case cl_scope c of Some s \<Rightarrow> Contains s ''admin'' | None \<Rightarrow> False)"

definition admin_path :: "string \<Rightarrow> bool" where
  "admin_path path \<longleftrightarrow> HasPrefix path ''/api/v1/admin''"

definition authorize :: "auth_config \<Rightarrow> string \<Rightarrow> string \<Rightarrow> claims option \<Rightarrow> verdict" where
  "authorize cfg path token parsed = (if admin_path path
     then (case parsed of
         Some c \<Rightarrow> if admin_claim c then Next else deny 403 ''admin required''
       | None \<Rightarrow> if token = ac_adminRaw cfg then Next else deny 403 ''admin required'')
     else Next)"

definition auth_handler :: "auth_config \<Rightarrow> string \<Rightarrow> string \<Rightarrow> verdict" where
  "auth_handler cfg path auth = (if path = ''/health'' then Next
     else (case bearer auth of
         Inl v \<Rightarrow> v
       | Inr token \<Rightarrow> (case authenticate cfg token of
           Inl v \<Rightarrow> v
         | Inr parsed \<Rightarrow> authorize cfg path token parsed)))"

section \<open>Rate limit\<close>

record limiter =
  lm_tokens :: rat
  lm_last :: int

definition getLimiter :: "rat \<Rightarrow> int \<Rightarrow> string \<Rightarrow> (string \<rightharpoonup> limiter) \<Rightarrow> limiter" where
  "getLimiter rps now key buckets = (case buckets key of
     Some b \<Rightarrow> b | None \<Rightarrow> \<lparr>lm_tokens = rps, lm_last = now\<rparr>)"

definition seconds :: "int \<Rightarrow> rat" where
  "seconds d = of_int d / of_int Second"

definition refill :: "rat \<Rightarrow> int \<Rightarrow> limiter \<Rightarrow> rat" where
  "refill rps now b = min rps (lm_tokens b + seconds (now - lm_last b) * rps)"

definition take_token :: "rat \<Rightarrow> int \<Rightarrow> limiter \<Rightarrow> bool \<times> limiter" where
  "take_token rps now b = (let tokens = refill rps now b in
     if tokens < 1 then (False, \<lparr>lm_tokens = tokens, lm_last = now\<rparr>)
     else (True, \<lparr>lm_tokens = tokens - 1, lm_last = now\<rparr>))"

text \<open>The bucket of a client; \<open>t0\<close> is the clock when it is looked up and \<open>now\<close> when it is used.\<close>

definition allow :: "rat \<Rightarrow> int \<Rightarrow> int \<Rightarrow> string \<Rightarrow> (string \<rightharpoonup> limiter) \<Rightarrow> bool \<times> (string \<rightharpoonup> limiter)" where
  "allow rps t0 now key buckets = (case take_token rps now (getLimiter rps t0 key buckets) of
     (ok, b) \<Rightarrow> (ok, buckets(key \<mapsto> b)))"

definition rate_from_env :: "(string \<Rightarrow> rat option) \<Rightarrow> (string \<Rightarrow> string) \<Rightarrow> rat" where
  "rate_from_env ParseFloat getenv = (if getenv ''RATE_LIMIT_RPS'' \<noteq> []
     then (case ParseFloat (getenv ''RATE_LIMIT_RPS'') of Some f \<Rightarrow> if 0 < f then f else 10 | None \<Rightarrow> 10)
     else 10)"

definition limit_exceeded :: response where
  "limit_exceeded = fail_with 429 ''RATE_LIMIT_EXCEEDED'' ''rate limit exceeded''"

text \<open>Redis: \<open>INCR\<close> may fail; the first count of a window sets its expiry.  A failed \<open>INCR\<close> falls back
  to the bucket.\<close>

record 'r redis =
  rd_Incr :: "string \<Rightarrow> 'r \<Rightarrow> (go_error + int) \<times> 'r"
  rd_Expire :: "string \<Rightarrow> int \<Rightarrow> 'r \<Rightarrow> 'r"

record 'r rate_state =
  rs_buckets :: "string \<rightharpoonup> limiter"
  rs_redis :: 'r

definition rate_handler :: "rat \<Rightarrow> 'r redis option \<Rightarrow> int \<Rightarrow> int \<Rightarrow> string \<Rightarrow> 'r rate_state \<Rightarrow>
    verdict \<times> 'r rate_state" where
  "rate_handler rps rdb t0 now ip s = (
     let key = ''ratelimit:'' @ ip;
         fallback = (\<lambda>s. case allow rps t0 now ip (rs_buckets s) of (ok, bs) \<Rightarrow>
           (if ok then Next else Abort limit_exceeded, s\<lparr>rs_buckets := bs\<rparr>))
     in (case rdb of
       None \<Rightarrow> fallback s
     | Some r \<Rightarrow> (case rd_Incr r key (rs_redis s) of
         (Inl err, db) \<Rightarrow> fallback (s\<lparr>rs_redis := db\<rparr>)
       | (Inr cnt, db) \<Rightarrow> (let db' = (if cnt = 1 then rd_Expire r key Second db else db) in
           (if trunc_rat rps < cnt then Abort limit_exceeded else Next, s\<lparr>rs_redis := db'\<rparr>)))))"

section \<open>Properties of the authentication\<close>

text \<open>What a request needs to pass: a bearer token that the keys verify for the expected issuer and
  audience, or a legacy token; under the administration's path also a claim or the raw token.\<close>

definition token_ok :: "auth_config \<Rightarrow> string \<Rightarrow> string \<Rightarrow> bool" where
  "token_ok cfg path token \<longleftrightarrow> (case ac_cache cfg of
     Some k \<Rightarrow> jk_Lookup k = None \<and> (\<exists>c. jk_Parse k token = Inr c \<and>
       (ac_expectedIss cfg = [] \<or> cl_Issuer c = Some (ac_expectedIss cfg)) \<and>
       (ac_expectedAud cfg = [] \<or> ac_expectedAud cfg \<in> set (cl_Audience c)) \<and>
       (admin_path path \<longrightarrow> admin_claim c))
   | None \<Rightarrow> ac_allowLegacy cfg \<and> (token = ac_adminRaw cfg \<or>
       token = ac_internalRaw cfg \<and> \<not> admin_path path))"

lemma authorize_Next: "authorize cfg path token parsed = Next \<longleftrightarrow> (admin_path path \<longrightarrow>
    (case parsed of Some c \<Rightarrow> admin_claim c | None \<Rightarrow> token = ac_adminRaw cfg))"
  by (simp add: authorize_def deny_def split: option.split)

lemma authenticate_Inl: "authenticate cfg token = Inl v \<Longrightarrow> v \<noteq> Next"
  by (auto simp: authenticate_def deny_def deny_with_def split: option.splits sum.splits if_splits)

lemma bearer_Inl: "bearer auth = Inl v \<Longrightarrow> v \<noteq> Next"
  unfolding bearer_def deny_def by (fastforce split: list.split_asm if_split_asm)

lemma token_ok_iff: "token_ok cfg path token \<longleftrightarrow>
    (\<exists>parsed. authenticate cfg token = Inr parsed \<and> authorize cfg path token parsed = Next)"
proof (cases "ac_cache cfg")
  case None
  then show ?thesis by (simp add: token_ok_def authorize_Next authenticate_def) blast
next
  case (Some k)
  then show ?thesis
    by (cases "jk_Lookup k"; cases "jk_Parse k token")
      (simp_all add: token_ok_def authorize_Next authenticate_def)
qed

lemma auth_passes:
  "auth_handler cfg path auth = Next \<longleftrightarrow> path = ''/health'' \<or>
     (\<exists>token. bearer auth = Inr token \<and> token_ok cfg path token)"
proof (cases "bearer auth")
  case (Inl v)
  with bearer_Inl [OF Inl] show ?thesis by (simp add: auth_handler_def)
next
  case (Inr token)
  then show ?thesis
    by (cases "authenticate cfg token")
      (auto simp: auth_handler_def token_ok_iff dest: authenticate_Inl)
qed

text \<open>C22: a request passes the authentication exactly when it is the health probe or carries a bearer
  token that is accepted for its path; every other request is answered with an error.\<close>

theorem auth_passes_iff:
  "auth_handler cfg path auth = Next \<longleftrightarrow> path = ''/health'' \<or>
     (\<exists>token. bearer auth = Inr token \<and> token_ok cfg path token)"
  by (rule auth_passes)

text \<open>A role or scope that merely contains the letters admin opens the administration.\<close>

theorem admin_by_substring:
  assumes "ac_cache cfg = Some k" "jk_Lookup k = None" "jk_Parse k token = Inr c"
    and "ac_expectedIss cfg = []" "ac_expectedAud cfg = []"
    and "cl_role c = Some (a @ ''admin'' @ b)"
    and "bearer auth = Inr token"
  shows "auth_handler cfg path auth = Next"
proof -
  have "admin_claim c" using assms(6) by (auto simp: admin_claim_def Contains_iff)
  with assms have "token_ok cfg path token" by (simp add: token_ok_def)
  with assms(7) show ?thesis unfolding auth_passes by blast
qed

section \<open>Properties of the rate limit\<close>

text \<open>Requests in the order of the clock: client, and the two times.\<close>

fun in_order :: "int \<Rightarrow> (string \<times> int \<times> int) list \<Rightarrow> bool" where
  "in_order t [] = True"
| "in_order t ((k, t0, now) # rs) = (t \<le> t0 \<and> t0 \<le> now \<and> in_order now rs)"

fun end_time :: "int \<Rightarrow> (string \<times> int \<times> int) list \<Rightarrow> int" where
  "end_time t [] = t"
| "end_time t ((k, t0, now) # rs) = end_time now rs"

text \<open>How many requests of \<open>ip\<close> pass without Redis.\<close>

fun admitted :: "rat \<Rightarrow> string \<Rightarrow> (string \<times> int \<times> int) list \<Rightarrow> 'r rate_state \<Rightarrow> nat \<times> 'r rate_state" where
  "admitted rps ip [] s = (0, s)"
| "admitted rps ip ((k, t0, now) # rs) s = (case rate_handler rps None t0 now k s of
     (v, s1) \<Rightarrow> (case admitted rps ip rs s1 of
       (n, s2) \<Rightarrow> ((if k = ip \<and> v = Next then Suc n else n), s2)))"

text \<open>What the bucket of a client is worth at time \<open>t\<close>.\<close>

definition worth :: "rat \<Rightarrow> string \<Rightarrow> int \<Rightarrow> 'r rate_state \<Rightarrow> rat" where
  "worth rps ip t s = (case rs_buckets s ip of None \<Rightarrow> rps | Some b \<Rightarrow> refill rps t b)"

definition bucket_ok :: "rat \<Rightarrow> int \<Rightarrow> limiter \<Rightarrow> bool" where
  "bucket_ok rps t b \<longleftrightarrow> 0 \<le> lm_tokens b \<and> lm_tokens b \<le> rps \<and> lm_last b \<le> t"

definition buckets_ok :: "rat \<Rightarrow> int \<Rightarrow> 'r rate_state \<Rightarrow> bool" where
  "buckets_ok rps t s \<longleftrightarrow> (\<forall>k b. rs_buckets s k = Some b \<longrightarrow> bucket_ok rps t b)"

lemma seconds_simps [simp]: "seconds 0 = 0" "0 \<le> d \<Longrightarrow> 0 \<le> seconds d"
  by (simp_all add: seconds_def Second_def)

lemma seconds_add: "seconds (c - a) = seconds (c - b) + seconds (b - a)"
  by (simp add: seconds_def diff_divide_distrib)

lemma refill_mono:
  assumes "t \<le> t'" "0 \<le> rps"
  shows "refill rps t b \<le> refill rps t' b" "refill rps t' b \<le> refill rps t b + seconds (t' - t) * rps"
proof -
  have "seconds (t' - lm_last b) * rps = seconds (t - lm_last b) * rps + seconds (t' - t) * rps"
    by (subst seconds_add [of _ _ t]) (simp add: algebra_simps)
  moreover have "0 \<le> seconds (t' - t) * rps" using assms by simp
  ultimately show "refill rps t b \<le> refill rps t' b" "refill rps t' b \<le> refill rps t b + seconds (t' - t) * rps"
    by (auto simp: refill_def min_def)
qed

lemma worth_mono: "t \<le> t' \<Longrightarrow> 0 \<le> rps \<Longrightarrow> worth rps ip t' s \<le> worth rps ip t s + seconds (t' - t) * rps"
  by (auto simp: worth_def refill_mono split: option.split)

lemma worth_nonneg: "buckets_ok rps t s \<Longrightarrow> 0 \<le> rps \<Longrightarrow> 0 \<le> worth rps ip t s"
  by (auto simp: worth_def refill_def buckets_ok_def bucket_ok_def split: option.split)

lemma take_ok:
  assumes "bucket_ok rps t b" "t \<le> now" "0 \<le> rps"
  shows "bucket_ok rps now (snd (take_token rps now b))"
    "refill rps now (snd (take_token rps now b)) + (if fst (take_token rps now b) then 1 else 0) = refill rps now b"
proof -
  have "0 \<le> refill rps now b" "refill rps now b \<le> rps"
    using assms by (auto simp: refill_def bucket_ok_def)
  then show "bucket_ok rps now (snd (take_token rps now b))"
    "refill rps now (snd (take_token rps now b)) + (if fst (take_token rps now b) then 1 else 0) = refill rps now b"
    by (auto simp: take_token_def Let_def bucket_ok_def refill_def)
qed

lemma bucket_ok_later: "bucket_ok rps t b \<Longrightarrow> t \<le> t' \<Longrightarrow> bucket_ok rps t' b"
  by (simp add: bucket_ok_def)

text \<open>One request: its client's bucket loses what it admits, every other bucket stays.\<close>

lemma rate_step:
  assumes "buckets_ok rps t s" "t \<le> t0" "t0 \<le> now" "0 \<le> rps" "rate_handler rps None t0 now k s = (v, s')"
  shows "buckets_ok rps now s'"
    "worth rps ip now s' + (if k = ip \<and> v = Next then 1 else 0) = worth rps ip now s"
proof -
  let ?b = "getLimiter rps t0 k (rs_buckets s)"
  have ok: "bucket_ok rps t0 ?b"
    using assms(1,2,4)
    by (auto simp: getLimiter_def buckets_ok_def bucket_ok_def [of rps t0 "\<lparr>lm_tokens = rps, lm_last = t0\<rparr>"]
      intro: bucket_ok_later split: option.split)
  have s': "rs_buckets s' = (rs_buckets s)(k \<mapsto> snd (take_token rps now ?b))"
    and v: "v = Next \<longleftrightarrow> fst (take_token rps now ?b)"
    using assms(5) by (auto simp: rate_handler_def allow_def Let_def split: prod.splits if_splits)
  have "bucket_ok rps now b" if "rs_buckets s i = Some b" for i b
    using assms(1) that bucket_ok_later [of rps t b now] assms(2,3) by (simp add: buckets_ok_def)
  with take_ok(1) [OF ok assms(3,4)] s' show "buckets_ok rps now s'" by (simp add: buckets_ok_def)
  have "refill rps now ?b = worth rps k now s"
    using assms(3,4) by (auto simp: getLimiter_def worth_def refill_def min_def split: option.split)
  with take_ok(2) [OF ok assms(3,4)] v s'
  show "worth rps ip now s' + (if k = ip \<and> v = Next then 1 else 0) = worth rps ip now s"
    by (auto simp: worth_def)
qed

lemma admitted_worth:
  assumes "buckets_ok rps t s" "in_order t rs" "0 \<le> rps" "admitted rps ip rs s = (n, s')"
  shows "buckets_ok rps (end_time t rs) s' \<and>
    of_nat n + worth rps ip (end_time t rs) s' \<le> worth rps ip t s + seconds (end_time t rs - t) * rps"
  using assms(1,2,4)
proof (induction rs arbitrary: t s n)
  case (Cons r rs)
  obtain k t0 now where r: "r = (k, t0, now)" by (cases r)
  obtain v s1 where h: "rate_handler rps None t0 now k s = (v, s1)" by (cases "rate_handler rps None t0 now k s")
  obtain m where m: "admitted rps ip rs s1 = (m, s')"
    using Cons.prems(3) by (auto simp: r h split: prod.splits)
  from Cons.prems(2) have t: "t \<le> t0" "t0 \<le> now" "in_order now rs" by (simp_all add: r)
  note st = rate_step [OF Cons.prems(1) t(1,2) assms(3) h]
  note ih = Cons.IH [OF st(1) t(3) m]
  have n: "(of_nat n :: rat) = of_nat m + (if k = ip \<and> v = Next then 1 else 0)"
    using Cons.prems(3) by (auto simp: r h m)
  have "worth rps ip now s \<le> worth rps ip t s + seconds (now - t) * rps"
    using t assms(3) by (intro worth_mono) auto
  moreover have "seconds (end_time now rs - t) * rps = seconds (end_time now rs - now) * rps + seconds (now - t) * rps"
    by (subst seconds_add [of _ _ now]) (simp add: algebra_simps)
  ultimately show ?case
    using ih st(2) [of ip] by (simp add: r n)
qed simp



text \<open>With a rate below one request per second every request is refused, with Redis or without it.\<close>

theorem low_rate_refuses_all:
  assumes "0 < rps" "rps < 1"
    and "\<And>r c. rdb = Some r \<Longrightarrow> fst (rd_Incr r (''ratelimit:'' @ ip) (rs_redis s)) = Inr c \<Longrightarrow> 0 < c"
  shows "fst (rate_handler rps rdb t0 now ip s) = Abort limit_exceeded"
proof -
  have low: "refill rps now b < 1" for b using assms(2) by (auto simp: refill_def min_def)
  then have no: "fst (allow rps t0 now ip bs) = False" for bs
    by (simp add: allow_def take_token_def Let_def split_beta)
  have "trunc_rat rps = 0" using assms(1,2) by (simp add: trunc_rat_def floor_eq_iff)
  with assms(3) no show ?thesis
    by (auto simp: rate_handler_def Let_def split_beta split: option.split sum.split)
qed

text \<open>A counter in place of Redis.\<close>

definition counting_redis :: "int redis" where
  "counting_redis = \<lparr>rd_Incr = (\<lambda>k n. (Inr (n + 1), n + 1)), rd_Expire = (\<lambda>k d n. n)\<rparr>"

theorem low_rate_refuses_all_witness:
  "fst (rate_handler (1 / 2) (Some counting_redis) 0 0 ''a'' \<lparr>rs_buckets = Map.empty, rs_redis = 0\<rparr>) =
    Abort limit_exceeded"
  by (rule low_rate_refuses_all) (auto simp: counting_redis_def)

text \<open>A concrete key set whose tokens are their role.\<close>

definition jwks0 :: jwks where
  "jwks0 = \<lparr>jk_Lookup = None, jk_Parse = (\<lambda>t. Inr \<lparr>cl_Issuer = None, cl_Audience = [],
     cl_role = Some t, cl_roles = None, cl_scope = None\<rparr>)\<rparr>"

lemma bearer_example: "bearer ''Bearer nonadministrator'' = Inr ''nonadministrator''"
  by code_simp

theorem admin_by_substring_witness:
  "auth_handler \<lparr>ac_cache = Some jwks0, ac_allowLegacy = False, ac_adminRaw = [], ac_internalRaw = [],
     ac_expectedIss = [], ac_expectedAud = []\<rparr> ''/api/v1/admin/stats'' ''Bearer nonadministrator'' = Next"
  by (rule admin_by_substring [where k = jwks0 and token = "''nonadministrator''" and a = "''non''" and b = "''istrator''"
      and c = "\<lparr>cl_Issuer = None, cl_Audience = [], cl_role = Some ''nonadministrator'', cl_roles = None,
        cl_scope = None\<rparr>"]) (simp_all add: jwks0_def bearer_example)

end
