(* ===== verification/Database.thy ===== *)
theory Database
  imports BulkLimits
begin

text \<open>
  \<open>internal/db/db.go\<close>: the pool of connections with its two bounds, and the collector of its
  statistics.  \<open>sql.Open\<close> is the driver's: its error is a parameter.  The setters of the pool
  are those of \<open>database/sql\<close>, which never lets the idle connections exceed the open ones.
\<close>

section \<open>The pool\<close>

text \<open>\<open>maxOpen\<close> is 0 for no bound; \<open>maxIdleCount\<close> is 0 for the default of two and negative for none.\<close>

record pool =
  pool_maxOpen :: int
  pool_maxIdleCount :: int

definition maxIdleConns :: "pool \<Rightarrow> int" where
  "maxIdleConns p = (if pool_maxIdleCount p = 0 then 2
     else if pool_maxIdleCount p < 0 then 0 else pool_maxIdleCount p)"

definition SetMaxIdleConns :: "int \<Rightarrow> pool \<Rightarrow> pool" where
  "SetMaxIdleConns n p = (let q = p\<lparr>pool_maxIdleCount := if 0 < n then n else - 1\<rparr> in
     if 0 < pool_maxOpen q \<and> pool_maxOpen q < maxIdleConns q
     then q\<lparr>pool_maxIdleCount := pool_maxOpen q\<rparr> else q)"

definition SetMaxOpenConns :: "int \<Rightarrow> pool \<Rightarrow> pool" where
  "SetMaxOpenConns n p = (let q = p\<lparr>pool_maxOpen := if n < 0 then 0 else n\<rparr> in
     if 0 < pool_maxOpen q \<and> pool_maxOpen q < maxIdleConns q then SetMaxIdleConns n q else q)"

definition Connect :: "(string \<Rightarrow> go_error option) \<Rightarrow> string \<Rightarrow> go_error + pool" where
  "Connect sql_Open url = (case sql_Open url of
     Some err \<Rightarrow> Inl err
   | None \<Rightarrow> Inr (SetMaxIdleConns 5 (SetMaxOpenConns 25 \<lparr>pool_maxOpen = 0, pool_maxIdleCount = 0\<rparr>)))"

text \<open>The bounds of the configuration, as \<open>NewDeps\<close> applies them.\<close>

definition configured_pool :: "Config \<Rightarrow> pool \<Rightarrow> pool" where
  "configured_pool c p = (let q = (if 0 < cfg_MaxOpenConns c then SetMaxOpenConns (cfg_MaxOpenConns c) p else p)
     in if 0 < cfg_MaxIdleConns c then SetMaxIdleConns (cfg_MaxIdleConns c) q else q)"

section \<open>The collector\<close>

record db_gauges =
  dg_open :: int
  dg_idle :: int

text \<open>What the goroutine's \<open>select\<close> receives: a tick, at which the pool has some statistics, or the
  closed stop channel.\<close>

datatype collector_event = Tick int int | Stop

fun collect :: "collector_event list \<Rightarrow> db_gauges \<Rightarrow> db_gauges" where
  "collect [] g = g"
| "collect (Tick opn idle # evs) g = collect evs (g\<lparr>dg_open := opn, dg_idle := idle\<rparr>)"
| "collect (Stop # evs) g = g"

text \<open>Starting it: \<open>time.NewTicker\<close> panics on an interval that is not positive.\<close>

definition StartDBStatsCollector :: "pool option \<Rightarrow> int \<Rightarrow> (collector_event list \<Rightarrow> db_gauges \<Rightarrow> db_gauges) go" where
  "StartDBStatsCollector db interval = (case db of
     None \<Rightarrow> Ret (\<lambda>evs g. g)
   | Some p \<Rightarrow> if interval \<le> 0 then Panic else Ret collect)"

text \<open>The database of the process: None without a URL.\<close>

definition open_database :: "Config \<Rightarrow> (string \<Rightarrow> go_error option) \<Rightarrow> (go_error + pool option) go" where
  "open_database c sql_Open = (
     let dbConn = (if cfg_DatabaseURL c \<noteq> []
           then (case Connect sql_Open (cfg_DatabaseURL c) of
               Inl err \<Rightarrow> Inl err | Inr p \<Rightarrow> Inr (Some (configured_pool c p)))
           else Inr None)
     in (case dbConn of
         Inl err \<Rightarrow> Ret (Inl err)
       | Inr db \<Rightarrow> (case StartDBStatsCollector db (cfg_StatsInterval c) of
           Ret _ \<Rightarrow> Ret (Inr db) | Panic \<Rightarrow> Panic)))"

section \<open>Facts\<close>

lemma SetMaxIdleConns_bounds:
  "pool_maxOpen (SetMaxIdleConns n p) = pool_maxOpen p"
  "0 < pool_maxOpen p \<Longrightarrow> maxIdleConns (SetMaxIdleConns n p) = min (max n 0) (pool_maxOpen p)"
  by (auto simp: SetMaxIdleConns_def maxIdleConns_def Let_def)

lemma SetMaxOpenConns_bounds:
  assumes "0 < n" "0 < pool_maxIdleCount p"
  shows "pool_maxOpen (SetMaxOpenConns n p) = n"
    "maxIdleConns (SetMaxOpenConns n p) = min (maxIdleConns p) n"
    "0 < pool_maxIdleCount (SetMaxOpenConns n p)"
  using assms by (auto simp: SetMaxOpenConns_def SetMaxIdleConns_def maxIdleConns_def Let_def)

lemma Connect_pool:
  "Connect sql_Open url = (case sql_Open url of Some err \<Rightarrow> Inl err
     | None \<Rightarrow> Inr \<lparr>pool_maxOpen = 25, pool_maxIdleCount = 5\<rparr>)"
  by (simp add: Connect_def SetMaxIdleConns_def SetMaxOpenConns_def maxIdleConns_def Let_def split: option.split)

text \<open>A bound that is not positive leaves the default in force; the idle connections stay within the
  open ones whatever the two bounds are.\<close>

lemma configured_pool_bounds:
  assumes "p = \<lparr>pool_maxOpen = 25, pool_maxIdleCount = 5\<rparr>"
  shows "pool_maxOpen (configured_pool c p) = (if 0 < cfg_MaxOpenConns c then cfg_MaxOpenConns c else 25)"
    "maxIdleConns (configured_pool c p) =
      min (if 0 < cfg_MaxIdleConns c then cfg_MaxIdleConns c else 5) (pool_maxOpen (configured_pool c p))"
proof -
  have "maxIdleConns p = 5" using assms by (simp add: maxIdleConns_def)
  with SetMaxOpenConns_bounds [of "cfg_MaxOpenConns c" p] assms
  show "pool_maxOpen (configured_pool c p) = (if 0 < cfg_MaxOpenConns c then cfg_MaxOpenConns c else 25)"
    "maxIdleConns (configured_pool c p) =
      min (if 0 < cfg_MaxIdleConns c then cfg_MaxIdleConns c else 5) (pool_maxOpen (configured_pool c p))"
    by (simp_all add: configured_pool_def Let_def SetMaxIdleConns_bounds)
qed

text \<open>C37: the database the process opens: none without a URL; an error of the driver; a panic when the
  interval of the statistics is not positive; else a pool with the configured bounds (25 and 5 when
  they are not positive) whose idle connections never exceed the open ones.\<close>

theorem database_opened:
  "open_database c sql_Open =
     (if cfg_DatabaseURL c = [] then Ret (Inr None)
      else case sql_Open (cfg_DatabaseURL c) of
         Some err \<Rightarrow> Ret (Inl err)
       | None \<Rightarrow> if cfg_StatsInterval c \<le> 0 then Panic
           else Ret (Inr (Some (configured_pool c \<lparr>pool_maxOpen = 25, pool_maxIdleCount = 5\<rparr>)))) \<and>
   (case open_database c sql_Open of
      Ret (Inr (Some p)) \<Rightarrow>
        pool_maxOpen p = (if 0 < cfg_MaxOpenConns c then cfg_MaxOpenConns c else 25) \<and>
        maxIdleConns p = min (if 0 < cfg_MaxIdleConns c then cfg_MaxIdleConns c else 5) (pool_maxOpen p) \<and>
        0 < maxIdleConns p \<and> maxIdleConns p \<le> pool_maxOpen p
    | _ \<Rightarrow> True)"
proof -
  have "0 < min (if 0 < cfg_MaxIdleConns c then cfg_MaxIdleConns c else 5)
      (if 0 < cfg_MaxOpenConns c then cfg_MaxOpenConns c else 25)" by simp
  then show ?thesis
    by (simp add: open_database_def Connect_pool StartDBStatsCollector_def configured_pool_bounds
        split: option.split)
qed

text \<open>The gauges hold the statistics of the last tick before the stop.\<close>

lemma collect_last:
  "collect (evs @ [Tick opn idle]) g = (if Stop \<in> set evs then collect evs g else \<lparr>dg_open = opn, dg_idle = idle\<rparr>)"
  by (induction evs g rule: collect.induct) simp_all

lemma collect_stopped: "collect (evs @ Stop # evs') g = collect evs g"
  by (induction evs g rule: collect.induct) simp_all

end
