(* ===== verification/Wiring.thy ===== *)
theory Wiring
  imports Downloads Upload Middleware Database
begin

text \<open>
  \<open>internal/di\<close>: the handler of \<open>bulk.result\<close> messages (\<open>di_handler.go\<close>) and the construction of
  every component from the configuration (\<open>di.go\<close>).  A handler that dereferences a nil batch takes
  the process down: Panic; \<open>no_panic_result_handler\<close> of \<open>HandlerLaws\<close> shows that with the repositories
  of the code it does not.
\<close>

section \<open>Result messages\<close>

text \<open>A nil map is left out; \<open>json.Marshal\<close> of a map of strings does not fail.\<close>

definition event_result :: "'w Runtime \<Rightarrow> BulkResultEvent \<Rightarrow> JobResult" where
  "event_result rt ev = \<lparr>r_JobID = ev_JobID ev, r_RowNumber = 0, r_BuildID = ev_BuildID ev,
     r_BarcodeURLs = (case ev_BarcodeURLs ev of None \<Rightarrow> [] | Some m \<Rightarrow> marshal_map m),
     r_ErrorCode = [], r_ErrorMessage = [],
     r_BillingTransactionID = (case ev_Billing ev of
        Some (st, tx) \<Rightarrow> if tx \<noteq> [] \<and> Rt_UUIDParse rt tx then tx else []
      | None \<Rightarrow> [])\<rparr>"

definition store_result :: "'w Runtime \<Rightarrow> 'w JobRepository option \<Rightarrow> BulkResultEvent \<Rightarrow> ('w, unit) state" where
  "store_result rt jobRepo ev = (case jobRepo of
     None \<Rightarrow> State_Monad.return ()
   | Some jr \<Rightarrow> do {
       _ \<leftarrow> JobRepo_UpdateStatusWithResult jr (ev_JobID ev) (ev_Status ev) (event_result rt ev);
       State_Monad.return ()
     })"

definition tag_result :: "'w Runtime \<Rightarrow> 'w Tagger option \<Rightarrow> BulkResultEvent \<Rightarrow> ('w, unit) state" where
  "tag_result rt hist ev = (case hist of
     None \<Rightarrow> State_Monad.return ()
   | Some h \<Rightarrow> do {
       _ \<leftarrow> TagEvent rt h ''bulk.result'' (ResultPayload ev);
       if ev_BatchID ev \<noteq> [] \<and> ev_JobID ev \<noteq> []
       then do {
         _ \<leftarrow> TagBulkID rt h (ev_BatchID ev) (ev_JobID ev) (ev_BarcodeURLs ev);
         State_Monad.return ()
       }
       else State_Monad.return ()
     })"

definition notify_batch :: "'w Runtime \<Rightarrow> 'w BatchManager option \<Rightarrow> string \<Rightarrow> ('w, unit go) state" where
  "notify_batch rt bm batchID = (case bm of
     None \<Rightarrow> State_Monad.return (Ret ())
   | Some m \<Rightarrow> go_bind (OnJobStatusChange rt m batchID) (\<lambda>_. State_Monad.return (Ret ())))"

definition buildResultHandler :: "'w Runtime \<Rightarrow> 'w JobRepository option \<Rightarrow> 'w Tagger option \<Rightarrow>
    'w BatchManager option \<Rightarrow> BulkResultEvent \<Rightarrow> ('w, go_error option go) state" where
  "buildResultHandler rt jobRepo hist bm ev = do {
     store_result rt jobRepo ev;
     tag_result rt hist ev;
     go_bind (notify_batch rt bm (ev_BatchID ev)) (\<lambda>_. State_Monad.return (Ret None))
   }"

section \<open>The dependencies\<close>

text \<open>Storage as the handlers see it: the interface holds the client's pointer, nil or not.\<close>

definition storage_client :: "FileClient option \<Rightarrow> world StorageClient" where
  "storage_client f = \<lparr>Sto_Save = FileClient_Save f, Sto_Presign = FileClient_Presign f,
     Sto_Get = (\<lambda>name. do {
       r \<leftarrow> FileClient_Get f name;
       State_Monad.return (case r of Inl err \<Rightarrow> Inl err
         | Inr (data, err) \<Rightarrow> Inr \<lparr>rd_data = data, rd_err = err\<rparr>)
     })\<rparr>"

definition exporter_api :: "env \<Rightarrow> world ManagerAPI" where
  "exporter_api e = \<lparr>
     Exp_Enqueue = (\<lambda>i. do {
       t1 \<leftarrow> Rt_Now (runtime_of e);
       t2 \<leftarrow> Rt_Now (runtime_of e);
       in_exports (Enqueue t1 t2 i)
     }),
     Exp_Get = (\<lambda>i. in_exports (\<lambda>m. (Get i m, m)))\<rparr>"

definition history_topic :: "(string \<Rightarrow> string) \<Rightarrow> string" where
  "history_topic getenv = env_str getenv ''KAFKA_TOPIC_TRANS_HISTORY'' ''trans-history.log''"

definition dlq_topic :: "(string \<Rightarrow> string) \<Rightarrow> string" where
  "dlq_topic getenv = env_str getenv ''KAFKA_DLQ_TOPIC'' ''bulk.result.dlq''"

definition consumer_retry :: "(string \<Rightarrow> string) \<Rightarrow> int" where
  "consumer_retry getenv = env_val getenv Atoi ''KAFKA_CONSUMER_RETRY'' 3 3"

definition tagger_of :: "env \<Rightarrow> Config \<Rightarrow> world Tagger" where
  "tagger_of e c = \<lparr>tg_producer = producer_of e (cfg_Brokers c), tg_topic = history_topic (eGetenv e)\<rparr>"

definition billing_client_of :: "Config \<Rightarrow> BFFBillingClient" where
  "billing_client_of c = \<lparr>bc_url = cfg_BFFURL c, bc_token = cfg_ServiceToken c\<rparr>"

definition manager_of :: "env \<Rightarrow> Config \<Rightarrow> world BatchManager" where
  "manager_of e c = prod_manager e (cfg_Brokers c) (billing_client_of c) (history_topic (eGetenv e))
     (cfg_BulkStatusTopic c)"

definition result_handler :: "env \<Rightarrow> Config \<Rightarrow> BulkResultEvent \<Rightarrow> (world, go_error option go) state" where
  "result_handler e c = buildResultHandler (runtime_of e) (Some (jobRepository e)) (Some (tagger_of e c))
     (Some (manager_of e c))"

text \<open>\<open>NewDeps\<close> on a configured database; an error of the connection ends it, and the collector of
  statistics may panic.  Without a database URL
  the repositories hold a nil connection that every use dereferences, which is not modelled: None.
  \<open>storage\<close> is the result of \<open>NewFileClientFromEnv\<close> when \<open>STORAGE_ENDPOINT\<close> is set.\<close>

definition storage_of_env :: "(string \<Rightarrow> string) \<Rightarrow> go_error + FileClient \<Rightarrow> FileClient option" where
  "storage_of_env getenv storage = (if getenv ''STORAGE_ENDPOINT'' \<noteq> []
     then (case storage of Inr sc \<Rightarrow> Some sc | Inl serr \<Rightarrow> None) else None)"

definition service_in :: "env \<Rightarrow> Config \<Rightarrow> FileClient option \<Rightarrow> world Service" where
  "service_in e c fc = prod_service e (cfg_Brokers c) (billing_client_of c)
     \<lparr>bv_url = cfg_BFFURL c, bv_token = cfg_ServiceToken c\<rparr> fc"

definition deps_of :: "env \<Rightarrow> Config \<Rightarrow> FileClient option \<Rightarrow> world Deps" where
  "deps_of e c fc = \<lparr>
     dp_BatchRepo = Some (batchRepository e),
     dp_JobRepo = Some (jobRepository e),
     dp_ValidationRepo = Some (validationRepository e),
     dp_BatchManager = Some (manager_of e c),
     dp_BillingClient = Some (billing_of e (billing_client_of c)),
     dp_Producer = Some (producer_of e (cfg_Brokers c)),
     dp_Service = Some (service_in e c fc),
     dp_Storage = Some (storage_client fc),
     dp_ExportManager = Some (exporter_api e)\<rparr>"

definition NewDeps :: "env \<Rightarrow> Config \<Rightarrow> (string \<Rightarrow> go_error option) \<Rightarrow> go_error + FileClient \<Rightarrow>
    (go_error + world Deps) go option" where
  "NewDeps e c sql_Open storage = (case open_database c sql_Open of
     Panic \<Rightarrow> Some Panic
   | Ret (Inl err) \<Rightarrow> Some (Ret (Inl err))
   | Ret (Inr None) \<Rightarrow> None
   | Ret (Inr (Some p)) \<Rightarrow> Some (Ret (Inr (deps_of e c (storage_of_env (eGetenv e) storage)))))"

text \<open>The consumer, started when there are brokers.\<close>

definition handler_error :: "go_error option go \<Rightarrow> go_error option" where
  "handler_error x = (case x of Ret err \<Rightarrow> err | Panic \<Rightarrow> Some (ErrMsg ''panic''))"

definition consumer_of :: "env \<Rightarrow> Config \<Rightarrow> world ResultConsumer option" where
  "consumer_of e c = (if cfg_Brokers c \<noteq> [] then Some \<lparr>
       rc_handler = Some (\<lambda>ev. do {
         x \<leftarrow> result_handler e c ev;
         State_Monad.return (handler_error x)
       }),
       rc_producer = Some (producer_of e (cfg_Brokers c)),
       rc_dlqTopic = dlq_topic (eGetenv e),
       rc_retryCount = consumer_retry (eGetenv e)\<rparr>
     else None)"

end
