(* ===== verification/Router.thy ===== *)
theory Router
  imports Wiring
begin

text \<open>
  \<open>internal/transport/http/router.go\<close>: the routes, the readiness probe, and a request's way through
  authentication, rate limit and handler.  Gin's matching of paths is third-party; the model
  compares segments, a parameter matching any segment that is not empty.  The metrics endpoint is
  an endpoint without a model of its answer.
\<close>

section \<open>Routes\<close>

datatype endpoint =
    Health | Ready | Metrics
  | PostUpload | GetBatches | GetBatch | PostConfirm | PostCancel | PostExport | GetExport
  | GetErrors | GetResults | GetTemplate
  | AdminStats | AdminBatches | AdminBatch | AdminConfig | PutLimits | GetLimits | AdminRestart

datatype segment = Lit string | Par string

definition routes :: "(string \<times> segment list \<times> endpoint) list" where
  "routes = (let api = [Lit ''api'', Lit ''v1'']; batch = api @ [Lit ''batch'', Par ''id''];
       admin = api @ [Lit ''admin'']
     in [
     (''GET'', [Lit ''health''], Health),
     (''GET'', [Lit ''ready''], Ready),
     (''GET'', [Lit ''metrics''], Metrics),
     (''POST'', api @ [Lit ''upload''], PostUpload),
     (''GET'', api @ [Lit ''batches''], GetBatches),
     (''GET'', batch, GetBatch),
     (''GET'', batch @ [Lit ''status''], GetBatch),
     (''POST'', batch @ [Lit ''confirm''], PostConfirm),
     (''POST'', batch @ [Lit ''cancel''], PostCancel),
     (''POST'', batch @ [Lit ''export''], PostExport),
     (''GET'', api @ [Lit ''export'', Par ''id''], GetExport),
     (''GET'', batch @ [Lit ''errors.xlsx''], GetErrors),
     (''GET'', batch @ [Lit ''results.xlsx''], GetResults),
     (''GET'', api @ [Lit ''template'', Par ''revision''], GetTemplate),
     (''GET'', admin @ [Lit ''stats''], AdminStats),
     (''GET'', admin @ [Lit ''batches''], AdminBatches),
     (''GET'', admin @ [Lit ''batches'', Par ''id''], AdminBatch),
     (''PUT'', admin @ [Lit ''batches'', Par ''id'', Lit ''config''], AdminConfig),
     (''PUT'', admin @ [Lit ''config'', Lit ''bulk-limits''], PutLimits),
     (''GET'', admin @ [Lit ''config'', Lit ''bulk-limits''], GetLimits),
     (''GET'', admin @ [Lit ''users'', Par ''userId'', Lit ''batches''], AdminBatches),
     (''POST'', admin @ [Lit ''batches'', Par ''id'', Lit ''restart''], AdminRestart)])"

fun match_segments :: "segment list \<Rightarrow> string list \<Rightarrow> (string \<times> string) list option" where
  "match_segments [] [] = Some []"
| "match_segments (Lit s # ps) (x # xs) = (if s = x then match_segments ps xs else None)"
| "match_segments (Par k # ps) (x # xs) = (if x \<noteq> [] then map_option (Cons (k, x)) (match_segments ps xs) else None)"
| "match_segments _ _ = None"

fun find_route :: "(string \<times> segment list \<times> endpoint) list \<Rightarrow> string \<Rightarrow> string list \<Rightarrow>
    (endpoint \<times> (string \<times> string) list) option" where
  "find_route [] meth segs = None"
| "find_route ((m, pat, ep) # rs) meth segs = (if m = meth then (case match_segments pat segs of
     Some ps \<Rightarrow> Some (ep, ps) | None \<Rightarrow> find_route rs meth segs) else find_route rs meth segs)"

text \<open>The segments of a path that starts with a slash.\<close>

definition path_segments :: "string \<Rightarrow> string list" where
  "path_segments path = (case path of c # p \<Rightarrow> if c = CHR ''/'' then Split CHR ''/'' p else [] | [] \<Rightarrow> [])"

definition route :: "string \<Rightarrow> string \<Rightarrow> (endpoint \<times> (string \<times> string) list) option" where
  "route meth path = find_route routes meth (path_segments path)"

definition admin_endpoint :: "endpoint \<Rightarrow> bool" where
  "admin_endpoint ep \<longleftrightarrow> ep \<in> {AdminStats, AdminBatches, AdminBatch, AdminConfig, PutLimits, GetLimits, AdminRestart}"

section \<open>Probes\<close>

text \<open>\<open>ping\<close> is the answer of \<open>PingContext\<close>, None when there is no database.\<close>

definition ready_response :: "bool option \<Rightarrow> Config option \<Rightarrow> 'w Deps option \<Rightarrow> response" where
  "ready_response ping cfg deps = (
     if ping = Some False
     then Json 503 (GH [(''status'', GStr ''unready''), (''db'', GStr ''ping_failed'')])
     else if (case cfg of Some c \<Rightarrow> cfg_Brokers c \<noteq> [] | None \<Rightarrow> False) \<and> dep dp_Producer deps = None
     then Json 503 (GH [(''status'', GStr ''unready''), (''kafka'', GStr ''producer_missing'')])
     else Json 200 (GH [(''status'', GStr ''ready'')]))"

definition not_found :: response where
  "not_found = Json 404 (GH [])"

section \<open>Serving a request\<close>

text \<open>What the process got from its libraries and the outside, apart from \<open>env\<close>.\<close>

record platform_libs =
  pl_readers :: sheet_readers
  pl_form_file :: "string \<Rightarrow> read_error \<Rightarrow> go_error + upload_file"
  pl_sniff :: "string \<Rightarrow> string"
  pl_fault :: "cell list list \<Rightarrow> xlsx_fault option"
  pl_ping :: "bool option"

record http_request =
  hr_method :: string
  hr_path :: string
  hr_query :: "string \<Rightarrow> string"
  hr_body :: string
  hr_auth :: string
  hr_ip :: string
  hr_length :: int
  hr_eager :: bool
  hr_invalid :: string

definition handler_request :: "http_request \<Rightarrow> (string \<times> string) list \<Rightarrow> request" where
  "handler_request q ps = \<lparr>rq_param = (\<lambda>k. case map_of ps k of Some v \<Rightarrow> v | None \<Rightarrow> []),
     rq_query = hr_query q, rq_body = hr_body q, rq_invalid = hr_invalid q\<rparr>"

text \<open>The limits in force, and the handlers of \<open>limits.go\<close> on them.\<close>

definition in_limits :: "(Limits, 'a) state \<Rightarrow> (world, 'a) state" where
  "in_limits m = do {
     w \<leftarrow> State_Monad.get;
     State_Monad.set (w\<lparr>wLimits := after m (wLimits w)\<rparr>);
     State_Monad.return (result m (wLimits w))
   }"

definition limits_body :: "Limits \<Rightarrow> gval" where
  "limits_body l = GH [(''maxFileSize'', GInt (lim_MaxFileSize l)),
     (''maxRowsPerBatch'', GInt (lim_MaxRowsPerBatch l)),
     (''maxConcurrentBatches'', GInt (lim_MaxConcurrentBatches l)),
     (''maxBatchesPerHour'', GInt (lim_MaxBatchesPerHour l))]"

definition limits_step_of :: "string \<Rightarrow> json \<Rightarrow> Limits \<Rightarrow> Limits option" where
  "limits_step_of k j l =
     (if k = ''maxfilesize'' then map_option (\<lambda>x. l\<lparr>lim_MaxFileSize := x\<rparr>) (dec_int j (lim_MaxFileSize l))
      else if k = ''maxrowsperbatch''
      then map_option (\<lambda>x. l\<lparr>lim_MaxRowsPerBatch := x\<rparr>) (dec_int j (lim_MaxRowsPerBatch l))
      else if k = ''maxconcurrentbatches''
      then map_option (\<lambda>x. l\<lparr>lim_MaxConcurrentBatches := x\<rparr>) (dec_int j (lim_MaxConcurrentBatches l))
      else if k = ''maxbatchesperhour''
      then map_option (\<lambda>x. l\<lparr>lim_MaxBatchesPerHour := x\<rparr>) (dec_int j (lim_MaxBatchesPerHour l))
      else Some l)"

definition limits_out_of_range :: response where
  "limits_out_of_range = fail_with 400 ''VALIDATION_ERROR'' ''limits must be positive''"

definition put_limits_request :: "request \<Rightarrow> (world, response go) state" where
  "put_limits_request rq = (let req = ShouldBindJSON limits_step_of
       \<lparr>lim_MaxFileSize = 0, lim_MaxRowsPerBatch = 0, lim_MaxConcurrentBatches = 0, lim_MaxBatchesPerHour = 0\<rparr>
       (\<lambda>l. True) rq
     in do {
       r \<leftarrow> in_limits (HandlePutBulkLimits req);
       respond (case snd r of
          Some l \<Rightarrow> Json (fst r) (GH [(''success'', GBool True), (''config'', limits_body l)])
        | None \<Rightarrow> if req = None then bad_body rq else limits_out_of_range)
     })"

definition get_limits_request :: "(world, response go) state" where
  "get_limits_request = do {
     r \<leftarrow> in_limits HandleGetBulkLimits;
     respond (Json (fst r) (case snd r of Some l \<Rightarrow> limits_body l | None \<Rightarrow> GH []))
   }"

definition upload_request_of :: "http_request \<Rightarrow> upload_request" where
  "upload_request_of q = \<lparr>ur_ContentLength = hr_length q, ur_body = hr_body q, ur_eager = hr_eager q\<rparr>"

definition upload_endpoint :: "env \<Rightarrow> platform_libs \<Rightarrow> world Deps option \<Rightarrow> http_request \<Rightarrow>
    (world, response go) state" where
  "upload_endpoint e libs deps q = do {
     l \<leftarrow> in_limits limits_Get;
     HandleUpload (runtime_of e) (pl_readers libs) (pl_form_file libs) (pl_sniff libs) l deps
       (upload_request_of q)
   }"

text \<open>The handlers \<open>NewRouter\<close> registers.\<close>

fun handle :: "env \<Rightarrow> platform_libs \<Rightarrow> Config option \<Rightarrow> world Deps option \<Rightarrow> http_request \<Rightarrow> request \<Rightarrow>
    endpoint \<Rightarrow> (world, response go) state" where
  "handle e libs cfg deps q rq Health = respond (Json 200 (GH [(''status'', GStr ''ok'')]))"
| "handle e libs cfg deps q rq Ready = respond (ready_response (pl_ping libs) cfg deps)"
| "handle e libs cfg deps q rq Metrics = respond (Json 200 (GH []))"
| "handle e libs cfg deps q rq PostUpload = upload_endpoint e libs deps q"
| "handle e libs cfg deps q rq GetBatches = HandleListBatches (eTimeRFC3339 e) deps rq"
| "handle e libs cfg deps q rq GetBatch = HandleBatchStatus deps rq"
| "handle e libs cfg deps q rq PostConfirm = HandleConfirm (runtime_of e) deps rq"
| "handle e libs cfg deps q rq PostCancel = HandleCancel (runtime_of e) deps rq"
| "handle e libs cfg deps q rq PostExport = HandleStartExport deps rq"
| "handle e libs cfg deps q rq GetExport = HandleGetExport (runtime_of e) deps rq"
| "handle e libs cfg deps q rq GetErrors = HandleDownloadErrorsXLS (pl_fault libs) deps rq"
| "handle e libs cfg deps q rq GetResults = HandleDownloadResultsXLS (pl_fault libs) deps rq"
| "handle e libs cfg deps q rq GetTemplate = respond (HandleDownloadTemplateXLS (pl_fault libs) rq)"
| "handle e libs cfg deps q rq AdminStats = HandleAdminStats (runtime_of e) (eTimeRFC3339 e) deps rq"
| "handle e libs cfg deps q rq AdminBatches = HandleAdminListBatches (eTimeRFC3339 e) deps rq"
| "handle e libs cfg deps q rq AdminBatch = HandleAdminGetBatch deps rq"
| "handle e libs cfg deps q rq AdminConfig = HandleAdminUpdateBatchConfig deps rq"
| "handle e libs cfg deps q rq PutLimits = put_limits_request rq"
| "handle e libs cfg deps q rq GetLimits = get_limits_request"
| "handle e libs cfg deps q rq AdminRestart = HandleAdminRestartBatch (runtime_of e) deps rq"

definition dispatch :: "env \<Rightarrow> platform_libs \<Rightarrow> Config option \<Rightarrow> world Deps option \<Rightarrow> http_request \<Rightarrow>
    (world, response) state" where
  "dispatch e libs cfg deps q = (case route (hr_method q) (hr_path q) of
     None \<Rightarrow> State_Monad.return not_found
   | Some (ep, ps) \<Rightarrow> do {
       r \<leftarrow> handle e libs cfg deps q (handler_request q ps) ep;
       State_Monad.return (recovered r)
     })"

text \<open>\<open>NewRouter\<close> also sets the default limits.\<close>

definition router_start :: "Config option \<Rightarrow> (world, unit) state" where
  "router_start cfg = in_limits (SetDefaultLimitsFromConfig cfg)"

text \<open>A request through the middleware; the state is the world and the rate limiter's.\<close>

definition serve :: "env \<Rightarrow> platform_libs \<Rightarrow> Config option \<Rightarrow> world Deps option \<Rightarrow> auth_config \<Rightarrow> rat \<Rightarrow>
    'r redis option \<Rightarrow> http_request \<Rightarrow> world \<times> 'r rate_state \<Rightarrow> response \<times> world \<times> 'r rate_state" where
  "serve e libs cfg deps auth rps rdb q s = (case auth_handler auth (hr_path q) (hr_auth q) of
     Abort r \<Rightarrow> (r, s)
   | Next \<Rightarrow> (case s of (w, rs) \<Rightarrow>
       (let now = Rt_Now (runtime_of e); t0 = result now w; w1 = after now w; t = result now w1; w2 = after now w1
        in (case rate_handler rps rdb t0 t (hr_ip q) rs of
          (Abort r, rs') \<Rightarrow> (r, w2, rs')
        | (Next, rs') \<Rightarrow> (result (dispatch e libs cfg deps q) w2, after (dispatch e libs cfg deps q) w2, rs')))))"

section \<open>Facts\<close>

lemma join_Split: "join c (Split c p) = p"
proof (induction p)
  case (Cons a p)
  obtain x xs where s: "Split c p = x # xs" by (cases "Split c p") auto
  with Cons show ?case by (cases xs) auto
qed simp

lemma path_of_segments: "path_segments path = x # xs \<Longrightarrow> path = CHR ''/'' # join CHR ''/'' (x # xs)"
  by (auto simp: path_segments_def split: list.splits if_splits) (metis join_Split)

lemma match_cons:
  "match_segments (Lit s # ps) xs = Some m \<longleftrightarrow> (\<exists>ys. xs = s # ys \<and> match_segments ps ys = Some m)"
  "match_segments (Par k # ps) xs = Some m \<longleftrightarrow>
    (\<exists>x ys m'. xs = x # ys \<and> x \<noteq> [] \<and> match_segments ps ys = Some m' \<and> m = (k, x) # m')"
  "match_segments [] xs = Some m \<longleftrightarrow> xs = [] \<and> m = []"
  by (cases xs; auto)+

lemma find_route_member: "find_route rs meth segs = Some (ep, ps) \<Longrightarrow>
    \<exists>pat. (meth, pat, ep) \<in> set rs \<and> match_segments pat segs = Some ps"
  by (induction rs) (auto split: if_splits option.splits)

lemma routes_cases:
  assumes "(meth, pat, ep) \<in> set routes" "match_segments pat (path_segments path) = Some ps"
  shows "admin_endpoint ep \<longleftrightarrow> admin_path path"
  using assms unfolding routes_def Let_def
  by (auto simp: match_cons admin_endpoint_def admin_path_def HasPrefix_def dest!: path_of_segments)

section \<open>Properties\<close>

text \<open>The administration's endpoints are exactly those under the path that the authentication
  guards.\<close>

theorem admin_routes_guarded:
  "case route meth path of None \<Rightarrow> True | Some (ep, ps) \<Rightarrow> admin_endpoint ep = admin_path path"
  using routes_cases find_route_member
  by (auto simp: route_def split: option.split prod.splits) blast+

definition denial :: "verdict \<Rightarrow> bool" where
  "denial v \<longleftrightarrow> (case v of Next \<Rightarrow> True | Abort r \<Rightarrow> status_code r \<in> {401, 403, 500})"

lemma denial_deny [simp]:
  "denial (deny 401 msg)" "denial (deny 403 msg)" "denial (deny 500 msg)" "denial (deny_with msg d)" "denial Next"
  by (simp_all add: denial_def deny_def deny_with_def status_code_def)

lemma denial_bearer: "bearer auth = Inl v \<Longrightarrow> denial v"
  unfolding bearer_def by (fastforce split: list.split_asm if_split_asm)

lemma denial_authenticate: "authenticate cfg token = Inl v \<Longrightarrow> denial v"
  by (auto simp: authenticate_def split: if_split_asm sum.split_asm option.split_asm)

lemma denial_authorize: "denial (authorize cfg path token parsed)"
  by (simp add: authorize_def split: option.split)

lemma denied_status: "auth_handler cfg path auth = Abort r \<Longrightarrow> status_code r \<in> {401, 403, 500}"
proof -
  have "denial (auth_handler cfg path auth)"
    by (auto simp: auth_handler_def denial_authorize denial_bearer denial_authenticate split: sum.split)
  then show "auth_handler cfg path auth = Abort r \<Longrightarrow> status_code r \<in> {401, 403, 500}"
    by (simp add: denial_def)
qed

text \<open>C20: a request for an administration endpoint without a token that carries the claim (or the raw
  token) is answered 401, 403 or 500 and changes nothing: no table, no limit, no message, not even
  its bucket of the rate limit.\<close>

theorem admin_needs_token:
  assumes "route (hr_method q) (hr_path q) = Some (ep, ps)" "admin_endpoint ep"
    and "\<And>token. bearer (hr_auth q) = Inr token \<Longrightarrow> \<not> token_ok auth (hr_path q) token"
  shows "snd (serve e libs cfg deps auth rps rdb q s) = s \<and>
    status_code (fst (serve e libs cfg deps auth rps rdb q s)) \<in> {401, 403, 500}"
proof -
  from assms(1,2) have "admin_path (hr_path q)"
    using routes_cases find_route_member unfolding route_def by blast
  then have "hr_path q \<noteq> ''/health''" by (auto simp: admin_path_def HasPrefix_def)
  with assms(3) have "auth_handler auth (hr_path q) (hr_auth q) \<noteq> Next"
    by (auto simp: auth_passes)
  then obtain r where "auth_handler auth (hr_path q) (hr_auth q) = Abort r"
    by (cases "auth_handler auth (hr_path q) (hr_auth q)") auto
  with denied_status [OF this] show ?thesis by (simp add: serve_def)
qed

theorem admin_needs_token_witness:
  "\<forall>e libs cfg deps auth rps rdb s ip.
    snd (serve e libs cfg deps auth rps rdb \<lparr>hr_method = ''GET'', hr_path = ''/api/v1/admin/stats'',
      hr_query = (\<lambda>k. []), hr_body = [], hr_auth = [], hr_ip = ip, hr_length = 0, hr_eager = True,
      hr_invalid = []\<rparr> s) = s"
proof (intro allI)
  fix e libs cfg deps auth rps rdb s ip
  let ?q = "\<lparr>hr_method = ''GET'', hr_path = ''/api/v1/admin/stats'', hr_query = (\<lambda>k. []), hr_body = [],
    hr_auth = [], hr_ip = ip, hr_length = 0, hr_eager = True, hr_invalid = []\<rparr>"
  have "route (hr_method ?q) (hr_path ?q) = Some (AdminStats, [])" by simp code_simp
  moreover have "\<not> token_ok auth (hr_path ?q) token" if "bearer (hr_auth ?q) = Inr token" for token
    using that by (simp add: bearer_def)
  ultimately show "snd (serve e libs cfg deps auth rps rdb ?q s) = s"
    by (intro admin_needs_token [where ep = AdminStats and ps = "[]", THEN conjunct1])
      (simp_all add: admin_endpoint_def)
qed

end
