(* ===== verification/Invariants.thy ===== *)
theory Invariants
  imports ServiceLaws Router
begin

text \<open>
  Invariants of the tables under everything the service does.  \<open>process_step\<close> is the whole process: a
  step is a request answered, a result message processed or a round of the export worker.  The locale
  \<open>process_invariant\<close> says what a predicate on the world has to satisfy at the operations of the
  repositories and at the creation of a batch; inside it every operation of the manager, the service and
  the handlers, and with them every step of the process, is shown to preserve the predicate.
\<close>

section \<open>Preservation\<close>

definition preserves :: "('w \<Rightarrow> bool) \<Rightarrow> ('w, 'a) state \<Rightarrow> bool" where
  "preserves I m \<longleftrightarrow> (\<forall>w. I w \<longrightarrow> I (after m w))"

named_theorems inv_intros \<open>computations that preserve an invariant\<close>

lemma preserves_return [inv_intros]: "preserves I (State_Monad.return x)"
  by (simp add: preserves_def)

lemma preserves_bind: "preserves I m \<Longrightarrow> (\<And>x. preserves I (f x)) \<Longrightarrow> preserves I (State_Monad.bind m f)"
  by (simp add: preserves_def)

lemma preserves_if [inv_intros]:
  "(b \<Longrightarrow> preserves I m) \<Longrightarrow> (\<not> b \<Longrightarrow> preserves I n) \<Longrightarrow> preserves I (if b then m else n)"
  by simp

lemma preserves_case_option [inv_intros]:
  "(x = None \<Longrightarrow> preserves I m) \<Longrightarrow> (\<And>y. x = Some y \<Longrightarrow> preserves I (f y)) \<Longrightarrow>
    preserves I (case x of None \<Rightarrow> m | Some y \<Rightarrow> f y)"
  by (cases x) simp_all

lemma preserves_case_sum [inv_intros]:
  "(\<And>y. x = Inl y \<Longrightarrow> preserves I (f y)) \<Longrightarrow> (\<And>y. x = Inr y \<Longrightarrow> preserves I (g y)) \<Longrightarrow>
    preserves I (case x of Inl y \<Rightarrow> f y | Inr y \<Rightarrow> g y)"
  by (cases x) simp_all

lemma preserves_case_go [inv_intros]:
  "(\<And>y. x = Ret y \<Longrightarrow> preserves I (f y)) \<Longrightarrow> (x = Panic \<Longrightarrow> preserves I m) \<Longrightarrow>
    preserves I (case x of Ret y \<Rightarrow> f y | Panic \<Rightarrow> m)"
  by (cases x) simp_all

lemma preserves_case_prod [inv_intros]:
  "(\<And>a b. x = (a, b) \<Longrightarrow> preserves I (f a b)) \<Longrightarrow> preserves I (case x of (a, b) \<Rightarrow> f a b)"
  by (cases x) simp_all

lemma preserves_Let [inv_intros]: "(\<And>x. x = t \<Longrightarrow> preserves I (f x)) \<Longrightarrow> preserves I (let x = t in f x)"
  by simp

lemma preserves_go_bind [inv_intros]:
  "preserves I m \<Longrightarrow> (\<And>x. preserves I (f x)) \<Longrightarrow> preserves I (go_bind m f)"
  unfolding go_bind_def by (intro preserves_bind inv_intros)

lemma preserves_for_range [inv_intros]:
  "(\<And>x. x \<in> set xs \<Longrightarrow> preserves I (f x)) \<Longrightarrow> preserves I (for_range xs f)"
  by (induction xs) (auto intro: preserves_bind inv_intros)

lemma preserves_attempts [inv_intros]: "preserves I act \<Longrightarrow> preserves I (attempts n act last_err)"
  by (induction n arbitrary: last_err) (auto intro!: preserves_bind inv_intros)

section \<open>What the code changes of a batch\<close>

definition batch_statuses :: "string set" where
  "batch_statuses = {BatchStatusPending, BatchStatusValidationErrors, BatchStatusPartialAvailable,
     BatchStatusReady, BatchStatusProcessing, BatchStatusCompleted, BatchStatusCancelled}"

text \<open>A batch has one of the seven statuses, and failed jobs are among the completed ones.\<close>

definition valid_batch :: "batch \<Rightarrow> bool" where
  "valid_batch b \<longleftrightarrow> b_Status b \<in> batch_statuses \<and> 0 \<le> b_FailedCount b \<and> b_FailedCount b \<le> b_CompletedCount b"

lemma valid_batch_core [simp]: "valid_batch (core b) = valid_batch b"
  "valid_batch (persisted b old) = valid_batch b"
  by (simp_all add: valid_batch_def)

text \<open>What stays of a batch once its upload has been answered: everything but its status, progress and
  transactions; and its status may only become processing, completed or cancelled.\<close>

definition plan_of :: "batch \<Rightarrow> string \<times> string \<times> string \<times> string \<times> int \<times> int \<times> int \<times> int" where
  "plan_of b = (b_ID b, b_UserID b, b_Revision b, b_FileStorageID b, b_TotalRows b, b_ValidRows b,
     b_ApprovedCount b, b_CreatedAt b)"

definition run_statuses :: "string set" where
  "run_statuses = {BatchStatusProcessing, BatchStatusCompleted, BatchStatusCancelled}"

lemma run_statusesI [simp]: "BatchStatusProcessing \<in> run_statuses" "BatchStatusCompleted \<in> run_statuses"
  "BatchStatusCancelled \<in> run_statuses"
  by (simp_all add: run_statuses_def)

text \<open>The changes of a stored batch outside an upload: everything but status, progress and transactions
  stays, and the status only becomes one of these three.\<close>

definition run_change :: "batch \<Rightarrow> batch \<Rightarrow> bool" where
  "run_change b b' \<longleftrightarrow> plan_of b' = plan_of b \<and> (b_Status b' = b_Status b \<or> b_Status b' \<in> run_statuses) \<and>
     ((b_FailedCount b', b_CompletedCount b') = (b_FailedCount b, b_CompletedCount b) \<or>
       0 \<le> b_FailedCount b' \<and> b_FailedCount b' \<le> b_CompletedCount b')"

lemma run_changes:
  "s \<in> run_statuses \<Longrightarrow> run_change b (b\<lparr>b_Status := s\<rparr>)"
  "run_change b (b\<lparr>b_BillingTransactionIDs := ts\<rparr>)"
  "s \<in> run_statuses \<Longrightarrow> 0 \<le> f \<and> f \<le> k \<Longrightarrow>
    run_change b (b\<lparr>b_CompletedCount := k, b_FailedCount := f, b_Status := s\<rparr>)"
  "s \<in> run_statuses \<Longrightarrow> 0 \<le> f \<and> f \<le> k \<Longrightarrow>
    run_change b (b\<lparr>b_CompletedCount := k, b_FailedCount := f, b_Status := s, b_CompletedAt := t\<rparr>)"
  "run_change b (apply_config q b)"
  by (simp_all add: run_change_def plan_of_def apply_config_def)

lemma count_jobs_ok: "count_jobs js = (p, c, f) \<Longrightarrow> 0 \<le> f \<and> f \<le> c"
proof -
  have "length (filter (\<lambda>j. j_Status j = JobStatusFailed) js) \<le> length (filter job_done js)"
    by (induction js) (auto simp: job_done_def)
  then show "count_jobs js = (p, c, f) \<Longrightarrow> 0 \<le> f \<and> f \<le> c" by (auto simp: count_jobs_eq)
qed

section \<open>The process\<close>

text \<open>What a running process was started with: its environment and configuration, the storage client,
  the libraries, and the settings of the middleware.\<close>

record 'r process =
  pr_env :: env
  pr_config :: Config
  pr_storage :: "FileClient option"
  pr_libs :: platform_libs
  pr_auth :: auth_config
  pr_rps :: rat
  pr_redis :: "'r redis option"
  pr_sheet :: "cell list list \<Rightarrow> string"

definition pr_deps :: "'r process \<Rightarrow> world Deps" where
  "pr_deps p = deps_of (pr_env p) (pr_config p) (pr_storage p)"

text \<open>A step of the process: a request is served, a message is consumed, or the export worker makes a
  round.  Steps are atomic: requests that overlap are taken one after the other.\<close>

inductive process_step :: "'r process \<Rightarrow> world \<times> 'r rate_state \<Rightarrow> world \<times> 'r rate_state \<Rightarrow> bool"
  for p :: "'r process" where
  request: "serve (pr_env p) (pr_libs p) (Some (pr_config p)) (Some (pr_deps p)) (pr_auth p) (pr_rps p)
      (pr_redis p) q s = (r, s') \<Longrightarrow> process_step p s s'"
| message: "consumer_of (pr_env p) (pr_config p) = Some rc \<Longrightarrow>
    process_step p (w, rs) (after (process_message (eTimeRFC3339 (pr_env p)) rc m) w, rs)"
| export: "process_step p (w, rs) (after (worker_round (pr_env p) (pr_sheet p)
      (Some (service_in (pr_env p) (pr_config p) (pr_storage p))) (pr_storage p)) w, rs)"

inductive_cases process_stepE: "process_step p s s'"

section \<open>The interface\<close>

text \<open>\<open>good\<close> batches may be written to the store, and \<open>fresh\<close> ids are those of batches created since.\<close>

locale process_invariant =
  fixes e :: env and c :: Config and fc :: "FileClient option"
    and I :: "world \<Rightarrow> bool" and good :: "batch \<Rightarrow> bool" and fresh :: "string \<Rightarrow> bool"
  assumes tables_only: "I w \<Longrightarrow> wBatches w' = wBatches w \<Longrightarrow> wJobs w' = wJobs w \<Longrightarrow>
      wErrors w' = wErrors w \<Longrightarrow> I w'"
    and read_good: "I w \<Longrightarrow> result (BatchRepo_GetByID (batchRepository e) i) w = Inr (Some b) \<Longrightarrow>
      b_ID b = i \<and> good b"
    and change_good: "good b \<Longrightarrow> run_change b b' \<Longrightarrow> good b'"
    and upload_good: "good b \<Longrightarrow> fresh (b_ID b) \<Longrightarrow> s \<in> batch_statuses \<Longrightarrow>
      good (b\<lparr>b_ValidRows := n, b_Status := s, b_ApprovedCount := a\<rparr>)"
    and write_batch: "good b \<Longrightarrow> preserves I (BatchRepo_Update (batchRepository e) b)"
    and write_status: "preserves I (JobRepo_UpdateStatus (jobRepository e) i s)"
    and write_tx: "preserves I (JobRepo_UpdateBillingTransactionID (jobRepository e) i x)"
    and write_result: "r_ErrorCode r = [] \<Longrightarrow> r_ErrorMessage r = [] \<Longrightarrow>
      preserves I (JobRepo_UpdateStatusWithResult (jobRepository e) i s r)"
    and create_batch: "I w \<Longrightarrow>
      (let m = CreateBatchFromFile (runtime_of e) rds (service_in e c fc) l rd revision
       in I (after m w) \<and> (\<forall>r. result m w = Inr r \<longrightarrow> fresh (cr_BatchID r)))"

lemma deps_of_sel [simp]:
  "dp_BatchRepo (deps_of e c fc) = Some (batchRepository e)"
  "dp_JobRepo (deps_of e c fc) = Some (jobRepository e)"
  "dp_ValidationRepo (deps_of e c fc) = Some (validationRepository e)"
  "dp_BatchManager (deps_of e c fc) = Some (manager_of e c)"
  "dp_BillingClient (deps_of e c fc) = Some (billing_of e (billing_client_of c))"
  "dp_Producer (deps_of e c fc) = Some (producer_of e (cfg_Brokers c))"
  "dp_Service (deps_of e c fc) = Some (service_in e c fc)"
  "dp_Storage (deps_of e c fc) = Some (storage_client fc)"
  "dp_ExportManager (deps_of e c fc) = Some (exporter_api e)"
  by (simp_all add: deps_of_def)

lemma manager_of_wired: "wired (batchRepository e) (jobRepository e) (billing_of e (billing_client_of c))
    (producer_of e (cfg_Brokers c)) (manager_of e c)"
  by (simp add: manager_of_def prod_manager_wired)

lemma manager_of_sel [simp]:
  "bm_batchRepo (manager_of e c) = Some (batchRepository e)"
  "bm_jobRepo (manager_of e c) = Some (jobRepository e)"
  "bm_billing (manager_of e c) = Some (billing_of e (billing_client_of c))"
  "bm_producer (manager_of e c) = Some (producer_of e (cfg_Brokers c))"
  "bm_history (manager_of e c) = Some \<lparr>tg_producer = producer_of e (cfg_Brokers c),
     tg_topic = history_topic (eGetenv e)\<rparr>"
  by (simp_all add: manager_of_def prod_manager_def NewBatchManager_def Let_def)

lemma service_in_sel [simp]:
  "sv_batchRepo (service_in e c fc) = Some (batchRepository e)"
  "sv_jobRepo (service_in e c fc) = Some (jobRepository e)"
  "sv_billing (service_in e c fc) = Some (billing_of e (billing_client_of c))"
  "sv_producer (service_in e c fc) = Some (producer_of e (cfg_Brokers c))"
  by (simp_all add: service_in_def prod_service_def)

text \<open>Reading the tables keeps them.\<close>

lemma reads_keep:
  assumes "\<And>w n. v (w\<lparr>wTick := n\<rparr>) = v w"
  shows "keeps v (BatchRepo_GetByID (batchRepository e) i)" "keeps v (BatchRepo_List (batchRepository e) f)"
    "keeps v (BatchRepo_AdminStats (batchRepository e) t1 t2)"
    "keeps v (JobRepo_GetByBatch (jobRepository e) i)" "keeps v (JobRepo_GetResultsByBatch (jobRepository e) i)"
    "keeps v (pg_GetValidationErrors e i)"
proof -
  show "keeps v (BatchRepo_AdminStats (batchRepository e) t1 t2)"
    unfolding batchRepository_def pg_batch_AdminStats_def db_text_def BatchRepository.simps
    by (intro frame_intros keeps_db_query assms)
qed (auto simp: adapter_defs pg_GetValidationErrors_def assms intro!: frame_intros keeps_db_query)

context process_invariant
begin

section \<open>The interfaces of the process\<close>

lemma keeps_preserves: "keeps (\<lambda>w. (wBatches w, wJobs w, wErrors w)) m \<Longrightarrow> preserves I m"
  unfolding preserves_def by (auto dest: keepsD intro: tables_only)

lemma preserves_get:
  assumes "\<And>x. (\<And>b. x = Inr (Some b) \<Longrightarrow> b_ID b = i \<and> good b) \<Longrightarrow> preserves I (f x)"
  shows "preserves I (State_Monad.bind (BatchRepo_GetByID (batchRepository e) i) f)"
  unfolding preserves_def
proof (intro allI impI)
  fix w assume I: "I w"
  let ?m = "BatchRepo_GetByID (batchRepository e) i"
  have "preserves I ?m" by (intro keeps_preserves reads_keep) simp
  with I have "I (after ?m w)" by (simp add: preserves_def)
  moreover have "preserves I (f (result ?m w))" using read_good [OF I] by (intro assms)
  ultimately show "I (after (State_Monad.bind ?m f) w)" by (simp add: preserves_def)
qed

lemma preserves_reads [inv_intros]:
  "preserves I (BatchRepo_GetByID (batchRepository e) i)"
  "preserves I (BatchRepo_List (batchRepository e) f)"
  "preserves I (BatchRepo_AdminStats (batchRepository e) t1 t2)"
  "preserves I (JobRepo_GetByBatch (jobRepository e) i)"
  "preserves I (JobRepo_GetResultsByBatch (jobRepository e) i)"
  "preserves I (pg_GetValidationErrors e i)"
  by (intro keeps_preserves reads_keep; simp)+

lemma preserves_outside [inv_intros]:
  "preserves I (Producer_Publish (producer_of e brokers) t m)"
  "preserves I (Billing_Quote (billing_of e bc) u n)"
  "preserves I (Billing_BlockBatch (billing_of e bc) u n i)"
  "preserves I (Billing_RefundTransactions (billing_of e bc) u ts i)"
  "preserves I (Rt_Now (runtime_of e))"
  "preserves I (Rt_NewUUID (runtime_of e))"
  "preserves I (FileClient_Save st name data)"
  "preserves I (FileClient_Get st name)"
  "preserves I (FileClient_Presign st name d)"
  by (intro keeps_preserves keeps_Publish billing_ops_keep runtime_ops_keep keeps_FileClient; simp)+

lemma preserves_registers [inv_intros]: "preserves I (in_exports g)" "preserves I (in_limits m)"
  by (auto simp: preserves_def in_exports_def in_limits_def intro: tables_only)

lemmas preserves_writes [inv_intros] = write_status write_tx write_result write_batch

section \<open>The manager\<close>

lemma preserves_publishStatus [inv_intros]: "preserves I (publishStatus (runtime_of e) (manager_of e c) b)"
  unfolding publishStatus_def manager_of_sel option.case by (intro preserves_bind inv_intros)

lemma preserves_tags [inv_intros]:
  "preserves I (tag_partial (runtime_of e) (manager_of e c) i a n)"
  "preserves I (tag_refunded (runtime_of e) (manager_of e c) i ts)"
  "preserves I (quote_for (manager_of e c) b n)"
  unfolding tag_partial_def tag_refunded_def quote_for_def TagEvent_def manager_of_sel option.case
    Tagger.simps
  by (intro preserves_bind inv_intros)+

lemma preserves_with_batch:
  assumes "\<And>b. b_ID b = i \<Longrightarrow> good b \<Longrightarrow> preserves I (k (batchRepository e) b)"
  shows "preserves I (with_batch (manager_of e c) i fail k)"
  unfolding with_batch_def manager_of_sel option.case
  by (intro preserves_get inv_intros assms) simp_all

lemma preserves_update_and_publish [inv_intros]:
  "good b \<Longrightarrow> preserves I (update_and_publish (runtime_of e) (manager_of e c) (batchRepository e) b)"
  unfolding update_and_publish_def by (intro preserves_bind inv_intros)

lemma good_run [simp]:
  assumes "good b"
  shows "s \<in> run_statuses \<Longrightarrow> good (b\<lparr>b_Status := s\<rparr>)" "good (b\<lparr>b_BillingTransactionIDs := ts\<rparr>)"
    "s \<in> run_statuses \<Longrightarrow> 0 \<le> f \<and> f \<le> k \<Longrightarrow>
      good (b\<lparr>b_CompletedCount := k, b_FailedCount := f, b_Status := s\<rparr>)"
    "s \<in> run_statuses \<Longrightarrow> 0 \<le> f \<and> f \<le> k \<Longrightarrow>
      good (b\<lparr>b_CompletedCount := k, b_FailedCount := f, b_Status := s, b_CompletedAt := t\<rparr>)"
    "good (apply_config q b)"
  by (simp_all add: change_good [OF assms] run_changes)

lemma preserves_FinalizeAfterUpload:
  assumes "fresh i"
  shows "preserves I (FinalizeAfterUpload (runtime_of e) (manager_of e c) i v n)"
proof -
  have g: "good (b\<lparr>b_ValidRows := v, b_Status := s\<rparr>)"
    "good (b\<lparr>b_ValidRows := v, b_Status := s, b_ApprovedCount := a\<rparr>)"
    if "b_ID b = i" "good b" "s \<in> batch_statuses" for b s a
    using upload_good [OF that(2) _ that(3), where n = v] assms that(1)
      upload_good [OF that(2) _ that(3), where n = v and a = "b_ApprovedCount b"] by simp_all
  show ?thesis
    unfolding FinalizeAfterUpload_def Let_def
    by (intro preserves_with_batch preserves_bind inv_intros) (simp_all add: g batch_statuses_def)
qed

lemma preserves_SetProcessing [inv_intros]: "preserves I (SetProcessing (runtime_of e) (manager_of e c) i)"
  unfolding SetProcessing_def by (intro preserves_with_batch inv_intros) simp_all

lemma preserves_refund_jobs [inv_intros]:
  "preserves I (refund_jobs (manager_of e c) i)" "preserves I (count_refunded (manager_of e c) i)"
  unfolding refund_jobs_def refund_job_def count_refunded_def manager_of_sel option.case
  by (intro preserves_bind inv_intros)+

lemma preserves_refund_batch [inv_intros]:
  "good b \<Longrightarrow> preserves I (refund_batch (runtime_of e) (manager_of e c) (batchRepository e) i b)"
  unfolding refund_batch_def manager_of_sel option.case
  by (intro preserves_bind inv_intros) simp_all

lemma preserves_SetCancelled [inv_intros]: "preserves I (SetCancelled (runtime_of e) (manager_of e c) i)"
  unfolding SetCancelled_def Let_def by (intro preserves_with_batch preserves_bind inv_intros) simp_all

lemma preserves_OnJobStatusChange [inv_intros]:
  "preserves I (OnJobStatusChange (runtime_of e) (manager_of e c) i)"
proof -
  have "preserves I (update_progress (runtime_of e) (manager_of e c) i js)" for js
    unfolding update_progress_def Let_def
    by (intro preserves_with_batch preserves_bind inv_intros) (simp_all add: count_jobs_ok)
  then show ?thesis
    unfolding OnJobStatusChange_def manager_of_sel option.case prod.case
    by (intro preserves_bind inv_intros)
qed

section \<open>The service\<close>

lemma preserves_peek:
  assumes "\<And>x. (\<And>b. x = Some b \<Longrightarrow> b_ID b = i \<and> good b) \<Longrightarrow> preserves I (f x)"
  shows "preserves I (State_Monad.bind (peek_batch (service_in e c fc) i) f)"
proof -
  have eq: "State_Monad.bind (peek_batch (service_in e c fc) i) f =
      State_Monad.bind (BatchRepo_GetByID (batchRepository e) i) (\<lambda>x. f (case x of Inl err \<Rightarrow> None | Inr y \<Rightarrow> y))"
    by (intro State_Monad.state.expand ext) (simp add: peek_batch_def split_beta)
  show ?thesis unfolding eq by (intro preserves_get assms) (auto split: sum.splits)
qed

lemma preserves_update_row [inv_intros]: "good b \<Longrightarrow> preserves I (update_batch_row (service_in e c fc) b)"
  unfolding update_batch_row_def service_in_sel option.case by (intro preserves_bind inv_intros)

lemma preserves_confirm_jobs [inv_intros]:
  "preserves I (confirm_jobs (runtime_of e) (service_in e c fc) None trace (jobRepository e) user revision txs cnt i js acc)"
proof (induction js arbitrary: i acc)
  case (Cons j js)
  have "preserves I (confirm_job (runtime_of e) (service_in e c fc) None trace (jobRepository e) user revision txs cnt i j acc)"
    for i
    unfolding confirm_job_def assign_tx_to_def correlation_def publish_with_def service_in_sel option.case Let_def
    by (intro preserves_bind inv_intros)
  with Cons show ?case by (simp add: preserves_bind inv_intros)
qed (simp add: inv_intros)

lemma preserves_compensate [inv_intros]:
  "preserves I (compensate (service_in e c fc) (jobRepository e) i cnt js queued assigned)"
  unfolding compensate_def service_in_sel option.case
  by (rule preserves_bind, intro preserves_bind inv_intros, intro preserves_peek, intro preserves_bind inv_intros)
    simp_all

lemma preserves_publish_jobs [inv_intros]:
  "preserves I (publish_jobs (runtime_of e) (service_in e c fc) None trace i cnt txs)"
  unfolding publish_jobs_def service_in_sel option.case
  by (intro preserves_bind [of _ "JobRepo_GetByBatch _ _"] inv_intros preserves_peek
      preserves_bind [of _ "confirm_jobs _ _ _ _ _ _ _ _ _ _ _ _"] preserves_bind [of _ "compensate _ _ _ _ _ _ _"])

lemma preserves_ConfirmBatch [inv_intros]:
  "preserves I (ConfirmBatch (runtime_of e) (service_in e c fc) None None trace i cnt)"
proof -
  have "preserves I (block_billing (service_in e c fc) None i cnt)"
    unfolding block_billing_def service_in_sel option.case by (intro preserves_bind inv_intros)
  then show ?thesis
    unfolding ConfirmBatch_def
    by (intro preserves_peek inv_intros preserves_bind [of _ "block_billing _ _ _ _"])
qed

lemma preserves_create:
  assumes "\<And>x. (\<And>r. x = Inr r \<Longrightarrow> fresh (cr_BatchID r)) \<Longrightarrow> preserves I (f x)"
  shows "preserves I (State_Monad.bind (CreateBatchFromFile (runtime_of e) rds (service_in e c fc) l rd revision) f)"
  unfolding preserves_def
proof (intro allI impI)
  fix w assume "I w"
  with create_batch [of w rds l rd revision] assms
  show "I (after (State_Monad.bind (CreateBatchFromFile (runtime_of e) rds (service_in e c fc) l rd revision) f) w)"
    by (simp add: preserves_def Let_def)
qed

section \<open>The handlers\<close>

lemmas handler_helpers = load_view_def infer_from_jobs_def results_or_none_def jobs_or_none_def
  confirm_count_def transactions_of_def pending_jobs_def set_processing_def requireBatch_def
  admin_jobs_def publish_restart_def restart_job_def proxy_export_def
  finalize_def quote_upload_def storage_client_def exporter_api_def validationRepository_def

lemma preserves_restart_jobs:
  "preserves I (restart_jobs (runtime_of e) (deps_of e c fc) (jobRepository e) js n)"
  by (induction js arbitrary: n)
    (simp_all add: handler_helpers preserves_bind inv_intros)

lemma preserves_batch_handlers:
  "preserves I (HandleBatchStatus (Some (deps_of e c fc)) rq)"
  "preserves I (HandleConfirm (runtime_of e) (Some (deps_of e c fc)) rq)"
  "preserves I (HandleCancel (runtime_of e) (Some (deps_of e c fc)) rq)"
  "preserves I (HandleListBatches ptime (Some (deps_of e c fc)) rq)"
  "preserves I (HandleAdminListBatches ptime (Some (deps_of e c fc)) rq)"
  "preserves I (HandleAdminGetBatch (Some (deps_of e c fc)) rq)"
  unfolding HandleBatchStatus_def HandleConfirm_def HandleCancel_def HandleListBatches_def
    HandleAdminListBatches_def HandleAdminGetBatch_def handler_helpers Let_def
    deps_of_sel dep_simps option.case
  by (intro preserves_bind inv_intros)+

lemma preserves_config: "preserves I (HandleAdminUpdateBatchConfig (Some (deps_of e c fc)) rq)"
  unfolding HandleAdminUpdateBatchConfig_def Let_def deps_of_sel dep_simps option.case
  by (intro inv_intros preserves_get preserves_bind [of _ "BatchRepo_Update _ _"]) simp_all

lemma preserves_other_handlers:
  "preserves I (HandleAdminStats (runtime_of e) ptime (Some (deps_of e c fc)) rq)"
  "preserves I (HandleDownloadErrorsXLS fault (Some (deps_of e c fc)) rq)"
  "preserves I (HandleDownloadResultsXLS fault (Some (deps_of e c fc)) rq)"
  "preserves I (HandleStartExport (Some (deps_of e c fc)) rq)"
  "preserves I (HandleGetExport (runtime_of e) (Some (deps_of e c fc)) rq)"
  "preserves I (put_limits_request rq)"
  "preserves I get_limits_request"
  unfolding HandleAdminStats_def HandleDownloadErrorsXLS_def HandleDownloadResultsXLS_def
    HandleStartExport_def HandleGetExport_def put_limits_request_def get_limits_request_def
    handler_helpers Let_def deps_of_sel dep_simps option.case StorageClient.simps ManagerAPI.simps
    ValidationRepository.simps
  by (intro preserves_bind inv_intros)+

lemma preserves_restart:
  "preserves I (HandleAdminRestartBatch (runtime_of e) (Some (deps_of e c fc)) rq)"
  unfolding HandleAdminRestartBatch_def requireBatch_def set_processing_def Let_def deps_of_sel
    dep_simps option.case prod.case
  by (intro preserves_bind inv_intros preserves_restart_jobs)

lemma preserves_upload: "preserves I (upload_endpoint e libs (Some (deps_of e c fc)) q)"
proof -
  have fin: "preserves I (finalize (runtime_of e) (deps_of e c fc) r)" if "fresh (cr_BatchID r)" for r
    unfolding finalize_def deps_of_sel option.case
    by (intro inv_intros preserves_FinalizeAfterUpload that)
  have quote: "preserves I (quote_upload (deps_of e c fc) r)" for r
    unfolding quote_upload_def deps_of_sel option.case by (intro preserves_bind inv_intros)
  show ?thesis
    unfolding upload_endpoint_def HandleUpload_def deps_of_sel option.case
    by (intro preserves_bind [of _ "in_limits limits_Get"] inv_intros fin quote preserves_create) simp_all
qed

lemma preserves_handle:
  "preserves I (handle e libs cfg (Some (deps_of e c fc)) q rq ep)"
  by (cases ep) (simp_all add: preserves_return preserves_batch_handlers preserves_other_handlers
      preserves_config preserves_restart preserves_upload)

lemma preserves_dispatch:
  "preserves I (dispatch e libs cfg (Some (deps_of e c fc)) q)"
  unfolding dispatch_def by (intro preserves_bind inv_intros preserves_handle)

text \<open>A message of the consumer, and a round of the export worker.\<close>

lemma event_result_errors [simp]: "r_ErrorCode (event_result rt ev) = []" "r_ErrorMessage (event_result rt ev) = []"
  by (simp_all add: event_result_def)

lemma preserves_result_handler:
  "preserves I (result_handler e c ev)"
  unfolding result_handler_def buildResultHandler_def store_result_def tag_result_def notify_batch_def
    TagEvent_def TagBulkID_def tagger_of_def option.case Tagger.simps
  by (intro preserves_bind inv_intros) simp_all

lemma preserves_message:
  assumes "consumer_of e c = Some rc"
  shows "preserves I (process_message ptime rc m)"
  using assms unfolding process_message_def consumer_of_def
  by (auto split: if_splits intro!: preserves_bind inv_intros preserves_result_handler)

lemma preserves_worker_round:
  "preserves I (worker_round e sheet (Some (service_in e c fc)) fc)"
proof -
  have jr: "sv_jobRepo (service_in e c fc) = Some (jobRepository e)"
    by (simp add: service_in_def prod_service_def)
  show ?thesis
    unfolding worker_round_def export_file_def save_export_def ExportResultsXLS_def jr option.case
    by (intro preserves_bind inv_intros)
qed

section \<open>The steps of the process\<close>

lemma serve_preserves:
  assumes "serve e libs (Some c) (Some (deps_of e c fc)) auth rps rdb q (w, rs) = (r, w', rs')" "I w"
  shows "I w'"
proof -
  have now: "preserves I (Rt_Now (runtime_of e))" by (intro inv_intros)
  note d = preserves_dispatch [of libs "Some c" q]
  from assms now d show ?thesis
    by (auto simp: serve_def preserves_def Let_def split: verdict.splits prod.splits)
qed

lemma process_step_preserves:
  assumes "process_step p s s'" "pr_env p = e" "pr_config p = c" "pr_storage p = fc" "I (fst s)"
  shows "I (fst s')"
  using assms(1)
proof cases
  case (request q r)
  with assms(2-4) have "serve e (pr_libs p) (Some c) (Some (deps_of e c fc)) (pr_auth p) (pr_rps p)
      (pr_redis p) q (fst s, snd s) = (r, fst s', snd s')" by (simp add: pr_deps_def)
  from serve_preserves [OF this assms(5)] show ?thesis .
next
  case (message rc w rs m)
  with assms(2-) preserves_message [of rc] show ?thesis by (simp add: preserves_def)
next
  case (export w rs)
  with assms(2-) preserves_worker_round show ?thesis by (auto simp: preserves_def)
qed

lemma process_steps_preserve:
  assumes "(process_step p)\<^sup>*\<^sup>* s s'" "pr_env p = e" "pr_config p = c" "pr_storage p = fc" "I (fst s)"
  shows "I (fst s')"
  using assms(1,5)
proof (induction rule: rtranclp_induct)
  case (step s' s'')
  then show ?case using process_step_preserves [OF step(2) assms(2-4)] by simp
qed

end

end
