(* ===== verification/Lifecycle.thy ===== *)
theory Lifecycle
  imports Invariants
begin

text \<open>
  The life of batches and jobs in the whole service: in every reachable state of the process the tables are
  sound, and whatever it does later, what it has stored is kept and moves only forward.  Both are one
  instance of \<open>process_invariant\<close>, taken relative to the tables \<open>S0\<close> and \<open>J0\<close> of an earlier state.
\<close>

section \<open>The invariant\<close>

text \<open>The tables: job ids are distinct, every job belongs to a stored batch, and every stored batch is
  valid.\<close>

definition tables_ok :: "(string \<Rightarrow> batch option) \<Rightarrow> job list \<Rightarrow> bool" where
  "tables_ok S J \<longleftrightarrow> distinct (map j_ID J) \<and> (\<forall>j \<in> set J. S (j_BatchID j) \<noteq> None) \<and>
     (\<forall>i b. S i = Some b \<longrightarrow> valid_batch b)"

text \<open>A later state \<open>b\<close> of the batch \<open>b0\<close>.\<close>

definition follows :: "batch \<Rightarrow> batch \<Rightarrow> bool" where
  "follows b0 b \<longleftrightarrow> plan_of b = plan_of b0 \<and> (b_Status b = b_Status b0 \<or> b_Status b \<in> run_statuses)"

lemma follows_refl [simp]: "follows b b"
  by (simp add: follows_def)

lemma follows_core [simp]: "follows b0 (core b) = follows b0 b"
  by (simp add: follows_def plan_of_def)

lemma follows_persisted: "follows b0 b \<Longrightarrow> follows b0 old \<Longrightarrow> follows b0 (persisted b old)"
  by (simp add: follows_def plan_of_def)

text \<open>What stays of a job.\<close>

definition job_key :: "job \<Rightarrow> string \<times> string \<times> int \<times> string" where
  "job_key j = (j_ID j, j_BatchID j, j_RowNumber j, j_InputData j)"

lemma job_key_set [simp]: "job_key (set_status i s j) = job_key j" "job_key (set_tx i t j) = job_key j"
  by (simp_all add: job_key_def set_status_def set_tx_def)

text \<open>The tables \<open>S\<close> and \<open>J\<close> come from \<open>S0\<close> and \<open>J0\<close>: no batch and no job was removed, each batch follows what
  it was, the jobs are the same in the same order, and those after them belong to new batches.\<close>

definition grown :: "(string \<Rightarrow> batch option) \<Rightarrow> job list \<Rightarrow> (string \<Rightarrow> batch option) \<Rightarrow> job list \<Rightarrow> bool" where
  "grown S0 J0 S J \<longleftrightarrow> (\<forall>i b0. S0 i = Some b0 \<longrightarrow> (\<exists>b. S i = Some b \<and> follows b0 b)) \<and>
     map job_key (take (length J0) J) = map job_key J0 \<and>
     (\<forall>j \<in> set (drop (length J0) J). S0 (j_BatchID j) = None)"

lemma grown_refl: "grown S J S J"
  by (simp add: grown_def)

lemma grown_new: "grown S0 J0 S J \<Longrightarrow> S i = None \<Longrightarrow> S0 i = None"
  unfolding grown_def by (cases "S0 i") fastforce+

lemma grown_length: "grown S0 J0 S J \<Longrightarrow> length J0 \<le> length J"
  by (auto simp: grown_def dest!: arg_cong [where f = length])

text \<open>A batch that may be written back.\<close>

definition good :: "(string \<Rightarrow> batch option) \<Rightarrow> batch \<Rightarrow> bool" where
  "good S0 b \<longleftrightarrow> valid_batch b \<and> (\<forall>b0. S0 (b_ID b) = Some b0 \<longrightarrow> follows b0 b)"

lemma good_change:
  assumes "good S0 b" "run_change b b'"
  shows "good S0 b'"
proof -
  have "run_statuses \<subseteq> batch_statuses" by (auto simp: run_statuses_def batch_statuses_def)
  with assms have "valid_batch b'" by (auto simp: good_def valid_batch_def run_change_def)
  moreover have "b_ID b' = b_ID b" using assms(2) by (simp add: run_change_def plan_of_def)
  moreover have "follows b0 b'" if "follows b0 b" for b0
    using that assms(2) by (auto simp: follows_def run_change_def)
  ultimately show ?thesis using assms(1) by (simp add: good_def)
qed

text \<open>The invariant of a world with these views of its tables, since they were \<open>S0\<close> and \<open>J0\<close>.\<close>

definition sound :: "(string \<Rightarrow> batch option) \<Rightarrow> job list \<Rightarrow> ('w \<Rightarrow> string \<Rightarrow> batch option) \<Rightarrow>
    ('w \<Rightarrow> job list) \<Rightarrow> 'w \<Rightarrow> bool" where
  "sound S0 J0 S J w \<longleftrightarrow> tables_ok (S w) (J w) \<and> grown S0 J0 (S w) (J w)"

section \<open>Over the contracts\<close>

context platform
begin

text \<open>A batch that is read may be written back.\<close>

lemma sound_get:
  assumes "sound S0 J0 stored jobs w" "result (BatchRepo_GetByID brepo i) w = Inr (Some b)"
  shows "b_ID b = i \<and> good S0 b"
proof -
  from get_found [OF assms(2)] have b: "stored w i = Some (core b)" "b_ID b = i" by auto
  with assms(1) have "valid_batch (core b)" "\<forall>b0. S0 i = Some b0 \<longrightarrow> follows b0 (core b)"
    unfolding sound_def tables_ok_def grown_def by (blast, fastforce)
  with b show ?thesis by (simp add: good_def)
qed

lemma preserves_update:
  assumes "good S0 b"
  shows "preserves (sound S0 J0 stored jobs) (BatchRepo_Update brepo b)"
  unfolding preserves_def
proof (intro allI impI)
  fix w assume I: "sound S0 J0 stored jobs w"
  have j: "jobs (after (BatchRepo_Update brepo b) w) = jobs w" by (simp add: keepsD batch_ops_keep_jobs)
  have "\<exists>b'. ((stored w)(b_ID b := map_option (persisted b) (stored w (b_ID b)))) i = Some b' \<and> follows b0 b'"
    if S0: "S0 i = Some b0" for i b0
  proof -
    from I S0 obtain b1 where "stored w i = Some b1" "follows b0 b1" unfolding sound_def grown_def by blast
    with assms S0 show ?thesis by (auto simp: good_def follows_persisted)
  qed
  with I j assms show "sound S0 J0 stored jobs (after (BatchRepo_Update brepo b) w)"
    by (cases "result (BatchRepo_Update brepo b) w")
      (auto simp: sound_def tables_ok_def grown_def good_def update_ok update_failed split: if_splits)
qed

text \<open>An operation that changes fields of jobs that are no keys.\<close>

lemma preserves_jobs:
  assumes "keeps stored m" and "\<And>w. map job_key (jobs (after m w)) = map job_key (jobs w)"
  shows "preserves (sound S0 J0 stored jobs) m"
  unfolding preserves_def
proof (intro allI impI)
  fix w assume I: "sound S0 J0 stored jobs w"
  let ?J = "jobs (after m w)"
  have id: "map j_ID ?J = map j_ID (jobs w)" and batch: "map j_BatchID ?J = map j_BatchID (jobs w)"
    using arg_cong [OF assms(2), of "map fst"] arg_cong [OF assms(2), of "map (fst \<circ> snd)"]
    by (simp_all add: comp_def job_key_def)
  have drop: "j_BatchID ` set (drop n ?J) = j_BatchID ` set (drop n (jobs w))" for n
    using arg_cong [OF batch, of "\<lambda>xs. set (drop n xs)"] by (simp add: drop_map)
  have take: "map job_key (take n ?J) = map job_key (take n (jobs w))" for n
    using arg_cong [OF assms(2), of "take n"] by (simp add: take_map)
  have members: "j_BatchID ` set ?J = j_BatchID ` set (jobs w)"
    using arg_cong [OF batch, of set] by simp
  have by_id: "(\<forall>j \<in> set ys. P (j_BatchID j)) \<longleftrightarrow> (\<forall>j \<in> set xs. P (j_BatchID j))"
    if "j_BatchID ` set ys = j_BatchID ` set xs" for P and xs ys :: "job list"
  proof -
    have im: "(\<forall>j \<in> set zs. P (j_BatchID j)) \<longleftrightarrow> (\<forall>i \<in> j_BatchID ` set zs. P i)" for zs by simp
    show ?thesis using im [of ys] im [of xs] that by argo
  qed
  from I show "sound S0 J0 stored jobs (after m w)"
    using by_id [OF members, of "\<lambda>i. stored w i \<noteq> None"] by_id [OF drop [of "length J0"], of "\<lambda>i. S0 i = None"]
    by (simp add: sound_def tables_ok_def grown_def keepsD [OF assms(1)] id take)
qed

lemma tx_keys: "map job_key (jobs (after (JobRepo_UpdateBillingTransactionID jrepo i x) w)) = map job_key (jobs w)"
  by (cases "result (JobRepo_UpdateBillingTransactionID jrepo i x) w") (simp_all add: tx_ok tx_failed)

lemma result_keys: "map job_key (jobs (after (JobRepo_UpdateStatusWithResult jrepo i s r) w)) = map job_key (jobs w)"
  by (cases "result (JobRepo_UpdateStatusWithResult jrepo i s r) w") (simp_all add: result_ok result_failed)

lemma status_keys: "map job_key (jobs (after (JobRepo_UpdateStatus jrepo i s) w)) = map job_key (jobs w)"
  by (simp add: status_jobs)

text \<open>Creating a batch: it is new, and so is the batch of the jobs that are added.\<close>

lemma created_sound:
  assumes "tables_ok S J" "grown S0 J0 S J" "created S J revision rows saving x st jb"
  shows "tables_ok st jb \<and> grown S0 J0 st jb \<and> (\<forall>r. x = Inr r \<longrightarrow> S0 (cr_BatchID r) = None)"
proof -
  from assms(3) obtain i b js where c: "S i = None" "fresh_batch i revision (int (length rows)) b"
    "made_of i (row_numbers 0 rows) J js" "st = S(i \<mapsto> b)" "jb = J @ js"
    and x: "\<forall>r. x = Inr r \<longrightarrow> cr_BatchID r = i"
    unfolding created_def by (cases x) auto
  from c(2) have "valid_batch b" by (simp add: fresh_batch_def valid_batch_def batch_statuses_def)
  moreover from c(3) have js: "distinct (map j_ID js)" "j_ID ` set js \<inter> j_ID ` set J = {}"
    "\<forall>j \<in> set js. j_BatchID j = i" by (simp_all add: made_of_def list_all_iff)
  ultimately have "tables_ok st jb"
    using assms(1) c(1,4,5) by (auto simp: tables_ok_def)
  moreover have S0: "S0 i = None" using assms(2) c(1) by (rule grown_new)
  moreover from this have "grown S0 J0 st jb"
    using assms(2) js(3) grown_length [OF assms(2)] c(1,4,5) by (auto simp: grown_def)
  ultimately show ?thesis using x by blast
qed

lemma sound_create:
  assumes "creates_in brepo jrepo stored jobs s" "sound S0 J0 stored jobs w"
  shows "let m = CreateBatchFromFile rt rds s l r revision in
    sound S0 J0 stored jobs (after m w) \<and> (\<forall>x. result m w = Inr x \<longrightarrow> S0 (cr_BatchID x) = None)"
proof -
  let ?m = "CreateBatchFromFile rt rds s l r revision"
  have "(\<exists>err. result ?m w = Inl err) \<and> stored (after ?m w) = stored w \<and> jobs (after ?m w) = jobs w \<or>
    (\<exists>rows. created (stored w) (jobs w) revision rows (sv_storage s \<noteq> None) (result ?m w)
      (stored (after ?m w)) (jobs (after ?m w)))"
    using specD [where w = w, OF create_run [OF assms(1), where S = "stored w" and J = "jobs w"]] by blast
  then show ?thesis
    using assms(2) created_sound [of "stored w" "jobs w" S0 J0] by (auto simp: sound_def Let_def)
qed

end

lemma views_of_tables: "wBatches w' = wBatches w \<Longrightarrow> pg_stored w' = pg_stored w"
  "wJobs w' = wJobs w \<Longrightarrow> pg_jobs w' = pg_jobs w"
  by (simp_all add: pg_stored_def pg_jobs_def fun_eq_iff)

interpretation tables: process_invariant e c fc "sound S0 J0 pg_stored pg_jobs" "good S0" "\<lambda>i. S0 i = None"
  for e c fc S0 J0
proof unfold_locales
  fix w w' :: world
  assume "sound S0 J0 pg_stored pg_jobs w" "wBatches w' = wBatches w" "wJobs w' = wJobs w"
  moreover note views_of_tables(1) [OF this(2)] views_of_tables(2) [OF this(3)]
  ultimately show "sound S0 J0 pg_stored pg_jobs w'" by (simp add: sound_def)
next
  fix w i b
  assume "sound S0 J0 pg_stored pg_jobs w" "result (BatchRepo_GetByID (batchRepository e) i) w = Inr (Some b)"
  then show "b_ID b = i \<and> good S0 b" by (rule prod.sound_get)
next
  fix b b' assume "good S0 b" "run_change b b'" then show "good S0 b'" by (rule good_change)
next
  fix b s n a assume "good S0 b" "S0 (b_ID b) = None" "s \<in> batch_statuses"
  then show "good S0 (b\<lparr>b_ValidRows := n, b_Status := s, b_ApprovedCount := a\<rparr>)"
    by (simp add: good_def valid_batch_def)
next
  fix w rds l rd revision assume "sound S0 J0 pg_stored pg_jobs w"
  then show "let m = CreateBatchFromFile (runtime_of e) rds (service_in e c fc) l rd revision in
      sound S0 J0 pg_stored pg_jobs (after m w) \<and> (\<forall>r. result m w = Inr r \<longrightarrow> S0 (cr_BatchID r) = None)"
    unfolding service_in_def by (rule prod.sound_create [OF prod_creates])
qed (intro prod.preserves_update prod.preserves_jobs prod.status_keys prod.tx_keys prod.result_keys
    pg.job_ops_keep_batches; assumption?)+

section \<open>The process\<close>

text \<open>The process starts on tables it or an earlier process left sound, with the limits of its
  configuration.\<close>

inductive process_reachable :: "'r process \<Rightarrow> world \<times> 'r rate_state \<Rightarrow> bool" for p :: "'r process" where
  start: "tables_ok (pg_stored w) (pg_jobs w) \<Longrightarrow>
    process_reachable p (after (router_start (Some (pr_config p))) w, rs)"
| step: "process_reachable p s \<Longrightarrow> process_step p s s' \<Longrightarrow> process_reachable p s'"

lemma reachable_tables: "process_reachable p s \<Longrightarrow> tables_ok (pg_stored (fst s)) (pg_jobs (fst s))"
proof (induction rule: process_reachable.induct)
  case (start w rs)
  let ?w = "after (router_start (Some (pr_config p))) w"
  have b: "wBatches ?w = wBatches w" and j: "wJobs ?w = wJobs w" by (simp_all add: router_start_def in_limits_def)
  from start show ?case by (simp add: views_of_tables(1) [OF b] views_of_tables(2) [OF j])
next
  case (step s s')
  then have "sound (pg_stored (fst s)) (pg_jobs (fst s)) pg_stored pg_jobs (fst s)"
    by (simp add: sound_def grown_refl)
  from tables.process_step_preserves [OF step(2) refl refl refl this] show ?case by (simp add: sound_def)
qed

section \<open>Properties\<close>

text \<open>C1: in every state the process reaches the tables are sound: job ids are distinct, every job belongs
  to a stored batch, and every stored batch has one of the seven statuses and no more failed jobs than
  completed ones.\<close>

theorem tables_stay_sound:
  assumes "process_reachable p s"
  shows "tables_ok (pg_stored (fst s)) (pg_jobs (fst s))"
  using assms by (rule reachable_tables)

text \<open>Whatever the process does later, the batches and jobs it has are never removed; of a batch only
  status, progress and transactions change, and its status only to processing, completed or cancelled;
  of a job id, batch, row and fields stay; and jobs are added to new batches only.\<close>

theorem history_is_kept:
  assumes "process_reachable p s" "(process_step p)\<^sup>*\<^sup>* s s'"
  shows "grown (pg_stored (fst s)) (pg_jobs (fst s)) (pg_stored (fst s')) (pg_jobs (fst s'))"
  using tables.process_steps_preserve [OF assms(2) refl refl refl, of "pg_stored (fst s)" "pg_jobs (fst s)"]
    reachable_tables [OF assms(1)]
  by (simp add: sound_def grown_refl)

text \<open>Sound tables, row by row, and a process over the example environment.\<close>

lemma rows_ok:
  assumes "distinct (map jr_id (wJobs w))" "jr_batch_id ` set (wJobs w) \<subseteq> br_id ` set (wBatches w)"
    and "\<forall>r \<in> set (wBatches w). br_status r \<in> batch_statuses \<and> 0 \<le> br_failed_count r \<and>
      br_failed_count r \<le> br_completed_count r"
  shows "tables_ok (pg_stored w) (pg_jobs w)"
proof -
  have "valid_batch b" if "pg_stored w i = Some b" for i b
  proof -
    from that obtain r where "r \<in> set (wBatches w)" "b = core (ToDomain (scan_batch r))"
      by (auto simp: pg_stored_def dest: find_Some_key)
    with assms(3) show ?thesis
      by (auto simp: valid_batch_def ToDomain_def scan_batch_def split: option.split prod.split)
  qed
  with assms(1,2) show ?thesis
    by (auto simp: tables_ok_def pg_jobs_def comp_def pg_stored_def find_None_key)
qed

definition config0 :: Config where
  "config0 = (LoadConfigFromEnv (\<lambda>s. None) (\<lambda>k. []))\<lparr>cfg_Brokers := ''broker''\<rparr>"

definition process0 :: "unit process" where
  "process0 = \<lparr>pr_env = env0, pr_config = config0, pr_storage = None,
     pr_libs = \<lparr>pl_readers = \<lparr>read_xlsx = (\<lambda>d. Inl ErrBadJSON), read_xls = (\<lambda>d. Inl ErrBadJSON)\<rparr>,
       pl_form_file = (\<lambda>d x. Inl ErrBadJSON), pl_sniff = (\<lambda>d. []),
       pl_fault = (\<lambda>c. None), pl_ping = None\<rparr>,
     pr_auth = \<lparr>ac_cache = None, ac_allowLegacy = False, ac_adminRaw = [], ac_internalRaw = [],
       ac_expectedIss = [], ac_expectedAud = []\<rparr>,
     pr_rps = 1, pr_redis = None, pr_sheet = (\<lambda>c. [])\<rparr>"

definition state0 :: "world \<times> unit rate_state" where
  "state0 = (after (router_start (Some config0)) world0, \<lparr>rs_buckets = Map.empty, rs_redis = ()\<rparr>)"

definition message0 :: string where
  "message0 = ''{\"jobId\":\"j2\",\"batchId\":\"b1\",\"status\":\"completed\"}''"

definition state1 :: "world \<times> unit rate_state" where
  "state1 = (after (process_message (eTimeRFC3339 env0) (the (consumer_of env0 config0)) message0) (fst state0),
     snd state0)"

lemma start0: "process_reachable process0 state0"
proof -
  have "tables_ok (pg_stored world0) (pg_jobs world0)"
    by (rule rows_ok) (simp_all add: world0_def empty_world_def brow_def jrow_def batch_statuses_def)
  then have "process_reachable process0 (after (router_start (Some (pr_config process0))) world0, snd state0)"
    by (rule process_reachable.start)
  then show ?thesis by (simp add: state0_def process0_def)
qed

lemma step0: "process_step process0 state0 state1"
  using process_step.message [of process0 "the (consumer_of env0 config0)" "fst state0" "snd state0" message0]
  by (simp add: process0_def consumer_of_def config0_def state1_def)

theorem tables_stay_sound_witness: "tables_ok (pg_stored (fst state1)) (pg_jobs (fst state1))"
  by (rule tables_stay_sound [OF process_reachable.step [OF start0 step0]])

theorem history_is_kept_witness:
  "grown (pg_stored (fst state0)) (pg_jobs (fst state0)) (pg_stored (fst state1)) (pg_jobs (fst state1))"
  by (rule history_is_kept [OF start0 r_into_rtranclp [of "process_step process0", OF step0]])

end
