(* ===== verification/HandlerLaws.thy ===== *)
theory HandlerLaws
  imports Lifecycle AdapterLaws
begin

text \<open>
  What the handlers answer and do in the process that \<open>di.NewDeps\<close> builds: no request and no message
  panics; the answers of a confirmation and of an upload; restarting and configuring a batch; and the
  effect of a result message.
\<close>

section \<open>No panics\<close>

text \<open>A computation whose result is no panic, whatever the world.\<close>

definition no_panic :: "('w, 'a go) state \<Rightarrow> bool" where
  "no_panic m \<longleftrightarrow> (\<forall>w. result m w \<noteq> Panic)"

named_theorems no_panic_intros \<open>computations that do not panic\<close>

lemma no_panic_return [no_panic_intros]: "no_panic (respond x)" "no_panic (State_Monad.return (Ret y))"
  by (simp_all add: no_panic_def)

lemma no_panic_bind: "(\<And>x. no_panic (f x)) \<Longrightarrow> no_panic (State_Monad.bind m f)"
  by (simp add: no_panic_def)

lemma no_panic_go_bind [no_panic_intros]:
  "no_panic m \<Longrightarrow> (\<And>x. no_panic (f x)) \<Longrightarrow> no_panic (go_bind m f)"
  by (auto simp: no_panic_def run_simps split: go.split)

lemma no_panic_if [no_panic_intros]:
  "(b \<Longrightarrow> no_panic m) \<Longrightarrow> (\<not> b \<Longrightarrow> no_panic n) \<Longrightarrow> no_panic (if b then m else n)"
  by simp

lemma no_panic_case_option [no_panic_intros]:
  "(x = None \<Longrightarrow> no_panic m) \<Longrightarrow> (\<And>y. x = Some y \<Longrightarrow> no_panic (f y)) \<Longrightarrow>
    no_panic (case x of None \<Rightarrow> m | Some y \<Rightarrow> f y)"
  by (cases x) simp_all

lemma no_panic_case_sum [no_panic_intros]:
  "(\<And>y. x = Inl y \<Longrightarrow> no_panic (f y)) \<Longrightarrow> (\<And>y. x = Inr y \<Longrightarrow> no_panic (g y)) \<Longrightarrow>
    no_panic (case x of Inl y \<Rightarrow> f y | Inr y \<Rightarrow> g y)"
  by (cases x) simp_all

lemma no_panic_case_prod [no_panic_intros]:
  "(\<And>a b. x = (a, b) \<Longrightarrow> no_panic (f a b)) \<Longrightarrow> no_panic (case x of (a, b) \<Rightarrow> f a b)"
  by (cases x) simp_all

lemma no_panic_Let [no_panic_intros]: "(\<And>x. x = t \<Longrightarrow> no_panic (f x)) \<Longrightarrow> no_panic (let x = t in f x)"
  by simp

text \<open>The batch repository never returns nil without an error, nor does the billing client.\<close>

lemma get_not_nil: "result (BatchRepo_GetByID (batchRepository e) i) w \<noteq> Inr None"
  using pg_batches.get_found [of e i w None] by auto

lemma no_panic_with_batch:
  assumes "bm_batchRepo m = Some (batchRepository e)" "\<And>b. no_panic (k (batchRepository e) b)"
  shows "no_panic (with_batch m i fail k)"
  unfolding no_panic_def
proof
  fix w
  let ?g = "BatchRepo_GetByID (batchRepository e) i"
  show "result (with_batch m i fail k) w \<noteq> Panic"
    using assms get_not_nil [of e i w] unfolding with_batch_def no_panic_def
    by (cases "result ?g w") (auto split: option.split)
qed

lemma no_panic_publish [no_panic_intros]: "no_panic (update_and_publish rt m r b)"
  unfolding update_and_publish_def by (intro no_panic_bind no_panic_intros)

lemma manager_of_repo: "bm_batchRepo (manager_of e c) = Some (batchRepository e)"
  by (simp add: manager_of_def prod_manager_def Let_def NewBatchManager_def)

lemmas no_panic_fetch [no_panic_intros] = no_panic_with_batch [OF manager_of_repo]

lemma no_panic_manager [no_panic_intros]:
  "no_panic (FinalizeAfterUpload rt (manager_of e c) i v n)"
  "no_panic (SetProcessing rt (manager_of e c) i)"
  "no_panic (SetCancelled rt (manager_of e c) i)"
  "no_panic (OnJobStatusChange rt (manager_of e c) i)"
  unfolding FinalizeAfterUpload_def SetProcessing_def SetCancelled_def OnJobStatusChange_def
    update_progress_def
  by (intro no_panic_bind no_panic_intros)+

lemma no_panic_quote [no_panic_intros]: "no_panic (quote_upload (deps_of e c fc) r)"
proof -
  have "result (Quote e b u n) w \<noteq> Inr None" for b u n w
    by (auto simp: Quote_def split: sum.split option.split)
  then show ?thesis
    unfolding no_panic_def quote_upload_def
    by (auto simp: billing_of_def split: sum.split option.split)
qed

lemma no_panic_batch_handlers:
  "no_panic (HandleBatchStatus (Some (deps_of e c fc)) rq)"
  "no_panic (HandleConfirm rt (Some (deps_of e c fc)) rq)"
  "no_panic (HandleCancel rt (Some (deps_of e c fc)) rq)"
  "no_panic (HandleListBatches ptime (Some (deps_of e c fc)) rq)"
  "no_panic (HandleAdminListBatches ptime (Some (deps_of e c fc)) rq)"
  "no_panic (HandleAdminGetBatch (Some (deps_of e c fc)) rq)"
  "no_panic (HandleAdminUpdateBatchConfig (Some (deps_of e c fc)) rq)"
  "no_panic (HandleAdminRestartBatch rt (Some (deps_of e c fc)) rq)"
  unfolding HandleBatchStatus_def HandleConfirm_def HandleCancel_def HandleListBatches_def
    HandleAdminListBatches_def HandleAdminGetBatch_def HandleAdminUpdateBatchConfig_def
    HandleAdminRestartBatch_def set_processing_def deps_of_sel dep_simps option.case prod.case Let_def
  by (intro no_panic_bind no_panic_intros)+

lemma no_panic_other_handlers:
  "no_panic (HandleAdminStats rt ptime (Some (deps_of e c fc)) rq)"
  "no_panic (HandleDownloadErrorsXLS fault (Some (deps_of e c fc)) rq)"
  "no_panic (HandleDownloadResultsXLS fault (Some (deps_of e c fc)) rq)"
  "no_panic (HandleStartExport (Some (deps_of e c fc)) rq)"
  "no_panic (HandleGetExport rt (Some (deps_of e c fc)) rq)"
  "no_panic (put_limits_request rq)" "no_panic get_limits_request"
  "no_panic (upload_endpoint e libs (Some (deps_of e c fc)) q)"
  unfolding HandleAdminStats_def HandleDownloadErrorsXLS_def HandleDownloadResultsXLS_def
    HandleStartExport_def HandleGetExport_def put_limits_request_def get_limits_request_def
    upload_endpoint_def HandleUpload_def finalize_def proxy_export_def deps_of_sel dep_simps
    option.case Let_def
  by (intro no_panic_bind no_panic_intros)+

lemma no_panic_handle: "no_panic (handle e libs cfg (Some (deps_of e c fc)) q rq ep)"
  by (cases ep) (simp_all add: no_panic_intros no_panic_batch_handlers no_panic_other_handlers)

lemma no_panic_result_handler: "no_panic (result_handler e c ev)"
  unfolding result_handler_def buildResultHandler_def notify_batch_def option.case
  by (intro no_panic_bind no_panic_intros)

section \<open>Result messages\<close>

text \<open>The table of jobs after a result was stored.\<close>

definition with_result :: "env \<Rightarrow> BulkResultEvent \<Rightarrow> job \<Rightarrow> job" where
  "with_result e ev j = set_tx (ev_JobID ev) (case ev_Billing ev of
       Some (st, tx) \<Rightarrow> if tx \<noteq> [] \<and> eUUIDok e tx then Some tx else None
     | None \<Rightarrow> None) (set_status (ev_JobID ev) (ev_Status ev) j)"

lemma stored_result:
  "pg_stored (after (store_result (runtime_of e) (Some (jobRepository e)) ev) w) = pg_stored w"
  "wCalls (after (store_result (runtime_of e) (Some (jobRepository e)) ev) w) = wCalls w"
  "pg_jobs (after (store_result (runtime_of e) (Some (jobRepository e)) ev) w) \<in>
    {pg_jobs w, map (with_result e ev) (pg_jobs w)}"
proof -
  let ?r = "event_result (runtime_of e) ev"
  let ?m = "JobRepo_UpdateStatusWithResult (jobRepository e) (ev_JobID ev) (ev_Status ev) ?r"
  have run: "after (store_result (runtime_of e) (Some (jobRepository e)) ev) w = after ?m w"
    by (simp add: store_result_def)
  show "pg_stored (after (store_result (runtime_of e) (Some (jobRepository e)) ev) w) = pg_stored w"
    "wCalls (after (store_result (runtime_of e) (Some (jobRepository e)) ev) w) = wCalls w"
    unfolding run by (simp_all add: keepsD pg.job_ops_keep_batches prod.stores_keep_calls)
  have tx: "(if r_BillingTransactionID ?r = [] then None else Some (r_BillingTransactionID ?r)) =
      (case ev_Billing ev of Some (st, tx) \<Rightarrow> if tx \<noteq> [] \<and> eUUIDok e tx then Some tx else None | None \<Rightarrow> None)"
    by (auto simp: event_result_def runtime_of_def split: option.split)
  show "pg_jobs (after (store_result (runtime_of e) (Some (jobRepository e)) ev) w) \<in>
      {pg_jobs w, map (with_result e ev) (pg_jobs w)}"
    unfolding run
    using pg_jobs.result_ok [of e "ev_JobID ev" "ev_Status ev" ?r w]
      pg_jobs.result_failed [of e "ev_JobID ev" "ev_Status ev" ?r w]
    by (cases "result ?m w") (simp_all add: tx with_result_def comp_def)
qed

lemma tagged_result_keeps:
  assumes "\<And>w n. v (w\<lparr>wTick := n\<rparr>) = v w" "\<And>w l. v (w\<lparr>wLog := l\<rparr>) = v w"
  shows "keeps v (tag_result (runtime_of e) (Some (tagger_of e c)) ev)"
  unfolding tag_result_def TagEvent_def TagBulkID_def tagger_of_def option.case Tagger.simps
  by (intro frame_intros keeps_Publish runtime_ops_keep assms)

lemma run_result_handler:
  "run_state (result_handler e c ev) w = (let
      w1 = after (store_result (runtime_of e) (Some (jobRepository e)) ev) w;
      w2 = after (tag_result (runtime_of e) (Some (tagger_of e c)) ev) w1
    in (Ret None, after (OnJobStatusChange (runtime_of e) (manager_of e c) (ev_BatchID ev)) w2))"
proof -
  have "result (OnJobStatusChange (runtime_of e) (manager_of e c) i) w \<noteq> Panic" for i w
    using no_panic_manager(4) by (simp add: no_panic_def)
  then show ?thesis
    by (auto simp: run_state_result_after result_handler_def buildResultHandler_def notify_batch_def
        Let_def run_simps split: go.split)
qed

text \<open>The batch after the recalculation, or as before.\<close>

definition counted :: "string \<Rightarrow> job list \<Rightarrow> (string \<Rightarrow> batch option) \<Rightarrow> (string \<Rightarrow> batch option) \<Rightarrow> bool" where
  "counted i J S S' \<longleftrightarrow> S' = S \<or> (let js = filter (\<lambda>j. j_BatchID j = i) J in
     js \<noteq> [] \<and> (\<exists>b now. S i = Some (core b) \<and> S' = S(i \<mapsto> core (progress_spec js now b))))"

lemma recalculated:
  fixes w :: world and e c i
  defines "w' \<equiv> after (OnJobStatusChange (runtime_of e) (manager_of e c) i) w"
  shows "pg_jobs w' = pg_jobs w" "wCalls w' = wCalls w"
    "counted i (pg_jobs w) (pg_stored w) (pg_stored w')"
  using specD [OF prod.onjobstatus_run [OF manager_of_wired [of e c], where i = i and S = "pg_stored w"
        and J = "pg_jobs w" and C = "wCalls w"], where w = w, OF views_def]
  by (auto simp: w'_def counted_def Let_def split: if_splits)

text \<open>What the handler of a message leaves: the jobs after its result was stored, and the batch it names
  recalculated.\<close>

lemma handler_effect:
  fixes e c ev w
  defines "w' \<equiv> after (result_handler e c ev) w"
  shows "wCalls w' = wCalls w"
    "pg_jobs w' = pg_jobs (after (store_result (runtime_of e) (Some (jobRepository e)) ev) w)"
    "counted (ev_BatchID ev) (pg_jobs w') (pg_stored w) (pg_stored w')"
proof -
  let ?w1 = "after (store_result (runtime_of e) (Some (jobRepository e)) ev) w"
  let ?w2 = "after (tag_result (runtime_of e) (Some (tagger_of e c)) ev) ?w1"
  note tag = keepsD [OF tagged_result_keeps, where w = ?w1]
  have kept: "pg_jobs ?w2 = pg_jobs ?w1" "pg_stored ?w2 = pg_stored w" "wCalls ?w2 = wCalls w"
    using tag [of pg_jobs] tag [of pg_stored] tag [of wCalls] stored_result by simp_all
  have "w' = after (OnJobStatusChange (runtime_of e) (manager_of e c) (ev_BatchID ev)) ?w2"
    using run_result_handler [of e c ev w] by (simp add: w'_def after_def Let_def)
  with kept recalculated [where e = e and c = c and i = "ev_BatchID ev" and w = ?w2]
  show "wCalls w' = wCalls w" "pg_jobs w' = pg_jobs ?w1"
    "counted (ev_BatchID ev) (pg_jobs w') (pg_stored w) (pg_stored w')"
    by simp_all
qed


text \<open>A decodable message is handled exactly once, since its handler never fails.\<close>

lemma consumer_run:
  assumes "consumer_of e c = Some rc"
  shows "after (process_message ptime rc m) w = (case unmarshal_event ptime m of
       None \<Rightarrow> w
     | Some ev \<Rightarrow> if consumer_retry (eGetenv e) < 0 then w else after (result_handler e c ev) w)"
proof -
  let ?act = "\<lambda>ev. do { x \<leftarrow> result_handler e c ev; State_Monad.return (handler_error x) }"
  have ok: "result (?act ev) w = None" for ev w
    using run_result_handler [of e c ev w] by (simp add: result_def handler_error_def Let_def split_beta)
  have "run_state (attempts (nat (n + 1)) (?act ev) None) w =
      (None, if n < 0 then w else after (result_handler e c ev) w)" for n ev
  proof (cases "n < 0")
    case False
    then have "nat (n + 1) = Suc (nat n)" by simp
    with False ok show ?thesis by (simp add: run_state_result_after)
  qed (simp add: run_state_result_after)
  with assms show ?thesis
    by (auto simp: consumer_of_def process_message_def run_state_result_after split: option.split if_splits)
qed

text \<open>C35: the consumer runs the handler of a decodable message exactly once: no message is retried and the
  dead-letter topic is never used.  A negative retry count drops every message.\<close>

theorem consumer_runs_once:
  "case consumer_of e c of
     None \<Rightarrow> cfg_Brokers c = []
   | Some rc \<Rightarrow> after (process_message ptime rc m) w = (case unmarshal_event ptime m of
       None \<Rightarrow> w
     | Some ev \<Rightarrow> if consumer_retry (eGetenv e) < 0 then w else after (result_handler e c ev) w)"
proof (cases "consumer_of e c")
  case None
  then show ?thesis by (simp add: consumer_of_def split: if_splits)
next
  case (Some rc)
  then show ?thesis by (simp add: consumer_run)
qed

section \<open>Restarting and configuring a batch\<close>

text \<open>The messages for jobs in the log, which excludes what a status or the history is told.\<close>

definition job_log :: "world \<Rightarrow> (string \<times> kafka_msg) list" where
  "job_log w = filter (\<lambda>(t, m). msg_job m \<noteq> None) (wLog w)"

definition failed_job :: "job \<Rightarrow> bool" where
  "failed_job j \<longleftrightarrow> j_Status j = JobStatusFailed"

text \<open>The state after restarting \<open>js\<close>: \<open>ps\<close> were published and \<open>qs\<close> of them queued again.\<close>

definition restarted :: "string \<Rightarrow> job list \<Rightarrow> job list \<Rightarrow> (string \<times> kafka_msg) list \<Rightarrow> job list \<Rightarrow>
    (string \<times> kafka_msg) list \<Rightarrow> int \<Rightarrow> bool" where
  "restarted topic js J L J' L' n \<longleftrightarrow> (\<exists>ps qs.
     subseq ps (filter failed_job js) \<and> subseq qs ps \<and>
     L' = L @ map (\<lambda>j. (topic, restart_msg j)) ps \<and>
     J' = fold (\<lambda>j. map (set_status (j_ID j) JobStatusQueued)) qs J \<and> n = int (length qs))"

lemma restart_job_log [simp]: "msg_job (restart_msg j) = Some (j_ID j)"
  by (simp add: msg_job_def restart_msg_def)

lemma job_log_publish: "job_log (after (Producer_Publish (producer_of e b) t m) w) =
    (if result (Producer_Publish (producer_of e b) t m) w = None \<and> msg_job m \<noteq> None
     then job_log w @ [(t, m)] else job_log w)"
  by (simp add: job_log_def kafka_bus.publish_events)

lemma job_log_simps [simp]:
  "job_log (w\<lparr>wTick := n\<rparr>) = job_log w" "job_log (w\<lparr>wBatches := bs\<rparr>) = job_log w"
  "job_log (w\<lparr>wJobs := js\<rparr>) = job_log w" "job_log (w\<lparr>wCalls := cs\<rparr>) = job_log w"
  by (simp_all add: job_log_def)

lemma run_restart_job:
  fixes e c fc j w
  defines "m \<equiv> restart_job (runtime_of e) (deps_of e c fc) (jobRepository e) j"
    and "topic \<equiv> getBulkJobTopic (runtime_of e)"
  shows "pg_stored (after m w) = pg_stored w \<and> wCalls (after m w) = wCalls w \<and>
    restarted topic [j] (pg_jobs w) (job_log w) (pg_jobs (after m w)) (job_log (after m w))
      (if result m w then 1 else 0)"
proof (cases "failed_job j")
  case True
  let ?p = "Producer_Publish (producer_of e (cfg_Brokers c)) topic (restart_msg j)"
  let ?u = "JobRepo_UpdateStatus (jobRepository e) (j_ID j) JobStatusQueued"
  have m: "m = do { perr \<leftarrow> ?p; (case perr of Some err \<Rightarrow> State_Monad.return False
      | None \<Rightarrow> do { u \<leftarrow> ?u; State_Monad.return (u = None) }) }"
    using True by (simp add: m_def topic_def restart_job_def publish_restart_def failed_job_def)
  have p: "pg_stored (after ?p w) = pg_stored w" "pg_jobs (after ?p w) = pg_jobs w"
    "wCalls (after ?p w) = wCalls w" for w
    by (simp_all add: keepsD prod.publish_keeps)
  have log_u: "keeps job_log ?u" by (rule job_ops_keep) simp_all
  have u: "pg_stored (after ?u w) = pg_stored w" "wCalls (after ?u w) = wCalls w"
    "job_log (after ?u w) = job_log w" for w
    by (simp_all add: keepsD pg.job_ops_keep_batches prod.stores_keep_calls log_u)
  have ex: "restarted topic [j] J L J (L @ [(topic, restart_msg j)]) 0"
    "restarted topic [j] J L (map (set_status (j_ID j) JobStatusQueued) J) (L @ [(topic, restart_msg j)]) 1"
    "restarted topic [j] J L J L 0" for J L
    unfolding restarted_def
    by (rule exI [of _ "[j]"], rule exI [of _ "[]"], simp add: True)
      (rule exI [of _ "[j]"], rule exI [of _ "[j]"], simp add: True,
       rule exI [of _ "[]"], rule exI [of _ "[]"], simp add: True)
  show ?thesis
    using ex by (cases "result ?p w") (auto simp: m p u job_log_publish pg_jobs.status_jobs)
next
  case False
  have "restarted topic [j] J L J L 0" for J L
    unfolding restarted_def by (rule exI [of _ "[]"])+ simp
  with False show ?thesis by (simp add: m_def restart_job_def failed_job_def)
qed

lemma restarted_Nil: "restarted topic [] J L J L 0"
  unfolding restarted_def by (rule exI [of _ "[]"])+ simp

lemma restarted_append:
  assumes "restarted topic xs J L J1 L1 n" "restarted topic ys J1 L1 J2 L2 k"
  shows "restarted topic (xs @ ys) J L J2 L2 (n + k)"
proof -
  from assms(1) obtain ps qs where 1: "subseq ps (filter failed_job xs)" "subseq qs ps"
    "L1 = L @ map (\<lambda>j. (topic, restart_msg j)) ps"
    "J1 = fold (\<lambda>j. map (set_status (j_ID j) JobStatusQueued)) qs J" "n = int (length qs)"
    by (auto simp: restarted_def)
  from assms(2) obtain ps' qs' where 2: "subseq ps' (filter failed_job ys)" "subseq qs' ps'"
    "L2 = L1 @ map (\<lambda>j. (topic, restart_msg j)) ps'"
    "J2 = fold (\<lambda>j. map (set_status (j_ID j) JobStatusQueued)) qs' J1" "k = int (length qs')"
    by (auto simp: restarted_def)
  with 1 show ?thesis
    unfolding restarted_def
    by (intro exI [of _ "ps @ ps'"] exI [of _ "qs @ qs'"]) (simp add: list_emb_append_mono)
qed

lemma run_restart_jobs:
  fixes e c fc js
  defines "m \<equiv> restart_jobs (runtime_of e) (deps_of e c fc) (jobRepository e) js"
    and "topic \<equiv> getBulkJobTopic (runtime_of e)"
  shows "pg_stored (after (m (a, b)) w) = pg_stored w \<and> wCalls (after (m (a, b)) w) = wCalls w \<and>
    (\<exists>n. restarted topic js (pg_jobs w) (job_log w) (pg_jobs (after (m (a, b)) w)) (job_log (after (m (a, b)) w)) n \<and>
      result (m (a, b)) w = (a + n, b + int (length js) - n))"
  unfolding m_def topic_def
proof (induction js arbitrary: a b w)
  case Nil
  then show ?case by (auto intro: restarted_Nil)
next
  case (Cons j js)
  let ?j = "restart_job (runtime_of e) (deps_of e c fc) (jobRepository e) j"
  let ?ok = "result ?j w" and ?w = "after ?j w" and ?t = "getBulkJobTopic (runtime_of e)"
  note job = run_restart_job [of e c fc j w]
  let ?a = "if ?ok then a + 1 else a" and ?b = "if ?ok then b else b + 1"
  let ?r = "restart_jobs (runtime_of e) (deps_of e c fc) (jobRepository e) js (?a, ?b)"
  from Cons.IH [of ?a ?b ?w] obtain n where rest:
    "pg_stored (after ?r ?w) = pg_stored ?w" "wCalls (after ?r ?w) = wCalls ?w"
    "restarted ?t js (pg_jobs ?w) (job_log ?w) (pg_jobs (after ?r ?w)) (job_log (after ?r ?w)) n"
    "result ?r ?w = (?a + n, ?b + int (length js) - n)"
    by blast
  from restarted_append [OF conjunct2 [OF conjunct2 [OF job]] rest(3)] rest job show ?case
    by (cases ?ok) (auto simp: algebra_simps)
qed

lemma processing_set:
  fixes e c i w
  defines "m \<equiv> set_processing (runtime_of e) (Some (manager_of e c)) i"
  shows "pg_jobs (after m w) = pg_jobs w \<and> wCalls (after m w) = wCalls w \<and> job_log (after m w) = job_log w \<and>
    result m w = Ret () \<and> (pg_stored (after m w) = pg_stored w \<or> (\<exists>b. pg_stored w i = Some (core b) \<and>
      pg_stored (after m w) = (pg_stored w)(i \<mapsto> core (b\<lparr>b_Status := BatchStatusProcessing\<rparr>))))"
proof -
  let ?s = "SetProcessing (runtime_of e) (manager_of e c) i"
  have np: "result ?s w \<noteq> Panic" using no_panic_manager(2) by (simp add: no_panic_def)
  have run: "after m w = after ?s w" "result m w = Ret ()"
    using np by (auto simp: m_def set_processing_def run_simps split: go.split)
  have pub: "keeps job_log (Producer_Publish (producer_of e (cfg_Brokers c)) t (status_msg b n))" for t b n
    by (simp add: keeps_def job_log_publish msg_job_def status_msg_def)
  have "keeps job_log (publishStatus (runtime_of e) (manager_of e c) b)" for b
    using manager_of_wired [of e c] unfolding publishStatus_def
    by (auto simp: wired_def intro!: frame_intros pub runtime_ops_keep split: option.split)
  then have "keeps job_log ?s"
    using manager_of_repo unfolding SetProcessing_def with_batch_def update_and_publish_def manager_of_repo option.case
    by (intro frame_intros batch_ops_keep) simp_all
  with specD [OF prod.setprocessing_run [OF manager_of_wired [of e c], where i = i and S = "pg_stored w"
        and J = "pg_jobs w" and C = "wCalls w"], where w = w, OF views_def] show ?thesis
    by (auto simp: run keepsD)
qed

text \<open>Reading a batch or its jobs changes no table, call or message.\<close>

lemma get_keeps_all [simp]:
  "pg_stored (after (BatchRepo_GetByID (batchRepository e) i) w) = pg_stored w"
  "pg_jobs (after (BatchRepo_GetByID (batchRepository e) i) w) = pg_jobs w"
  "wCalls (after (BatchRepo_GetByID (batchRepository e) i) w) = wCalls w"
  "job_log (after (BatchRepo_GetByID (batchRepository e) i) w) = job_log w"
  by (simp_all add: keepsD pg_batches.get_keeps pg.batch_ops_keep_jobs prod.stores_keep_calls batch_ops_keep)

lemma by_batch_keeps_all [simp]:
  "pg_stored (after (JobRepo_GetByBatch (jobRepository e) i) w) = pg_stored w"
  "pg_jobs (after (JobRepo_GetByBatch (jobRepository e) i) w) = pg_jobs w"
  "wCalls (after (JobRepo_GetByBatch (jobRepository e) i) w) = wCalls w"
  "job_log (after (JobRepo_GetByBatch (jobRepository e) i) w) = job_log w"
  by (simp_all add: keepsD pg.job_ops_keep_batches pg_jobs.by_batch_keeps prod.stores_keep_calls job_ops_keep)

text \<open>A restart of a batch whose jobs were read.\<close>

lemma restart_found:
  fixes e c fc rq w
  defines "h \<equiv> HandleAdminRestartBatch (runtime_of e) (Some (deps_of e c fc)) rq"
    and "w1 \<equiv> after (BatchRepo_GetByID (batchRepository e) (rq_param rq ''id'')) w"
  assumes "bind_restart rq = Some q"
    and "result (BatchRepo_GetByID (batchRepository e) (rq_param rq ''id'')) w = Inr (Some b)"
    and "result (JobRepo_GetByBatch (jobRepository e) (rq_param rq ''id'')) w1 = Inr js"
  obtains n where "mset js = mset (filter (\<lambda>j. j_BatchID j = rq_param rq ''id'') (pg_jobs w))"
    "result h w = Ret (Json 200 (GH [(''restarted'', GInt n), (''skipped'', GInt (int (length js) - n))]))"
    "restarted (getBulkJobTopic (runtime_of e)) js (pg_jobs w) (job_log w) (pg_jobs (after h w)) (job_log (after h w)) n"
    "wCalls (after h w) = wCalls w"
    "pg_stored (after h w) = pg_stored w \<or> (\<exists>b. pg_stored w (rq_param rq ''id'') = Some (core b) \<and>
       pg_stored (after h w) = (pg_stored w)(rq_param rq ''id'' \<mapsto> core (b\<lparr>b_Status := BatchStatusProcessing\<rparr>)))"
proof -
  let ?i = "rq_param rq ''id''"
  let ?w2 = "after (JobRepo_GetByBatch (jobRepository e) ?i) w1"
  let ?r = "restart_jobs (runtime_of e) (deps_of e c fc) (jobRepository e) js (0, 0)"
  let ?w3 = "after ?r ?w2"
  note kept = get_keeps_all [of e ?i] by_batch_keeps_all [of e ?i]
  have js: "mset js = mset (filter (\<lambda>j. j_BatchID j = ?i) (pg_jobs w))"
    using pg_jobs.by_batch [OF assms(5)] kept by (simp add: w1_def)
  from run_restart_jobs [of e c fc js 0 0 ?w2] kept obtain n where r:
    "pg_stored ?w3 = pg_stored w" "wCalls ?w3 = wCalls w"
    "restarted (getBulkJobTopic (runtime_of e)) js (pg_jobs w) (job_log w) (pg_jobs ?w3) (job_log ?w3) n"
    "result ?r ?w2 = (n, int (length js) - n)" by (auto simp: w1_def)
  note p = processing_set [where e = e and c = c and i = ?i and w = ?w3]
  have "result h w = Ret (Json 200 (GH [(''restarted'', GInt n), (''skipped'', GInt (int (length js) - n))]))"
    "after h w = after (set_processing (runtime_of e) (Some (manager_of e c)) ?i) ?w3"
    using assms(3-5) p r(4)
    by (simp_all add: h_def w1_def HandleAdminRestartBatch_def Let_def requireBatch_def run_simps)
  with p r js show ?thesis by (intro that [of n]) auto
qed


lemma get_batch:
  "result (BatchRepo_GetByID (batchRepository e) i) w = Inr (Some b) \<Longrightarrow> b_ID b = i \<and> pg_stored w i = Some (core b)"
  using pg_batches.get_found [of e i w "Some b"] by auto

lemma update_config_stores_nothing:
  assumes "pg_stored w (b_ID b) = Some (core b)"
  shows "pg_stored (after (BatchRepo_Update (batchRepository e) (apply_config q b)) w) = pg_stored w"
proof (cases "result (BatchRepo_Update (batchRepository e) (apply_config q b)) w")
  case None
  have "persisted (apply_config q b) (core b) = core b"
    by (simp add: persisted_def apply_config_def core_def)
  with pg_batches.update_ok [OF None] assms show ?thesis by (auto simp: apply_config_def)
qed (rule pg_batches.update_failed)

lemma read_after_update:
  assumes "result (BatchRepo_Update (batchRepository e) b) w = None"
  shows "case result (BatchRepo_GetByID (batchRepository e) (b_ID b)) (after (BatchRepo_Update (batchRepository e) b) w) of
    Inr (Some b') \<Rightarrow> b_Priority b' = [] \<and> b_TimeoutMs b' = 0 | Inr None \<Rightarrow> False | Inl err \<Rightarrow> True"
  using run_update [OF assms]
  by (auto simp: run_get find_update_row scan_updated split: option.split)

text \<open>C34: the configuration an administrator sets is not stored: the answer shows it, but a read after it
  finds neither priority nor timeout, and no other field, job, message or call changed.\<close>

theorem config_not_stored:
  "case run_state (HandleAdminUpdateBatchConfig (Some (deps_of e c fc)) rq) w of (r, w') \<Rightarrow>
    let i = rq_param rq ''id'' in
    pg_stored w' = pg_stored w \<and> pg_jobs w' = pg_jobs w \<and> wCalls w' = wCalls w \<and> wLog w' = wLog w \<and>
    (case r of
       Ret (Json st body) \<Rightarrow> if st \<noteq> 200 then st \<in> {400, 500} else
         (\<exists>q b. bind_config rq = Some q \<and> pg_stored w i = Some (core b) \<and>
            Json st body = config_body i (apply_config q b)) \<and>
         (case result (BatchRepo_GetByID (batchRepository e) i) w' of
            Inr (Some b') \<Rightarrow> b_Priority b' = [] \<and> b_TimeoutMs b' = 0 | Inr None \<Rightarrow> False | Inl err \<Rightarrow> True)
     | _ \<Rightarrow> False)"
proof -
  let ?i = "rq_param rq ''id''" and ?h = "HandleAdminUpdateBatchConfig (Some (deps_of e c fc)) rq"
  let ?g = "BatchRepo_GetByID (batchRepository e) ?i"
  have log: "wLog (after ?g w) = wLog w" for w by (simp add: keepsD batch_ops_keep)
  show ?thesis
  proof (cases "bind_config rq")
    case (Some q)
    show ?thesis
    proof (cases "result ?g w")
      case (Inr x)
      with get_not_nil obtain b where b: "result ?g w = Inr (Some b)" by (cases x) auto
      let ?u = "BatchRepo_Update (batchRepository e) (apply_config q b)" and ?w1 = "after ?g w"
      note got = get_batch [OF b]
      have h: "after ?h w = after ?u ?w1" "result ?h w = Ret (case result ?u ?w1 of
          Some err \<Rightarrow> fail_with 500 ''SERVICE_ERROR'' ''failed to update batch config''
        | None \<Rightarrow> config_body ?i (apply_config q b))"
        using Some b by (simp_all add: HandleAdminUpdateBatchConfig_def Let_def)
      have kept: "pg_stored (after ?u ?w1) = pg_stored w" "pg_jobs (after ?u ?w1) = pg_jobs w"
        "wCalls (after ?u ?w1) = wCalls w" "wLog (after ?u ?w1) = wLog w"
        using update_config_stores_nothing [of ?w1 b e q] got
        by (simp_all add: keepsD pg.batch_ops_keep_jobs prod.stores_keep_calls batch_ops_keep log)
      show ?thesis
      proof (cases "result ?u ?w1")
        case None
        with read_after_update [OF None] h kept got Some show ?thesis
          by (auto simp: run_state_result_after config_body_def Let_def apply_config_def)
      next
        case x: (Some err)
        with h kept show ?thesis by (simp add: run_state_result_after WriteError_def)
      qed
    qed (use Some log in \<open>simp add: run_state_result_after HandleAdminUpdateBatchConfig_def Let_def
          fetch_failed_def WriteError_def\<close>)
  qed (simp add: run_state_result_after HandleAdminUpdateBatchConfig_def Let_def bad_body_def WriteError_def)
qed

section \<open>Uploads\<close>

definition answers :: "int set \<Rightarrow> response \<Rightarrow> bool" where
  "answers sts r \<longleftrightarrow> (case r of Json st body \<Rightarrow> st \<in> sts | _ \<Rightarrow> False)"

lemma answers_error [simp]: "answers sts (WriteError st code msg d) \<longleftrightarrow> st \<in> sts"
  by (simp add: answers_def WriteError_def)

lemma rejected_answers [simp]: "answers {400, 413} (rejected_upload err)" "answers {400, 413} too_large"
  by (cases err) (simp_all add: rejected_upload_def too_large_def)

lemma receive_rejected: "receive form_file sniff l q = Inl resp \<Longrightarrow> answers {400, 413} resp"
  unfolding receive_def Let_def
  by (auto split: if_split_asm option.split_asm prod.split_asm sum.split_asm go_error.split_asm)

lemma upload_failed_answers [simp]: "answers {400} (upload_failed err)"
  by (cases err) (simp_all add: upload_failed_def parserErrorResponse_def)

text \<open>The state a batch of an upload is in: pending when the finalisation failed.\<close>

definition finalized :: "batch \<Rightarrow> CreateBatchResult \<Rightarrow> batch \<Rightarrow> bool" where
  "finalized b res b' \<longleftrightarrow> b' = b \<or> (\<exists>b0 q. core b0 = b \<and> b' = core (finalize_spec b0 (cr_ValidRows res) (cr_InvalidRows res) q))"

lemma run_finalize:
  fixes e c fc res w
  defines "m \<equiv> finalize (runtime_of e) (deps_of e c fc) res"
  assumes "pg_stored w (cr_BatchID res) = Some b"
  shows "result m w = Ret () \<and> pg_jobs (after m w) = pg_jobs w \<and>
    (\<exists>b'. finalized b res b' \<and> pg_stored (after m w) = (pg_stored w)(cr_BatchID res \<mapsto> b'))"
proof -
  let ?f = "FinalizeAfterUpload (runtime_of e) (manager_of e c) (cr_BatchID res) (cr_ValidRows res) (cr_InvalidRows res)"
  have np: "result ?f w \<noteq> Panic" using no_panic_manager(1) by (simp add: no_panic_def)
  have run: "after m w = after ?f w" "result m w = Ret ()"
    using np by (auto simp: m_def finalize_def run_simps split: go.split)
  have same: "(pg_stored w)(cr_BatchID res \<mapsto> b) = pg_stored w" using assms(2) by (simp add: fun_upd_idem)
  from specD [OF prod.finalize_run [OF manager_of_wired [of e c], where i = "cr_BatchID res"
        and v = "cr_ValidRows res" and n = "cr_InvalidRows res" and S = "pg_stored w"
        and J = "pg_jobs w" and C = "wCalls w"], where w = w, OF views_def]
  consider b0 q where "b = core b0" "pg_jobs (after ?f w) = pg_jobs w" "pg_stored (after ?f w) =
      (pg_stored w)(cr_BatchID res \<mapsto> core (finalize_spec b0 (cr_ValidRows res) (cr_InvalidRows res) q))"
    | "pg_stored (after ?f w) = pg_stored w" "pg_jobs (after ?f w) = pg_jobs w"
    using assms(2) by (cases "result ?f w = Ret None") auto
  then show ?thesis
  proof cases
    case 1
    then show ?thesis by (auto simp: run finalized_def)
  next
    case 2
    then show ?thesis
      by (intro conjI exI [of _ b]) (simp_all add: run finalized_def same)
  qed
qed

lemma run_quote_upload:
  "result (quote_upload (deps_of e c fc) r) w \<noteq> Panic"
  "result (quote_upload (deps_of e c fc) r) w = Ret resp \<Longrightarrow> answers {200, 402, 503} resp"
  "pg_stored (after (quote_upload (deps_of e c fc) r) w) = pg_stored w"
  "pg_jobs (after (quote_upload (deps_of e c fc) r) w) = pg_jobs w"
proof -
  show "result (quote_upload (deps_of e c fc) r) w \<noteq> Panic" using no_panic_quote by (simp add: no_panic_def)
  show "result (quote_upload (deps_of e c fc) r) w = Ret resp \<Longrightarrow> answers {200, 402, 503} resp"
    by (auto simp: quote_upload_def ready_body_def partial_body_def Let_def answers_def WriteError_def
        split: sum.splits option.splits if_splits)
  show "pg_stored (after (quote_upload (deps_of e c fc) r) w) = pg_stored w"
    "pg_jobs (after (quote_upload (deps_of e c fc) r) w) = pg_jobs w"
    by (simp_all add: quote_upload_def keepsD prod.billing_keeps)
qed

lemma service_creates: "creates_in (batchRepository e) (jobRepository e) pg_stored pg_jobs (service_in e c fc)"
  by (simp add: service_in_def prod_creates)

lemma upload_created:
  fixes e c fc rds l r revision w
  defines "m \<equiv> CreateBatchFromFile (runtime_of e) rds (service_in e c fc) l r revision"
  shows "(\<exists>err. result m w = Inl err) \<and> pg_stored (after m w) = pg_stored w \<and> pg_jobs (after m w) = pg_jobs w \<or>
    (\<exists>rows. created (pg_stored w) (pg_jobs w) revision rows (fc \<noteq> None) (result m w)
      (pg_stored (after m w)) (pg_jobs (after m w)))"
proof -
  have "(sv_storage (service_in e c fc) \<noteq> None) = (fc \<noteq> None)" by (simp add: service_in_def prod_service_def)
  with specD [OF prod.create_run [OF service_creates [of e c fc], where rds = rds and l = l and r = r and
        revision = revision and S = "pg_stored w" and J = "pg_jobs w"], where w = w]
  show ?thesis unfolding m_def by auto
qed

text \<open>A file from which a batch was created: it is finalised, and the answer follows.\<close>

lemma upload_accepted:
  fixes e libs c fc q w
  defines "h \<equiv> HandleUpload (runtime_of e) (pl_readers libs) (pl_form_file libs) (pl_sniff libs) (wLimits w)
      (Some (deps_of e c fc)) (upload_request_of q)"
    and "w1 f \<equiv> after (CreateBatchFromFile (runtime_of e) (pl_readers libs) (service_in e c fc) (wLimits w)
      (uf_content f) (uf_revision f)) w"
  assumes "receive (pl_form_file libs) (pl_sniff libs) (wLimits w) (upload_request_of q) = Inr f"
    and "result (CreateBatchFromFile (runtime_of e) (pl_readers libs) (service_in e c fc) (wLimits w)
      (uf_content f) (uf_revision f)) w = Inr res"
    and b: "pg_stored (w1 f) (cr_BatchID res) = Some b"
  obtains resp b' where "result h w = Ret resp" "finalized b res b'"
    "pg_stored (after h w) = (pg_stored (w1 f))(cr_BatchID res \<mapsto> b')" "pg_jobs (after h w) = pg_jobs (w1 f)"
    "answers (if 0 < cr_InvalidRows res then {200} else {200, 402, 503}) resp"
proof -
  let ?f = "finalize (runtime_of e) (deps_of e c fc) res" and ?q = "quote_upload (deps_of e c fc) res"
  from run_finalize [OF b, of e c fc] obtain b' where f: "result ?f (w1 f) = Ret ()"
    "pg_jobs (after ?f (w1 f)) = pg_jobs (w1 f)" "finalized b res b'"
    "pg_stored (after ?f (w1 f)) = (pg_stored (w1 f))(cr_BatchID res \<mapsto> b')" by blast
  show ?thesis
  proof (cases "0 < cr_InvalidRows res")
    case True
    then have "result h w = Ret (validation_errors_body res)" "after h w = after ?f (w1 f)"
      using assms(3,4) f by (simp_all add: h_def w1_def HandleUpload_def run_simps)
    with True f show ?thesis
      by (intro that [of "validation_errors_body res" b']) (simp_all add: answers_def validation_errors_body_def)
  next
    case False
    then have h: "result h w = result ?q (after ?f (w1 f))" "after h w = after ?q (after ?f (w1 f))"
      using assms(3,4) f by (simp_all add: h_def w1_def HandleUpload_def run_simps)
    obtain resp where "result ?q (after ?f (w1 f)) = Ret resp" "answers {200, 402, 503} resp"
      using run_quote_upload(1,2) by (metis go.exhaust)
    with False h f show ?thesis by (intro that [of resp b']) (simp_all add: run_quote_upload(3,4))
  qed
qed


section \<open>Reported progress\<close>

text \<open>The pending count that the status endpoint and the status messages report after a recalculation
  subtracts the failed jobs twice: it is the number of open jobs less the failed ones, and not below
  zero.\<close>

theorem pending_subtracts_failures_twice:
  assumes "b_TotalRows b = int (length js)"
  shows "let b' = core (progress_spec js now b);
      reported = max 0 (int (length (filter (\<lambda>j. \<not> job_done j) js)) - int (length (filter failed_job js)))
    in view_pending (batch_view b') = reported \<and> status_pending b' = reported"
proof -
  have "int (length js) = int (length (filter job_done js)) + int (length (filter (\<lambda>j. \<not> job_done j) js))"
    using length_filter_partition [of job_done js] by simp
  moreover have "filter failed_job js = filter (\<lambda>j. j_Status j = JobStatusFailed) js"
    by (rule filter_cong) (simp_all add: failed_job_def)
  ultimately show ?thesis
    using assms by (simp add: view_pending_def status_pending_def batch_view_def Let_def max_def)
qed

theorem pending_subtracts_failures_twice_witness:
  "let js = map scan_job [jrow ''j1'' ''b'' 1 JobStatusQueued, jrow ''j2'' ''b'' 2 JobStatusFailed] in
   view_pending (batch_view (core (progress_spec js 7 (new_batch ''b'' ''R'' 2)))) = 0 \<and>
   length (filter (\<lambda>j. \<not> job_done j) js) = 1"
  using pending_subtracts_failures_twice [of "new_batch ''b'' ''R'' 2"
    "map scan_job [jrow ''j1'' ''b'' 1 JobStatusQueued, jrow ''j2'' ''b'' 2 JobStatusFailed]" 7]
  by (simp add: new_batch_def jrow_def job_done_def failed_job_def job_status_defs Let_def)

text \<open>A batch that does not exist is answered as a failure of the service, not as not found.\<close>

lemma missing_batch_is_500:
  assumes "pg_stored w (rq_param rq ''id'') = None"
  shows "result (HandleBatchStatus (Some (deps_of e c fc)) rq) w = Ret fetch_failed"
proof -
  let ?g = "BatchRepo_GetByID (batchRepository e) (rq_param rq ''id'')"
  have "result ?g w \<noteq> Inr x" for x
    using pg_batches.get_found [of e "rq_param rq ''id''" w x] assms by auto
  then obtain err where "result ?g w = Inl err" by (cases "result ?g w") auto
  then show ?thesis by (simp add: HandleBatchStatus_def load_view_def Let_def)
qed

text \<open>The user in the path of the administration's list is not looked at.\<close>

lemma admin_list_ignores_path: "admin_filter ptime (rq\<lparr>rq_param := g\<rparr>) = admin_filter ptime rq"
  by (simp add: admin_filter_def Let_def query_positive_def)

end
