(* ===== verification/Flows.thy ===== *)
theory Flows
  imports HandlerLaws
begin

text \<open>
  Data through the whole service: the fields of an uploaded row into the message of its job, and the
  barcode URLs of a result message into the spreadsheet of results.
\<close>

section \<open>JSON columns\<close>

lemma marshalled_json: "json_parse (marshal_map m) = Some (JObj (map (\<lambda>(k, v). (k, JStr v)) (sort_key fst m)))"
  unfolding marshal_map_def by (rule json_roundtrip) (auto simp: list_all_iff)

lemma marshal_map_nonempty: "marshal_map m \<noteq> []"
  by (simp add: marshal_map_def print_obj)

lemma reformatted_map: "reformatted (marshal_map m) = marshal_map m"
proof -
  have "json_print (JObj (map (\<lambda>(k, v). (k, JStr v)) (sort_key fst m))) = marshal_map m"
    by (simp only: marshal_map_def)
  with marshalled_json [of m] show ?thesis by (simp add: reformatted_def marshal_map_nonempty del: json_print.simps)
qed

section \<open>Fields\<close>



section \<open>Barcode URLs\<close>

text \<open>The URL a map of URLs has under either of two keys.\<close>

definition url_of :: "(string \<times> string) list \<Rightarrow> string \<Rightarrow> string \<Rightarrow> string" where
  "url_of m k k' = (let get = (\<lambda>x. case map_of m x of Some v \<Rightarrow> v | None \<Rightarrow> [])
     in if get k \<noteq> [] then get k else get k')"

lemma parse_marshalled_urls:
  assumes "distinct (map fst m)"
  shows "ParseBarcodeURLs (marshal_map m) =
    (url_of m ''pdf417'' ''pdf417_url'', url_of m ''code128'' ''code128_url'')"
proof -
  let ?obj = "map (\<lambda>(k, v). (k, JStr v)) (sort_key fst m)"
  have "map_of (rev (sort_key fst m)) = map_of m" by (rule map_of_same_pairs [OF assms]) simp
  then have "map_of (rev ?obj) k = map_option JStr (map_of m k)" for k
    using map_of_map [of JStr "rev (sort_key fst m)"] by (simp add: rev_map)
  then have "try_str ?obj k = (case map_of m k of Some v \<Rightarrow> v | None \<Rightarrow> [])" for k
    by (simp add: try_str_def split: option.split)
  then show ?thesis
    by (simp add: ParseBarcodeURLs_def marshal_map_nonempty marshalled_json url_of_def first_nonempty_def Let_def
        split: option.split)
qed


definition event0 :: BulkResultEvent where
  "event0 = \<lparr>ev_EventType = ''bulk.result'', ev_JobID = ''j2'', ev_BatchID = ''b1'', ev_Status = ''completed'',
     ev_BuildID = ''build'', ev_BarcodeURLs = Some [(''pdf417'', ''http://p'')], ev_Billing = None, ev_Timestamp = 0\<rparr>"


end
