(* ===== verification/Responses.thy ===== *)
theory Responses
  imports HandlerLaws
begin

text \<open>
  The form of the answers: every answer of an API endpoint has one of eight statuses, and one that
  reports an error is the body \<open>apperror.WriteError\<close> writes, with a code and a message.
\<close>

section \<open>Well-formed answers\<close>

definition api_answer :: "response \<Rightarrow> bool" where
  "api_answer r \<longleftrightarrow> (case r of
     Json st body \<Rightarrow> st \<in> {200, 202} \<or>
       st \<in> {400, 402, 404, 413, 500, 503} \<and> (\<exists>code msg d. code \<noteq> [] \<and> body = error_body code msg d)
   | _ \<Rightarrow> True)"

lemma api_answer_simps [simp]:
  "api_answer (WriteError st code msg d) \<longleftrightarrow> st \<in> {200, 202} \<or>
     st \<in> {400, 402, 404, 413, 500, 503} \<and> code \<noteq> []"
  "api_answer (Xlsx f s c)" "api_answer (Stream f bs t)"
  "api_answer (Json 200 b)" "api_answer (Json 202 b)"
  by (auto simp: api_answer_def WriteError_def error_body_def)

definition returns :: "('a \<Rightarrow> bool) \<Rightarrow> ('w, 'a go) state \<Rightarrow> bool" where
  "returns P m \<longleftrightarrow> (\<forall>w. \<exists>x. result m w = Ret x \<and> P x)"

named_theorems returns_intros \<open>computations that return a value with a property\<close>

lemma returns_respond [returns_intros]: "P x \<Longrightarrow> returns P (respond x)"
  by (simp add: returns_def)

lemma returns_bind: "(\<And>x. returns P (f x)) \<Longrightarrow> returns P (State_Monad.bind m f)"
  by (simp add: returns_def)

lemma returns_go_bind [returns_intros]:
  "no_panic m \<Longrightarrow> (\<And>x. returns P (f x)) \<Longrightarrow> returns P (go_bind m f)"
  by (fastforce simp: returns_def no_panic_def run_simps split: go.split)

lemma returns_if [returns_intros]:
  "(b \<Longrightarrow> returns P m) \<Longrightarrow> (\<not> b \<Longrightarrow> returns P n) \<Longrightarrow> returns P (if b then m else n)"
  by simp

lemma returns_case_option [returns_intros]:
  "(x = None \<Longrightarrow> returns P m) \<Longrightarrow> (\<And>y. x = Some y \<Longrightarrow> returns P (f y)) \<Longrightarrow>
    returns P (case x of None \<Rightarrow> m | Some y \<Rightarrow> f y)"
  by (cases x) simp_all

lemma returns_case_sum [returns_intros]:
  "(\<And>y. x = Inl y \<Longrightarrow> returns P (f y)) \<Longrightarrow> (\<And>y. x = Inr y \<Longrightarrow> returns P (g y)) \<Longrightarrow>
    returns P (case x of Inl y \<Rightarrow> f y | Inr y \<Rightarrow> g y)"
  by (cases x) simp_all

lemma returns_case_prod [returns_intros]:
  "(\<And>a b. x = (a, b) \<Longrightarrow> returns P (f a b)) \<Longrightarrow> returns P (case x of (a, b) \<Rightarrow> f a b)"
  by (cases x) simp_all

lemma returns_Let [returns_intros]: "(\<And>x. x = t \<Longrightarrow> returns P (f x)) \<Longrightarrow> returns P (let x = t in f x)"
  by simp

text \<open>The answers that are written in more than one place.\<close>

lemma fixed_answers [simp]:
  "api_answer (bad_body rq)" "api_answer fetch_failed" "api_answer batch_not_found" "api_answer no_repo"
  "api_answer no_exporter" "api_answer list_failed" "api_answer insufficient_funds" "api_answer too_large"
  "api_answer (accepted i n)" "api_answer (cancelled_body i p r ts)" "api_answer (config_body i b)"
  "api_answer (xlsx_error x)" "api_answer (buildXLSXResponse fault i sh pre hs rows)"
  "api_answer (upload_failed err)" "api_answer (rejected_upload err)"
  by (simp_all add: bad_body_def fetch_failed_def batch_not_found_def no_repo_def no_exporter_def
      list_failed_def insufficient_funds_def too_large_def accepted_def respondAcceptedProcessing_def
      cancelled_body_def config_body_def xlsx_error_def buildXLSXResponse_def Let_def
      upload_failed_def parserErrorResponse_def rejected_upload_def split: option.split go_error.split)

lemma receive_answers: "receive form_file sniff l q = Inl resp \<Longrightarrow> api_answer resp"
  unfolding receive_def Let_def
  by (auto split: if_split_asm option.split_asm prod.split_asm sum.split_asm go_error.split_asm)

lemma quote_answers [returns_intros]: "returns api_answer (quote_upload (deps_of e c fc) r)"
  unfolding returns_def
proof
  fix w
  obtain resp where "result (quote_upload (deps_of e c fc) r) w = Ret resp"
    using run_quote_upload(1) by (cases "result (quote_upload (deps_of e c fc) r) w") auto
  moreover from this have "api_answer resp"
    by (auto simp: quote_upload_def ready_body_def partial_body_def Let_def
        split: sum.splits option.splits if_splits)
  ultimately show "\<exists>x. result (quote_upload (deps_of e c fc) r) w = Ret x \<and> api_answer x" by blast
qed

lemma requireBatch_answers:
  assumes "\<And>x. (\<And>resp. x = Inl resp \<Longrightarrow> api_answer resp) \<Longrightarrow> returns api_answer (f x)"
  shows "returns api_answer (State_Monad.bind (requireBatch deps i) f)"
  unfolding returns_def
proof
  fix w
  have "api_answer resp" if "result (requireBatch deps i) w = Inl resp" for resp
    using that by (auto simp: requireBatch_def split: option.splits sum.splits)
  with assms [of "result (requireBatch deps i) w"]
  show "\<exists>x. result (State_Monad.bind (requireBatch deps i) f) w = Ret x \<and> api_answer x"
    by (simp add: returns_def)
qed

lemma load_view_answers:
  assumes "\<And>x. (\<And>resp. x = Inl resp \<Longrightarrow> api_answer resp) \<Longrightarrow> returns api_answer (f x)"
  shows "returns api_answer (State_Monad.bind (load_view d i) f)"
  unfolding returns_def
proof
  fix w
  have "api_answer resp" if "result (load_view d i) w = Inl resp" for resp
    using that by (auto simp: load_view_def split: option.splits sum.splits)
  with assms [of "result (load_view d i) w"]
  show "\<exists>x. result (State_Monad.bind (load_view d i) f) w = Ret x \<and> api_answer x"
    by (simp add: returns_def)
qed

lemmas answer_cases = returns_case_option returns_case_sum returns_case_prod returns_if returns_Let
  returns_respond returns_go_bind no_panic_intros

lemma batch_answers:
  "returns api_answer (HandleBatchStatus (Some (deps_of e c fc)) rq)"
  "returns api_answer (HandleConfirm rt (Some (deps_of e c fc)) rq)"
  "returns api_answer (HandleCancel rt (Some (deps_of e c fc)) rq)"
  "returns api_answer (HandleListBatches ptime (Some (deps_of e c fc)) rq)"
  "returns api_answer (HandleAdminListBatches ptime (Some (deps_of e c fc)) rq)"
  "returns api_answer (HandleAdminGetBatch (Some (deps_of e c fc)) rq)"
  "returns api_answer (HandleAdminUpdateBatchConfig (Some (deps_of e c fc)) rq)"
  "returns api_answer (HandleAdminRestartBatch rt (Some (deps_of e c fc)) rq)"
proof -
  show "returns api_answer (HandleBatchStatus (Some (deps_of e c fc)) rq)"
    unfolding HandleBatchStatus_def option.case
    by (intro returns_Let load_view_answers answer_cases) (auto intro!: returns_bind answer_cases)
  show "returns api_answer (HandleConfirm rt (Some (deps_of e c fc)) rq)"
    unfolding HandleConfirm_def deps_of_sel option.case
    by (intro returns_bind answer_cases) (simp_all split: sum.split)
  show "returns api_answer (HandleCancel rt (Some (deps_of e c fc)) rq)"
    unfolding HandleCancel_def deps_of_sel dep_simps option.case
    by (intro returns_bind answer_cases) (simp_all split: sum.split)
  show "returns api_answer (HandleListBatches ptime (Some (deps_of e c fc)) rq)"
    "returns api_answer (HandleAdminListBatches ptime (Some (deps_of e c fc)) rq)"
    unfolding HandleListBatches_def HandleAdminListBatches_def deps_of_sel dep_simps option.case
    by (intro returns_bind answer_cases; simp split: sum.split)+
  show "returns api_answer (HandleAdminGetBatch (Some (deps_of e c fc)) rq)"
    unfolding HandleAdminGetBatch_def
    by (intro returns_Let requireBatch_answers answer_cases) (auto intro!: returns_bind answer_cases)
  show "returns api_answer (HandleAdminUpdateBatchConfig (Some (deps_of e c fc)) rq)"
    unfolding HandleAdminUpdateBatchConfig_def deps_of_sel dep_simps option.case
    by (intro returns_bind answer_cases) (simp_all split: option.split)
  show "returns api_answer (HandleAdminRestartBatch rt (Some (deps_of e c fc)) rq)"
    unfolding HandleAdminRestartBatch_def set_processing_def deps_of_sel option.case prod.case
    by (intro answer_cases requireBatch_answers; (intro returns_bind answer_cases)?) simp_all
qed

lemma limits_answers:
  "returns api_answer (put_limits_request rq)" "returns api_answer get_limits_request"
proof -
  have "fst (result (HandlePutBulkLimits req) l) = 200" if "snd (result (HandlePutBulkLimits req) l) = Some l'"
    for req l l' using that by (auto simp: HandlePutBulkLimits_def split: option.splits if_splits)
  then show "returns api_answer (put_limits_request rq)"
    by (auto simp: returns_def put_limits_request_def Let_def in_limits_def limits_out_of_range_def split: option.split)
  show "returns api_answer get_limits_request"
    by (simp add: returns_def get_limits_request_def in_limits_def HandleGetBulkLimits_def limits_Get_def)
qed

lemma export_answers [simp]:
  "api_answer (metadata_body r)" "api_answer (presigned_body r u t)" "api_answer (stream_file r rd)"
  "api_answer (HandleDownloadTemplateXLS fault rq)" "api_answer (validation_errors_body res)"
  by (simp_all add: metadata_body_def presigned_body_def stream_file_def Let_def
      HandleDownloadTemplateXLS_def validation_errors_body_def split: option.split xlsx_fault.split)

lemma other_answers:
  "returns api_answer (HandleAdminStats rt ptime (Some (deps_of e c fc)) rq)"
  "returns api_answer (HandleDownloadErrorsXLS fault (Some (deps_of e c fc)) rq)"
  "returns api_answer (HandleDownloadResultsXLS fault (Some (deps_of e c fc)) rq)"
  "returns api_answer (HandleStartExport (Some (deps_of e c fc)) rq)"
  "returns api_answer (HandleGetExport rt (Some (deps_of e c fc)) rq)"
  unfolding HandleAdminStats_def HandleDownloadErrorsXLS_def HandleDownloadResultsXLS_def
    HandleStartExport_def HandleGetExport_def proxy_export_def Let_def deps_of_sel dep_simps option.case
  by (intro returns_bind answer_cases; simp split: sum.split option.split)+

lemma upload_answers: "returns api_answer (upload_endpoint e libs (Some (deps_of e c fc)) q)"
  unfolding upload_endpoint_def HandleUpload_def finalize_def deps_of_sel option.case
  by (intro returns_bind answer_cases quote_answers) (simp_all add: receive_answers)

definition probe :: "endpoint \<Rightarrow> bool" where
  "probe ep \<longleftrightarrow> ep \<in> {Health, Ready, Metrics}"

text \<open>C19: every endpoint of the API answers, whatever the request and the faults of the database, the
  broker, the billing service, the storage and the spreadsheet writer: with a file, with 200 or 202, or
  with one of six error statuses and the error body, which has a code that is not empty.\<close>

theorem api_always_answers:
  "probe ep \<or> (case result (handle e libs cfg (Some (deps_of e c fc)) q rq ep) w of
     Ret r \<Rightarrow> api_answer r | Panic \<Rightarrow> False)"
proof (cases "probe ep")
  case False
  then have "returns api_answer (handle e libs cfg (Some (deps_of e c fc)) q rq ep)"
    by (cases ep) (simp_all add: probe_def batch_answers other_answers limits_answers upload_answers returns_respond)
  then obtain r where "result (handle e libs cfg (Some (deps_of e c fc)) q rq ep) w = Ret r" "api_answer r"
    unfolding returns_def by blast
  then show ?thesis by simp
qed simp

end
