(* ===== verification/ErrorRecords.thy ===== *)
theory ErrorRecords
  imports Lifecycle
begin

text \<open>
  What becomes of errors: the table of validation errors and the error columns of the jobs, which the
  downloads and the status of a batch read, are written by nothing in the service.  This is a second
  instance of \<open>process_invariant\<close>.
\<close>

definition no_errors :: "world \<Rightarrow> bool" where
  "no_errors w \<longleftrightarrow> wErrors w = [] \<and> (\<forall>r \<in> set (wJobs w). jr_error_code r = None \<and> jr_error_message r = None)"

lemma no_errors_exec:
  assumes "\<And>n w w'. no_errors w \<Longrightarrow> f n w = Inr w' \<Longrightarrow> no_errors w'"
  shows "preserves no_errors (db_exec e f)"
proof -
  have "no_errors (w\<lparr>wTick := n\<rparr>) = no_errors w" for w n by (simp add: no_errors_def)
  then have "no_errors w \<Longrightarrow> f n (w\<lparr>wTick := k\<rparr>) = Inr w' \<Longrightarrow> no_errors w'" for w n k w'
    using assms by blast
  moreover have "no_errors w \<Longrightarrow> no_errors (w\<lparr>wTick := k\<rparr>)" for w k by (simp add: no_errors_def)
  ultimately show ?thesis
    by (auto simp: preserves_def run_simps Let_def split: option.splits sum.splits)
qed

lemma no_errors_update_job:
  assumes "\<And>r. jr_error_code r = None \<and> jr_error_message r = None \<Longrightarrow>
    jr_error_code (g r) = None \<and> jr_error_message (g r) = None"
  shows "preserves no_errors (sql_update_job e i g)"
  unfolding sql_update_job_def
  by (rule no_errors_exec) (use assms in \<open>auto simp: no_errors_def split: if_splits\<close>)

lemma no_errors_fail [inv_intros]: "preserves no_errors (db_exec e (\<lambda>n w. Inl x))"
  by (rule no_errors_exec) simp

lemma no_errors_create_job: "preserves no_errors (JobRepo_Create (jobRepository e) j)"
  unfolding jobRepository_def JobRepository.simps pg_job_Create_def Let_def
  by (rule no_errors_exec) (auto simp: no_errors_def new_job_row_def split: if_splits option.splits)

lemma no_errors_result:
  assumes "r_ErrorCode r = []" "r_ErrorMessage r = []"
  shows "preserves no_errors (JobRepo_UpdateStatusWithResult (jobRepository e) i s r)"
  unfolding jobRepository_def JobRepository.simps pg_job_UpdateStatusWithResult_def Let_def
  by (intro inv_intros no_errors_update_job) (simp_all add: assms null_str_def)

lemma no_errors_kept: "keeps no_errors m \<Longrightarrow> preserves no_errors m"
  by (simp add: preserves_def keeps_def)

lemma no_errors_views:
  "no_errors (w\<lparr>wTick := n\<rparr>) = no_errors w" "no_errors (w\<lparr>wBatches := bs\<rparr>) = no_errors w"
  "no_errors (w\<lparr>wCalls := cs\<rparr>) = no_errors w"
  by (simp_all add: no_errors_def)

text \<open>The errors of the rows of a file go into the result of the upload only.\<close>

lemma no_errors_create_rows [inv_intros]:
  "preserves no_errors (create_rows (runtime_of e) (service_in e c fc) revision i n rows acc)"
proof (induction rows arbitrary: n acc)
  case (Cons row rows)
  have "keeps no_errors (validate_row (service_in e c fc) revision n fs)" for fs
    by (intro validate_row_keeps) (auto simp: service_in_def prod_service_def no_errors_views intro!: keeps_validator)
  then have v: "preserves no_errors (validate_row (service_in e c fc) revision n fs)" for fs
    by (rule no_errors_kept)
  have u: "preserves no_errors (Rt_NewUUID (runtime_of e))"
    by (intro no_errors_kept runtime_ops_keep no_errors_views)
  have j: "preserves no_errors (create_job (runtime_of e) (service_in e c fc) i n row fs)" for fs
    unfolding create_job_def service_in_sel option.case
    by (intro preserves_bind inv_intros no_errors_create_job u)
  show ?case
    by (cases acc) (simp add: Let_def, intro preserves_bind v j Cons)
qed (simp add: inv_intros)

lemma no_errors_create:
  "preserves no_errors (CreateBatchFromFile (runtime_of e) rds (service_in e c fc) l rd revision)"
proof -
  have ops: "preserves no_errors (Rt_NewUUID (runtime_of e))"
    "preserves no_errors (BatchRepo_Create (batchRepository e) b)"
    "preserves no_errors (BatchRepo_Update (batchRepository e) b)"
    "preserves no_errors (save_file (service_in e c fc) i d)" for b i d
    by (auto simp: save_file_def service_in_def prod_service_def storage_of_def no_errors_views
        intro!: no_errors_kept frame_intros runtime_ops_keep batch_ops_keep keeps_FileClient split: option.split)
  show ?thesis
    unfolding CreateBatchFromFile_def finish_create_def create_batch_row_def update_batch_row_def service_in_sel option.case Let_def
    by (intro preserves_bind inv_intros ops)
qed

interpretation unrecorded: process_invariant e c fc no_errors "\<lambda>b. True" "\<lambda>i. True" for e c fc
proof unfold_locales
  fix w rds l rd revision assume "no_errors w"
  with no_errors_create show "let m = CreateBatchFromFile (runtime_of e) rds (service_in e c fc) l rd revision in
      no_errors (after m w) \<and> (\<forall>r. result m w = Inr r \<longrightarrow> True)"
    unfolding preserves_def Let_def by blast
next
  fix b show "preserves no_errors (BatchRepo_Update (batchRepository e) b)"
    by (intro no_errors_kept batch_ops_keep no_errors_views)
next
  fix i s x show "preserves no_errors (JobRepo_UpdateStatus (jobRepository e) i s)"
    and "preserves no_errors (JobRepo_UpdateBillingTransactionID (jobRepository e) i x)"
    by (auto simp: jobRepository_def pg_job_UpdateStatus_def pg_job_UpdateBillingTransactionID_def
        intro!: no_errors_update_job inv_intros)
next
  fix w i b assume "result (BatchRepo_GetByID (batchRepository e) i) w = Inr (Some b)"
  then show "b_ID b = i \<and> True" using pg_batches.get_found by blast
qed (auto simp: no_errors_def intro: no_errors_result)

section \<open>Property\<close>

text \<open>C33: from tables without errors the process never records one, whatever fails: the validation errors of
  a batch read as none, and every result it lists counts as successful, also for a failed job.\<close>

theorem failures_leave_no_record:
  assumes "(process_step p)\<^sup>*\<^sup>* s s'" "no_errors (fst s)"
  shows "no_errors (fst s') \<and>
    (case result (ValRepo_GetValidationErrors (validationRepository e) i) (fst s') of
       Inl err \<Rightarrow> True | Inr vs \<Rightarrow> vs = []) \<and>
    (case result (JobRepo_GetResultsByBatch (jobRepository e) i) (fst s') of
       Inl err \<Rightarrow> True | Inr rs \<Rightarrow> list_all result_ok rs)"
proof -
  have n: "no_errors (fst s')"
    by (rule unrecorded.process_steps_preserve [OF assms(1) refl refl refl assms(2)])
  have "arrange f [] = []" for f :: "verr_row list \<Rightarrow> verr_row list" by (simp add: arrange_def)
  with n have "result (pg_GetValidationErrors e i) (fst s') \<in> {Inr []} \<union> range Inl"
    by (auto simp: pg_GetValidationErrors_def run_simps no_errors_def Let_def split: option.split)
  moreover have "list_all result_ok rs"
    if "result (JobRepo_GetResultsByBatch (jobRepository e) i) (fst s') = Inr rs" for rs
    using n that by (auto simp: jobRepository_def pg_job_GetResultsByBatch_def run_simps no_errors_def
        list_all_iff result_ok_def result_row_def of_null_def Let_def split: option.splits if_splits)
  ultimately show ?thesis using n
    by (auto simp: validationRepository_def split: sum.split)
qed

text \<open>A message that reports the failure of a job.\<close>

definition failed_state :: "world \<times> unit rate_state" where
  "failed_state = (after (process_message (eTimeRFC3339 env0) (the (consumer_of env0 config0))
     ''{\"jobId\":\"j2\",\"batchId\":\"b1\",\"status\":\"failed\"}'') (fst state0), snd state0)"

theorem failures_leave_no_record_witness:
  "no_errors (fst failed_state) \<and>
    (case result (ValRepo_GetValidationErrors (validationRepository env0) ''b1'') (fst failed_state) of
       Inl err \<Rightarrow> True | Inr vs \<Rightarrow> vs = []) \<and>
    (case result (JobRepo_GetResultsByBatch (jobRepository env0) ''b1'') (fst failed_state) of
       Inl err \<Rightarrow> True | Inr rs \<Rightarrow> list_all result_ok rs)"
proof -
  have "process_step process0 state0 failed_state"
    using process_step.message [of process0 "the (consumer_of env0 config0)" "fst state0" "snd state0"]
    by (simp add: process0_def consumer_of_def config0_def failed_state_def)
  then have "(process_step process0)\<^sup>*\<^sup>* state0 failed_state" by (rule r_into_rtranclp)
  moreover have "no_errors (fst state0)"
    by (simp add: no_errors_def state0_def router_start_def in_limits_def world0_def empty_world_def jrow_def)
  ultimately show ?thesis by (rule failures_leave_no_record)
qed

end
