(* ===== verification/Metrics.thy ===== *)
theory Metrics
  imports Domain
begin

text \<open>
  \<open>internal/metrics\<close>: the collectors of the service, their registration when the process starts, and
  what the functions of the service emit.  An emission is the collector and the label values given
  to \<open>WithLabelValues\<close>; the observed numbers are left out, and so are the counters' values.
  \<open>prometheus\<close> itself is third-party: its documented panics are modelled (a name registered twice,
  buckets that do not increase, a wrong number of label values).
\<close>

section \<open>Collectors\<close>

datatype buckets = DefBuckets | ExponentialBuckets rat rat nat

datatype collector_kind = Counter | Gauge | Histogram buckets

record collector =
  co_namespace :: string
  co_name :: string
  co_help :: string
  co_kind :: collector_kind
  co_labels :: "string list"

definition bulk :: "string \<Rightarrow> string \<Rightarrow> collector_kind \<Rightarrow> string list \<Rightarrow> collector" where
  "bulk name help kind labels = \<lparr>co_namespace = ''bulk_service'', co_name = name, co_help = help,
     co_kind = kind, co_labels = labels\<rparr>"

text \<open>The package's variables, and what each is made with.\<close>

datatype metric =
  KafkaPublishTotal | KafkaPublishDuration | HTTPRequestsTotal | HTTPRequestDuration |
  BatchJobsTotal | BatchJobsPending | BatchProcessingDuration | BatchesCreatedTotal |
  BatchesCompletedTotal | JobsQueuedTotal | JobsCompletedTotal | JobsFailedTotal |
  JobProcessingDuration | ValidationErrorsTotal | FileSizeBytes | RowsPerBatch | BatchRowsTotal |
  BatchLastUpdateTimestamp | BFFRequestErrorsTotal | KafkaQueueDepth | BFFRequestDuration |
  UploadsRejectedTotal | StorageErrorsTotal | StorageOperationsTotal | BillingErrorsTotal |
  DBOpenConnections | DBIdleConnections | BillingCallsTotal | BillingCallDuration |
  KafkaConsumeTotal | KafkaConsumeDuration

primrec collector_of :: "metric \<Rightarrow> collector" where
  "collector_of KafkaPublishTotal = bulk ''kafka_publish_total''
    ''Total kafka publish attempts''
    Counter [''topic'', ''result'']"
| "collector_of KafkaPublishDuration = bulk ''kafka_publish_duration_seconds''
    ''Kafka publish duration seconds''
    (Histogram DefBuckets) [''topic'']"
| "collector_of HTTPRequestsTotal = bulk ''http_requests_total''
    ''Total HTTP requests''
    Counter [''method'', ''route'', ''status'']"
| "collector_of HTTPRequestDuration = bulk ''http_request_duration_seconds''
    ''HTTP request duration seconds''
    (Histogram (ExponentialBuckets (1 / 100) 2 15)) [''route'']"
| "collector_of BatchJobsTotal = bulk ''batch_jobs_total''
    ''Total jobs created''
    Counter [''batch_id'', ''status'']"
| "collector_of BatchJobsPending = bulk ''batch_jobs_pending''
    ''Number of pending jobs per batch''
    Gauge [''batch_id'']"
| "collector_of BatchProcessingDuration = bulk ''batch_processing_duration_seconds''
    ''Time to process a batch''
    (Histogram (ExponentialBuckets (1 / 10) 2 12)) [''batch_id'']"
| "collector_of BatchesCreatedTotal = bulk ''batches_created_total''
    ''Created batches total''
    Counter [''status'']"
| "collector_of BatchesCompletedTotal = bulk ''batches_completed_total''
    ''Completed batches total''
    Counter [''status'']"
| "collector_of JobsQueuedTotal = bulk ''jobs_queued_total''
    ''Jobs queued total''
    Counter []"
| "collector_of JobsCompletedTotal = bulk ''jobs_completed_total''
    ''Jobs completed total''
    Counter [''status'']"
| "collector_of JobsFailedTotal = bulk ''jobs_failed_total''
    ''Jobs failed total''
    Counter [''error_code'']"
| "collector_of JobProcessingDuration = bulk ''job_processing_duration_seconds''
    ''Time to process a job''
    (Histogram (ExponentialBuckets (1 / 100) 2 12)) []"
| "collector_of ValidationErrorsTotal = bulk ''validation_errors_total''
    ''Validation errors total''
    Counter [''error_code'', ''field'']"
| "collector_of FileSizeBytes = bulk ''file_size_bytes''
    ''Uploaded file sizes in bytes''
    (Histogram (ExponentialBuckets 512 2 16)) []"
| "collector_of RowsPerBatch = bulk ''rows_per_batch''
    ''Number of rows per batch''
    (Histogram (ExponentialBuckets 10 2 12)) []"
| "collector_of BatchRowsTotal = bulk ''batch_rows_total''
    ''Total rows per batch''
    Gauge [''batch_id'']"
| "collector_of BatchLastUpdateTimestamp = bulk ''batch_last_update_timestamp''
    ''Last update timestamp for batch (epoch seconds)''
    Gauge [''batch_id'']"
| "collector_of BFFRequestErrorsTotal = bulk ''bff_request_errors_total''
    ''BFF request errors total''
    Counter [''method'']"
| "collector_of KafkaQueueDepth = bulk ''kafka_queue_depth''
    ''Approximate Kafka queue depth''
    Gauge []"
| "collector_of BFFRequestDuration = bulk ''bff_request_duration_seconds''
    ''BFF request duration seconds''
    (Histogram DefBuckets) [''endpoint'']"
| "collector_of UploadsRejectedTotal = bulk ''uploads_rejected_total''
    ''Rejected upload attempts''
    Counter [''reason'']"
| "collector_of StorageErrorsTotal = bulk ''storage_errors_total''
    ''Storage related errors''
    Counter [''operation'', ''result'']"
| "collector_of StorageOperationsTotal = bulk ''storage_operations_total''
    ''Storage operations total''
    Counter [''operation'', ''result'']"
| "collector_of BillingErrorsTotal = bulk ''billing_errors_total''
    ''Billing errors total''
    Counter [''method'', ''result'']"
| "collector_of DBOpenConnections = bulk ''db_open_connections''
    ''DB open connections''
    Gauge []"
| "collector_of DBIdleConnections = bulk ''db_idle_connections''
    ''DB idle connections''
    Gauge []"
| "collector_of BillingCallsTotal = bulk ''billing_calls_total''
    ''Billing calls total''
    Counter [''method'', ''result'']"
| "collector_of BillingCallDuration = bulk ''billing_call_duration_seconds''
    ''Billing call duration seconds''
    (Histogram DefBuckets) [''method'']"
| "collector_of KafkaConsumeTotal = bulk ''kafka_consume_total''
    ''Total kafka consume attempts''
    Counter [''topic'', ''result'']"
| "collector_of KafkaConsumeDuration = bulk ''kafka_consume_duration_seconds''
    ''Kafka consume duration seconds''
    (Histogram DefBuckets) [''topic'']"

text \<open>The order in which \<open>init\<close> registers them.\<close>

definition registration_order :: "metric list" where
  "registration_order = [
     KafkaPublishTotal, KafkaPublishDuration, HTTPRequestsTotal, HTTPRequestDuration,
     BatchJobsTotal, BatchJobsPending, BatchProcessingDuration, StorageErrorsTotal,
     StorageOperationsTotal, BillingErrorsTotal, DBOpenConnections, DBIdleConnections,
     BillingCallsTotal, BillingCallDuration, KafkaConsumeTotal, KafkaConsumeDuration,
     UploadsRejectedTotal, BatchesCreatedTotal, BatchesCompletedTotal, JobsQueuedTotal,
     JobsCompletedTotal, JobsFailedTotal, JobProcessingDuration, ValidationErrorsTotal,
     FileSizeBytes, RowsPerBatch, BatchRowsTotal, BatchLastUpdateTimestamp, BFFRequestErrorsTotal,
     KafkaQueueDepth, BFFRequestDuration]"

section \<open>Registration\<close>

fun bucket_bounds :: "buckets \<Rightarrow> rat list" where
  "bucket_bounds DefBuckets = [1/200, 1/100, 1/40, 1/20, 1/10, 1/4, 1/2, 1, 5/2, 5, 10]"
| "bucket_bounds (ExponentialBuckets start factor n) = map (\<lambda>i. start * factor ^ i) [0..<n]"

text \<open>Making a collector panics on buckets that are not strictly increasing, on a start, factor or number
  that is out of range, and on the label of buckets in a histogram.\<close>

definition collector_ok :: "collector \<Rightarrow> bool" where
  "collector_ok c \<longleftrightarrow> (case co_kind c of
     Histogram b \<Rightarrow> ''le'' \<notin> set (co_labels c) \<and> sorted_wrt (<) (bucket_bounds b) \<and>
       (case b of DefBuckets \<Rightarrow> True | ExponentialBuckets start factor n \<Rightarrow> 0 < start \<and> 1 < factor \<and> 1 \<le> n)
   | _ \<Rightarrow> True)"

definition full_name :: "collector \<Rightarrow> string" where
  "full_name c = co_namespace c @ ''_'' @ co_name c"

text \<open>The registry, by full name; a second collector of the same name panics.\<close>

definition MustRegister :: "collector \<Rightarrow> (string \<times> collector) list \<Rightarrow> (string \<times> collector) list go" where
  "MustRegister c reg = (if full_name c \<in> fst ` set reg then Panic else Ret (reg @ [(full_name c, c)]))"

fun register_all :: "metric list \<Rightarrow> (string \<times> collector) list \<Rightarrow> (string \<times> collector) list go" where
  "register_all [] reg = Ret reg"
| "register_all (v # vs) reg = (if collector_ok (collector_of v)
     then (case MustRegister (collector_of v) reg of Ret reg' \<Rightarrow> register_all vs reg' | Panic \<Rightarrow> Panic)
     else Panic)"

definition metrics_init :: "(string \<times> collector) list go" where
  "metrics_init = register_all registration_order []"

section \<open>Emissions\<close>

type_synonym emission = "metric \<times> string list"

text \<open>Label values that fit the collector; others make \<open>WithLabelValues\<close> panic.\<close>

definition fits :: "emission \<Rightarrow> bool" where
  "fits em \<longleftrightarrow> length (snd em) = length (co_labels (collector_of (fst em)))"

text \<open>The billing client.\<close>

definition call_emits :: "string \<Rightarrow> bool \<Rightarrow> emission list" where
  "call_emits meth ok = [(BillingCallsTotal, [meth, if ok then ''success'' else ''error'']),
     (BillingCallDuration, [meth])] @ (if ok then [] else [(BFFRequestErrorsTotal, [meth])])"

definition Quote_emits :: "bool \<Rightarrow> emission list" where
  "Quote_emits ok = call_emits ''Quote'' ok"

definition BlockBatch_emits :: "bool \<Rightarrow> emission list" where
  "BlockBatch_emits ok = (if ok
     then [(BillingCallsTotal, [''BlockBatch'', ''success'']), (BillingCallDuration, [''BlockBatch''])]
     else [(BFFRequestErrorsTotal, [''BlockBatch''])])"

definition RefundTransactions_emits :: "bool \<Rightarrow> emission list" where
  "RefundTransactions_emits ok = call_emits ''RefundTransactions'' ok"

text \<open>The service: creating a batch, its jobs and the end of it; a reservation through the billing
  client; a job queued.\<close>

definition batch_created_emits :: "string \<Rightarrow> emission list" where
  "batch_created_emits batchID = [(BatchRowsTotal, [batchID]), (RowsPerBatch, []),
     (BatchLastUpdateTimestamp, [batchID])]"

definition job_created_emits :: "string \<Rightarrow> emission list" where
  "job_created_emits batchID = [(BatchJobsTotal, [batchID, JobStatusPending])]"

definition batch_stored_emits :: "string \<Rightarrow> emission list" where
  "batch_stored_emits batchID = [(BatchJobsPending, [batchID]), (BatchLastUpdateTimestamp, [batchID])]"

definition reservation_emits :: "bool \<Rightarrow> emission list" where
  "reservation_emits ok = BlockBatch_emits ok @
     (if ok then [(BillingCallsTotal, [''BlockBatch'', ''success''])]
      else [(BillingErrorsTotal, [''BlockBatch'', ''error''])])"

definition job_queued_emits :: "string \<Rightarrow> emission list" where
  "job_queued_emits batchID = [(BatchJobsPending, [batchID]), (BatchJobsTotal, [batchID, JobStatusQueued])]"

text \<open>The batch manager, whenever it stored a batch.\<close>

definition batch_updated_emits :: "string \<Rightarrow> emission list" where
  "batch_updated_emits batchID = [(BatchLastUpdateTimestamp, [batchID])]"

text \<open>The producer, on the results of its attempts, and the consumer.\<close>

definition Publish_emits :: "string \<Rightarrow> bool list \<Rightarrow> emission list" where
  "Publish_emits topic oks = concat (map (\<lambda>ok. [(KafkaPublishTotal, [topic, if ok then ''success'' else ''error'']),
     (KafkaPublishDuration, [topic])]) oks)"

definition Consume_emits :: "string \<Rightarrow> bool \<Rightarrow> emission list" where
  "Consume_emits topic ok = (if ok
     then [(KafkaConsumeTotal, [topic, ''success'']), (KafkaConsumeDuration, [topic])]
     else [(KafkaConsumeTotal, [topic, ''error''])])"

text \<open>The file client: \<open>op\<close> is putobject, presign or getobject; None when there is no connection.\<close>

definition storage_emits :: "string \<Rightarrow> bool option \<Rightarrow> emission list" where
  "storage_emits op ok = (StorageOperationsTotal, [op, ''attempt'']) # (case ok of
     None \<Rightarrow> []
   | Some True \<Rightarrow> [(StorageOperationsTotal, [op, ''success''])]
   | Some False \<Rightarrow> [(StorageErrorsTotal, [op, ''error'']), (StorageOperationsTotal, [op, ''error''])])"

definition storage_init_emits :: "emission list" where
  "storage_init_emits = [(StorageErrorsTotal, [''init'', ''error''])]"

text \<open>Uploads that are refused, requests, and the statistics of the database.\<close>

definition rejected_emits :: "go_error \<Rightarrow> emission list" where
  "rejected_emits err = [(UploadsRejectedTotal,
     [if err = ErrFileTooLarge then ''too_large''
      else if err = ErrInvalidFileFormat \<or> err = ErrInvalidContentType then ''invalid_format''
      else ''validation_error''])]"

definition request_emits :: "string \<Rightarrow> string \<Rightarrow> string \<Rightarrow> emission list" where
  "request_emits meth path status = [(HTTPRequestsTotal, [meth, path, status]), (HTTPRequestDuration, [path])]"

definition db_stats_emits :: "emission list" where
  "db_stats_emits = [(DBOpenConnections, []), (DBIdleConnections, [])]"

text \<open>Everything the service ever emits.\<close>

inductive emitted :: "emission \<Rightarrow> bool" where
  "em \<in> set (Quote_emits ok) \<Longrightarrow> emitted em"
| "em \<in> set (RefundTransactions_emits ok) \<Longrightarrow> emitted em"
| "em \<in> set (batch_created_emits i) \<Longrightarrow> emitted em"
| "em \<in> set (job_created_emits i) \<Longrightarrow> emitted em"
| "em \<in> set (batch_stored_emits i) \<Longrightarrow> emitted em"
| "em \<in> set (reservation_emits ok) \<Longrightarrow> emitted em"
| "em \<in> set (job_queued_emits i) \<Longrightarrow> emitted em"
| "em \<in> set (batch_updated_emits i) \<Longrightarrow> emitted em"
| "em \<in> set (Publish_emits topic oks) \<Longrightarrow> emitted em"
| "em \<in> set (Consume_emits topic ok) \<Longrightarrow> emitted em"
| "em \<in> set (storage_emits op ok) \<Longrightarrow> emitted em"
| "em \<in> set storage_init_emits \<Longrightarrow> emitted em"
| "em \<in> set (rejected_emits err) \<Longrightarrow> emitted em"
| "em \<in> set (request_emits meth path status) \<Longrightarrow> emitted em"
| "em \<in> set db_stats_emits \<Longrightarrow> emitted em"

lemmas emits_defs = Quote_emits_def RefundTransactions_emits_def batch_created_emits_def
  job_created_emits_def batch_stored_emits_def reservation_emits_def BlockBatch_emits_def
  job_queued_emits_def batch_updated_emits_def Publish_emits_def Consume_emits_def storage_emits_def
  storage_init_emits_def rejected_emits_def request_emits_def db_stats_emits_def call_emits_def

section \<open>Facts\<close>

lemma exponential_increasing: "0 < start \<Longrightarrow> 1 < factor \<Longrightarrow> sorted_wrt (<) (bucket_bounds (ExponentialBuckets start factor n))"
  by (auto simp: sorted_wrt_map intro!: sorted_wrt_mono_rel [OF _ sorted_wrt_upt] mult_strict_left_mono
      power_strict_increasing)

lemma collectors_ok: "collector_ok (collector_of v)"
  by (cases v; simp add: collector_ok_def bulk_def exponential_increasing del: bucket_bounds.simps(2))

lemma registration_order_all: "set registration_order = UNIV" "distinct registration_order"
proof -
  have "v \<in> set registration_order" for v by (cases v; simp add: registration_order_def)
  then show "set registration_order = UNIV" by blast
  show "distinct registration_order" by (simp add: registration_order_def)
qed

text \<open>No two collectors have the same name.\<close>

lemma full_name_inj: "inj (full_name \<circ> collector_of)"
proof -
  have "distinct (map (co_name \<circ> collector_of) registration_order)"
    by (simp add: registration_order_def bulk_def)
  then have "inj_on (co_name \<circ> collector_of) (set registration_order)" by (simp add: distinct_map)
  moreover have "co_namespace (collector_of v) = ''bulk_service''" for v by (cases v; simp add: bulk_def)
  ultimately show ?thesis by (auto simp: registration_order_all full_name_def inj_def)
qed

text \<open>What the registry has for a variable.\<close>

definition entry :: "metric \<Rightarrow> string \<times> collector" where
  "entry v = (full_name (collector_of v), collector_of v)"

lemma register_all_Ret:
  assumes "distinct vs" "\<And>v. v \<in> set vs \<Longrightarrow> fst (entry v) \<notin> fst ` set reg"
  shows "register_all vs reg = Ret (reg @ map entry vs)"
  using assms
proof (induction vs arbitrary: reg)
  case (Cons v vs)
  have "fst (entry u) \<notin> fst ` set (reg @ [entry v])" if "u \<in> set vs" for u
    using Cons.prems that injD [OF full_name_inj, of u v] by (auto simp: entry_def)
  with Cons have "register_all vs (reg @ [entry v]) = Ret ((reg @ [entry v]) @ map entry vs)" by simp
  with Cons.prems(2) [of v] show ?case by (simp add: collectors_ok MustRegister_def entry_def)
qed simp

lemma metrics_init_entries: "metrics_init = Ret (map entry registration_order)"
  by (simp add: metrics_init_def register_all_Ret registration_order_all)

definition never_emitted :: "metric list" where
  "never_emitted = [BatchProcessingDuration, BatchesCreatedTotal, BatchesCompletedTotal, JobsQueuedTotal,
     JobsCompletedTotal, JobsFailedTotal, JobProcessingDuration, ValidationErrorsTotal, FileSizeBytes,
     KafkaQueueDepth, BFFRequestDuration]"

lemma emitted_cases: "emitted em \<Longrightarrow> fits em \<and> fst em \<notin> set never_emitted"
  by (induction rule: emitted.induct)
    (auto simp: emits_defs fits_def bulk_def never_emitted_def split: if_split_asm option.split_asm bool.split_asm)

section \<open>Properties\<close>

text \<open>The process registers every collector once and without a panic; every emission gives its
  collector as many label values as it has labels, so none panics; and eleven collectors are never
  touched, among them the counters of failed and completed jobs.\<close>

theorem metrics_fit:
  "metrics_init = Ret (map entry registration_order) \<and> distinct (map fst (map entry registration_order)) \<and>
   set registration_order = UNIV \<and>
   emitted \<le> fits \<and> emitted \<le> (\<lambda>em. fst em \<notin> set never_emitted)"
proof -
  have "inj_on (fst \<circ> entry) (set registration_order)"
    using full_name_inj by (auto simp: inj_on_def inj_def entry_def)
  with registration_order_all metrics_init_entries emitted_cases show ?thesis
    by (auto simp: distinct_map le_fun_def)
qed

text \<open>A reservation that succeeds is counted twice as a call of the billing service, one that fails
  not at all.\<close>

lemma reservation_counts:
  "count_list (reservation_emits True) (BillingCallsTotal, [''BlockBatch'', ''success'']) = 2"
  "\<not> emitted (BillingCallsTotal, [''BlockBatch'', ''error''])"
  by (simp add: reservation_emits_def BlockBatch_emits_def)
    (auto simp: emits_defs elim!: emitted.cases split: if_split_asm option.split_asm bool.split_asm)

end
