(* ===== verification/Startup.thy ===== *)
theory Startup
  imports Router
begin

text \<open>
  What the process sets up once: the logger (\<open>internal/logging\<close>), the HTTP server
  (\<open>internal/transport/http/server.go\<close>), the Redis client of the rate limit
  (\<open>getRedisClient\<close> of \<open>middleware/ratelimit.go\<close>) and the provider of traces (\<open>internal/tracing\<close>).
  The parser of log levels, the listener, Redis and the trace exporter are third-party parameters.
\<close>

section \<open>The logger\<close>

record 'l logger =
  lg_service :: string
  lg_version :: string
  lg_level :: 'l
  lg_encoding :: string
  lg_keys :: "(string \<times> string) list"
  lg_fields :: "(string \<times> string) list"

text \<open>A setting of the configuration, or its variable, or a default.\<close>

definition setting :: "(string \<Rightarrow> string) \<Rightarrow> string \<Rightarrow> string \<Rightarrow> string \<Rightarrow> string" where
  "setting getenv cfg k d = (if cfg \<noteq> [] then cfg else env_str getenv k d)"

text \<open>The keys of the encoder, whose times are in ISO 8601.  The error of building the logger is dropped,
  as in the code.\<close>

definition encoder_keys :: "(string \<times> string) list" where
  "encoder_keys = [(''TimeKey'', ''timestamp''), (''LevelKey'', ''level''), (''NameKey'', ''logger''),
     (''CallerKey'', ''caller''), (''MessageKey'', ''message''), (''StacktraceKey'', ''stacktrace'')]"

definition NewLogger :: "(string \<Rightarrow> string) \<Rightarrow> (string \<Rightarrow> 'l option) \<Rightarrow> 'l \<Rightarrow> Config option \<Rightarrow> 'l logger" where
  "NewLogger getenv UnmarshalText InfoLevel cfg = (
     let of_cfg = (\<lambda>sel. case cfg of Some c \<Rightarrow> sel c | None \<Rightarrow> []);
         svcName = setting getenv (of_cfg cfg_Name) ''SERVICE_NAME'' ''bulk-service'';
         svcVer = setting getenv (of_cfg cfg_Version) ''SERVICE_VERSION'' ''unknown'';
         logLevel = setting getenv (of_cfg cfg_LogLevel) ''LOG_LEVEL'' ''info'';
         logFormat = setting getenv (of_cfg cfg_LogFormat) ''LOG_FORMAT'' ''json''
     in \<lparr>lg_service = svcName, lg_version = svcVer,
       lg_level = (case UnmarshalText logLevel of Some lvl \<Rightarrow> lvl | None \<Rightarrow> InfoLevel),
       lg_encoding = (if logFormat = ''console'' then ''console'' else ''json''),
       lg_keys = encoder_keys,
       lg_fields = [(''service'', svcName), (''version'', svcVer)]\<rparr>)"

text \<open>A span's context: whether it is valid, and its trace id as text.\<close>

record span_context =
  sc_valid :: bool
  sc_traceID :: string

definition TraceIDFromCtx :: "span_context option \<Rightarrow> string" where
  "TraceIDFromCtx ctx = (case ctx of
     None \<Rightarrow> []
   | Some sc \<Rightarrow> if sc_valid sc then sc_traceID sc else [])"

definition FieldsFromCtx :: "span_context option \<Rightarrow> (string \<times> string) list" where
  "FieldsFromCtx ctx = [(''traceId'', TraceIDFromCtx ctx)]"

text \<open>\<open>fallback\<close> is \<open>NewLogger(nil)\<close>.\<close>

definition FromContext :: "'l logger \<Rightarrow> span_context option \<Rightarrow> 'l logger option \<Rightarrow> 'l logger" where
  "FromContext fallback ctx base = (
     let b = (case base of Some l \<Rightarrow> l | None \<Rightarrow> fallback); tid = TraceIDFromCtx ctx
     in if tid = [] then b else b\<lparr>lg_fields := lg_fields b @ [(''traceId'', tid)]\<rparr>)"

text \<open>The loaded configuration and the fallback without one give the same logger.\<close>

theorem logger_of_environment:
  "NewLogger getenv parse info (Some (LoadConfigFromEnv ParseDuration getenv)) = NewLogger getenv parse info None"
  by (simp add: NewLogger_def LoadConfigFromEnv_def setting_def env_str_def Let_def)

lemma logger_is_set:
  "lg_service (NewLogger getenv parse info cfg) \<noteq> []"
  "lg_version (NewLogger getenv parse info cfg) \<noteq> []"
  "lg_encoding (NewLogger getenv parse info cfg) \<in> {''console'', ''json''}"
  by (auto simp: NewLogger_def setting_def env_str_def Let_def)

text \<open>A logger taken from a context carries the trace id last, if there is one.\<close>

lemma FromContext_fields:
  "lg_fields (FromContext l ctx base) = lg_fields (case base of Some b \<Rightarrow> b | None \<Rightarrow> l) @
    (if TraceIDFromCtx ctx = [] then [] else FieldsFromCtx ctx)"
  by (simp add: FromContext_def FieldsFromCtx_def Let_def)

section \<open>The HTTP server\<close>

record http_server =
  srv_Addr :: string
  srv_ReadTimeout :: int
  srv_WriteTimeout :: int

definition NewServer :: "Config \<Rightarrow> http_server" where
  "NewServer c = \<lparr>srv_Addr = cfg_Host c @ '':'' @ Itoa (cfg_Port c),
     srv_ReadTimeout = cfg_ReadTimeout c, srv_WriteTimeout = cfg_WriteTimeout c\<rparr>"

text \<open>What ends \<open>ListenAndServe\<close>; \<open>Start\<close> logs it as fatal, which ends the process, unless the server
  was shut down.\<close>

datatype listen_error = ErrServerClosed | ListenError string

definition Start_fatal :: "listen_error option \<Rightarrow> bool" where
  "Start_fatal err \<longleftrightarrow> err \<noteq> None \<and> err \<noteq> Some ErrServerClosed"

text \<open>\<open>Shutdown\<close> waits until the earlier of the caller's deadline and its own.\<close>

definition Shutdown :: "(int \<Rightarrow> go_error option) \<Rightarrow> int option \<Rightarrow> int \<Rightarrow> int \<Rightarrow> go_error option" where
  "Shutdown srv_Shutdown deadline now timeout =
     srv_Shutdown (case deadline of None \<Rightarrow> now + timeout | Some d \<Rightarrow> min d (now + timeout))"

text \<open>The address of a loaded configuration: any interface and port 8080 unless set; a port that is no
  number becomes port 0.\<close>

lemma default_address:
  "getenv ''SERVER_HOST'' = [] \<Longrightarrow> getenv ''SERVER_PORT'' = [] \<Longrightarrow>
    srv_Addr (NewServer (LoadConfigFromEnv pd getenv)) = ''0.0.0.0:8080''"
  "getenv ''SERVER_HOST'' = [] \<Longrightarrow> getenv ''SERVER_PORT'' \<noteq> [] \<Longrightarrow> Atoi (getenv ''SERVER_PORT'') = None \<Longrightarrow>
    srv_Addr (NewServer (LoadConfigFromEnv pd getenv)) = ''0.0.0.0:0''"
proof -
  have "Itoa 8080 = ''8080''" "Itoa 0 = ''0''"
    by (simp_all add: Itoa_def nat_dec.simps digit_char_def char_of_def bit_0)
  then show "getenv ''SERVER_HOST'' = [] \<Longrightarrow> getenv ''SERVER_PORT'' = [] \<Longrightarrow>
      srv_Addr (NewServer (LoadConfigFromEnv pd getenv)) = ''0.0.0.0:8080''"
    "getenv ''SERVER_HOST'' = [] \<Longrightarrow> getenv ''SERVER_PORT'' \<noteq> [] \<Longrightarrow> Atoi (getenv ''SERVER_PORT'') = None \<Longrightarrow>
      srv_Addr (NewServer (LoadConfigFromEnv pd getenv)) = ''0.0.0.0:0''"
    by (simp_all add: NewServer_def LoadConfigFromEnv_def env_str_def env_val_def)
qed

section \<open>The Redis client\<close>

text \<open>The client is made at the first use, when the URL is set, parses and answers a ping; later uses
  get what the first one got.\<close>

record 'c redis_once =
  ro_done :: bool
  ro_client :: "'c option"

definition new_redis :: "(string \<Rightarrow> string) \<Rightarrow> (string \<Rightarrow> 'o option) \<Rightarrow> ('o \<Rightarrow> 'c) \<Rightarrow> ('c \<Rightarrow> bool) \<Rightarrow> 'c option" where
  "new_redis getenv ParseURL NewClient ping = (let url = getenv ''REDIS_URL'' in
     if url = [] then None
     else (case ParseURL url of
         None \<Rightarrow> None
       | Some opt \<Rightarrow> (let c = NewClient opt in if ping c then Some c else None)))"

definition getRedisClient :: "(string \<Rightarrow> string) \<Rightarrow> (string \<Rightarrow> 'o option) \<Rightarrow> ('o \<Rightarrow> 'c) \<Rightarrow> ('c \<Rightarrow> bool) \<Rightarrow>
    'c redis_once \<Rightarrow> 'c option \<times> 'c redis_once" where
  "getRedisClient getenv ParseURL NewClient ping s = (
     let s' = (if ro_done s then s
       else \<lparr>ro_done = True, ro_client = new_redis getenv ParseURL NewClient ping\<rparr>)
     in (ro_client s', s'))"

text \<open>A process whose Redis did not answer at the first request never uses it, whatever happens later.\<close>

lemma redis_decided_once:
  assumes "getRedisClient g P N ping s = (r, s')"
  shows "getRedisClient g' P' N' ping' s' = (r, s')"
  using assms by (auto simp: getRedisClient_def Let_def)

section \<open>Traces\<close>

text \<open>The provider of \<open>StartTracing\<close>, kept for \<open>Shutdown\<close>; exporter and resource may fail.\<close>

definition StartTracing :: "(string \<Rightarrow> go_error + 'x) \<Rightarrow> (string \<Rightarrow> go_error + 'r) \<Rightarrow> string \<Rightarrow> string \<Rightarrow>
    ('x \<times> 'r) option \<Rightarrow> go_error option \<times> ('x \<times> 'r) option" where
  "StartTracing new_exporter new_resource serviceName jaegerURL tp = (case new_exporter jaegerURL of
     Inl err \<Rightarrow> (Some err, tp)
   | Inr x \<Rightarrow> (case new_resource serviceName of
       Inl err \<Rightarrow> (Some err, tp)
     | Inr r \<Rightarrow> (None, Some (x, r))))"

definition Tracing_Shutdown :: "(('x \<times> 'r) \<Rightarrow> int \<Rightarrow> go_error option) \<Rightarrow> int option \<Rightarrow> int \<Rightarrow>
    ('x \<times> 'r) option \<Rightarrow> go_error option" where
  "Tracing_Shutdown stop deadline now tp = (case tp of
     None \<Rightarrow> None
   | Some p \<Rightarrow> Shutdown (stop p) deadline now (5 * Second))"

lemma tracing_not_started:
  "fst (StartTracing nx nr s u None) \<noteq> None \<Longrightarrow> Tracing_Shutdown stop d now (snd (StartTracing nx nr s u None)) = None"
  by (auto simp: StartTracing_def Tracing_Shutdown_def split: sum.splits)

end
