(* ===== verification/Observability.thy ===== *)
theory Observability
  imports HandlerLaws Metrics Startup
begin

text \<open>
  What a request leaves in traces and metrics: \<open>transport/http/tracing_middleware.go\<close> and
  \<open>transport/http/metrics.go\<close> around the chain of \<open>Router.serve\<close>.  The order is that of \<open>NewRouter\<close>:
  recovery, tracing, authentication, rate limit, metrics, handler.  A panic of the handler unwinds
  through both middlewares to the recovery.
\<close>

section \<open>The pattern of a route\<close>

definition pattern_text :: "segment list \<Rightarrow> string" where
  "pattern_text pat = concat (map (\<lambda>s. CHR ''/'' # (case s of Lit l \<Rightarrow> l | Par k \<Rightarrow> CHR '':'' # k)) pat)"

text \<open>\<open>c.FullPath()\<close>: the pattern of the matched route, empty if there is none.\<close>

fun full_path_in :: "(string \<times> segment list \<times> endpoint) list \<Rightarrow> string \<Rightarrow> string list \<Rightarrow> string" where
  "full_path_in [] meth segs = []"
| "full_path_in ((m, pat, ep) # rs) meth segs =
    (if m = meth \<and> match_segments pat segs \<noteq> None then pattern_text pat else full_path_in rs meth segs)"

definition FullPath :: "http_request \<Rightarrow> string" where
  "FullPath q = full_path_in routes (hr_method q) (path_segments (hr_path q))"

section \<open>Spans\<close>

record span =
  sp_name :: string
  sp_attributes :: "(string \<times> gval) list"

text \<open>The span of a request whose chain returned with a status, or panicked: None.\<close>

definition TracingMiddleware :: "http_request \<Rightarrow> int option \<Rightarrow> span" where
  "TracingMiddleware q status = \<lparr>sp_name = hr_method q @ '' '' @ FullPath q,
     sp_attributes = [(''http.method'', GStr (hr_method q)), (''http.target'', GStr (hr_path q))] @
       (case status of None \<Rightarrow> []
        | Some st \<Rightarrow> (''http.status_code'', GInt st) # (if 500 \<le> st then [(''error'', GStr ''true'')] else []))\<rparr>"

section \<open>Metrics\<close>

definition route_label :: "http_request \<Rightarrow> string" where
  "route_label q = (let route = FullPath q in if route = [] then hr_path q else route)"

text \<open>The metrics of a request whose handler returned with a status, or panicked: None.\<close>

definition MetricsMiddleware :: "http_request \<Rightarrow> int option \<Rightarrow> emission list" where
  "MetricsMiddleware q status = (case status of None \<Rightarrow> []
     | Some st \<Rightarrow> request_emits (hr_method q) (route_label q) (Itoa st))"

section \<open>The chain\<close>

text \<open>The handler, before the recovery, and the status it leaves.\<close>

definition chain_end :: "env \<Rightarrow> platform_libs \<Rightarrow> Config option \<Rightarrow> world Deps option \<Rightarrow> http_request \<Rightarrow>
    (world, response go) state" where
  "chain_end e libs cfg deps q = (case route (hr_method q) (hr_path q) of
     None \<Rightarrow> respond not_found
   | Some (ep, ps) \<Rightarrow> handle e libs cfg deps q (handler_request q ps) ep)"

definition returned_status :: "response go \<Rightarrow> int option" where
  "returned_status x = (case x of Ret r \<Rightarrow> Some (status_code r) | Panic \<Rightarrow> None)"

text \<open>What a request leaves behind, in the state in which it arrives.\<close>

definition observe :: "env \<Rightarrow> platform_libs \<Rightarrow> Config option \<Rightarrow> world Deps option \<Rightarrow> auth_config \<Rightarrow> rat \<Rightarrow>
    'r redis option \<Rightarrow> http_request \<Rightarrow> world \<times> 'r rate_state \<Rightarrow> span \<times> emission list" where
  "observe e libs cfg deps auth rps rdb q s = (case auth_handler auth (hr_path q) (hr_auth q) of
     Abort r \<Rightarrow> (TracingMiddleware q (Some (status_code r)), [])
   | Next \<Rightarrow> (case s of (w, rs) \<Rightarrow>
       (let now = Rt_Now (runtime_of e); t0 = result now w; w1 = after now w; t = result now w1; w2 = after now w1
        in (case rate_handler rps rdb t0 t (hr_ip q) rs of
          (Abort r, _) \<Rightarrow> (TracingMiddleware q (Some (status_code r)), [])
        | (Next, _) \<Rightarrow> (let st = returned_status (result (chain_end e libs cfg deps q) w2)
             in (TracingMiddleware q st, MetricsMiddleware q st))))))"

text \<open>Whether a request gets past the authentication and the rate limit.\<close>

definition admitted_request :: "env \<Rightarrow> auth_config \<Rightarrow> rat \<Rightarrow> 'r redis option \<Rightarrow> http_request \<Rightarrow>
    world \<times> 'r rate_state \<Rightarrow> bool" where
  "admitted_request e auth rps rdb q s \<longleftrightarrow> auth_handler auth (hr_path q) (hr_auth q) = Next \<and>
     (let now = Rt_Now (runtime_of e); t0 = result now (fst s); t = result now (after now (fst s))
      in fst (rate_handler rps rdb t0 t (hr_ip q) (snd s)) = Next)"

section \<open>Facts\<close>

lemma full_path_none: "full_path_in rs meth segs \<noteq> [] \<Longrightarrow> find_route rs meth segs \<noteq> None"
  by (induction rs) (auto split: option.split)

lemma full_path_member:
  "full_path_in rs meth segs \<noteq> [] \<Longrightarrow> full_path_in rs meth segs \<in> (\<lambda>(m, pat, ep). pattern_text pat) ` set rs"
  by (induction rs) (auto split: if_splits)

text \<open>The label is a pattern of the router, or the path of a request that matches no route.\<close>

lemma route_label_bounded:
  "route_label q \<in> (\<lambda>(m, pat, ep). pattern_text pat) ` set routes \<or>
    route_label q = hr_path q \<and> FullPath q = []"
  using full_path_member [of routes "hr_method q" "path_segments (hr_path q)"]
  by (auto simp: route_label_def FullPath_def Let_def)

lemma span_error:
  "(''error'', GStr ''true'') \<in> set (sp_attributes (TracingMiddleware q status)) \<longleftrightarrow>
    (case status of Some st \<Rightarrow> 500 \<le> st | None \<Rightarrow> False)"
  by (auto simp: TracingMiddleware_def split: option.split)

lemma chain_end_no_panic: "no_panic (chain_end e libs cfg (Some (deps_of e c fc)) q)"
  by (auto simp: chain_end_def no_panic_handle no_panic_return split: option.split prod.split)

lemma dispatch_chain:
  "result (dispatch e libs cfg deps q) w = recovered (result (chain_end e libs cfg deps q) w)"
  by (auto simp: dispatch_def chain_end_def run_simps recovered_def split: option.split prod.split)

lemma rate_denied: "rate_handler rps rdb t0 t ip rs = (Abort r, rs') \<Longrightarrow> status_code r = 429"
  by (auto simp: rate_handler_def Let_def limit_exceeded_def WriteError_def status_code_def
      split: option.splits sum.splits prod.splits if_splits)

section \<open>Properties\<close>

text \<open>C39: a request that gets past the authentication and the rate limit leaves one count and one
  duration, labelled with its method, its route and the status of its answer; a refused request is
  answered 401, 403, 429 or 500 and leaves no metric; the span is marked as an error exactly when
  the answer is 500 or above.\<close>

theorem requests_measured:
  "case serve e libs cfg (Some (deps_of e c fc)) auth rps rdb q s of (r, s') \<Rightarrow>
   case observe e libs cfg (Some (deps_of e c fc)) auth rps rdb q s of (sp, ems) \<Rightarrow>
     (if admitted_request e auth rps rdb q s
      then ems = request_emits (hr_method q) (route_label q) (Itoa (status_code r))
      else ems = [] \<and> status_code r \<in> {401, 403, 429, 500}) \<and>
     (''http.status_code'', GInt (status_code r)) \<in> set (sp_attributes sp) \<and>
     ((''error'', GStr ''true'') \<in> set (sp_attributes sp)) = (500 \<le> status_code r)"
proof (cases "auth_handler auth (hr_path q) (hr_auth q)")
  case (Abort r)
  with denied_status [OF this] show ?thesis
    by (auto simp: serve_def observe_def admitted_request_def span_error) (simp_all add: TracingMiddleware_def)
next
  case Next
  obtain w rs where s: "s = (w, rs)" by (cases s)
  let ?now = "Rt_Now (runtime_of e)"
  let ?w2 = "after ?now (after ?now w)"
  obtain v rs' where v: "rate_handler rps rdb (result ?now w) (result ?now (after ?now w)) (hr_ip q) rs = (v, rs')"
    by fastforce
  show ?thesis
  proof (cases v)
    case (Abort r)
    with v rate_denied have "status_code r = 429" by blast
    with Next Abort v s show ?thesis
      by (simp add: serve_def observe_def admitted_request_def span_error Let_def) (simp add: TracingMiddleware_def)
  next
    case v_next: Next
    obtain r where "result (chain_end e libs cfg (Some (deps_of e c fc)) q) ?w2 = Ret r"
      using chain_end_no_panic [of e libs cfg c fc q]
      by (cases "result (chain_end e libs cfg (Some (deps_of e c fc)) q) ?w2") (auto simp: no_panic_def)
    with Next v_next v s show ?thesis
      by (simp add: serve_def observe_def admitted_request_def dispatch_chain recovered_def returned_status_def
          MetricsMiddleware_def span_error Let_def) (simp add: TracingMiddleware_def)
  qed
qed

end
