(* ===== verification/Overlap.thy ===== *)
theory Overlap
  imports Lifecycle
begin

text \<open>
  Operations that overlap.  The manager reads a batch (and the jobs it counts), and later writes the
  whole batch back, without a transaction around the two: requests, the consumers and other replicas of
  the service may act in between.  Here the three operations of \<open>batch/manager.go\<close> that run on an
  existing batch are suspended after each of their reads, and every step of the process, as well as other
  suspended operations, may come between.  What \<open>Lifecycle\<close> shows of the tables survives this; the
  progress of a batch does not.
\<close>

section \<open>Suspended operations\<close>

text \<open>What a suspended operation has read: the batch, to cancel it or to set it to processing; the jobs,
  for a recalculation; the jobs and then the batch.\<close>

datatype pending =
    Cancelling string batch
  | Starting string batch
  | Counting string "job list"
  | Progressing string "job list" batch

text \<open>A suspended operation is the operation itself on repositories that answer its reads with what it
  has read.\<close>

definition stale_batches :: "'w BatchRepository \<Rightarrow> batch \<Rightarrow> 'w BatchRepository" where
  "stale_batches r b = r\<lparr>BatchRepo_GetByID := (\<lambda>i. State_Monad.return (Inr (Some b)))\<rparr>"

definition stale_jobs :: "'w JobRepository \<Rightarrow> job list \<Rightarrow> 'w JobRepository" where
  "stale_jobs r js = r\<lparr>JobRepo_GetByBatch := (\<lambda>i. State_Monad.return (Inr js))\<rparr>"

definition having_read :: "'w BatchManager \<Rightarrow> batch \<Rightarrow> 'w BatchManager" where
  "having_read m b = m\<lparr>bm_batchRepo := map_option (\<lambda>r. stale_batches r b) (bm_batchRepo m)\<rparr>"

definition having_counted :: "'w BatchManager \<Rightarrow> job list \<Rightarrow> 'w BatchManager" where
  "having_counted m js = m\<lparr>bm_jobRepo := map_option (\<lambda>r. stale_jobs r js) (bm_jobRepo m)\<rparr>"

definition no_value :: "('w, 'a) state \<Rightarrow> ('w, unit) state" where
  "no_value m = do { _ \<leftarrow> m; State_Monad.return () }"

fun resume :: "'w Runtime \<Rightarrow> 'w BatchManager \<Rightarrow> pending \<Rightarrow> ('w, unit) state" where
  "resume rt m (Cancelling i b) = no_value (SetCancelled rt (having_read m b) i)"
| "resume rt m (Starting i b) = no_value (SetProcessing rt (having_read m b) i)"
| "resume rt m (Counting i js) = no_value (OnJobStatusChange rt (having_counted m js) i)"
| "resume rt m (Progressing i js b) = no_value (OnJobStatusChange rt (having_counted (having_read m b) js) i)"

section \<open>The process with suspended operations\<close>

inductive overlap_step :: "'r process \<Rightarrow> (world \<times> 'r rate_state) \<times> pending list \<Rightarrow>
    (world \<times> 'r rate_state) \<times> pending list \<Rightarrow> bool" for p :: "'r process" where
  whole: "process_step p s s' \<Longrightarrow> overlap_step p (s, P) (s', P)"
| read_batch: "result (BatchRepo_GetByID (batchRepository (pr_env p)) i) w = Inr (Some b) \<Longrightarrow>
    pd \<in> {Cancelling i b, Starting i b} \<Longrightarrow>
    overlap_step p ((w, rs), P) ((after (BatchRepo_GetByID (batchRepository (pr_env p)) i) w, rs), pd # P)"
| read_jobs: "result (JobRepo_GetByBatch (jobRepository (pr_env p)) i) w = Inr js \<Longrightarrow>
    overlap_step p ((w, rs), P)
      ((after (JobRepo_GetByBatch (jobRepository (pr_env p)) i) w, rs), Counting i js # P)"
| read_counted: "Counting i js \<in> set P \<Longrightarrow>
    result (BatchRepo_GetByID (batchRepository (pr_env p)) i) w = Inr (Some b) \<Longrightarrow>
    overlap_step p ((w, rs), P) ((after (BatchRepo_GetByID (batchRepository (pr_env p)) i) w, rs),
      Progressing i js b # remove1 (Counting i js) P)"
| finish: "pd \<in> set P \<Longrightarrow> overlap_step p ((w, rs), P)
    ((after (resume (runtime_of (pr_env p)) (manager_of (pr_env p) (pr_config p)) pd) w, rs), remove1 pd P)"

section \<open>Resuming\<close>

lemma manager_having_read [simp]:
  "bm_jobRepo (having_read m b) = bm_jobRepo m" "bm_billing (having_read m b) = bm_billing m"
  "bm_history (having_read m b) = bm_history m" "bm_producer (having_read m b) = bm_producer m"
  "bm_bulkStatusTopic (having_read m b) = bm_bulkStatusTopic m"
  "bm_batchRepo (having_read m b) = map_option (\<lambda>r. stale_batches r b) (bm_batchRepo m)"
  by (simp_all add: having_read_def)

lemma manager_having_counted [simp]:
  "bm_batchRepo (having_counted m js) = bm_batchRepo m" "bm_billing (having_counted m js) = bm_billing m"
  "bm_history (having_counted m js) = bm_history m" "bm_producer (having_counted m js) = bm_producer m"
  "bm_bulkStatusTopic (having_counted m js) = bm_bulkStatusTopic m"
  "bm_jobRepo (having_counted m js) = map_option (\<lambda>r. stale_jobs r js) (bm_jobRepo m)"
  by (simp_all add: having_counted_def)

lemma stale_sel [simp]:
  "BatchRepo_Update (stale_batches r b) = BatchRepo_Update r"
  "BatchRepo_GetByID (stale_batches r b) i = State_Monad.return (Inr (Some b))"
  "JobRepo_GetByBatch (stale_jobs jr js) i = State_Monad.return (Inr js)"
  by (simp_all add: stale_batches_def stale_jobs_def)

text \<open>After its reads an operation does not depend on them any more.\<close>

lemma publish_status_reads [simp]:
  "publishStatus rt (having_read m b) b' = publishStatus rt m b'"
  "publishStatus rt (having_counted m js) b' = publishStatus rt m b'"
  by (simp_all add: publishStatus_def cong: option.case_cong sum.case_cong if_cong)

lemma update_reads [simp]:
  "update_and_publish rt (having_read m b) (stale_batches r b) b' = update_and_publish rt m r b'"
  "update_and_publish rt (having_counted m js) r b' = update_and_publish rt m r b'"
  by (simp_all add: update_and_publish_def cong: option.case_cong sum.case_cong if_cong)

lemma helper_reads [simp]:
  "refund_jobs (having_read m b) i = refund_jobs m i"
  "tag_refunded rt (having_read m b) i ts = tag_refunded rt m i ts"
  "count_refunded (having_read m b) i = count_refunded m i"
  by (simp_all add: refund_jobs_def tag_refunded_def count_refunded_def cong: option.case_cong)

lemma refund_reads [simp]:
  "refund_batch rt (having_read m b) (stale_batches r b) i b' = refund_batch rt m r i b'"
  by (simp add: refund_batch_def cong: option.case_cong if_cong)

lemma with_batch_reads: "bm_batchRepo m = Some r \<Longrightarrow>
    with_batch (having_read m b) i fail k = k (stale_batches r b) b"
  by (simp add: with_batch_def)

lemma update_progress_counted [simp]:
  "update_progress rt (having_counted m js) i xs = update_progress rt m i xs"
  by (simp add: update_progress_def with_batch_def cong: option.case_cong sum.case_cong if_cong)

lemma OnJobStatusChange_counted:
  "bm_batchRepo m = Some r \<Longrightarrow> bm_jobRepo m = Some jr \<Longrightarrow>
    OnJobStatusChange rt (having_counted m js) i =
      (if js = [] then State_Monad.return (Ret None) else update_progress rt m i js)"
  by (simp add: OnJobStatusChange_def cong: option.case_cong sum.case_cong if_cong)

text \<open>An operation that is resumed at once is the operation.\<close>

lemma resumed_at_once:
  assumes "bm_batchRepo m = Some r" "bm_jobRepo m = Some jr"
  shows "result (BatchRepo_GetByID r i) w = Inr (Some b) \<Longrightarrow>
      after (resume rt m (Cancelling i b)) (after (BatchRepo_GetByID r i) w) = after (SetCancelled rt m i) w"
    "result (BatchRepo_GetByID r i) w = Inr (Some b) \<Longrightarrow>
      after (resume rt m (Starting i b)) (after (BatchRepo_GetByID r i) w) = after (SetProcessing rt m i) w"
    "result (JobRepo_GetByBatch jr i) w = Inr js \<Longrightarrow>
      after (resume rt m (Counting i js)) (after (JobRepo_GetByBatch jr i) w) = after (OnJobStatusChange rt m i) w"
proof -
  have fetch: "after (with_batch m i fail k) w = after (k r b) (after (BatchRepo_GetByID r i) w)"
    if "result (BatchRepo_GetByID r i) w = Inr (Some b)" for fail k
    using that assms by (simp add: with_batch_def)
  show "result (BatchRepo_GetByID r i) w = Inr (Some b) \<Longrightarrow>
      after (resume rt m (Cancelling i b)) (after (BatchRepo_GetByID r i) w) = after (SetCancelled rt m i) w"
    "result (BatchRepo_GetByID r i) w = Inr (Some b) \<Longrightarrow>
      after (resume rt m (Starting i b)) (after (BatchRepo_GetByID r i) w) = after (SetProcessing rt m i) w"
    by (simp_all add: no_value_def SetCancelled_def SetProcessing_def with_batch_reads [OF assms(1)] fetch Let_def cong: option.case_cong sum.case_cong if_cong)
  show "result (JobRepo_GetByBatch jr i) w = Inr js \<Longrightarrow>
      after (resume rt m (Counting i js)) (after (JobRepo_GetByBatch jr i) w) = after (OnJobStatusChange rt m i) w"
    using assms by (simp add: no_value_def OnJobStatusChange_counted OnJobStatusChange_def)
qed

section \<open>Invariants under overlap\<close>

context process_invariant
begin

text \<open>A suspended operation writes the batch it has read with a status of a run.\<close>

definition writable :: "batch \<Rightarrow> bool" where
  "writable b \<longleftrightarrow> (\<forall>s \<in> run_statuses. good (b\<lparr>b_Status := s\<rparr>))"

lemma writable_run [simp]:
  assumes "writable b"
  shows "s \<in> run_statuses \<Longrightarrow> good (b\<lparr>b_Status := s\<rparr>)"
    "s \<in> run_statuses \<Longrightarrow> 0 \<le> f \<and> f \<le> k \<Longrightarrow>
      good (b\<lparr>b_CompletedCount := k, b_FailedCount := f, b_Status := s\<rparr>)"
    "s \<in> run_statuses \<Longrightarrow> 0 \<le> f \<and> f \<le> k \<Longrightarrow>
      good (b\<lparr>b_CompletedCount := k, b_FailedCount := f, b_Status := s, b_CompletedAt := t\<rparr>)"
proof -
  show good: "s \<in> run_statuses \<Longrightarrow> good (b\<lparr>b_Status := s\<rparr>)" for s
    using assms by (simp add: writable_def)
  show "s \<in> run_statuses \<Longrightarrow> 0 \<le> f \<and> f \<le> k \<Longrightarrow>
      good (b\<lparr>b_CompletedCount := k, b_FailedCount := f, b_Status := s\<rparr>)"
    "s \<in> run_statuses \<Longrightarrow> 0 \<le> f \<and> f \<le> k \<Longrightarrow>
      good (b\<lparr>b_CompletedCount := k, b_FailedCount := f, b_Status := s, b_CompletedAt := t\<rparr>)"
    by (rule change_good [OF good]; simp add: run_change_def plan_of_def)+
qed

lemma preserves_stale_progress:
  assumes "writable b"
  shows "preserves I (update_progress (runtime_of e) (having_read (manager_of e c) b) i js)"
  unfolding update_progress_def with_batch_reads [OF manager_of_sel(1)] Let_def update_reads
  using assms by (intro preserves_bind inv_intros) (simp_all add: count_jobs_ok)

lemma preserves_resume:
  assumes "case pd of Cancelling i b \<Rightarrow> writable b | Starting i b \<Rightarrow> writable b
    | Counting i js \<Rightarrow> True | Progressing i js b \<Rightarrow> writable b"
  shows "preserves I (resume (runtime_of e) (manager_of e c) pd)"
proof (cases pd)
  case (Cancelling i b)
  with assms show ?thesis
    unfolding Cancelling resume.simps no_value_def SetCancelled_def with_batch_reads [OF manager_of_sel(1)]
      Let_def stale_sel publish_status_reads refund_reads helper_reads
    by (intro preserves_bind inv_intros) simp_all
next
  case (Starting i b)
  with assms show ?thesis
    unfolding Starting resume.simps no_value_def SetProcessing_def with_batch_reads [OF manager_of_sel(1)] update_reads
    by (intro preserves_bind inv_intros) simp_all
next
  case (Counting i js)
  have "preserves I (update_progress (runtime_of e) (manager_of e c) i js)"
    unfolding update_progress_def Let_def
    by (intro preserves_with_batch preserves_bind inv_intros) (simp_all add: count_jobs_ok)
  then show ?thesis
    unfolding Counting resume.simps no_value_def OnJobStatusChange_counted [OF manager_of_sel(1,2)]
    by (intro preserves_bind inv_intros)
next
  case (Progressing i js b)
  with assms have "preserves I (update_progress (runtime_of e) (having_read (manager_of e c) b) i js)"
    by (simp add: preserves_stale_progress)
  then show ?thesis
    unfolding Progressing resume.simps no_value_def
    by (intro preserves_bind inv_intros, subst OnJobStatusChange_counted) (simp_all add: inv_intros)
qed

end

text \<open>What a pending operation has read is the stored batch, up to its status, progress and transactions.\<close>

definition read_before :: "(string \<Rightarrow> batch option) \<Rightarrow> string \<Rightarrow> batch \<Rightarrow> bool" where
  "read_before S i b \<longleftrightarrow> b_ID b = i \<and> valid_batch b \<and> (\<exists>b1. S i = Some b1 \<and> plan_of b1 = plan_of b)"

fun pending_ok :: "(string \<Rightarrow> batch option) \<Rightarrow> pending \<Rightarrow> bool" where
  "pending_ok S (Cancelling i b) = read_before S i b"
| "pending_ok S (Starting i b) = read_before S i b"
| "pending_ok S (Counting i js) = True"
| "pending_ok S (Progressing i js b) = read_before S i b"

lemma read_before_grown: "grown S J S' J' \<Longrightarrow> read_before S i b \<Longrightarrow> read_before S' i b"
  by (fastforce simp: read_before_def grown_def follows_def)

lemma pending_ok_grown: "grown S J S' J' \<Longrightarrow> pending_ok S pd \<Longrightarrow> pending_ok S' pd"
  by (cases pd) (auto intro: read_before_grown)

lemma read_now:
  assumes "sound S0 J0 pg_stored pg_jobs w" "result (BatchRepo_GetByID (batchRepository e) i) w = Inr (Some b)"
  shows "read_before (pg_stored w) i b"
proof -
  from pg_batches.get_found [OF assms(2)] have b: "pg_stored w i = Some (core b)" "b_ID b = i" by auto
  with assms(1) have "valid_batch (core b)" unfolding sound_def tables_ok_def by blast
  with b show ?thesis by (simp add: read_before_def plan_of_def)
qed

lemma written_back:
  assumes "sound S0 J0 pg_stored pg_jobs w" "read_before (pg_stored w) i b"
  shows "tables.writable S0 b"
proof -
  have st: "run_statuses \<subseteq> batch_statuses" by (auto simp: run_statuses_def batch_statuses_def)
  have "plan_of b = plan_of b0" if "S0 i = Some b0" for b0
    using assms that by (fastforce simp: sound_def grown_def read_before_def follows_def)
  moreover have "b_ID b = i" "valid_batch b" using assms(2) by (auto simp: read_before_def)
  ultimately show ?thesis
    using st unfolding tables.writable_def
    by (auto simp: good_def valid_batch_def follows_def plan_of_def)
qed

text \<open>Every step keeps the tables sound, whatever earlier state they are compared with.\<close>

lemma overlap_step_sound:
  assumes "overlap_step p (s, P) (s', P')" "sound S0 J0 pg_stored pg_jobs (fst s)"
    and "\<And>pd. pd \<in> set P \<Longrightarrow> pending_ok (pg_stored (fst s)) pd"
  shows "sound S0 J0 pg_stored pg_jobs (fst s')"
proof -
  let ?e = "pr_env p" and ?c = "pr_config p"
  have reads: "sound S0 J0 pg_stored pg_jobs (after (BatchRepo_GetByID (batchRepository ?e) i) w)"
    "sound S0 J0 pg_stored pg_jobs (after (JobRepo_GetByBatch (jobRepository ?e) i) w)"
    if "sound S0 J0 pg_stored pg_jobs w" for i w
    using that tables.preserves_reads(1,4) unfolding preserves_def by blast+
  show ?thesis
    using assms(1)
  proof cases
    case whole
    from tables.process_step_preserves [OF this(2) refl refl refl assms(2)] show ?thesis .
  next
    case (finish pd w rs)
    then have w: "sound S0 J0 pg_stored pg_jobs w" "pending_ok (pg_stored w) pd" using assms(2,3) by simp_all
    have "case pd of Cancelling i b \<Rightarrow> tables.writable S0 b
        | Starting i b \<Rightarrow> tables.writable S0 b | Counting i js \<Rightarrow> True
        | Progressing i js b \<Rightarrow> tables.writable S0 b"
      using w(2) by (cases pd) (simp_all add: written_back [OF w(1)])
    from tables.preserves_resume [OF this, where e = ?e and c = ?c] show ?thesis
      using finish assms(2) by (simp add: preserves_def)
  qed (use assms(2) reads in auto)
qed

lemma overlap_step_pending:
  assumes "overlap_step p (s, P) (s', P')" "tables_ok (pg_stored (fst s)) (pg_jobs (fst s))"
    and "\<And>pd. pd \<in> set P \<Longrightarrow> pending_ok (pg_stored (fst s)) pd" "pd \<in> set P'"
  shows "pending_ok (pg_stored (fst s')) pd"
proof -
  let ?S = "pg_stored (fst s)" and ?J = "pg_jobs (fst s)"
  have now: "sound ?S ?J pg_stored pg_jobs (fst s)" using assms(2) by (simp add: sound_def grown_refl)
  then have "grown ?S ?J (pg_stored (fst s')) (pg_jobs (fst s'))"
    using overlap_step_sound [OF assms(1) now assms(3)] by (simp add: sound_def)
  moreover have "pending_ok ?S pd"
    using assms(1)
  proof cases
    case (read_batch i w b pd rs)
    with now assms(3,4) show ?thesis by (auto intro: read_now)
  next
    case (read_counted i js w b rs)
    with now assms(3,4) show ?thesis by (auto dest: notin_set_remove1 [rotated] intro: read_now)
  qed (use assms(3,4) in \<open>auto dest: notin_set_remove1 [rotated]\<close>)
  ultimately show ?thesis by (rule pending_ok_grown)
qed

lemma overlap_steps:
  assumes "(overlap_step p)\<^sup>*\<^sup>* (s, P) (s', P')" "sound S0 J0 pg_stored pg_jobs (fst s)"
    and "\<And>pd. pd \<in> set P \<Longrightarrow> pending_ok (pg_stored (fst s)) pd"
  shows "sound S0 J0 pg_stored pg_jobs (fst s') \<and> (\<forall>pd \<in> set P'. pending_ok (pg_stored (fst s')) pd)"
  using assms
proof (induction "(s', P')" arbitrary: s' P' rule: rtranclp_induct)
  case (step t)
  obtain u Q where t: "t = (u, Q)" by (cases t)
  with step have "sound S0 J0 pg_stored pg_jobs (fst u)" "\<And>pd. pd \<in> set Q \<Longrightarrow> pending_ok (pg_stored (fst u)) pd"
    by auto
  with step(2) t show ?case
    using overlap_step_sound overlap_step_pending unfolding t by (metis sound_def)
qed auto

section \<open>What a suspended recalculation writes\<close>

lemma counted_run:
  assumes m: "wired (batchRepository e) (jobRepository e) (billing_of e bc) (producer_of e brokers) m"
    and repos: "bm_batchRepo m = Some (batchRepository e)" "bm_jobRepo m = Some (jobRepository e)"
  shows "spec (\<lambda>w. views pg_stored pg_jobs wCalls w = (S, J, C))
    (OnJobStatusChange (runtime_of e) (having_counted m js) i)
    (\<lambda>r w. r \<noteq> Panic \<and> pg_jobs w = J \<and> wCalls w = C \<and>
      (if js = [] \<or> r \<noteq> Ret None then pg_stored w = S
       else \<exists>b now. S i = Some (core b) \<and> pg_stored w = S(i \<mapsto> core (progress_spec js now b))))"
proof (cases "js = []")
  case True
  then show ?thesis
    by (auto simp: OnJobStatusChange_counted [OF repos] views_eq intro!: spec_return)
next
  case False
  then show ?thesis
    unfolding OnJobStatusChange_counted [OF repos] if_not_P [OF False]
    by (intro spec_conseq [OF prod.progress_run [OF m refl False]]) auto
qed

section \<open>Properties\<close>

text \<open>C2: when the manager's operations overlap with each other and with everything else the process
  does, in any order of their reads and writes, the tables stay sound and what was stored is kept: no
  batch and no job is removed, of a batch only status, progress and transactions change, and its
  status only to processing, completed or cancelled.\<close>

theorem overlap_keeps_history:
  assumes "process_reachable p s" "(overlap_step p)\<^sup>*\<^sup>* (s, []) (s', P)"
  shows "tables_ok (pg_stored (fst s')) (pg_jobs (fst s')) \<and>
    grown (pg_stored (fst s)) (pg_jobs (fst s)) (pg_stored (fst s')) (pg_jobs (fst s'))"
proof -
  have "sound (pg_stored (fst s)) (pg_jobs (fst s)) pg_stored pg_jobs (fst s)"
    using reachable_tables [OF assms(1)] by (simp add: sound_def grown_refl)
  from overlap_steps [OF assms(2) this] show ?thesis by (simp add: sound_def)
qed

text \<open>A race on the fixtures: a recalculation of batch b1 reads its jobs while j2 is open, then the result of
  j2 arrives and completes the batch, then the recalculation reads the batch and writes what it has counted.\<close>

definition counted0 :: "job list" where
  "counted0 = (case result (JobRepo_GetByBatch (jobRepository env0) ''b1'') (fst state0) of
     Inl err \<Rightarrow> [] | Inr js \<Rightarrow> js)"

definition race1 :: world where
  "race1 = after (JobRepo_GetByBatch (jobRepository env0) ''b1'') (fst state0)"

definition race2 :: world where
  "race2 = after (process_message (eTimeRFC3339 env0) (the (consumer_of env0 config0)) message0) race1"

definition race3 :: world where
  "race3 = after (resume (runtime_of env0) (manager_of env0 config0) (Counting ''b1'' counted0)) race2"

lemma race_steps:
  "(overlap_step process0)\<^sup>*\<^sup>* (state0, []) ((race2, snd state0), [Counting ''b1'' counted0])"
  "overlap_step process0 ((race2, snd state0), [Counting ''b1'' counted0]) ((race3, snd state0), [])"
proof -
  let ?pd = "Counting ''b1'' counted0" and ?rs = "snd state0"
  have "case result (JobRepo_GetByBatch (jobRepository env0) ''b1'') (fst state0) of Inl err \<Rightarrow> False | Inr js \<Rightarrow> True"
    by code_simp
  then have "result (JobRepo_GetByBatch (jobRepository env0) ''b1'') (fst state0) = Inr counted0"
    by (simp add: counted0_def split: sum.splits)
  then have "overlap_step process0 (state0, []) ((race1, ?rs), [?pd])"
    using overlap_step.read_jobs [of process0 "''b1''" "fst state0" counted0 ?rs "[]"]
    by (simp add: race1_def process0_def)
  moreover have "process_step process0 (race1, ?rs) (race2, ?rs)"
    using process_step.message [of process0 "the (consumer_of env0 config0)" race1 ?rs message0]
    by (simp add: process0_def consumer_of_def config0_def race2_def)
  then have "overlap_step process0 ((race1, ?rs), [?pd]) ((race2, ?rs), [?pd])" by (rule overlap_step.whole)
  ultimately show "(overlap_step process0)\<^sup>*\<^sup>* (state0, []) ((race2, ?rs), [?pd])"
    by (rule converse_rtranclp_into_rtranclp [OF _ r_into_rtranclp])
  show "overlap_step process0 ((race2, ?rs), [?pd]) ((race3, ?rs), [])"
    using overlap_step.finish [of ?pd "[?pd]" process0 race2 ?rs] by (simp add: race3_def process0_def)
qed

text \<open>Whether all jobs of a batch are done, and the status and progress stored for it.\<close>

definition batch_outcome :: "string \<Rightarrow> world \<Rightarrow> bool \<times> (string \<times> int) option" where
  "batch_outcome i w = (list_all job_done (filter (\<lambda>j. j_BatchID j = i) (pg_jobs w)),
     map_option (\<lambda>b. (b_Status b, b_CompletedCount b)) (pg_stored w i))"

lemma race_completed: "batch_outcome ''b1'' race2 = (True, Some (BatchStatusCompleted, 3))"
  by code_simp

lemma race_reopened: "batch_outcome ''b1'' race3 = (True, Some (BatchStatusProcessing, 2))"
  by code_simp

theorem overlap_keeps_history_witness:
  "tables_ok (pg_stored race3) (pg_jobs race3) \<and>
    grown (pg_stored (fst state0)) (pg_jobs (fst state0)) (pg_stored race3) (pg_jobs race3)"
  using overlap_keeps_history [OF start0 rtranclp.rtrancl_into_rtrancl [OF race_steps]] by simp

text \<open>A recalculation stores what it has counted.  Whatever the jobs and the batch have become since it
  read the jobs, the batch gets the counts of the jobs read, and the status they give: processing as soon
  as one of them was open then, even if the batch has been completed or cancelled in between.\<close>

theorem stale_count_written:
  "case run_state (OnJobStatusChange (runtime_of e) (having_counted (prod_manager e brokers c h t) js) i) w of
    (r, w') \<Rightarrow> pg_jobs w' = pg_jobs w \<and> wCalls w' = wCalls w \<and> r \<noteq> Panic \<and>
      (if js = [] \<or> r \<noteq> Ret None then pg_stored w' = pg_stored w
       else \<exists>b b'. pg_stored w i = Some b \<and> pg_stored w' = (pg_stored w)(i \<mapsto> b') \<and>
         b_CompletedCount b' = int (length (filter job_done js)) \<and>
         b_FailedCount b' = int (length (filter (\<lambda>j. j_Status j = JobStatusFailed) js)) \<and>
         b_Status b' = (if list_all job_done js then BatchStatusCompleted else BatchStatusProcessing) \<and>
         b_BillingTransactionIDs b' = b_BillingTransactionIDs b)"
proof (rule spec_run [OF counted_run [OF prod_manager_wired, where S = "pg_stored w" and J = "pg_jobs w" and C = "wCalls w"]], goal_cases batches jobs views run)
  case (run r w')
  show ?case
  proof (cases "js = [] \<or> r \<noteq> Ret None")
    case False
    with run obtain b now where "pg_stored w i = Some (core b)"
      "pg_stored w' = (pg_stored w)(i \<mapsto> core (progress_spec js now b))" by auto
    with run False show ?thesis
      by (intro conjI) (auto intro!: exI [of _ "core b"] exI [of _ "core (progress_spec js now b)"])
  qed (use run in simp)
qed (simp_all add: prod_manager_def NewBatchManager_def Let_def views_def)


end
