(* ===== verification/Completion.thy ===== *)
theory Completion
  imports HandlerLaws Flows Lifecycle
begin

text \<open>
  The end of a batch.  The generator answers every job with a result message; Kafka delivers each message
  at least once, in any order, among those of other batches.  As long as the statements of the database do
  not fail, the batch is completed with the counts of the last results, whatever the order and the number
  of deliveries.
\<close>

section \<open>Statements that do not fail\<close>

definition reliable :: "env \<Rightarrow> bool" where
  "reliable e \<longleftrightarrow> (\<forall>n. eDB e n = None)"

lemma get_succeeds:
  assumes "reliable e" "eUUIDok e i" "pg_stored w i \<noteq> None"
  obtains b where "result (BatchRepo_GetByID (batchRepository e) i) w = Inr (Some b)" "b_ID b = i"
proof -
  from assms obtain r where "find (\<lambda>r. br_id r = i) (wBatches w) = Some r"
    by (auto simp: pg_stored_def split: option.splits)
  with assms have "result (BatchRepo_GetByID (batchRepository e) i) w = Inr (Some (ToDomain (scan_batch r)))"
    by (simp add: run_get reliable_def)
  with that pg_batches.get_found [OF this] show ?thesis by auto
qed

lemma update_succeeds:
  "reliable e \<Longrightarrow> eUUIDok e (b_ID b) \<Longrightarrow> result (BatchRepo_Update (batchRepository e) b) w = None"
  by (simp add: batchRepository_def pg_batch_Update_def run_simps reliable_def toPostgres_def)

lemma by_batch_succeeds:
  assumes "reliable e" "eUUIDok e i"
  obtains js where "result (JobRepo_GetByBatch (jobRepository e) i) w = Inr js"
  using assms that by (simp add: jobRepository_def pg_job_GetByBatch_def run_simps reliable_def)

lemma publish_succeeds:
  "result (BatchRepo_Update r b) w = None \<Longrightarrow> result (update_and_publish rt m r b) w = Ret None"
  by (simp add: update_and_publish_def)

lemma recalculation_succeeds:
  assumes "reliable e" "eUUIDok e i" "pg_stored w i \<noteq> None"
  shows "result (OnJobStatusChange (runtime_of e) (manager_of e c) i) w = Ret None"
proof -
  obtain js where js: "result (JobRepo_GetByBatch (jobRepository e) i) w = Inr js"
    using assms(1,2) by (rule by_batch_succeeds)
  let ?w = "after (JobRepo_GetByBatch (jobRepository e) i) w"
  have "pg_stored ?w i \<noteq> None" using assms(3) by (simp add: keepsD pg.job_ops_keep_batches)
  with assms(1,2) obtain b where b: "result (BatchRepo_GetByID (batchRepository e) i) ?w = Inr (Some b)" "b_ID b = i"
    by (rule get_succeeds)
  have "result (update_progress (runtime_of e) (manager_of e c) i js) ?w = Ret None"
    using b assms(1,2)
    by (simp add: update_progress_def with_batch_def Let_def publish_succeeds update_succeeds split: prod.split)
  with js show ?thesis by (simp add: OnJobStatusChange_def)
qed

section \<open>Results that end a job\<close>

definition ends_job :: "env \<Rightarrow> BulkResultEvent \<Rightarrow> bool" where
  "ends_job e ev \<longleftrightarrow> eUUIDok e (ev_JobID ev) \<and> (ev_BuildID ev = [] \<or> eUUIDok e (ev_BuildID ev)) \<and>
     ev_Status ev \<in> {JobStatusCompleted, JobStatusFailed, JobStatusRefunded}"

lemma result_succeeds:
  assumes "reliable e" "ends_job e ev"
  shows "pg_jobs (after (store_result (runtime_of e) (Some (jobRepository e)) ev) w) =
    map (with_result e ev) (pg_jobs w)"
proof -
  let ?r = "event_result (runtime_of e) ev"
  let ?m = "JobRepo_UpdateStatusWithResult (jobRepository e) (ev_JobID ev) (ev_Status ev) ?r"
  have args: "uuid_arg e (null_str (r_BuildID ?r))" "uuid_arg e (null_str (r_BillingTransactionID ?r))"
    using assms(2) by (auto simp: event_result_def uuid_arg_def null_str_def ends_job_def runtime_of_def
        split: option.split)
  have urls: "null_str (r_BarcodeURLs ?r) = None \<or> (\<exists>t u. null_str (r_BarcodeURLs ?r) = Some t \<and> json_parse t = Some u)"
    using marshalled_json by (auto simp: event_result_def null_str_def split: option.split)
  have ok: "result (sql_update_job e (ev_JobID ev) g) w = None" for g
    using assms by (simp add: sql_update_job_def run_simps reliable_def ends_job_def)
  have "result ?m w = None"
    using args urls by (auto simp: jobRepository_def pg_job_UpdateStatusWithResult_def Let_def ok)
  from pg_jobs.result_ok [OF this] show ?thesis
    by (auto simp: store_result_def with_result_def comp_def event_result_def runtime_of_def split: option.split)
qed

lemma with_result_sel [simp]:
  "j_ID (with_result e ev j) = j_ID j" "j_BatchID (with_result e ev j) = j_BatchID j"
  "j_Status (with_result e ev j) = (if j_ID j = ev_JobID ev then ev_Status ev else j_Status j)"
  "j_ID j \<noteq> ev_JobID ev \<Longrightarrow> with_result e ev j = j"
  by (simp_all add: with_result_def set_status_def set_tx_def)

section \<open>One message\<close>

abbreviation jobs_of :: "string \<Rightarrow> world \<Rightarrow> job list" where
  "jobs_of i w \<equiv> filter (\<lambda>j. j_BatchID j = i) (pg_jobs w)"

text \<open>A batch that shows the progress of its jobs, and what of a batch results leave.\<close>

definition shows_progress :: "job list \<Rightarrow> batch \<Rightarrow> bool" where
  "shows_progress js b \<longleftrightarrow> b_CompletedCount b = int (length (filter job_done js)) \<and>
     b_FailedCount b = int (length (filter (\<lambda>j. j_Status j = JobStatusFailed) js)) \<and>
     b_Status b = (if list_all job_done js then BatchStatusCompleted else BatchStatusProcessing)"

definition same_plan :: "batch \<Rightarrow> batch \<Rightarrow> bool" where
  "same_plan b b' \<longleftrightarrow> plan_of b' = plan_of b \<and> b_BillingTransactionIDs b' = b_BillingTransactionIDs b"

lemma same_plan_refl: "same_plan b b"
  by (simp add: same_plan_def)

lemma same_plan_trans: "same_plan a b \<Longrightarrow> same_plan b c \<Longrightarrow> same_plan a c"
  by (simp add: same_plan_def)

lemma progress_spec_shows: "shows_progress js (core (progress_spec js now b))"
  by (simp add: shows_progress_def)

lemma progress_spec_plan: "same_plan (core b) (core (progress_spec js now b))"
  by (simp add: same_plan_def plan_of_def progress_spec_def Let_def split: prod.split)

text \<open>A result of the batch: its job gets the result and the batch shows the progress.\<close>

lemma handled_own:
  fixes e c ev w
  assumes "reliable e" "eUUIDok e i" "ends_job e ev" "ev_BatchID ev = i"
    and "pg_stored w i = Some b" "jobs_of i w \<noteq> []"
  defines "w' \<equiv> after (result_handler e c ev) w"
  shows "jobs_of i w' = map (with_result e ev) (jobs_of i w)"
    and "\<exists>b'. pg_stored w' i = Some b' \<and> same_plan b b' \<and> shows_progress (jobs_of i w') b'"
proof -
  let ?w1 = "after (store_result (runtime_of e) (Some (jobRepository e)) ev) w"
  let ?w2 = "after (tag_result (runtime_of e) (Some (tagger_of e c)) ev) ?w1"
  let ?m = "OnJobStatusChange (runtime_of e) (manager_of e c) i"
  note tag = keepsD [OF tagged_result_keeps, where w = ?w1]
  have w2: "pg_jobs ?w2 = map (with_result e ev) (pg_jobs w)" "pg_stored ?w2 = pg_stored w"
    using tag [of pg_jobs] tag [of pg_stored] stored_result(1) result_succeeds [OF assms(1,3)] by simp_all
  have w': "w' = after ?m ?w2"
    using run_result_handler [of e c ev w] assms(4) by (simp add: w'_def after_def Let_def)
  have "result ?m ?w2 = Ret None"
    using assms(1,2,5) w2(2) by (intro recalculation_succeeds) simp_all
  with specD [OF prod.onjobstatus_run [OF manager_of_wired [of e c], where i = i], where w = ?w2, OF views_def]
  have run: "pg_jobs w' = pg_jobs ?w2"
    "jobs_of i w' \<noteq> [] \<Longrightarrow> \<exists>b now. pg_stored w i = Some (core b) \<and>
       pg_stored w' = (pg_stored w)(i \<mapsto> core (progress_spec (jobs_of i w') now b))"
    unfolding w' by (auto simp: w2(2))
  show jobs: "jobs_of i w' = map (with_result e ev) (jobs_of i w)"
    by (simp add: run(1) w2(1) filter_map comp_def)
  with run(2) assms(5,6) show "\<exists>b'. pg_stored w' i = Some b' \<and> same_plan b b' \<and> shows_progress (jobs_of i w') b'"
    by (auto simp: progress_spec_shows progress_spec_plan simp del: filter_map)
qed

text \<open>A result of another batch leaves this one.\<close>

lemma handled_other:
  fixes e c ev w
  assumes "ev_BatchID ev \<noteq> i" "ev_JobID ev \<notin> j_ID ` set (jobs_of i w)"
  defines "w' \<equiv> after (result_handler e c ev) w"
  shows "jobs_of i w' = jobs_of i w" "pg_stored w' i = pg_stored w i"
proof -
  note eff = handler_effect [where e = e and c = c and ev = ev and w = w, folded w'_def]
  have "jobs_of i w' = jobs_of i w \<or> jobs_of i w' = map (with_result e ev) (jobs_of i w)"
    using stored_result(3) [of e ev w] by (auto simp: eff(2) filter_map comp_def)
  moreover have "map (with_result e ev) (jobs_of i w) = jobs_of i w"
    using assms(2) by (intro map_idI with_result_sel(4)) force
  ultimately show "jobs_of i w' = jobs_of i w" by simp
  show "pg_stored w' i = pg_stored w i"
    using eff(3) assms(1) by (auto simp: counted_def Let_def)
qed

section \<open>Any sequence of messages\<close>

fun handle_all :: "env \<Rightarrow> Config \<Rightarrow> BulkResultEvent list \<Rightarrow> world \<Rightarrow> world" where
  "handle_all e c [] w = w"
| "handle_all e c (ev # evs) w = handle_all e c evs (after (result_handler e c ev) w)"

lemma handle_all_snoc: "handle_all e c (evs @ [ev]) w = after (result_handler e c ev) (handle_all e c evs w)"
  by (induction evs arbitrary: w) simp_all

text \<open>The status the last result of a job gives it.\<close>

fun last_status :: "string \<Rightarrow> BulkResultEvent list \<Rightarrow> string \<Rightarrow> string" where
  "last_status k [] st = st"
| "last_status k (ev # evs) st = last_status k evs (if ev_JobID ev = k then ev_Status ev else st)"

lemma last_status_snoc: "last_status k (evs @ [ev]) st = (if ev_JobID ev = k then ev_Status ev else last_status k evs st)"
  by (induction evs arbitrary: st) simp_all

lemma last_status_ends:
  "k \<in> ev_JobID ` set evs \<Longrightarrow> \<exists>ev \<in> set evs. ev_JobID ev = k \<and> last_status k evs st = ev_Status ev"
  by (induction evs rule: rev_induct) (auto simp: last_status_snoc)

definition concerns :: "env \<Rightarrow> string \<Rightarrow> job list \<Rightarrow> BulkResultEvent \<Rightarrow> bool" where
  "concerns e i js ev \<longleftrightarrow>
     (if ev_BatchID ev = i then ends_job e ev else ev_JobID ev \<notin> j_ID ` set js)"

lemma handled_all:
  assumes "reliable e" "eUUIDok e i" "pg_stored w i = Some b" "jobs_of i w \<noteq> []"
    and "\<And>ev. ev \<in> set evs \<Longrightarrow> concerns e i (jobs_of i w) ev"
  shows "map (\<lambda>j. (j_ID j, j_Status j)) (jobs_of i (handle_all e c evs w)) =
      map (\<lambda>j. (j_ID j, last_status (j_ID j) evs (j_Status j))) (jobs_of i w) \<and>
    (\<exists>b'. pg_stored (handle_all e c evs w) i = Some b' \<and> same_plan b b' \<and>
      ((\<exists>ev \<in> set evs. ev_BatchID ev = i) \<longrightarrow> shows_progress (jobs_of i (handle_all e c evs w)) b'))"
  using assms(5)
proof (induction evs rule: rev_induct)
  case Nil
  with assms(3) show ?case by (simp add: same_plan_refl)
next
  case (snoc ev evs)
  let ?w = "handle_all e c evs w"
  from snoc obtain b1 where IH: "map (\<lambda>j. (j_ID j, j_Status j)) (jobs_of i ?w) =
      map (\<lambda>j. (j_ID j, last_status (j_ID j) evs (j_Status j))) (jobs_of i w)"
    and b1: "pg_stored ?w i = Some b1" "same_plan b b1"
      "(\<exists>ev \<in> set evs. ev_BatchID ev = i) \<Longrightarrow> shows_progress (jobs_of i ?w) b1" by auto
  have ids: "map j_ID (jobs_of i ?w) = map j_ID (jobs_of i w)"
    using arg_cong [OF IH, of "map fst"] by (simp add: comp_def)
  then have set_ids: "j_ID ` set (jobs_of i ?w) = j_ID ` set (jobs_of i w)" by (metis set_map)
  have ne: "jobs_of i ?w \<noteq> []" using ids assms(4) by (metis map_is_Nil_conv)
  from snoc.prems have ev: "concerns e i (jobs_of i w) ev" by simp
  show ?case
  proof (cases "ev_BatchID ev = i")
    case True
    with ev have "ends_job e ev" by (simp add: concerns_def)
    note own = handled_own [OF assms(1,2) this True b1(1) ne, where c = c]
    have "map (\<lambda>j. (j_ID j, j_Status j)) (map (with_result e ev) (jobs_of i ?w)) =
        map (\<lambda>(k, st). (k, if k = ev_JobID ev then ev_Status ev else st))
          (map (\<lambda>j. (j_ID j, j_Status j)) (jobs_of i ?w))"
      by simp
    with IH own b1(2) show ?thesis
      by (auto simp: handle_all_snoc last_status_snoc simp del: filter_filter intro: same_plan_trans)
  next
    case False
    with ev set_ids have "ev_JobID ev \<notin> j_ID ` set (jobs_of i ?w)" by (simp add: concerns_def)
    note other = handled_other [OF False this, where e = e and c = c]
    moreover have "last_status (j_ID j) (evs @ [ev]) st = last_status (j_ID j) evs st"
      if "j \<in> set (jobs_of i w)" for j st
      using that ev False by (auto simp: last_status_snoc concerns_def)
    ultimately show ?thesis
      using IH b1 False by (simp add: handle_all_snoc cong: map_cong)
  qed
qed

section \<open>Properties\<close>

fun decoded :: "env \<Rightarrow> string list \<Rightarrow> BulkResultEvent list" where
  "decoded e [] = []"
| "decoded e (m # ms) = (case unmarshal_event (eTimeRFC3339 e) m of
     None \<Rightarrow> decoded e ms | Some ev \<Rightarrow> ev # decoded e ms)"

lemma start_decoded:
  assumes "consumer_of e c = Some rc" "0 \<le> consumer_retry (eGetenv e)"
  shows "after (Start (eTimeRFC3339 e) rc ms err) w = handle_all e c (decoded e ms) w"
proof -
  have "after (for_range ms (process_message (eTimeRFC3339 e) rc)) w = handle_all e c (decoded e ms) w"
    by (induction ms arbitrary: w) (use assms in \<open>simp_all add: consumer_run [OF assms(1)] split: option.split\<close>)
  then show ?thesis by (simp add: Start_def)
qed

lemma job_status_pairs:
  fixes js js' :: "job list"
  assumes "map (\<lambda>j. (j_ID j, j_Status j)) js' = map (\<lambda>j. (j_ID j, f j)) js"
  shows "length (filter (\<lambda>j. P (j_Status j)) js') = length (filter (\<lambda>j. P (f j)) js)"
    "list_all (\<lambda>j. P (j_Status j)) js' \<longleftrightarrow> list_all (\<lambda>j. P (f j)) js"
proof -
  have st: "map j_Status js' = map f js" using arg_cong [OF assms, of "map snd"] by (simp add: comp_def)
  have len: "length (filter P (map g xs)) = length (filter (\<lambda>j. P (g j)) xs)" for g :: "job \<Rightarrow> string" and xs
    by (simp add: filter_map comp_def)
  show "length (filter (\<lambda>j. P (j_Status j)) js') = length (filter (\<lambda>j. P (f j)) js)"
    using len [of j_Status js'] len [of f js] st by simp
  have "list_all P (map j_Status js') \<longleftrightarrow> list_all P (map f js)" by (simp only: st)
  then show "list_all (\<lambda>j. P (j_Status j)) js' \<longleftrightarrow> list_all (\<lambda>j. P (f j)) js"
    by (simp add: list.pred_map comp_def)
qed

text \<open>The last result of an answered job is one of its batch, and ends the job.\<close>

lemma own_result:
  assumes "j_ID ` set js \<subseteq> ev_JobID ` set evs" "list_all (concerns e i js) evs" "j \<in> set js"
  shows "\<exists>ev \<in> set evs. ev_BatchID ev = i \<and> ends_job e ev \<and> last_status (j_ID j) evs st = ev_Status ev"
proof -
  have k: "j_ID j \<in> j_ID ` set js" using assms(3) by simp
  with assms(1) have "j_ID j \<in> ev_JobID ` set evs" by blast
  from last_status_ends [OF this] obtain ev where
    ev: "ev \<in> set evs" "ev_JobID ev = j_ID j" "last_status (j_ID j) evs st = ev_Status ev" by blast
  with assms(2) have "concerns e i js ev" by (simp add: list_all_iff)
  with k ev(2) have "ev_BatchID ev = i \<and> ends_job e ev" by (simp add: concerns_def split: if_split_asm)
  with ev show ?thesis by blast
qed

text \<open>A batch whose jobs have all been answered.\<close>

lemma answered_batch:
  assumes "reliable e" "eUUIDok e i" "pg_stored w i = Some b" "jobs_of i w \<noteq> []"
    and concern: "list_all (concerns e i (jobs_of i w)) evs"
    and answered: "j_ID ` set (jobs_of i w) \<subseteq> ev_JobID ` set evs"
  shows "\<exists>b'. pg_stored (handle_all e c evs w) i = Some b' \<and> same_plan b b' \<and>
    b_Status b' = BatchStatusCompleted \<and> b_CompletedCount b' = int (length (jobs_of i w)) \<and>
    b_FailedCount b' = int (length (filter
      (\<lambda>j. last_status (j_ID j) evs (j_Status j) = JobStatusFailed) (jobs_of i w)))"
proof -
  let ?w' = "handle_all e c evs w"
  let ?st = "\<lambda>j. last_status (j_ID j) evs (j_Status j)"
  let ?done = "\<lambda>st. st \<in> {JobStatusCompleted, JobStatusRefunded, JobStatusFailed}"
  from handled_all [OF assms(1-4), of evs c] concern obtain b' where
    st: "map (\<lambda>j. (j_ID j, j_Status j)) (jobs_of i ?w') = map (\<lambda>j. (j_ID j, ?st j)) (jobs_of i w)"
    and b': "pg_stored ?w' i = Some b'" "same_plan b b'"
      "(\<exists>ev \<in> set evs. ev_BatchID ev = i) \<Longrightarrow> shows_progress (jobs_of i ?w') b'"
    by (auto simp: list_all_iff)
  have own: "\<exists>ev \<in> set evs. ev_BatchID ev = i \<and> ends_job e ev \<and> ?st j = ev_Status ev"
    if "j \<in> set (jobs_of i w)" for j
    using answered concern that by (rule own_result)
  then have all_done: "list_all (\<lambda>j. ?done (?st j)) (jobs_of i w)"
    unfolding list_all_iff ends_job_def by fastforce
  have "shows_progress (jobs_of i ?w') b'"
    using own [OF hd_in_set [OF assms(4)]] by (intro b'(3)) blast
  moreover have "list_all job_done (jobs_of i ?w')"
    using all_done job_status_pairs(2) [OF st, of ?done] by (simp add: job_done_def [abs_def])
  moreover from this have "filter job_done (jobs_of i ?w') = jobs_of i ?w'"
    by (simp add: filter_id_conv list_all_iff del: filter_filter)
  moreover have "length (jobs_of i ?w') = length (jobs_of i w)" using arg_cong [OF st, of length] by simp
  ultimately show ?thesis
    using b'(1,2) unfolding shows_progress_def
      job_status_pairs(1) [OF st, of "\<lambda>s. s = JobStatusFailed"]
    by (intro exI [of _ b']) (simp del: filter_filter)
qed

text \<open>C5: when every job of a batch has been answered, the batch is completed.  The messages may come in any
  order, more than once, with messages of other batches and texts that are none in between; the counts are
  those of the last result of each job, and nothing else of the batch changes.\<close>

theorem results_complete_batch:
  assumes "consumer_of e c = Some rc" "0 \<le> consumer_retry (eGetenv e)" "reliable e" "eUUIDok e i"
    and "pg_stored w i = Some b" "jobs_of i w \<noteq> []"
    and concern: "list_all (concerns e i (jobs_of i w)) (decoded e ms)"
    and answered: "j_ID ` set (jobs_of i w) \<subseteq> ev_JobID ` set (decoded e ms)"
  shows "\<exists>b'. pg_stored (after (Start (eTimeRFC3339 e) rc ms err) w) i = Some b' \<and> same_plan b b' \<and>
    b_Status b' = BatchStatusCompleted \<and> b_CompletedCount b' = int (length (jobs_of i w)) \<and>
    b_FailedCount b' = int (length (filter
      (\<lambda>j. last_status (j_ID j) (decoded e ms) (j_Status j) = JobStatusFailed) (jobs_of i w)))"
  using answered_batch [OF assms(3-6) concern answered, of c]
  by (simp only: start_decoded [OF assms(1,2)])

definition messages0 :: "string list" where
  "messages0 = [''{\"jobId\":\"j2\",\"batchId\":\"b1\",\"status\":\"failed\"}'', ''no message'',
     ''{\"jobId\":\"j3\",\"batchId\":\"b1\",\"status\":\"failed\"}'',
     ''{\"jobId\":\"k1\",\"batchId\":\"b2\",\"status\":\"processing\"}'',
     ''{\"jobId\":\"j1\",\"batchId\":\"b1\",\"status\":\"completed\"}'', message0, message0]"

theorem results_complete_batch_witness:
  "\<exists>b'. pg_stored (after (Start (eTimeRFC3339 env0) (the (consumer_of env0 config0)) messages0 ErrNoRows) world0) ''b1'' = Some b' \<and>
     b_Status b' = BatchStatusCompleted \<and> b_CompletedCount b' = 3 \<and> b_FailedCount b' = 1"
proof -
  have c: "consumer_of env0 config0 = Some (the (consumer_of env0 config0))"
    by (simp add: consumer_of_def config0_def)
  have js: "length (jobs_of ''b1'' world0) = 3"
    "length (filter (\<lambda>j. last_status (j_ID j) (decoded env0 messages0) (j_Status j) = JobStatusFailed)
      (jobs_of ''b1'' world0)) = 1" by code_simp+
  have ok: "list_all (concerns env0 ''b1'' (jobs_of ''b1'' world0)) (decoded env0 messages0)" by code_simp
  have answered: "list_all (\<lambda>j. j_ID j \<in> ev_JobID ` set (decoded env0 messages0)) (jobs_of ''b1'' world0)"
    by code_simp
  have b: "pg_stored world0 ''b1'' \<noteq> None" by code_simp
  then obtain b where b: "pg_stored world0 ''b1'' = Some b" by blast
  have "jobs_of ''b1'' world0 \<noteq> []" using js(1) by auto
  moreover have "0 \<le> consumer_retry (eGetenv env0)" "reliable env0" "eUUIDok env0 ''b1''"
    by (simp_all add: consumer_retry_def env_val_def reliable_def env0_def)
  moreover have "j_ID ` set (jobs_of ''b1'' world0) \<subseteq> ev_JobID ` set (decoded env0 messages0)"
    using answered by (auto simp: list_all_iff)
  ultimately show ?thesis
    using results_complete_batch [OF c _ _ _ b _ ok, where err = ErrNoRows] unfolding js by auto
qed

end
