(* ===== verification/EndToEnd.thy ===== *)
theory EndToEnd
  imports Completion
begin

text \<open>
  From a confirmation to the end of the batch.  As long as no statement and no publication fails and the
  billing service grants the reservation, \<open>ConfirmBatch\<close> sends one message for every job and queues it; when
  the generator answers every message it got, the batch is completed.
\<close>

section \<open>Publications that do not fail\<close>

definition connected :: "env \<Rightarrow> bool" where
  "connected e \<longleftrightarrow> reliable e \<and> (\<forall>n. eKafka e n = None)"

lemma publish_sent:
  "connected e \<Longrightarrow> result (Producer_Publish (producer_of e brokers) t m) w = None"
  by (simp add: connected_def producer_of_def Publish_def NewProducer_def WriteMessages_def run_simps
      numeral_eq_Suc)

lemma status_succeeds:
  assumes "reliable e" "eUUIDok e k"
  shows "result (JobRepo_UpdateStatus (jobRepository e) k s) w = None"
  using assms by (simp add: adapter_defs run_simps reliable_def)

section \<open>One job\<close>

text \<open>The tables and messages while a batch is sent: the stored batches and the keys of the jobs stand still,
  \<open>L\<close> has been published, and the jobs \<open>D\<close> are queued.\<close>

definition sending :: "(string \<Rightarrow> batch option) \<Rightarrow> (string \<times> string \<times> int \<times> string) list \<Rightarrow>
    (string \<times> kafka_msg) list \<Rightarrow> string set \<Rightarrow> world \<Rightarrow> bool" where
  "sending S K L D w \<longleftrightarrow> pg_stored w = S \<and> map job_key (pg_jobs w) = K \<and> wLog w = L \<and>
     (\<forall>j \<in> set (pg_jobs w). j_ID j \<in> D \<longrightarrow> j_Status j = JobStatusQueued)"

lemma sending_kept:
  assumes "keeps (\<lambda>w. (pg_stored w, pg_jobs w, wLog w)) m"
  shows "spec (sending S K L D) m (\<lambda>_. sending S K L D)"
  using assms by (simp add: spec_def keeps_def sending_def)

lemma views_ignore [simp]:
  "pg_stored (w\<lparr>wTick := n\<rparr>) = pg_stored w" "pg_jobs (w\<lparr>wTick := n\<rparr>) = pg_jobs w"
  by (simp_all add: pg_stored_def pg_jobs_def fun_eq_iff)

lemma sending_assign:
  "spec (sending S K L D) (assign_tx_to rt (jobRepository e) j tx as) (\<lambda>_. sending S K L D)"
proof -
  have "spec (sending S K L D) (JobRepo_UpdateBillingTransactionID (jobRepository e) k x) (\<lambda>_. sending S K L D)"
    for k x
  proof (rule specI)
    fix w assume I: "sending S K L D w"
    let ?m = "JobRepo_UpdateBillingTransactionID (jobRepository e) k x"
    have log: "wLog (after ?m w) = wLog w" by (intro keepsD job_ops_keep) simp_all
    have jobs: "pg_jobs (after ?m w) \<in> {pg_jobs w, map (set_tx k x) (pg_jobs w)}"
      by (cases "result ?m w") (simp_all add: pg_jobs.tx_ok pg_jobs.tx_failed)
    have "\<forall>j \<in> set (pg_jobs (after ?m w)). j_ID j \<in> D \<longrightarrow> j_Status j = JobStatusQueued"
      using jobs I by (auto simp: sending_def set_tx_def)
    then show "sending S K L D (after ?m w)"
      using I log by (simp add: sending_def keepsD pg.job_ops_keep_batches prod.tx_keys)
  qed
  then show ?thesis
    unfolding assign_tx_to_def
    by (auto split: option.split intro!: spec_bind spec_return)
qed

lemma sending_publish:
  assumes "connected e"
  shows "spec (sending S K L D) (Producer_Publish (producer_of e brokers) t m)
    (\<lambda>r w. r = None \<and> sending S K (L @ [(t, m)]) D w)"
proof (rule specI)
  fix w assume "sending S K L D w"
  then show "result (Producer_Publish (producer_of e brokers) t m) w = None \<and>
      sending S K (L @ [(t, m)]) D (after (Producer_Publish (producer_of e brokers) t m) w)"
    using publish_sent [OF assms]
    by (simp add: sending_def keepsD prod.publish_keeps kafka_bus.publish_events)
qed

lemma sending_queue:
  assumes "reliable e" "eUUIDok e k"
  shows "spec (sending S K L D) (JobRepo_UpdateStatus (jobRepository e) k JobStatusQueued)
    (\<lambda>r w. r = None \<and> sending S K L (insert k D) w)"
proof (rule specI)
  fix w assume I: "sending S K L D w"
  let ?m = "JobRepo_UpdateStatus (jobRepository e) k JobStatusQueued"
  have r: "result ?m w = None" using assms by (rule status_succeeds)
  have log: "wLog (after ?m w) = wLog w" by (intro keepsD job_ops_keep) simp_all
  have jobs: "pg_jobs (after ?m w) = map (set_status k JobStatusQueued) (pg_jobs w)"
    by (rule pg_jobs.status_ok [OF r])
  have "sending S K L (insert k D) (after ?m w)"
    using I log by (auto simp: sending_def keepsD pg.job_ops_keep_batches jobs set_status_def job_key_def)
  with r show "result ?m w = None \<and> sending S K L (insert k D) (after ?m w)" by blast
qed

lemma sending_confirm:
  assumes "connected e" "eUUIDok e (j_ID j)" "sv_producer s = Some (producer_of e brokers)"
  shows "spec (sending S K L D)
    (confirm_job (runtime_of e) s None trace (jobRepository e) u r txs cnt i j (q, pe, as))
    (\<lambda>acc w. (\<exists>as'. acc = (q + 1, pe, as')) \<and>
      (\<exists>tm. (msg_job (snd tm), msg_tx (snd tm)) = (Some (j_ID j), assignTx txs cnt i) \<and>
        sending S K (L @ [tm]) (insert (j_ID j) D) w))"
    (is "spec _ _ ?Q")
proof -
  have now: "spec (sending S K L D) (Rt_Now (runtime_of e)) (\<lambda>_. sending S K L D)"
    by (intro sending_kept runtime_ops_keep) simp
  have corr: "spec (sending S K L D) (correlation (runtime_of e) trace) (\<lambda>_. sending S K L D)"
    unfolding correlation_def by (intro sending_kept frame_intros runtime_ops_keep) simp
  have pub: "spec (sending S K L D) (publish_with s None t m) (\<lambda>p w. p = None \<and> sending S K (L @ [(t, m)]) D w)"
    for t m using sending_publish [OF assms(1)] by (simp add: publish_with_def assms(3))
  have queue: "spec (sending S K (L @ [tm]) D) (do {
        x \<leftarrow> JobRepo_UpdateStatus (jobRepository e) (j_ID j) JobStatusQueued;
        State_Monad.return (if x = None then q + 1 else q, pe, as') }) ?Q"
    if "(msg_job (snd tm), msg_tx (snd tm)) = (Some (j_ID j), assignTx txs cnt i)" for tm as'
    using assms(1,2) that
    by (intro spec_bind [OF sending_queue] spec_return)
      (auto simp: connected_def simp del: split_paired_Ex intro: exI [of _ tm])
  show ?thesis
    unfolding confirm_job_def prod.case Let_def
    by (intro spec_bind [OF sending_assign] spec_bind [OF now] spec_bind [OF corr] spec_bind [OF pub] spec_pure)
      (hypsubst, unfold option.case, rule queue, simp)
qed

section \<open>All jobs\<close>

definition messages_for :: "string list \<Rightarrow> int \<Rightarrow> nat \<Rightarrow> job list \<Rightarrow> (string \<times> kafka_msg) list \<Rightarrow> bool" where
  "messages_for txs cnt i js ms \<longleftrightarrow> map (\<lambda>tm. (msg_job (snd tm), msg_tx (snd tm))) ms =
     map (\<lambda>(n, j). (Some (j_ID j), assignTx txs cnt n)) (enumerate i js)"

lemma messages_for_Cons:
  "messages_for txs cnt i (j # js) (tm # ms) \<longleftrightarrow>
    (msg_job (snd tm), msg_tx (snd tm)) = (Some (j_ID j), assignTx txs cnt i) \<and> messages_for txs cnt (Suc i) js ms"
  by (simp add: messages_for_def)

lemma messages_for_jobs:
  assumes "messages_for txs cnt i js ms"
  shows "map (\<lambda>tm. msg_job (snd tm)) ms = map (Some \<circ> j_ID) js"
proof -
  have "map (\<lambda>tm. msg_job (snd tm)) ms = map (\<lambda>x. Some (j_ID (snd x))) (enumerate i js)"
    using arg_cong [OF assms [unfolded messages_for_def], of "map fst"] by (simp add: comp_def split_beta)
  also have "\<dots> = map (Some \<circ> j_ID) (map snd (enumerate i js))" by (simp only: map_map comp_def)
  finally show ?thesis by (simp only: map_snd_enumerate)
qed

lemma sending_all:
  assumes "connected e" "sv_producer s = Some (producer_of e brokers)"
  shows "\<forall>j \<in> set js. eUUIDok e (j_ID j) \<Longrightarrow> int (i + length js) \<le> cnt \<Longrightarrow> spec (sending S K L D)
    (confirm_jobs (runtime_of e) s None trace (jobRepository e) u r txs cnt i js (q, pe, as))
    (\<lambda>acc w. (\<exists>as'. acc = (q + int (length js), pe, as')) \<and>
      (\<exists>ms. messages_for txs cnt i js ms \<and> sending S K (L @ ms) (D \<union> j_ID ` set js) w))"
proof (induction js arbitrary: i q as L D)
  case Nil
  then show ?case by (auto simp: messages_for_def intro!: spec_return)
next
  case (Cons j js)
  let ?Q = "\<lambda>acc w. (\<exists>as'. acc = (q + int (length (j # js)), pe, as')) \<and>
      (\<exists>ms. messages_for txs cnt i (j # js) ms \<and> sending S K (L @ ms) (D \<union> j_ID ` set (j # js)) w)"
  have rest: "spec (sending S K (L @ [tm]) (insert (j_ID j) D))
      (confirm_jobs (runtime_of e) s None trace (jobRepository e) u r txs cnt (Suc i) js (q + 1, pe, as')) ?Q"
    if "(msg_job (snd tm), msg_tx (snd tm)) = (Some (j_ID j), assignTx txs cnt i)" for tm as'
    using that Cons.prems
    by (intro spec_conseq [OF Cons.IH [where i = "Suc i" and q = "q + 1" and L = "L @ [tm]"]])
      (auto intro!: exI [of _ "tm # _"] simp: messages_for_Cons)
  have one: "spec (sending S K L D)
      (confirm_job (runtime_of e) s None trace (jobRepository e) u r txs cnt i j (q, pe, as)) (\<lambda>acc w.
      (\<exists>as'. acc = (q + 1, pe, as')) \<and> (\<exists>tm. (msg_job (snd tm), msg_tx (snd tm)) = (Some (j_ID j), assignTx txs cnt i) \<and>
        sending S K (L @ [tm]) (insert (j_ID j) D) w))"
    using assms Cons.prems(1) by (intro sending_confirm) simp_all
  show ?case
    using Cons.prems(2) rest
    by (auto intro!: spec_bind [OF one] spec_pure spec_ex)
qed

text \<open>The confirmation, from a state without a publication error.\<close>

lemma sending_jobs:
  assumes "connected e" "eUUIDok e i" "\<And>j. j \<in> set js \<Longrightarrow> j_BatchID j = i \<Longrightarrow> eUUIDok e (j_ID j)"
    and "int (length (filter (\<lambda>j. j_BatchID j = i) js)) \<le> cnt"
    and s: "s = prod_service e brokers c v fc"
  shows "spec (\<lambda>w. pg_stored w = S \<and> pg_jobs w = js \<and> wLog w = L)
    (publish_jobs (runtime_of e) s None trace i cnt txs)
    (\<lambda>r w. \<exists>xs ms. mset xs = mset (filter (\<lambda>j. j_BatchID j = i) js) \<and> r = Inr (int (length xs)) \<and>
      messages_for txs cnt 0 xs ms \<and> sending S (map job_key js) (L @ ms) (j_ID ` set xs) w)"
    (is "spec ?P _ ?Q")
proof -
  let ?I = "sending S (map job_key js) L {}"
  have fetch: "spec ?P (JobRepo_GetByBatch (jobRepository e) i)
    (\<lambda>x w. (\<exists>xs. x = Inr xs \<and> mset xs = mset (filter (\<lambda>j. j_BatchID j = i) js)) \<and> ?I w)"
  proof (rule specI)
    fix w assume P: "?P w"
    let ?m = "JobRepo_GetByBatch (jobRepository e) i"
    have "keeps (\<lambda>w. (pg_stored w, pg_jobs w, wLog w)) ?m" by (simp add: adapter_defs keeps_db_query)
    with P have "?I (after ?m w)" by (simp add: keeps_def sending_def)
    moreover from assms(1,2) obtain xs where xs: "result ?m w = Inr xs"
      by (auto simp: connected_def elim: by_batch_succeeds)
    ultimately show "(\<exists>xs. result ?m w = Inr xs \<and> mset xs = mset (filter (\<lambda>j. j_BatchID j = i) js)) \<and> ?I (after ?m w)"
      using pg_jobs.by_batch [OF xs] P by simp
  qed
  have peek: "spec ?I (peek_batch s i) (\<lambda>_. ?I)"
  proof (rule sending_kept)
    have "keeps (\<lambda>w. (pg_stored w, pg_jobs w, wLog w)) (BatchRepo_GetByID (batchRepository e) i)"
      by (rule reads_keep) simp
    then show "keeps (\<lambda>w. (pg_stored w, pg_jobs w, wLog w)) (peek_batch s i)"
      by (simp add: peek_batch_def s prod_service_def keeps_def)
  qed
  have send: "spec ?I (confirm_jobs (runtime_of e) s None trace (jobRepository e) u r txs cnt 0 xs (0, False, []))
      (\<lambda>acc w. (\<exists>as. acc = (int (length xs), False, as)) \<and>
        (\<exists>ms. messages_for txs cnt 0 xs ms \<and> sending S (map job_key js) (L @ ms) (j_ID ` set xs) w))"
    if xs: "mset xs = mset (filter (\<lambda>j. j_BatchID j = i) js)" for u r xs
  proof -
    have "set xs = set (filter (\<lambda>j. j_BatchID j = i) js)" "length xs = length (filter (\<lambda>j. j_BatchID j = i) js)"
      using xs by (metis set_mset_mset, metis size_mset)
    then show ?thesis
      using sending_all [OF assms(1), of s brokers xs 0 cnt S "map job_key js" L "{}" trace u r txs 0 False "[]"] assms(3,4)
      by (simp add: s prod_service_def)
  qed
  have sel: "sv_jobRepo s = Some (jobRepository e)" by (simp add: s prod_service_def)
  have rest: "spec ?I (do {
      x \<leftarrow> peek_batch s i;
      let (user, revision) = (case x of Some b \<Rightarrow> (b_UserID b, b_Revision b) | None \<Rightarrow> ([], []));
      acc \<leftarrow> confirm_jobs (runtime_of e) s None trace (jobRepository e) user revision txs cnt 0 xs (0, False, []);
      (case acc of (queued, publishError, assigned) \<Rightarrow>
         if publishError then do {
           compensate s (jobRepository e) i cnt xs queued assigned;
           State_Monad.return (Inr queued)
         }
         else State_Monad.return (Inr queued)) }) ?Q"
    if xs: "mset xs = mset (filter (\<lambda>j. j_BatchID j = i) js)" for xs
    using xs by (intro spec_bind [OF peek] spec_Let spec_case_prod spec_bind [OF send [OF xs]] spec_pure)
      (auto intro!: spec_return)
  show ?thesis
    unfolding publish_jobs_def sel option.case
    by (intro spec_bind [OF fetch] spec_pure) (elim exE conjE, hypsubst, unfold sum.case, rule rest)
qed

section \<open>Confirmation and results\<close>

lemma confirm_sends:
  fixes brokers v fc trace
  assumes "connected e" "eUUIDok e i" "\<And>j. j \<in> set (jobs_of i w) \<Longrightarrow> eUUIDok e (j_ID j)"
    and "pg_stored w i = Some b" "b_ApprovedCount b = 0 \<or> cnt \<le> b_ApprovedCount b"
    and "int (length (jobs_of i w)) \<le> cnt"
    and grants: "\<And>w. result (BlockBatch e bc [] cnt i) w = Inr (Some txs)"
  defines "m \<equiv> ConfirmBatch (runtime_of e) (prod_service e brokers bc v fc) None None trace i cnt"
  shows "\<exists>xs ms. mset xs = mset (jobs_of i w) \<and> result m w = Inr (int (length xs)) \<and>
    messages_for txs cnt 0 xs ms \<and>
    sending (pg_stored w) (map job_key (pg_jobs w)) (wLog w @ ms) (j_ID ` set xs) (after m w)"
proof -
  let ?s = "prod_service e brokers bc v fc"
  let ?V = "\<lambda>w. (pg_stored w, pg_jobs w, wLog w)"
  obtain b' where get: "result (BatchRepo_GetByID (batchRepository e) i) w = Inr (Some b')"
    using assms(1,2,4) by (auto simp: connected_def elim: get_succeeds)
  with pg_batches.get_found [OF get] assms(4) have "b_ApprovedCount b' = b_ApprovedCount b"
    by (auto dest!: arg_cong [where f = b_ApprovedCount])
  with get assms(5) have ok: "\<not> (case result (peek_batch ?s i) w of
      Some b \<Rightarrow> 0 < b_ApprovedCount b \<and> b_ApprovedCount b < cnt | None \<Rightarrow> False)"
    by (auto simp: peek_batch_def prod_service_def)
  let ?w1 = "after (peek_batch ?s i) w"
  let ?w2 = "after (Billing_BlockBatch (billing_of e bc) [] cnt i) ?w1"
  have "keeps ?V (BatchRepo_GetByID (batchRepository e) i)" by (rule reads_keep) simp
  moreover have "keeps ?V (Billing_BlockBatch (billing_of e bc) [] cnt i)"
    by (rule billing_ops_keep) (simp_all add: pg_stored_def pg_jobs_def fun_eq_iff)
  ultimately have w2: "?V ?w2 = ?V w" by (simp add: keeps_def peek_batch_def prod_service_def)
  have block: "result (block_billing ?s None i cnt) ?w1 = Inr txs" "after (block_billing ?s None i cnt) ?w1 = ?w2"
    by (simp_all add: block_billing_def prod_service_def billing_of_def grants)
  have run: "result m w = result (publish_jobs (runtime_of e) ?s None trace i cnt txs) ?w2"
    "after m w = after (publish_jobs (runtime_of e) ?s None trace i cnt txs) ?w2"
    unfolding m_def ConfirmBatch_def using ok block by simp_all
  have "eUUIDok e (j_ID j)" if "j \<in> set (pg_jobs w)" "j_BatchID j = i" for j
    using assms(3) that by simp
  from specD [OF sending_jobs [OF assms(1,2) this assms(6) refl], where w = ?w2] w2
  show ?thesis unfolding run by simp
qed

lemma keys_of_jobs:
  assumes "map job_key J' = map job_key J"
  shows "map j_ID (filter (\<lambda>j. j_BatchID j = i) J') = map j_ID (filter (\<lambda>j. j_BatchID j = i) J)"
proof -
  have "map j_ID (filter (\<lambda>j. j_BatchID j = i) K) =
      map fst (filter (\<lambda>k. fst (snd k) = i) (map job_key K))" for K
    by (simp add: filter_map comp_def job_key_def)
  with assms show ?thesis by simp
qed

text \<open>What a sent batch looks like.\<close>

lemma after_sending:
  assumes "sending (pg_stored w) (map job_key (pg_jobs w)) L (j_ID ` set xs) w1" "mset xs = mset (jobs_of i w)"
  shows "map j_ID (jobs_of i w1) = map j_ID (jobs_of i w)"
    and "list_all (\<lambda>j. j_Status j = JobStatusQueued) (jobs_of i w1)"
    and "pg_stored w1 = pg_stored w" "wLog w1 = L"
proof -
  show ids: "map j_ID (jobs_of i w1) = map j_ID (jobs_of i w)"
    using assms(1) by (intro keys_of_jobs) (simp add: sending_def)
  show "list_all (\<lambda>j. j_Status j = JobStatusQueued) (jobs_of i w1)"
    unfolding list_all_iff
  proof
    fix j assume j: "j \<in> set (jobs_of i w1)"
    then have "j_ID j \<in> set (map j_ID (jobs_of i w))" unfolding ids [symmetric] by (simp only: set_map imageI)
    moreover have "set (jobs_of i w) = set xs" using assms(2) by (metis set_mset_mset)
    ultimately have "j_ID j \<in> j_ID ` set xs" by (simp only: set_map)
    then show "j_Status j = JobStatusQueued" using assms(1) j by (simp add: sending_def)
  qed
qed (use assms(1) in \<open>simp_all add: sending_def\<close>)

text \<open>C4: while no statement and no publication fails and the billing service grants the reservation, the
  confirmation of a whole batch sends exactly one message for every job, with the transaction of its
  position, and queues every job; and when the generator answers every message it got, in any order and any
  number of times, the batch is completed.\<close>

theorem confirmed_batch_completes:
  assumes "connected e" "eUUIDok e i" "\<forall>j \<in> set (jobs_of i w). eUUIDok e (j_ID j)"
    and "pg_stored w i = Some b" "b_ApprovedCount b = 0 \<or> cnt \<le> b_ApprovedCount b"
    and "jobs_of i w \<noteq> []" "int (length (jobs_of i w)) \<le> cnt"
    and grants: "\<And>w. result (BlockBatch e bc [] cnt i) w = Inr (Some txs)"
    and consumer: "consumer_of e c = Some rc" "0 \<le> consumer_retry (eGetenv e)"
    and m: "m = ConfirmBatch (runtime_of e) (prod_service e brokers bc v fc) None None trace i cnt"
    and concern: "list_all (concerns e i (jobs_of i w)) (decoded e replies)"
    and answered: "\<forall>(t, x) \<in> set (drop (length (wLog w)) (wLog (after m w))).
      msg_job x \<in> Some ` ev_JobID ` set (decoded e replies)"
  shows "(\<exists>xs. mset xs = mset (jobs_of i w) \<and> result m w = Inr (int (length xs)) \<and>
      messages_for txs cnt 0 xs (drop (length (wLog w)) (wLog (after m w)))) \<and>
    list_all (\<lambda>j. j_Status j = JobStatusQueued) (jobs_of i (after m w)) \<and>
    (\<exists>b'. pg_stored (after (Start (eTimeRFC3339 e) rc replies err) (after m w)) i = Some b' \<and> same_plan b b' \<and>
      b_Status b' = BatchStatusCompleted \<and> b_CompletedCount b' = int (length (jobs_of i w)))"
proof -
  let ?w1 = "after m w" and ?evs = "decoded e replies"
  have uuids: "eUUIDok e (j_ID j)" if "j \<in> set (jobs_of i w)" for j using assms(3) that by blast
  from confirm_sends [OF assms(1,2) uuids assms(4,5,7) grants, where brokers = brokers and v = v and fc = fc and trace = trace]
  obtain xs ms where
    xs: "mset xs = mset (jobs_of i w)" "result m w = Inr (int (length xs))" "messages_for txs cnt 0 xs ms"
    and w1: "sending (pg_stored w) (map job_key (pg_jobs w)) (wLog w @ ms) (j_ID ` set xs) ?w1" unfolding m by blast
  note w1 = after_sending [OF w1 xs(1)]
  have ms: "drop (length (wLog w)) (wLog ?w1) = ms" by (simp add: w1(4))
  from w1(1) have set_ids: "j_ID ` set (jobs_of i ?w1) = j_ID ` set (jobs_of i w)" by (metis set_map)
  have members: "set xs = set (jobs_of i w)" using xs(1) by (metis set_mset_mset)
  from xs(3) have "map (\<lambda>tm. msg_job (snd tm)) ms = map (Some \<circ> j_ID) xs" by (rule messages_for_jobs)
  then have "(\<lambda>tm. msg_job (snd tm)) ` set ms = Some ` j_ID ` set xs" by (metis image_comp set_map)
  moreover have "(\<lambda>tm. msg_job (snd tm)) ` set ms \<subseteq> Some ` ev_JobID ` set ?evs"
    using answered unfolding ms by (auto simp: split_beta)
  ultimately have sent: "j_ID ` set (jobs_of i ?w1) \<subseteq> ev_JobID ` set ?evs"
    unfolding set_ids members by (simp only: inj_image_subset_iff inj_Some)
  have "concerns e i (jobs_of i ?w1) = concerns e i (jobs_of i w)"
    by (simp add: fun_eq_iff concerns_def set_ids del: set_filter)
  then have "list_all (concerns e i (jobs_of i ?w1)) ?evs" using concern by simp
  moreover have "jobs_of i ?w1 \<noteq> []" "length (jobs_of i ?w1) = length (jobs_of i w)"
    using w1(1) assms(6) by (metis map_is_Nil_conv, metis length_map)
  moreover have "pg_stored ?w1 i = Some b" "reliable e" using w1(3) assms(1,4) by (simp_all add: connected_def)
  ultimately show ?thesis
    using answered_batch [of e i ?w1 b ?evs c] assms(2) sent xs w1(2)
    unfolding ms start_decoded [OF consumer] by (intro conjI) auto
qed

definition reply0 :: string where
  "reply0 = ''{\"jobId\":\"k1\",\"batchId\":\"b2\",\"status\":\"completed\"}''"

definition confirm0 :: "(world, go_error + int) state" where
  "confirm0 = ConfirmBatch (runtime_of env0) (prod_service env0 ''k'' client0 \<lparr>bv_url = [], bv_token = []\<rparr> None)
     None None None ''b2'' 1"

theorem confirmed_batch_completes_witness:
  "\<exists>b'. pg_stored (after (Start (eTimeRFC3339 env0) (the (consumer_of env0 config0)) [reply0] ErrNoRows)
      (after confirm0 world0)) ''b2'' = Some b' \<and> b_Status b' = BatchStatusCompleted \<and> b_CompletedCount b' = 1"
proof -
  have js: "length (jobs_of ''b2'' world0) = 1" by code_simp
  then have ne: "jobs_of ''b2'' world0 \<noteq> []" and le: "int (length (jobs_of ''b2'' world0)) \<le> 1" by auto
  have body: "json_first ''{}'' = Some (JObj [])" "dec_struct block_step (JObj []) [] = Some []" by code_simp+
  have grants: "result (BlockBatch env0 client0 [] 1 ''b2'') w = Inr (Some [])" for w
    by (simp add: BlockBatch_def run_simps env0_def checked_body_def body)
  have b: "map_option b_ApprovedCount (pg_stored world0 ''b2'') = Some 0" by code_simp
  then obtain b where b: "pg_stored world0 ''b2'' = Some b" "b_ApprovedCount b = 0" by auto
  have env: "connected env0" "eUUIDok env0 k" "0 \<le> consumer_retry (eGetenv env0)" for k
    by (simp_all add: connected_def reliable_def consumer_retry_def env_val_def env0_def)
  have c: "consumer_of env0 config0 = Some (the (consumer_of env0 config0))"
    by (simp add: consumer_of_def config0_def)
  have concern: "list_all (concerns env0 ''b2'' (jobs_of ''b2'' world0)) (decoded env0 [reply0])" by code_simp
  have answered: "\<forall>(t, x) \<in> set (drop (length (wLog world0)) (wLog (after confirm0 world0))).
      msg_job x \<in> Some ` ev_JobID ` set (decoded env0 [reply0])" by code_simp
  have "\<forall>j \<in> set (jobs_of ''b2'' world0). eUUIDok env0 (j_ID j)" by (simp add: env(2))
  from confirmed_batch_completes [OF env(1,2) this b(1) _ ne le grants c env(3) confirm0_def concern answered,
      where err = ErrNoRows]
  show ?thesis using b(2) js by auto
qed

end
