(* ===== verification/TestDoubles.thy ===== *)
theory TestDoubles
  imports ServiceLaws
begin

text \<open>
  The doubles the repository tests its use cases with (\<open>internal/testutil/mocks.go\<close>): a record of hooks for
  every interface, and a default answer where a hook is nil.  A double whose hooks are the operations of
  an implementation is that implementation, so that what is proved over the contracts holds for it; without
  hooks it breaks them: it finds every batch, as nil, which the repository of the service never does.
\<close>

section \<open>Hooks\<close>

record 'w MockBatchRepo =
  CreateFn :: "(batch \<Rightarrow> ('w, go_error option) state) option"
  GetByIDFn :: "(string \<Rightarrow> ('w, go_error + batch option) state) option"
  UpdateFn :: "(batch \<Rightarrow> ('w, go_error option) state) option"
  ListFn :: "(BatchFilter \<Rightarrow> ('w, go_error + (batch list \<times> int)) state) option"
  AdminStatsFn :: "(int option \<Rightarrow> int option \<Rightarrow> ('w, go_error + AdminStats option) state) option"

record 'w MockJobRepo =
  JobCreateFn :: "(job \<Rightarrow> ('w, go_error option) state) option"
  GetByBatchFn :: "(string \<Rightarrow> ('w, go_error + job list) state) option"
  UpdateStatusFn :: "(string \<Rightarrow> string \<Rightarrow> ('w, go_error option) state) option"
  GetResultsByBatchFn :: "(string \<Rightarrow> ('w, go_error + JobResult list) state) option"
  UpdateBillingTransactionIDFn :: "(string \<Rightarrow> string option \<Rightarrow> ('w, go_error option) state) option"
  UpdateStatusWithResultFn :: "(string \<Rightarrow> string \<Rightarrow> JobResult \<Rightarrow> ('w, go_error option) state) option"

record 'w MockBilling =
  QuoteFn :: "(string \<Rightarrow> int \<Rightarrow> ('w, go_error + QuoteResponse option) state) option"
  BlockBatchFn :: "(string \<Rightarrow> int \<Rightarrow> string \<Rightarrow> ('w, go_error + string list option) state) option"
  RefundTransactionsFn :: "(string \<Rightarrow> string list \<Rightarrow> string \<Rightarrow> ('w, go_error option) state) option"

record 'w MockProducer =
  PublishFn :: "(string \<Rightarrow> kafka_msg \<Rightarrow> ('w, go_error option) state) option"
  CloseFn :: "('w, go_error option) state option"

record 'w MockStorage =
  SaveFn :: "(string \<Rightarrow> string \<Rightarrow> ('w, go_error + string) state) option"
  PresignFn :: "(string \<Rightarrow> int \<Rightarrow> ('w, go_error + string) state) option"
  PublicURLFn :: "(string \<Rightarrow> ('w, go_error + string) state) option"

record 'w MockValidator =
  ValidateRowFn :: "((string \<times> string) list \<Rightarrow> string \<Rightarrow> ('w, go_error + ValidationResult option) state) option"

section \<open>The doubles\<close>

text \<open>A hook, or the default answer; for one, two and three arguments.\<close>

definition hook :: "('a \<Rightarrow> ('w, 'r) state) option \<Rightarrow> 'r \<Rightarrow> 'a \<Rightarrow> ('w, 'r) state" where
  "hook h d = (case h of Some f \<Rightarrow> f | None \<Rightarrow> (\<lambda>x. State_Monad.return d))"

definition hook2 :: "('a \<Rightarrow> 'b \<Rightarrow> ('w, 'r) state) option \<Rightarrow> 'r \<Rightarrow> 'a \<Rightarrow> 'b \<Rightarrow> ('w, 'r) state" where
  "hook2 h d = (case h of Some f \<Rightarrow> f | None \<Rightarrow> (\<lambda>x y. State_Monad.return d))"

definition hook3 :: "('a \<Rightarrow> 'b \<Rightarrow> 'c \<Rightarrow> ('w, 'r) state) option \<Rightarrow> 'r \<Rightarrow> 'a \<Rightarrow> 'b \<Rightarrow> 'c \<Rightarrow> ('w, 'r) state" where
  "hook3 h d = (case h of Some f \<Rightarrow> f | None \<Rightarrow> (\<lambda>x y z. State_Monad.return d))"

definition zero_stats :: AdminStats where
  "zero_stats = \<lparr>as_BatchesCreated = 0, as_JobsProcessed = 0, as_JobsFailed = 0,
     as_AverageProcessingTimeMs = 0, as_BulkJobPending = 0, as_BulkResultPending = 0\<rparr>"

definition mock_batches :: "'w MockBatchRepo \<Rightarrow> 'w BatchRepository" where
  "mock_batches m = \<lparr>
     BatchRepo_Create = hook (CreateFn m) None,
     BatchRepo_GetByID = hook (GetByIDFn m) (Inr None),
     BatchRepo_Update = hook (UpdateFn m) None,
     BatchRepo_List = hook (ListFn m) (Inr ([], 0)),
     BatchRepo_AdminStats = hook2 (AdminStatsFn m) (Inr (Some zero_stats))\<rparr>"

definition mock_jobs :: "'w MockJobRepo \<Rightarrow> 'w JobRepository" where
  "mock_jobs m = \<lparr>
     JobRepo_Create = hook (JobCreateFn m) None,
     JobRepo_GetByBatch = hook (GetByBatchFn m) (Inr []),
     JobRepo_UpdateStatus = hook2 (UpdateStatusFn m) None,
     JobRepo_GetResultsByBatch = hook (GetResultsByBatchFn m) (Inr []),
     JobRepo_UpdateBillingTransactionID = hook2 (UpdateBillingTransactionIDFn m) None,
     JobRepo_UpdateStatusWithResult = hook3 (UpdateStatusWithResultFn m) None\<rparr>"

definition mock_billing :: "'w MockBilling \<Rightarrow> 'w BillingClient" where
  "mock_billing m = \<lparr>
     Billing_Quote = hook2 (QuoteFn m) (Inr (Some zero_quote)),
     Billing_BlockBatch = hook3 (BlockBatchFn m) (Inr (Some [])),
     Billing_RefundTransactions = hook3 (RefundTransactionsFn m) None\<rparr>"

definition mock_producer :: "'w MockProducer \<Rightarrow> 'w KafkaProducer" where
  "mock_producer m = \<lparr>Producer_Publish = hook2 (PublishFn m) None\<rparr>"

definition mock_Close :: "'w MockProducer \<Rightarrow> ('w, go_error option) state" where
  "mock_Close m = (case CloseFn m of Some f \<Rightarrow> f | None \<Rightarrow> State_Monad.return None)"

definition mock_storage :: "'w MockStorage \<Rightarrow> 'w Storage" where
  "mock_storage m = \<lparr>St_Save = hook2 (SaveFn m) (Inr [])\<rparr>"

definition mock_Presign :: "'w MockStorage \<Rightarrow> string \<Rightarrow> int \<Rightarrow> ('w, go_error + string) state" where
  "mock_Presign m = hook2 (PresignFn m) (Inr [])"

definition mock_PublicURL :: "'w MockStorage \<Rightarrow> string \<Rightarrow> ('w, go_error + string) state" where
  "mock_PublicURL m = hook (PublicURLFn m) (Inr [])"

definition mock_validator :: "'w MockValidator \<Rightarrow> 'w RowValidator" where
  "mock_validator m = \<lparr>Val_ValidateRow =
     hook2 (ValidateRowFn m) (Inr (Some \<lparr>vr_Valid = True, vr_Errors = []\<rparr>))\<rparr>"

lemmas mock_defs = mock_batches_def mock_jobs_def mock_billing_def mock_producer_def mock_storage_def
  mock_validator_def hook_def hook2_def hook3_def

section \<open>Doubles with hooks\<close>

text \<open>The doubles that stand for an implementation.\<close>

definition batch_hooks :: "'w BatchRepository \<Rightarrow> 'w MockBatchRepo" where
  "batch_hooks r = \<lparr>CreateFn = Some (BatchRepo_Create r), GetByIDFn = Some (BatchRepo_GetByID r),
     UpdateFn = Some (BatchRepo_Update r), ListFn = Some (BatchRepo_List r),
     AdminStatsFn = Some (BatchRepo_AdminStats r)\<rparr>"

definition job_hooks :: "'w JobRepository \<Rightarrow> 'w MockJobRepo" where
  "job_hooks r = \<lparr>JobCreateFn = Some (JobRepo_Create r), GetByBatchFn = Some (JobRepo_GetByBatch r),
     UpdateStatusFn = Some (JobRepo_UpdateStatus r), GetResultsByBatchFn = Some (JobRepo_GetResultsByBatch r),
     UpdateBillingTransactionIDFn = Some (JobRepo_UpdateBillingTransactionID r),
     UpdateStatusWithResultFn = Some (JobRepo_UpdateStatusWithResult r)\<rparr>"

lemma mock_of_hooks [simp]: "mock_batches (batch_hooks r) = r" "mock_jobs (job_hooks jr) = jr"
  by (simp_all add: mock_defs batch_hooks_def job_hooks_def)

interpretation doubles: stores "mock_batches (batch_hooks (batchRepository e))" pg_stored
    "mock_jobs (job_hooks (jobRepository e))" pg_jobs for e
  unfolding mock_of_hooks by (rule pg.stores_axioms)

section \<open>Doubles without hooks\<close>

definition no_batch_hooks :: "'w MockBatchRepo" where
  "no_batch_hooks = \<lparr>CreateFn = None, GetByIDFn = None, UpdateFn = None, ListFn = None, AdminStatsFn = None\<rparr>"

text \<open>A double that finds every batch as nil is no store: an operation of the manager that reads a batch
  through it panics, while the service takes the nil for a batch it does not know.\<close>

lemma bare_is_no_store: "\<not> batch_store (mock_batches no_batch_hooks) (stored :: 'w \<Rightarrow> string \<Rightarrow> batch option)"
  using batch_store.get_found [of "mock_batches no_batch_hooks" stored undefined undefined None]
  by (auto simp: mock_batches_def no_batch_hooks_def hook_def)

theorem bare_double_panics:
  assumes "bm_batchRepo m = Some (mock_batches no_batch_hooks)"
  shows "run_state (SetProcessing rt m i) w = (Panic, w)" "run_state (SetCancelled rt m i) w = (Panic, w)"
    "run_state (FinalizeAfterUpload rt m i v n) w = (Panic, w)"
    "sv_batchRepo s = Some (mock_batches no_batch_hooks) \<Longrightarrow> run_state (peek_batch s i) w = (None, w)"
  using assms
  by (simp_all add: SetProcessing_def SetCancelled_def FinalizeAfterUpload_def with_batch_def peek_batch_def
      mock_batches_def no_batch_hooks_def hook_def run_state_result_after)

end
